(* ===== verification/Prelude.thy ===== *)
theory Prelude
  imports Main "HOL-Library.Word" "HOL-Library.Char_ord" "HOL-Library.List_Lexorder"
begin

text \<open>
  Shared vocabulary of the development.

  \<^item> The widths of the machine integers the sources use: \<open>u8\<close>, \<open>u32\<close>, \<open>u64\<close> and
    \<open>size_t\<close> (64 bits, as on the platforms the package is built for).
  \<^item> Facts that read a wrapping sum or difference of words as the sum or difference of the
    numbers, under the bound that rules the wrap-around out.
  \<^item> The ordered map \<open>std::map<std::string, V>\<close>: an association list whose keys ascend
    strictly in the byte order of \<open>std::string\<close>, with the operations the sources use
    (\<open>find\<close>, \<open>operator[]\<close>, \<open>emplace\<close>, \<open>erase\<close>, \<open>size\<close>, iteration). Its contract is the
    locale \<open>ordered_map\<close>; the ledger lemmas (what a change of the map does to the number of
    entries and to a sum of weights over them) are proved once inside it.
  \<^item> The FIFO with a running byte counter that the three bounded queues of the client share:
    the locale \<open>byte_fifo\<close>, interpreted on each of them in \<open>Client_State\<close>.

  The collections \<open>unfolds\<close> and \<open>frame\<close> hold the definitions of the operations and the facts
  about the state components an operation leaves alone.
\<close>

named_theorems unfolds \<open>definitions of the client's operations\<close>
named_theorems frame \<open>state components an operation does not change\<close>

type_synonym u8 = "8 word"
type_synonym u32 = "32 word"
type_synonym u64 = "64 word"
type_synonym size_t = "64 word"

subsection \<open>Words read as numbers\<close>

lemma unat_add_bounded:
  fixes a b c :: "'a::len word"
  assumes "unat a + unat b \<le> unat c"
  shows "unat (a + b) = unat a + unat b"
proof -
  have "unat c < 2 ^ LENGTH('a)" by (rule unsigned_less)
  with assms have "unat a + unat b < 2 ^ LENGTH('a)" by linarith
  then show ?thesis by (simp add: unat_word_ariths)
qed

lemma unat_sub_bounded:
  fixes a b :: "'a::len word"
  assumes "unat b \<le> unat a"
  shows "unat (a - b) = unat a - unat b"
  using assms by (simp add: unat_sub word_le_nat_alt)

lemma unat_max_word: "unat (- 1 :: 'a::len word) = 2 ^ LENGTH('a) - 1"
  by (simp add: unsigned_minus_1_eq_mask mask_eq_exp_minus_1)

lemma unat_ucast_32_64 [simp]: "unat (ucast (x :: u32) :: u64) = unat x"
proof -
  have "unat x < 2 ^ 32" using unsigned_less [of x] by simp
  then have "unat x < 2 ^ 64" by simp
  then show ?thesis by (simp add: unsigned_ucast_eq take_bit_nat_eq_self)
qed

lemma unat_of_nat_64 [simp]: "n < 2 ^ 64 \<Longrightarrow> unat (of_nat n :: u64) = n"
  by (simp add: unat_of_nat)

lemma sum_list_remove1_weight:
  "x \<in> set xs \<Longrightarrow> sum_list (map f xs) = f x + sum_list (map (f :: 'a \<Rightarrow> nat) (remove1 x xs))"
  by (induction xs) auto

subsection \<open>The ordered map\<close>

type_synonym ('k, 'v) smap = "('k \<times> 'v) list"

definition smap_find :: "'k \<Rightarrow> ('k, 'v) smap \<Rightarrow> 'v option" where
  "smap_find k m = map_of m k"

fun smap_assign :: "'k::linorder \<Rightarrow> 'v \<Rightarrow> ('k, 'v) smap \<Rightarrow> ('k, 'v) smap" where
  "smap_assign k v [] = [(k, v)]"
| "smap_assign k v ((k', v') # m) =
     (if k < k' then (k, v) # (k', v') # m
      else if k = k' then (k, v) # m
      else (k', v') # smap_assign k v m)"

definition smap_emplace :: "'k::linorder \<Rightarrow> 'v \<Rightarrow> ('k, 'v) smap \<Rightarrow> ('k, 'v) smap" where
  "smap_emplace k v m = (if smap_find k m = None then smap_assign k v m else m)"

definition smap_erase :: "'k \<Rightarrow> ('k, 'v) smap \<Rightarrow> ('k, 'v) smap" where
  "smap_erase k m = filter (\<lambda>e. fst e \<noteq> k) m"

definition smap_wf :: "('k::linorder, 'v) smap \<Rightarrow> bool" where
  "smap_wf m \<longleftrightarrow> sorted_wrt (<) (map fst m)"

abbreviation smap_mem :: "'k \<Rightarrow> ('k, 'v) smap \<Rightarrow> bool" where
  "smap_mem k m \<equiv> smap_find k m \<noteq> None"

lemma smap_find_Nil [simp]: "smap_find k [] = None"
  by (simp add: smap_find_def)

lemma smap_find_Cons [simp]:
  "smap_find k ((k', v) # m) = (if k = k' then Some v else smap_find k m)"
  by (simp add: smap_find_def)

lemma smap_find_assign [simp]:
  "smap_find k' (smap_assign k v m) = (if k' = k then Some v else smap_find k' m)"
  by (induction k v m rule: smap_assign.induct) auto

lemma smap_find_erase [simp]:
  "smap_find k' (smap_erase k m) = (if k' = k then None else smap_find k' m)"
  by (induction m) (auto simp: smap_erase_def)

lemma smap_find_emplace [simp]:
  "smap_find k' (smap_emplace k v m) =
     (if k' = k \<and> smap_find k m = None then Some v else smap_find k' m)"
  by (simp add: smap_emplace_def)

lemma smap_find_None_iff: "smap_find k m = None \<longleftrightarrow> k \<notin> fst ` set m"
  by (simp add: smap_find_def map_of_eq_None_iff)

lemma smap_find_mem: "smap_find k m = Some v \<Longrightarrow> (k, v) \<in> set m"
  by (simp add: smap_find_def map_of_SomeD)

lemma keys_smap_assign: "fst ` set (smap_assign k v m) = insert k (fst ` set m)"
  by (induction k v m rule: smap_assign.induct) auto

lemma smap_wf_Nil [simp]: "smap_wf []"
  by (simp add: smap_wf_def)

lemma smap_wf_Cons:
  "smap_wf (e # m) \<longleftrightarrow> (\<forall>k \<in> fst ` set m. fst e < k) \<and> smap_wf m"
  by (auto simp: smap_wf_def)

lemma smap_wf_assign [intro, simp]: "smap_wf m \<Longrightarrow> smap_wf (smap_assign k v m)"
proof (induction k v m rule: smap_assign.induct)
  case (2 k v k' v' m)
  then show ?case by (auto simp: smap_wf_Cons keys_smap_assign)
qed (simp add: smap_wf_def)

lemma smap_wf_erase [intro, simp]: "smap_wf m \<Longrightarrow> smap_wf (smap_erase k m)"
  by (induction m) (auto simp: smap_wf_Cons smap_erase_def)

lemma smap_wf_emplace [intro, simp]: "smap_wf m \<Longrightarrow> smap_wf (smap_emplace k v m)"
  by (simp add: smap_emplace_def)

lemma smap_wf_distinct: "smap_wf m \<Longrightarrow> distinct (map fst m)"
  by (induction m) (auto simp: smap_wf_Cons)

lemma smap_mem_find:
  assumes "smap_wf m" and "(k, v) \<in> set m"
  shows "smap_find k m = Some v"
  using assms by (simp add: smap_find_def smap_wf_distinct)

definition smap_weight :: "('v \<Rightarrow> nat) \<Rightarrow> ('k, 'v) smap \<Rightarrow> nat" where
  "smap_weight w m = sum_list (map (w \<circ> snd) m)"

lemma smap_weight_Nil [simp]: "smap_weight w [] = 0"
  by (simp add: smap_weight_def)

lemma smap_weight_Cons [simp]: "smap_weight w (e # m) = w (snd e) + smap_weight w m"
  by (simp add: smap_weight_def)

lemma smap_assign_fresh:
  assumes "smap_find k m = None"
  shows "length (smap_assign k v m) = Suc (length m)"
    and "smap_weight w (smap_assign k v m) = w v + smap_weight w m"
  using assms by (induction k v m rule: smap_assign.induct) (auto split: if_splits)

lemma smap_erase_absent: "smap_find k m = None \<Longrightarrow> smap_erase k m = m"
  by (induction m) (auto simp: smap_erase_def split: if_splits)

lemma smap_erase_present:
  assumes "smap_wf m" and "smap_find k m = Some v"
  shows "length m = Suc (length (smap_erase k m))"
    and "smap_weight w m = w v + smap_weight w (smap_erase k m)"
proof -
  have *: "length m = Suc (length (smap_erase k m)) \<and>
      smap_weight w m = w v + smap_weight w (smap_erase k m)" for w
    using assms
  proof (induction m)
    case (Cons e m)
    show ?case
    proof (cases "fst e = k")
      case True
      with Cons.prems(1) have "smap_find k m = None"
        by (auto simp: smap_wf_Cons smap_find_None_iff)
      with True Cons.prems(2) show ?thesis
        by (cases e) (auto simp: smap_erase_def dest: smap_erase_absent)
    next
      case False
      with Cons show ?thesis by (cases e) (auto simp: smap_erase_def smap_wf_Cons)
    qed
  qed simp
  from * show "length m = Suc (length (smap_erase k m))" by blast
  from * show "smap_weight w m = w v + smap_weight w (smap_erase k m)" by blast
qed

lemma smap_assign_replace:
  assumes "smap_wf m" and "smap_find k m = Some u"
  shows "length (smap_assign k v m) = length m"
    and "smap_weight w (smap_assign k v m) + w u = w v + smap_weight w m"
proof -
  have *: "length (smap_assign k v m) = length m \<and>
      smap_weight w (smap_assign k v m) + w u = w v + smap_weight w m" for w
    using assms
  proof (induction k v m rule: smap_assign.induct)
    case (2 k v k' v' m)
    show ?case
    proof (cases "k < k'")
      case True
      with 2(2) have "smap_find k ((k', v') # m) = None"
        by (fastforce simp: smap_wf_Cons smap_find_None_iff)
      with 2(3) show ?thesis by simp
    next
      case False
      with 2 show ?thesis by (auto simp: smap_wf_Cons split: if_splits)
    qed
  qed simp
  from * show "length (smap_assign k v m) = length m" by blast
  from * show "smap_weight w (smap_assign k v m) + w u = w v + smap_weight w m" by blast
qed

subsection \<open>The contract of the ordered map, and the byte ledgers over it\<close>

text \<open>
  What the clients of \<open>std::map\<close> rely on. The ledger lemmas are about a byte counter \<open>used\<close> that
  is meant to be the sum of the weights of a map's entries (and of \<open>rest\<close>, what other maps
  contribute to the same counter): adding an entry and its weight, or erasing an entry and
  subtracting its weight, keeps the counter exact as long as the addition does not wrap around.
\<close>

locale ordered_map =
  fixes mfind :: "'k \<Rightarrow> 'm \<Rightarrow> 'v option"
    and massign :: "'k \<Rightarrow> 'v \<Rightarrow> 'm \<Rightarrow> 'm"
    and merase :: "'k \<Rightarrow> 'm \<Rightarrow> 'm"
    and msize :: "'m \<Rightarrow> nat"
    and mweight :: "('v \<Rightarrow> nat) \<Rightarrow> 'm \<Rightarrow> nat"
    and mwf :: "'m \<Rightarrow> bool"
  assumes find_assign: "mfind k' (massign k v m) = (if k' = k then Some v else mfind k' m)"
    and find_erase: "mfind k' (merase k m) = (if k' = k then None else mfind k' m)"
    and wf_assign: "mwf m \<Longrightarrow> mwf (massign k v m)"
    and wf_erase: "mwf m \<Longrightarrow> mwf (merase k m)"
    and size_fresh: "mfind k m = None \<Longrightarrow> msize (massign k v m) = Suc (msize m)"
    and weight_fresh: "mfind k m = None \<Longrightarrow> mweight w (massign k v m) = w v + mweight w m"
    and size_erase: "mwf m \<Longrightarrow> mfind k m = Some v \<Longrightarrow> msize m = Suc (msize (merase k m))"
    and weight_erase:
      "mwf m \<Longrightarrow> mfind k m = Some v \<Longrightarrow> mweight w m = w v + mweight w (merase k m)"
    and size_replace: "mwf m \<Longrightarrow> mfind k m = Some u \<Longrightarrow> msize (massign k v m) = msize m"
    and weight_replace:
      "mwf m \<Longrightarrow> mfind k m = Some u \<Longrightarrow>
         mweight w (massign k v m) + w u = w v + mweight w m"
begin

lemma weight_ge:
  assumes "mwf m" and "mfind k m = Some v"
  shows "w v \<le> mweight w m"
  using weight_erase [OF assms, of w] by simp

lemma ledger_add:
  fixes w :: "'v \<Rightarrow> size_t" and used limit :: size_t
  assumes "mfind k m = None"
    and "unat used = mweight (unat \<circ> w) m + rest"
    and "unat used + unat (w v) \<le> unat limit"
  shows "unat (used + w v) = mweight (unat \<circ> w) (massign k v m) + rest"
  using assms by (simp add: weight_fresh unat_add_bounded)

lemma ledger_release:
  fixes w :: "'v \<Rightarrow> size_t" and used :: size_t
  assumes "mwf m" and "mfind k m = Some v"
    and "unat used = mweight (unat \<circ> w) m + rest"
  shows "unat (used - w v) = mweight (unat \<circ> w) (merase k m) + rest"
  using assms weight_erase [OF assms(1,2), of "unat \<circ> w"]
  by (simp add: unat_sub_bounded)

lemma weight_replace_same:
  assumes "mwf m" and "mfind k m = Some u" and "w v = w u"
  shows "mweight w (massign k v m) = mweight w m"
  using weight_replace [OF assms(1,2), of w v] assms(3) by simp

end

interpretation smap: ordered_map smap_find smap_assign smap_erase length smap_weight smap_wf
proof unfold_locales
  fix k :: "'a::linorder" and v :: 'b and w :: "'b \<Rightarrow> nat" and m :: "('a, 'b) smap" and u
  show "smap_find k m = None \<Longrightarrow> smap_weight w (smap_assign k v m) = w v + smap_weight w m"
    by (rule smap_assign_fresh(2))
  show "smap_wf m \<Longrightarrow> smap_find k m = Some v \<Longrightarrow> length m = Suc (length (smap_erase k m))"
    by (rule smap_erase_present(1))
  show "smap_wf m \<Longrightarrow> smap_find k m = Some v \<Longrightarrow>
      smap_weight w m = w v + smap_weight w (smap_erase k m)"
    by (rule smap_erase_present(2))
  show "smap_wf m \<Longrightarrow> smap_find k m = Some u \<Longrightarrow> length (smap_assign k v m) = length m"
    by (rule smap_assign_replace(1))
  show "smap_wf m \<Longrightarrow> smap_find k m = Some u \<Longrightarrow>
      smap_weight w (smap_assign k v m) + w u = w v + smap_weight w m"
    by (rule smap_assign_replace(2))
qed (auto simp: smap_assign_fresh)

subsection \<open>A FIFO with a running byte counter\<close>

text \<open>
  \<open>fifo_ok ws used nmax bmax\<close>: the counter \<open>used\<close> is the sum of the weights \<open>ws\<close> of the queued
  entries, and both the number of entries and the counter respect their limits.
\<close>

definition fifo_ok :: "size_t list \<Rightarrow> size_t \<Rightarrow> size_t \<Rightarrow> size_t \<Rightarrow> bool" where
  "fifo_ok ws used nmax bmax \<longleftrightarrow>
     unat used = sum_list (map unat ws) \<and> length ws \<le> unat nmax \<and> unat used \<le> unat bmax"

lemma fifo_ok_Nil [simp]: "fifo_ok [] 0 nmax bmax"
  by (simp add: fifo_ok_def)

locale byte_fifo =
  fixes entries :: "'s \<Rightarrow> 'e list"
    and used :: "'s \<Rightarrow> size_t"
    and weight :: "'e \<Rightarrow> size_t"
    and max_entries :: "'s \<Rightarrow> size_t"
    and max_bytes :: "'s \<Rightarrow> size_t"
    and push :: "'e \<Rightarrow> 's \<Rightarrow> 's"
    and pop :: "'s \<Rightarrow> 's"
  assumes entries_push: "entries (push e s) = entries s @ [e]"
    and used_push: "used (push e s) = used s + weight e"
    and limits_push: "max_entries (push e s) = max_entries s" "max_bytes (push e s) = max_bytes s"
    and entries_pop: "entries s = e # es \<Longrightarrow> entries (pop s) = es"
    and used_pop: "entries s = e # es \<Longrightarrow> used (pop s) = used s - weight e"
    and limits_pop: "max_entries (pop s) = max_entries s" "max_bytes (pop s) = max_bytes s"
begin

definition balanced :: "'s \<Rightarrow> bool" where
  "balanced s \<longleftrightarrow> fifo_ok (map weight (entries s)) (used s) (max_entries s) (max_bytes s)"

lemma balanced_push:
  assumes "balanced s" and "length (entries s) < unat (max_entries s)"
    and "unat (used s) + unat (weight e) \<le> unat (max_bytes s)"
  shows "balanced (push e s)"
  using assms
  by (auto simp: balanced_def fifo_ok_def entries_push used_push limits_push unat_add_bounded)

lemma balanced_pop:
  assumes "balanced s" and "entries s = e # es"
  shows "balanced (pop s)"
  using assms entries_pop [OF assms(2)] used_pop [OF assms(2)]
  by (auto simp: balanced_def fifo_ok_def limits_pop unat_sub_bounded)

text \<open>The counter never runs below the weight of the entry that is taken out.\<close>

lemma pop_no_underflow:
  assumes "balanced s" and "entries s = e # es"
  shows "weight e \<le> used s"
  using assms by (auto simp: balanced_def fifo_ok_def word_le_nat_alt)

end

subsection \<open>Invariants of transition systems\<close>

text \<open>
  What makes \<open>inv\<close> an invariant of the transition system with initial states \<open>start\<close> and steps
  \<open>step\<close>. Interpreted in \<open>System\<close> on the steps of the client, once per invariant.
\<close>

locale transition_invariant =
  fixes start :: "'s \<Rightarrow> bool"
    and step :: "'s \<Rightarrow> 's \<Rightarrow> bool"
    and inv :: "'s \<Rightarrow> bool"
  assumes start_inv: "start s \<Longrightarrow> inv s"
    and step_inv: "step s t \<Longrightarrow> inv s \<Longrightarrow> inv t"
begin

lemma run_inv: "step\<^sup>*\<^sup>* s t \<Longrightarrow> inv s \<Longrightarrow> inv t"
  by (induction rule: rtranclp_induct) (auto intro: step_inv)

lemma reachable_inv: "start s \<Longrightarrow> step\<^sup>*\<^sup>* s t \<Longrightarrow> inv t"
  using run_inv start_inv by blast

end

text \<open>
  A transition system that implements an abstract one: every step under the invariant is a run of
  abstract steps, so what the abstract system keeps holds of every state that is reached.
\<close>

locale simulation = transition_invariant start step inv
  for start :: "'s \<Rightarrow> bool" and step inv +
  fixes abs :: "'s \<Rightarrow> 'a" and astep :: "'a \<Rightarrow> 'a \<Rightarrow> bool"
  assumes simulates: "step s t \<Longrightarrow> inv s \<Longrightarrow> astep\<^sup>*\<^sup>* (abs s) (abs t)"
begin

lemma run_simulates: "step\<^sup>*\<^sup>* s t \<Longrightarrow> inv s \<Longrightarrow> astep\<^sup>*\<^sup>* (abs s) (abs t)"
proof (induction rule: rtranclp_induct)
  case (step t u)
  then show ?case using run_inv [OF step(1,4)] simulates by (meson rtranclp_trans)
qed simp

lemma abstract_inv:
  assumes "\<And>s. start s \<Longrightarrow> ainv (abs s)" and "\<And>a b. astep a b \<Longrightarrow> ainv a \<Longrightarrow> ainv b"
    and "start s" and "step\<^sup>*\<^sup>* s t"
  shows "ainv (abs t)"
proof -
  have "ainv b" if "astep\<^sup>*\<^sup>* a b" "ainv a" for a b
    using that by (induction rule: rtranclp_induct) (auto intro: assms(2))
  then show ?thesis using run_simulates [OF assms(4) start_inv [OF assms(3)]] assms(1,3) by blast
qed

end

end
