(* ===== verification/Messages.thy ===== *)
theory Messages
  imports Prelude
begin

text \<open>
  The messages of the Runtime Link protocol, as the client's sources see them.

  The protobuf definitions and the C++ classes generated from them are not part of the
  repository. A message is therefore modelled by the fields the sources read or write through
  the generated accessors: a singular submessage is an \<open>option\<close> (the sources test its presence
  with \<open>has_...\<close> and read a default instance when it is absent), a repeated field a list, a
  oneof a datatype with one constructor per case, an open enum a datatype with the enumerators
  the sources name and one constructor for every other number.

  What the sources ask of the protobuf library itself is a parameter of the model, the record
  \<open>wire\<close>: encoded sizes (\<open>ByteSizeLong\<close>), the deterministic encoding and the descriptor name of
  the terminal messages, \<open>MessageDifferencer::Equals\<close>, \<open>JsonStringToMessage\<close>, and the numbers of
  the enumerators that are compared by order.
\<close>

subsection \<open>Payloads and errors\<close>

record schema_reference =
  message_id :: nat
  type_name :: string
  schema_version :: nat
  schema_fingerprint :: nat

definition default_schema :: schema_reference where
  "default_schema = \<lparr>message_id = 0, type_name = [], schema_version = 0, schema_fingerprint = 0\<rparr>"

datatype payload_encoding =
    PAYLOAD_ENCODING_PROTOBUF | PAYLOAD_ENCODING_JSON | PAYLOAD_ENCODING_BYTES
  | PayloadEncodingOther int

record payload =
  payload_schema :: "schema_reference option"
  encoding :: payload_encoding
  payload_value :: string

definition default_payload :: payload where
  "default_payload =
     \<lparr>payload_schema = None, encoding = PayloadEncodingOther 0, payload_value = []\<rparr>"

definition schema_of :: "payload \<Rightarrow> schema_reference" where
  "schema_of p = (case payload_schema p of None \<Rightarrow> default_schema | Some r \<Rightarrow> r)"

definition message_or :: "'a \<Rightarrow> 'a option \<Rightarrow> 'a" where
  "message_or d m = (case m of None \<Rightarrow> d | Some x \<Rightarrow> x)"

lemma message_or_simps [simp]: "message_or d None = d" "message_or d (Some x) = x"
  by (simp_all add: message_or_def)

datatype error_class =
    ERROR_CLASS_UNSPECIFIED | ERROR_CLASS_PERMANENT | ERROR_CLASS_TRANSIENT
  | ERROR_CLASS_REJECTED | ERROR_CLASS_DEADLINE | ERROR_CLASS_CANCELLED
  | ERROR_CLASS_UNCERTAIN | ERROR_CLASS_RESOURCE_EXHAUSTED
  | ErrorClassOther int

record adapter_error =
  err_class :: error_class
  err_code :: string
  err_message :: string
  err_retry_after_ms :: u32
  err_details :: "payload option"

definition default_error :: adapter_error where
  "default_error = \<lparr>err_class = ERROR_CLASS_UNSPECIFIED, err_code = [], err_message = [],
     err_retry_after_ms = 0, err_details = None\<rparr>"

datatype operation_phase =
    OPERATION_PHASE_ACCEPTED | OPERATION_PHASE_STARTED | OPERATION_PHASE_SUCCEEDED
  | OPERATION_PHASE_REJECTED | OPERATION_PHASE_FAILED | OPERATION_PHASE_EXPIRED
  | OPERATION_PHASE_CANCELLED | OPERATION_PHASE_UNCERTAIN
  | OperationPhaseOther int

subsection \<open>Capability contracts and instance specs\<close>

datatype interaction_mode =
    INTERACTION_MODE_UNARY | INTERACTION_MODE_OPERATION | INTERACTION_MODE_STREAM_SOURCE
  | InteractionModeOther int

record endpoint_limits =
  maximum_request_bytes :: nat
  maximum_response_bytes :: nat
  maximum_concurrency :: nat
  maximum_streams :: nat
  maximum_stream_chunk_bytes :: u32
  maximum_stream_chunk_messages :: u32

definition default_limits :: endpoint_limits where
  "default_limits = \<lparr>maximum_request_bytes = 0, maximum_response_bytes = 0,
     maximum_concurrency = 0, maximum_streams = 0, maximum_stream_chunk_bytes = 0,
     maximum_stream_chunk_messages = 0\<rparr>"

record endpoint_contract =
  ep_endpoint_id :: string
  interaction :: interaction_mode
  input_schema :: "schema_reference option"
  output_schema :: "schema_reference option"
  event_schema :: "schema_reference option"
  side_effect_class :: int
  idempotency_mode :: int
  default_timeout_ms :: nat
  maximum_timeout_ms :: nat
  deadline_required :: bool
  ep_limits :: "endpoint_limits option"

abbreviation limits :: "endpoint_contract \<Rightarrow> endpoint_limits" where
  "limits e \<equiv> message_or default_limits (ep_limits e)"

record capability_contract =
  cc_capability_id :: string
  cc_contract_version :: u32
  cc_contract_digest :: string
  cc_endpoints :: "endpoint_contract list"

record scope_reference =
  scope_kind :: string
  scope_key :: string
  scope_attributes :: "(string \<times> string) list"

record secret_reference =
  secret_name :: string
  secret_ref :: string
  secret_version :: string

record enabled_capability =
  ec_capability_id :: string
  ec_contract_version :: u32
  ec_contract_digest :: string
  ec_configuration :: "payload option"
  enabled_endpoint_ids :: "string list"

record instance_spec =
  spec_instance_id :: string
  spec_process_generation :: u64
  spec_rev :: u64
  spec_dig :: string
  spec_scope :: "scope_reference option"
  spec_configuration :: "payload option"
  spec_secrets :: "secret_reference list"
  spec_capabilities :: "enabled_capability list"

definition default_spec :: instance_spec where
  "default_spec = \<lparr>spec_instance_id = [], spec_process_generation = 0, spec_rev = 0,
     spec_dig = [], spec_scope = None, spec_configuration = None, spec_secrets = [],
     spec_capabilities = []\<rparr>"

datatype capability_state =
    CAPABILITY_STATE_DISABLED | CAPABILITY_STATE_CONFIGURING | CAPABILITY_STATE_READY
  | CAPABILITY_STATE_FAILED

record capability_status =
  cs_capability_id :: string
  cs_contract_version :: u32
  cs_contract_digest :: string
  cs_state :: capability_state
  cs_detail :: string

subsection \<open>Frames\<close>

record session_header =
  hdr_instance_id :: string
  hdr_session_id :: string
  hdr_process_generation :: u64
  hdr_session_generation :: u64
  hdr_runtime_epoch :: u64
  hdr_connection_epoch :: u64
  hdr_frame_sequence :: u64

record deadline =
  deadline_unix_nanos :: int
  ttl_ms :: u32

definition default_deadline :: deadline where
  "default_deadline = \<lparr>deadline_unix_nanos = 0, ttl_ms = 0\<rparr>"

record work_context =
  wc_work_id :: string
  wc_request_digest :: string
  wc_capability_id :: string
  wc_endpoint_id :: string
  wc_contract_version :: u32
  wc_contract_digest :: string
  wc_spec_revision :: u64
  wc_deadline :: "deadline option"
  wc_idempotency_key :: string
  wc_subject :: "scope_reference option"

definition default_context :: work_context where
  "default_context = \<lparr>wc_work_id = [], wc_request_digest = [], wc_capability_id = [],
     wc_endpoint_id = [], wc_contract_version = 0, wc_contract_digest = [], wc_spec_revision = 0,
     wc_deadline = None, wc_idempotency_key = [], wc_subject = None\<rparr>"

record stream_credit =
  credit_messages :: u64
  credit_bytes :: u64

definition default_credit :: stream_credit where
  "default_credit = \<lparr>credit_messages = 0, credit_bytes = 0\<rparr>"

text \<open>Requests of the Host. \<open>UnaryRequest\<close> and \<open>OperationRequest\<close> have the same fields.\<close>

record work_input =
  wi_context :: "work_context option"
  wi_input :: "payload option"

record source_open_request =
  so_context :: "work_context option"
  so_initial_credit :: "stream_credit option"

abbreviation context_of :: "work_context option \<Rightarrow> work_context" where
  "context_of c \<equiv> message_or default_context c"

abbreviation deadline_of :: "work_context \<Rightarrow> deadline" where
  "deadline_of c \<equiv> message_or default_deadline (wc_deadline c)"

record source_credit =
  sc_stream_id :: string
  sc_grant :: "stream_credit option"
  sc_acknowledged_sequence :: u64

datatype work_identity = IdentityNotSet | WorkIdentity string | StreamIdentity string

record terminal_acknowledgement =
  ta_terminal_digest :: string
  ta_identity :: work_identity

record work_cancellation =
  can_reason :: string
  can_identity :: work_identity

datatype host_work_frame =
    HostUnaryRequest work_input
  | HostOperationRequest work_input
  | HostSourceOpenRequest source_open_request
  | HostSourceCredit source_credit
  | HostCancellation work_cancellation
  | HostTerminalAcknowledgement terminal_acknowledgement
  | HostWorkProtocolError adapter_error
  | HostWorkFrameNotSet

record work_response =
  wresp_header :: session_header
  wresp_frame :: host_work_frame

datatype host_control_frame =
    HostInstanceSpec instance_spec
  | HostPing u64
  | HostDrain
  | HostStop string
  | HostControlProtocolError adapter_error
  | HostControlFrameNotSet

record control_response =
  cresp_header :: session_header
  cresp_frame :: host_control_frame

text \<open>Frames of the Adapter.\<close>

record unary_response =
  ur_work_id :: string
  ur_output :: "payload option"
  ur_error :: "adapter_error option"

record operation_event =
  oe_work_id :: string
  oe_phase :: operation_phase
  oe_occurred_unix_nanos :: int
  oe_native_code :: int
  oe_output :: "payload option"
  oe_error :: "adapter_error option"

record source_open_result =
  sor_stream_id :: string
  sor_accepted :: bool
  sor_initial_payload :: "payload option"
  sor_error :: "adapter_error option"

record source_data =
  sd_stream_id :: string
  sd_sequence :: u64
  sd_items :: "string list"

record source_close =
  scl_stream_id :: string
  scl_final_sequence :: u64
  scl_error :: "adapter_error option"

datatype work_frame =
    AttachFrame u64 string
  | UnaryResponseFrame unary_response
  | OperationEventFrame operation_event
  | SourceOpenResultFrame source_open_result
  | SourceDataFrame source_data
  | SourceCloseFrame source_close
  | WorkProtocolErrorFrame u64 adapter_error

record heartbeat =
  hb_observed_unix_nanos :: int
  hb_applied_spec_revision :: u64
  hb_applied_spec_digest :: string
  hb_ping_nonce :: u64
  hb_capabilities :: "capability_status list"

record apply_result =
  ar_revision :: u64
  ar_spec_digest :: string
  ar_applied :: bool
  ar_error :: "adapter_error option"
  ar_capabilities :: "capability_status list"

datatype control_frame =
    HeartbeatFrame heartbeat
  | ApplyResultFrame apply_result
  | DrainStatusFrame bool nat

text \<open>The messages a terminal acknowledgement digest is computed over.\<close>

datatype terminal_message =
    UnaryTerminal unary_response
  | OperationTerminal operation_event
  | SourceOpenTerminal source_open_result
  | SourceCloseTerminal source_close

subsection \<open>What the protobuf library provides\<close>

record wire =
  work_request_bytes :: "session_header \<Rightarrow> work_frame \<Rightarrow> size_t"
  control_request_bytes :: "session_header \<Rightarrow> control_frame \<Rightarrow> size_t"
  work_response_bytes :: "work_response \<Rightarrow> size_t"
  control_response_bytes :: "control_response \<Rightarrow> size_t"
  unary_request_bytes :: "work_input \<Rightarrow> size_t"
  operation_request_bytes :: "work_input \<Rightarrow> size_t"
  source_open_request_bytes :: "source_open_request \<Rightarrow> size_t"
  payload_bytes :: "payload \<Rightarrow> size_t"
  serialize_terminal :: "terminal_message \<Rightarrow> u8 list option"
  terminal_type_name :: "terminal_message \<Rightarrow> u8 list"
  json_value_ok :: "string \<Rightarrow> bool"
  spec_equals :: "instance_spec \<Rightarrow> instance_spec \<Rightarrow> bool"
  scope_equals :: "scope_reference \<Rightarrow> scope_reference \<Rightarrow> bool"
  error_class_number :: "error_class \<Rightarrow> int"
  side_effect_read_only :: int
  side_effect_non_idempotent :: int
  idempotency_not_supported :: int
  idempotency_required :: int

end
