(* ===== verification/Internal.thy ===== *)
theory Internal
  imports Messages "HOL-Library.Signed_Division" "HOL-Library.Monad_Syntax"
begin

text \<open>
  \<open>src/internal.hpp\<close>: the validators of text, identifiers, digests, payloads and errors; the
  contract key; saturating and deadline arithmetic; the heartbeat alignment; the check of the
  runtime target. Reference definitions (what a canonical identifier or socket path is) stand
  beside the loops of the source, and the loops are proved equivalent to them.
\<close>

subsection \<open>Characters\<close>

definition char_in :: "char \<Rightarrow> char \<Rightarrow> char \<Rightarrow> bool" where
  "char_in lo hi c \<longleftrightarrow> (of_char lo :: nat) \<le> of_char c \<and> (of_char c :: nat) \<le> of_char hi"

definition is_lower :: "char \<Rightarrow> bool" where
  "is_lower c \<longleftrightarrow> char_in (CHR ''a'') (CHR ''z'') c"

definition is_digit :: "char \<Rightarrow> bool" where
  "is_digit c \<longleftrightarrow> char_in (CHR ''0'') (CHR ''9'') c"

definition is_lower_hex :: "char \<Rightarrow> bool" where
  "is_lower_hex c \<longleftrightarrow> is_digit c \<or> char_in (CHR ''a'') (CHR ''f'') c"

definition newline :: char where "newline = CHR 0x0A"

definition is_ascii_whitespace :: "char \<Rightarrow> bool" where
  "is_ascii_whitespace c \<longleftrightarrow> c = CHR '' '' \<or> c = CHR 0x09 \<or> c = CHR 0x0B \<or> c = CHR 0x0C \<or>
     c = CHR 0x0D \<or> c = newline"

lemmas char_defs = char_in_def is_lower_def is_digit_def is_lower_hex_def newline_def

subsection \<open>Text, identifiers and digests\<close>

definition IsCanonicalText :: "string \<Rightarrow> bool" where
  "IsCanonicalText value =
     (if value = [] \<or> is_ascii_whitespace (hd value) \<or> is_ascii_whitespace (last value) then False
      else CHR 0x00 \<notin> set value \<and> CHR 0x0D \<notin> set value \<and> newline \<notin> set value)"

definition is_separator :: "char \<Rightarrow> bool" where
  "is_separator c \<longleftrightarrow> c = CHR ''.'' \<or> c = CHR ''_'' \<or> c = CHR ''-''"

fun identifier_loop :: "bool \<Rightarrow> string \<Rightarrow> bool" where
  "identifier_loop separator [] = (\<not> separator)"
| "identifier_loop separator (c # cs) =
     (if is_lower c \<or> is_digit c then identifier_loop False cs
      else if is_separator c \<and> \<not> separator then identifier_loop True cs
      else False)"

definition IsCanonicalIdentifier :: "string \<Rightarrow> bool" where
  "IsCanonicalIdentifier value =
     (if value = [] \<or> \<not> is_lower (hd value) then False else identifier_loop False value)"

definition IsCanonicalSha256 :: "string \<Rightarrow> bool" where
  "IsCanonicalSha256 value =
     (if length value \<noteq> 71 \<or> take 7 value \<noteq> ''sha256:'' then False
      else list_all is_lower_hex (drop 7 value))"

text \<open>
  The reference for identifiers: a lower-case letter first, then letters, digits and single
  separators, and no separator at the end.
\<close>

definition identifier_spec :: "string \<Rightarrow> bool" where
  "identifier_spec s \<longleftrightarrow>
     s \<noteq> [] \<and> is_lower (hd s) \<and> \<not> is_separator (last s) \<and>
     (\<forall>c \<in> set s. is_lower c \<or> is_digit c \<or> is_separator c) \<and>
     successively (\<lambda>c d. \<not> (is_separator c \<and> is_separator d)) s"

lemma separator_not_alnum: "is_separator c \<Longrightarrow> \<not> is_lower c \<and> \<not> is_digit c"
  by (auto simp: is_separator_def char_defs)

lemma identifier_loop_spec:
  "identifier_loop sep s \<longleftrightarrow>
     (s = [] \<longrightarrow> \<not> sep) \<and> (s \<noteq> [] \<longrightarrow> \<not> (sep \<and> is_separator (hd s)) \<and> \<not> is_separator (last s)) \<and>
     (\<forall>c \<in> set s. is_lower c \<or> is_digit c \<or> is_separator c) \<and>
     successively (\<lambda>c d. \<not> (is_separator c \<and> is_separator d)) s"
proof (induction sep s rule: identifier_loop.induct)
  case (2 sep c cs)
  then show ?case
    using separator_not_alnum [of c] 
    by (cases "cs = []") (auto simp: successively_Cons)
qed simp

lemma IsCanonicalIdentifier_spec: "IsCanonicalIdentifier s \<longleftrightarrow> identifier_spec s"
  by (cases s) (auto simp: IsCanonicalIdentifier_def identifier_spec_def identifier_loop_spec
      dest: separator_not_alnum)

lemma identifier_no_newline:
  assumes "IsCanonicalIdentifier s"
  shows "newline \<notin> set s"
proof
  assume "newline \<in> set s"
  with assms have "is_lower newline \<or> is_digit newline \<or> is_separator newline"
    by (auto simp: IsCanonicalIdentifier_spec identifier_spec_def)
  then show False by (auto simp: char_defs is_separator_def)
qed

subsection \<open>Contract keys\<close>

fun decimal_digits :: "nat \<Rightarrow> nat list" where
  "decimal_digits n = (if n < 10 then [n] else decimal_digits (n div 10) @ [n mod 10])"

declare decimal_digits.simps [simp del]

definition to_string :: "nat \<Rightarrow> string" where
  "to_string n = map (\<lambda>d. char_of (48 + d)) (decimal_digits n)"

definition ContractKey :: "string \<Rightarrow> u32 \<Rightarrow> string \<Rightarrow> string" where
  "ContractKey capability_id contract_version contract_digest =
     capability_id @ [newline] @ to_string (unat contract_version) @ [newline] @ contract_digest"

definition contract_key :: "capability_contract \<Rightarrow> string" where
  "contract_key c = ContractKey (cc_capability_id c) (cc_contract_version c) (cc_contract_digest c)"

definition grant_key :: "enabled_capability \<Rightarrow> string" where
  "grant_key g = ContractKey (ec_capability_id g) (ec_contract_version g) (ec_contract_digest g)"

definition status_key :: "capability_status \<Rightarrow> string" where
  "status_key c = ContractKey (cs_capability_id c) (cs_contract_version c) (cs_contract_digest c)"

lemma decimal_digits_value: "foldl (\<lambda>a d. 10 * a + d) 0 (decimal_digits n) = n"
proof (induction n rule: decimal_digits.induct)
  case (1 n)
  show ?case
  proof (cases "n < 10")
    case True
    then show ?thesis by (subst decimal_digits.simps) simp
  next
    case False
    with 1 show ?thesis by (subst decimal_digits.simps) simp
  qed
qed

lemma decimal_digits_lt: "d \<in> set (decimal_digits n) \<Longrightarrow> d < 10"
proof (induction n rule: decimal_digits.induct)
  case (1 n)
  then show ?case by (subst (asm) (2) decimal_digits.simps) (auto split: if_splits)
qed

lemma to_string_inject: "to_string a = to_string b \<longleftrightarrow> a = b"
proof
  assume "to_string a = to_string b"
  then have "map (\<lambda>c. of_char c - (48 :: nat)) (to_string a)
      = map (\<lambda>c. of_char c - (48 :: nat)) (to_string b)" by simp
  moreover have "map (\<lambda>c. of_char c - (48 :: nat)) (to_string n) = decimal_digits n" for n
  proof -
    have "of_char (char_of (48 + d)) - 48 = d" if "d \<in> set (decimal_digits n)" for d :: nat
      using decimal_digits_lt [OF that] by (simp add: of_char_of)
    then show ?thesis by (simp add: to_string_def comp_def map_idI)
  qed
  ultimately have "decimal_digits a = decimal_digits b" by simp
  then show "a = b" by (metis decimal_digits_value)
qed simp

lemma to_string_no_newline: "newline \<notin> set (to_string n)"
proof
  assume "newline \<in> set (to_string n)"
  then obtain d where d: "d \<in> set (decimal_digits n)" and eq: "newline = char_of (48 + d)"
    by (auto simp: to_string_def)
  from eq have "(of_char newline :: nat) = of_char (char_of (48 + d) :: char)" by simp
  with decimal_digits_lt [OF d] show False by (simp add: newline_def of_char_of)
qed

lemma append_separator_inject:
  assumes "x \<notin> set a" and "x \<notin> set a'"
  shows "a @ x # b = a' @ x # b' \<longleftrightarrow> a = a' \<and> b = b'"
proof
  assume eq: "a @ x # b = a' @ x # b'"
  have "takeWhile (\<lambda>y. y \<noteq> x) (a @ x # b) = a" "takeWhile (\<lambda>y. y \<noteq> x) (a' @ x # b') = a'"
    using assms by (auto simp: takeWhile_append)
  with eq show "a = a' \<and> b = b'" by simp
qed simp

lemma ContractKey_inject:
  assumes "newline \<notin> set i" and "newline \<notin> set i'"
  shows "ContractKey i v d = ContractKey i' v' d' \<longleftrightarrow> i = i' \<and> v = v' \<and> d = d'"
  using assms
  by (auto simp: ContractKey_def append_separator_inject to_string_no_newline to_string_inject
      intro: unsigned_word_eqI)

subsection \<open>Payloads and errors\<close>

definition MakeError :: "error_class \<Rightarrow> string \<Rightarrow> string \<Rightarrow> u32 \<Rightarrow> adapter_error" where
  "MakeError c code msg retry = \<lparr>err_class = c, err_code = code, err_message = msg,
     err_retry_after_ms = retry, err_details = None\<rparr>"

fun IsTerminal :: "operation_phase \<Rightarrow> bool" where
  "IsTerminal OPERATION_PHASE_SUCCEEDED = True"
| "IsTerminal OPERATION_PHASE_REJECTED = True"
| "IsTerminal OPERATION_PHASE_FAILED = True"
| "IsTerminal OPERATION_PHASE_EXPIRED = True"
| "IsTerminal OPERATION_PHASE_CANCELLED = True"
| "IsTerminal OPERATION_PHASE_UNCERTAIN = True"
| "IsTerminal _ = False"

definition SchemaMatches :: "schema_reference \<Rightarrow> schema_reference \<Rightarrow> bool" where
  "SchemaMatches expected actual \<longleftrightarrow>
     message_id expected = message_id actual \<and> type_name expected = type_name actual \<and>
     schema_version expected = schema_version actual \<and>
     schema_fingerprint expected = schema_fingerprint actual"

fun IsValidPayloadEncoding :: "payload_encoding \<Rightarrow> bool" where
  "IsValidPayloadEncoding PAYLOAD_ENCODING_PROTOBUF = True"
| "IsValidPayloadEncoding PAYLOAD_ENCODING_JSON = True"
| "IsValidPayloadEncoding PAYLOAD_ENCODING_BYTES = True"
| "IsValidPayloadEncoding (PayloadEncodingOther _) = False"

definition IsValidPayload :: "wire \<Rightarrow> payload \<Rightarrow> bool" where
  "IsValidPayload W p =
     (if payload_schema p = None \<or> message_id (schema_of p) = 0 \<or>
         \<not> IsCanonicalText (type_name (schema_of p)) \<or> schema_version (schema_of p) = 0 \<or>
         schema_fingerprint (schema_of p) = 0 \<or> \<not> IsValidPayloadEncoding (encoding p) then False
      else if encoding p = PAYLOAD_ENCODING_JSON then json_value_ok W (payload_value p)
      else True)"

definition IsTypedError :: "wire \<Rightarrow> adapter_error \<Rightarrow> bool" where
  "IsTypedError W e \<longleftrightarrow>
     error_class_number W (err_class e) \<ge> error_class_number W ERROR_CLASS_PERMANENT \<and>
     error_class_number W (err_class e) \<le> error_class_number W ERROR_CLASS_RESOURCE_EXHAUSTED \<and>
     IsCanonicalIdentifier (err_code e) \<and> IsCanonicalText (err_message e) \<and>
     (err_details e = None \<or> IsValidPayload W (the (err_details e)))"

fun ErrorMatchesOperationPhase :: "operation_phase \<Rightarrow> error_class \<Rightarrow> bool" where
  "ErrorMatchesOperationPhase OPERATION_PHASE_REJECTED c = (c = ERROR_CLASS_REJECTED)"
| "ErrorMatchesOperationPhase OPERATION_PHASE_FAILED c =
     (c = ERROR_CLASS_PERMANENT \<or> c = ERROR_CLASS_TRANSIENT \<or> c = ERROR_CLASS_RESOURCE_EXHAUSTED)"
| "ErrorMatchesOperationPhase OPERATION_PHASE_EXPIRED c = (c = ERROR_CLASS_DEADLINE)"
| "ErrorMatchesOperationPhase OPERATION_PHASE_CANCELLED c = (c = ERROR_CLASS_CANCELLED)"
| "ErrorMatchesOperationPhase OPERATION_PHASE_UNCERTAIN c = (c = ERROR_CLASS_UNCERTAIN)"
| "ErrorMatchesOperationPhase _ c = False"

subsection \<open>Saturating addition and deadlines\<close>

definition SaturatingAdd :: "u64 \<Rightarrow> u64 \<Rightarrow> u64" where
  "SaturatingAdd left right = (if right > - 1 - left then - 1 else left + right)"

lemma unat_not_word: "unat (- 1 - x :: u64) = 2 ^ 64 - 1 - unat x"
proof -
  have "unat x \<le> unat (- 1 :: u64)" by (simp add: word_le_nat_alt [symmetric])
  then show ?thesis by (simp add: unat_sub_bounded unat_max_word)
qed

lemma unat_SaturatingAdd: "unat (SaturatingAdd a b) = min (unat a + unat b) (2 ^ 64 - 1)"
proof (cases "b > - 1 - a")
  case True
  then have "2 ^ 64 - 1 - unat a < unat b" by (simp add: word_less_nat_alt unat_not_word)
  with True show ?thesis by (simp add: SaturatingAdd_def unat_max_word)
next
  case False
  then have "unat b \<le> 2 ^ 64 - 1 - unat a" by (simp add: word_less_nat_alt unat_not_word)
  moreover have "unat a < 2 ^ 64" using unsigned_less [of a] by simp
  ultimately have le: "unat a + unat b \<le> 2 ^ 64 - 1" by linarith
  then have "unat (a + b) = unat a + unat b"
    by (intro unat_add_bounded [of _ _ "- 1"]) (simp add: unat_max_word)
  with False le show ?thesis by (simp add: SaturatingAdd_def)
qed

text \<open>
  \<open>std::int64_t\<close> values are integers in the range below. Signed overflow is undefined behaviour in
  C++: the checked operations return \<open>None\<close> for it, and \<open>NormalizeDeadline_checked\<close> is the source
  with every signed operation checked. \<open>NormalizeDeadline\<close> is the value it computes.
\<close>

definition int64_max :: int where "int64_max = 2 ^ 63 - 1"

definition in_int64 :: "int \<Rightarrow> bool" where
  "in_int64 x \<longleftrightarrow> - (2 ^ 63) \<le> x \<and> x \<le> int64_max"

definition i64 :: "int \<Rightarrow> int option" where
  "i64 x = (if in_int64 x then Some x else None)"

definition NormalizeDeadline_checked :: "deadline \<Rightarrow> int \<Rightarrow> deadline option" where
  "NormalizeDeadline_checked d received =
     (if ttl_ms d = 0 then Some d
      else do {
        ttl_nanos \<leftarrow> i64 (uint (ttl_ms d) * 1000000);
        latest \<leftarrow> i64 (int64_max - ttl_nanos);
        relative \<leftarrow> (if received > latest then Some int64_max else i64 (received + ttl_nanos));
        Some ((if deadline_unix_nanos d \<le> 0 \<or> relative < deadline_unix_nanos d
               then d\<lparr>deadline_unix_nanos := relative\<rparr> else d)\<lparr>ttl_ms := 0\<rparr>)
      })"

definition NormalizeDeadline :: "deadline \<Rightarrow> int \<Rightarrow> deadline" where
  "NormalizeDeadline d received =
     (if ttl_ms d = 0 then d
      else let ttl_nanos = uint (ttl_ms d) * 1000000;
               relative = (if received > int64_max - ttl_nanos then int64_max
                           else received + ttl_nanos)
           in (if deadline_unix_nanos d \<le> 0 \<or> relative < deadline_unix_nanos d
               then d\<lparr>deadline_unix_nanos := relative\<rparr> else d)\<lparr>ttl_ms := 0\<rparr>)"

text \<open>The dispatch deadline the documentation promises: the earlier of the two, saturating.\<close>

definition effective_deadline :: "deadline \<Rightarrow> int \<Rightarrow> int" where
  "effective_deadline d received =
     (let relative = min int64_max (received + uint (ttl_ms d) * 1000000)
      in if ttl_ms d = 0 then deadline_unix_nanos d
         else if deadline_unix_nanos d \<le> 0 then relative
         else min (deadline_unix_nanos d) relative)"

lemma uint_u32_lt: "uint (x :: u32) < 2 ^ 32"
  using uint_lt2p [of x] by simp

lemma NormalizeDeadline_no_overflow:
  assumes "in_int64 received"
  shows "NormalizeDeadline_checked d received = Some (NormalizeDeadline d received)"
proof -
  obtain n where "uint (ttl_ms d) = n" and "0 \<le> n" and "n < 2 ^ 32"
    using uint_u32_lt [of "ttl_ms d"] by simp
  then show ?thesis using assms
    by (auto simp: NormalizeDeadline_checked_def NormalizeDeadline_def i64_def in_int64_def
        int64_max_def Let_def)
qed

lemma NormalizeDeadline_effective:
  "NormalizeDeadline d received =
     d\<lparr>deadline_unix_nanos := effective_deadline d received, ttl_ms := 0\<rparr>"
  by (cases d) (auto simp: NormalizeDeadline_def effective_deadline_def Let_def)

subsection \<open>Heartbeat alignment\<close>

text \<open>
  Times are nanosecond counts. \<open>smod\<close> is the remainder of C++ (its sign is the dividend's).
\<close>

definition NextAlignedHeartbeatDeadline :: "int \<Rightarrow> int \<Rightarrow> int \<Rightarrow> int" where
  "NextAlignedHeartbeatDeadline wall_now monotonic_now interval_ms =
     (if interval_ms \<le> 0 then monotonic_now
      else let interval_nanos = interval_ms * 1000000;
               remainder = wall_now smod interval_nanos;
               remainder' = (if remainder < 0 then remainder + interval_nanos else remainder)
           in monotonic_now + (interval_nanos - remainder'))"

lemma smod_shift_eq_mod:
  fixes a b :: int
  assumes "0 < b"
  shows "(if a smod b < 0 then a smod b + b else a smod b) = a mod b"
proof -
  obtain m where "a mod b = m" and "0 \<le> m" and "m < b" using assms by simp
  then show ?thesis by (auto simp: signed_modulo_int_eq_modulo_int)
qed

lemma NextAlignedHeartbeatDeadline_gap:
  assumes "0 < ms"
  shows "NextAlignedHeartbeatDeadline wall steady ms =
     steady + (ms * 1000000 - wall mod (ms * 1000000))"
  using assms smod_shift_eq_mod [of "ms * 1000000" wall]
  by (simp add: NextAlignedHeartbeatDeadline_def Let_def)

subsection \<open>The runtime target\<close>

type_synonym status = "string + unit"

function component_loop :: "string \<Rightarrow> nat \<Rightarrow> bool" where
  "component_loop path component_start =
     (if component_start < length path then
        (let component = takeWhile (\<lambda>c. c \<noteq> CHR ''/'') (drop component_start path);
             separator = component_start + length component
         in if component = [] \<or> component = ''.'' \<or> component = ''..'' then False
            else if separator = length path then True
            else component_loop path (separator + 1))
      else True)"
  by pat_completeness auto
termination
  by (relation "measure (\<lambda>(path, start). length path - start)") auto

declare component_loop.simps [simp del]

definition ValidateRuntimeTarget :: "string \<Rightarrow> status" where
  "ValidateRuntimeTarget target =
     (case (if take 7 target = ''unix://'' then Some (drop 7 target)
            else if take 5 target = ''unix:'' then Some (drop 5 target)
            else None) of
        None \<Rightarrow> Inl ''runtime_target must use the unix scheme''
      | Some path \<Rightarrow>
          if length path \<le> 1 \<or> hd path \<noteq> CHR ''/'' \<or> last path = CHR ''/''
          then Inl ''unix target must contain a canonical absolute socket path''
          else if component_loop path 1 then Inr ()
          else Inl ''unix target must contain a canonical absolute socket path'')"

text \<open>
  The reference: the path is a slash followed by slash-separated components, each of them
  nonempty and neither \<open>.\<close> nor \<open>..\<close>.
\<close>

fun path_components :: "string \<Rightarrow> string list" where
  "path_components [] = [[]]"
| "path_components (c # cs) =
     (if c = CHR ''/'' then [] # path_components cs
      else (case path_components cs of [] \<Rightarrow> [[c]] | w # ws \<Rightarrow> (c # w) # ws))"

definition canonical_component :: "string \<Rightarrow> bool" where
  "canonical_component w \<longleftrightarrow> w \<noteq> [] \<and> w \<noteq> ''.'' \<and> w \<noteq> ''..''"

definition canonical_socket_path :: "string \<Rightarrow> bool" where
  "canonical_socket_path path \<longleftrightarrow>
     (\<exists>rest. path = CHR ''/'' # rest \<and> list_all canonical_component (path_components rest))"

lemma path_components_no_slash:
  "CHR ''/'' \<notin> set w \<Longrightarrow> path_components w = [w]"
  by (induction w) auto

lemma path_components_slash:
  "CHR ''/'' \<notin> set w \<Longrightarrow> path_components (w @ CHR ''/'' # cs) = w # path_components cs"
  by (induction w) auto

lemma first_component:
  obtains "takeWhile (\<lambda>c. c \<noteq> x) s = s" and "x \<notin> set s"
  | rest where "s = takeWhile (\<lambda>c. c \<noteq> x) s @ x # rest"
proof (cases "x \<in> set s")
  case True
  then have "dropWhile (\<lambda>c. c \<noteq> x) s \<noteq> []" by (auto simp: dropWhile_eq_Nil_conv)
  then obtain y ys where ys: "dropWhile (\<lambda>c. c \<noteq> x) s = y # ys" by (cases "dropWhile (\<lambda>c. c \<noteq> x) s") auto
  then have "y = x" using hd_dropWhile [of "\<lambda>c. c \<noteq> x" s] by simp
  with ys takeWhile_dropWhile_id [of "\<lambda>c. c \<noteq> x" s] that(2) show ?thesis by metis
next
  case False
  then have "takeWhile (\<lambda>c. c \<noteq> x) s = s" by (auto simp: takeWhile_eq_all_conv)
  with False that(1) show ?thesis by blast
qed

lemma component_loop_spec:
  assumes "start < length path" and "last path \<noteq> CHR ''/''"
  shows "component_loop path start \<longleftrightarrow>
     list_all canonical_component (path_components (drop start path))"
  using assms
proof (induction path start rule: component_loop.induct)
  case (1 path start)
  define w where "w = takeWhile (\<lambda>c. c \<noteq> CHR ''/'') (drop start path)"
  have unfold: "component_loop path start \<longleftrightarrow>
      canonical_component w \<and>
      (start + length w = length path \<or> component_loop path (start + length w + 1))"
    by (subst component_loop.simps) (auto simp: w_def Let_def canonical_component_def 1)
  show ?case
  proof (cases rule: first_component [of "CHR ''/''" "drop start path"])
    case 1
    then show ?thesis using unfold 1 \<open>start < length path\<close>
      by (simp add: w_def path_components_no_slash)
  next
    case (2 rest)
    then have eq: "drop start path = w @ CHR ''/'' # rest" by (simp add: w_def)
    have noslash: "CHR ''/'' \<notin> set w" by (auto simp: w_def dest: set_takeWhileD)
    have len: "start + length w + 1 + length rest = length path"
      using arg_cong [OF eq, of length] \<open>start < length path\<close> by simp
    have rest: "drop (start + length w + 1) path = rest"
      using arg_cong [OF eq, of "drop (length w + 1)"] by (simp add: add.commute add.left_commute)
    have "last path = last (drop start path)" using \<open>start < length path\<close> by simp
    with eq \<open>last path \<noteq> CHR ''/''\<close> have "rest \<noteq> []" by auto
    with len have less: "start + length w + 1 < length path" by (cases rest) auto
    have IH: "component_loop path (start + length w + 1) \<longleftrightarrow>
        list_all canonical_component (path_components rest)"
      if "canonical_component w"
    proof -
      from that have "\<not> (w = [] \<or> w = ''.'' \<or> w = ''..'')" by (simp add: canonical_component_def)
      from "1.IH" [OF \<open>start < length path\<close> w_def refl this _ less] less rest
        \<open>last path \<noteq> CHR ''/''\<close> show ?thesis by simp
    qed
    show ?thesis using unfold IH less
      by (auto simp: eq path_components_slash [OF noslash])
  qed
qed

subsection \<open>What the helpers promise\<close>
lemma path_components_trailing_slash:
  "\<exists>ws. ws \<noteq> [] \<and> path_components (w @ [CHR ''/'']) = ws @ [[]]"
proof (induction w)
  case (Cons c w)
  then obtain v vs where "path_components (w @ [CHR ''/'']) = (v # vs) @ [[]]"
    by (metis neq_Nil_conv)
  then show ?case
    by (cases "c = CHR ''/''") (auto intro: exI [of _ "[] # v # vs"] exI [of _ "(c # v) # vs"])
qed simp

lemma canonical_socket_path_iff:
  "canonical_socket_path path \<longleftrightarrow>
     \<not> (length path \<le> 1 \<or> hd path \<noteq> CHR ''/'' \<or> last path = CHR ''/'') \<and> component_loop path 1"
proof (cases "length path \<le> 1 \<or> hd path \<noteq> CHR ''/''")
  case True
  then show ?thesis
    by (cases path) (auto simp: canonical_socket_path_def canonical_component_def)
next
  case False
  then obtain rest where rest: "path = CHR ''/'' # rest" "rest \<noteq> []" by (cases path) auto
  show ?thesis
  proof (cases "last path = CHR ''/''")
    case True
    then obtain w where "rest = w @ [CHR ''/'']" using rest by (metis append_butlast_last_id last_ConsR)
    moreover have "\<not> list_all canonical_component (path_components (w @ [CHR ''/'']))"
      using path_components_trailing_slash [of w] by (auto simp: canonical_component_def)
    ultimately show ?thesis using rest True by (auto simp: canonical_socket_path_def)
  next
    case last: False
    then show ?thesis
      using False rest component_loop_spec [of 1 path] by (auto simp: canonical_socket_path_def)
  qed
qed

text \<open>
  C32: the Runtime target is accepted exactly when it is \<open>unix://\<close> or \<open>unix:\<close> followed by a canonical
  absolute socket path (no empty, \<open>.\<close> or \<open>..\<close> component, no trailing slash); every other target is
  refused. The index loop over the path is equivalent to that grammar.
\<close>

theorem ValidateRuntimeTarget_iff:
  "ValidateRuntimeTarget target = Inr () \<longleftrightarrow>
     (\<exists>path. canonical_socket_path path \<and>
        (target = ''unix://'' @ path \<or> take 7 target \<noteq> ''unix://'' \<and> target = ''unix:'' @ path))"
proof -
  show ?thesis
  proof (cases "take 7 target = ''unix://''")
    case True
    then obtain path where "target = ''unix://'' @ path" by (metis append_take_drop_id)
    then show ?thesis by (auto simp: ValidateRuntimeTarget_def canonical_socket_path_iff)
  next
    case no7: False
    show ?thesis
    proof (cases "take 5 target = ''unix:''")
      case True
      then obtain path where "target = ''unix:'' @ path" by (metis append_take_drop_id)
      with no7 show ?thesis by (auto simp: ValidateRuntimeTarget_def canonical_socket_path_iff)
    next
      case False
      with no7 show ?thesis by (auto simp: ValidateRuntimeTarget_def)
    qed
  qed
qed

text \<open>
  C35: a relative time to live is turned into the absolute deadline the client enforces: the earlier of
  the sender's deadline and the receive time plus the time to live, saturated at the largest 64-bit
  time. The guarded signed addition of the source never overflows.
\<close>

theorem NormalizeDeadline_earliest:
  assumes "in_int64 received"
  shows "NormalizeDeadline_checked d received =
      Some (d\<lparr>deadline_unix_nanos := effective_deadline d received, ttl_ms := 0\<rparr>)"
  using NormalizeDeadline_no_overflow [OF assms] by (simp add: NormalizeDeadline_effective)


text \<open>
  C37: the key under which a granted capability is matched against a bound contract identifies the
  capability: for canonical capability ids two keys are equal exactly when id, version and digest
  are.
\<close>

theorem contract_identity:
  assumes "IsCanonicalIdentifier (ec_capability_id g)"
    and "IsCanonicalIdentifier (cc_capability_id c)"
  shows "grant_key g = contract_key c \<longleftrightarrow>
     ec_capability_id g = cc_capability_id c \<and> ec_contract_version g = cc_contract_version c \<and>
     ec_contract_digest g = cc_contract_digest c"
  using assms by (simp add: grant_key_def contract_key_def ContractKey_inject identifier_no_newline)

end
