(* ===== verification/Digest.thy ===== *)
theory Digest
  imports Internal
begin

unbundle bit_operations_syntax

text \<open>
  \<open>src/digest.cpp\<close>: the SHA-256 of the client and the terminal digest over it. \<open>sha256\<close> is the
  class \<open>Sha256\<close> (its chaining state, its block buffer and its counters), \<open>Transform\<close>, \<open>Update\<close>
  and \<open>Finish\<close> its methods. The reference \<open>sha256_bytes\<close> hashes a whole message at once: pad it,
  cut it into 64-byte blocks, chain \<open>Transform\<close> over them. The incremental class is proved to
  compute the reference on the concatenation of everything it was fed, and the text of a terminal
  digest to be what \<open>IsCanonicalSha256\<close> accepts.
\<close>

subsection \<open>The compression function\<close>

text \<open>The constants of \<open>digest.cpp\<close>, in the rows of its initializer.\<close>

definition kRoundConstants :: "u32 list" where
  "kRoundConstants = concat
    [[0x428a2f98, 0x71374491, 0xb5c0fbcf, 0xe9b5dba5, 0x3956c25b, 0x59f111f1],
     [0x923f82a4, 0xab1c5ed5, 0xd807aa98, 0x12835b01, 0x243185be, 0x550c7dc3],
     [0x72be5d74, 0x80deb1fe, 0x9bdc06a7, 0xc19bf174, 0xe49b69c1, 0xefbe4786],
     [0x0fc19dc6, 0x240ca1cc, 0x2de92c6f, 0x4a7484aa, 0x5cb0a9dc, 0x76f988da],
     [0x983e5152, 0xa831c66d, 0xb00327c8, 0xbf597fc7, 0xc6e00bf3, 0xd5a79147],
     [0x06ca6351, 0x14292967, 0x27b70a85, 0x2e1b2138, 0x4d2c6dfc, 0x53380d13],
     [0x650a7354, 0x766a0abb, 0x81c2c92e, 0x92722c85, 0xa2bfe8a1, 0xa81a664b],
     [0xc24b8b70, 0xc76c51a3, 0xd192e819, 0xd6990624, 0xf40e3585, 0x106aa070],
     [0x19a4c116, 0x1e376c08, 0x2748774c, 0x34b0bcb5, 0x391c0cb3, 0x4ed8aa4a],
     [0x5b9cca4f, 0x682e6ff3, 0x748f82ee, 0x78a5636f, 0x84c87814, 0x8cc70208],
     [0x90befffa, 0xa4506ceb, 0xbef9a3f7, 0xc67178f2]]"

definition RotateRight :: "u32 \<Rightarrow> nat \<Rightarrow> u32" where
  "RotateRight value shift = drop_bit shift value OR push_bit (32 - shift) value"

definition block_word :: "u8 list \<Rightarrow> nat \<Rightarrow> u32" where
  "block_word block i =
     push_bit 24 (ucast (block ! (i * 4))) OR push_bit 16 (ucast (block ! (i * 4 + 1))) OR
     push_bit 8 (ucast (block ! (i * 4 + 2))) OR ucast (block ! (i * 4 + 3))"

definition extend_word :: "nat \<Rightarrow> u32 list \<Rightarrow> u32 list" where
  "extend_word i words =
     (let s0 = RotateRight (words ! (i - 15)) 7 XOR RotateRight (words ! (i - 15)) 18 XOR
               drop_bit 3 (words ! (i - 15));
          s1 = RotateRight (words ! (i - 2)) 17 XOR RotateRight (words ! (i - 2)) 19 XOR
               drop_bit 10 (words ! (i - 2))
      in words[i := words ! (i - 16) + s0 + words ! (i - 7) + s1])"

definition message_schedule :: "u8 list \<Rightarrow> u32 list" where
  "message_schedule block =
     fold extend_word [16..<64] (map (block_word block) [0..<16] @ replicate 48 0)"

type_synonym registers = "u32 \<times> u32 \<times> u32 \<times> u32 \<times> u32 \<times> u32 \<times> u32 \<times> u32"

fun sha_round :: "u32 \<Rightarrow> u32 \<Rightarrow> registers \<Rightarrow> registers" where
  "sha_round k w (a, b, c, d, e, f, g, h) =
     (let upper_sigma1 = RotateRight e 6 XOR RotateRight e 11 XOR RotateRight e 25;
          choice = (e AND f) XOR (NOT e AND g);
          temporary1 = h + upper_sigma1 + choice + k + w;
          upper_sigma0 = RotateRight a 2 XOR RotateRight a 13 XOR RotateRight a 22;
          majority = (a AND b) XOR (a AND c) XOR (b AND c);
          temporary2 = upper_sigma0 + majority
      in (temporary1 + temporary2, a, b, c, d + temporary1, e, f, g))"

definition Transform :: "u8 list \<Rightarrow> u32 list \<Rightarrow> u32 list" where
  "Transform block st =
     (let words = message_schedule block;
          (a, b, c, d, e, f, g, h) =
            fold (\<lambda>i. sha_round (kRoundConstants ! i) (words ! i)) [0..<64]
              (st ! 0, st ! 1, st ! 2, st ! 3, st ! 4, st ! 5, st ! 6, st ! 7)
      in [st ! 0 + a, st ! 1 + b, st ! 2 + c, st ! 3 + d,
          st ! 4 + e, st ! 5 + f, st ! 6 + g, st ! 7 + h])"

subsection \<open>The incremental class\<close>

record sha256 =
  sha_state :: "u32 list"
  sha_block :: "u8 list"
  buffered_bytes :: nat
  total_bytes :: u64

definition sha256_init :: sha256 where
  "sha256_init = \<lparr>sha_state = [0x6a09e667, 0xbb67ae85, 0x3c6ef372, 0xa54ff53a, 0x510e527f,
     0x9b05688c, 0x1f83d9ab, 0x5be0cd19], sha_block = replicate 64 0, buffered_bytes = 0,
     total_bytes = 0\<rparr>"

text \<open>
  One turn of the loop of \<open>Update\<close>: fill the block with as many bytes as fit, and compress it
  when it is full. \<open>std::memcpy\<close> to \<open>block_.data() + buffered_bytes_\<close> overwrites in place. More than
  64 buffered bytes would be a write outside the block; the class never gets there, and the loop
  stops in the model.
\<close>

definition fill_block :: "u8 list \<Rightarrow> nat \<Rightarrow> sha256 \<Rightarrow> sha256" where
  "fill_block bytes copy h =
     (let h' = h\<lparr>sha_block := take (buffered_bytes h) (sha_block h) @ take copy bytes @
                 drop (buffered_bytes h + copy) (sha_block h),
               buffered_bytes := buffered_bytes h + copy\<rparr>
      in if buffered_bytes h' = 64
         then h'\<lparr>sha_state := Transform (sha_block h') (sha_state h'), buffered_bytes := 0\<rparr>
         else h')"

function update_loop :: "u8 list \<Rightarrow> sha256 \<Rightarrow> sha256" where
  "update_loop bytes h =
     (if bytes = [] \<or> 64 < buffered_bytes h then h
      else let copy = min (length bytes) (64 - buffered_bytes h)
           in update_loop (drop copy bytes) (fill_block bytes copy h))"
  by pat_completeness auto
termination
  by (relation "measure (\<lambda>(bytes, h). 2 * length bytes + (if buffered_bytes h = 64 then 1 else 0))")
    (auto simp: fill_block_def Let_def)

declare update_loop.simps [simp del]

definition Update :: "u8 list \<Rightarrow> sha256 \<Rightarrow> sha256" where
  "Update bytes h =
     update_loop bytes (h\<lparr>total_bytes := total_bytes h + of_nat (length bytes)\<rparr>)"

definition length_byte :: "u64 \<Rightarrow> nat \<Rightarrow> u8" where
  "length_byte bit_length index = ucast (drop_bit (index * 8) bit_length)"

definition store_length :: "u64 \<Rightarrow> u8 list \<Rightarrow> u8 list" where
  "store_length bit_length block =
     fold (\<lambda>index b. b[63 - index := length_byte bit_length index]) [0..<8] block"

definition state_bytes :: "u32 list \<Rightarrow> u8 list" where
  "state_bytes st =
     concat (map (\<lambda>word. map (\<lambda>byte. ucast (drop_bit ((3 - byte) * 8) word)) [0..<4]) st)"

definition Finish :: "sha256 \<Rightarrow> u8 list" where
  "Finish h =
     (let bit_length = total_bytes h * 8;
          block = (sha_block h)[buffered_bytes h := 0x80];
          n = buffered_bytes h + 1;
          (st, block, n) =
            (if n > 56
             then (let full = take n block @ replicate (64 - n) 0
                   in (Transform full (sha_state h), full, 0))
             else (sha_state h, block, n));
          cleared = take n block @ replicate (56 - n) 0 @ drop 56 block
      in state_bytes (Transform (store_length bit_length cleared) st))"

subsection \<open>The reference\<close>

definition pad_message :: "u8 list \<Rightarrow> u8 list" where
  "pad_message m =
     m @ 0x80 # replicate ((119 - length m mod 64) mod 64) 0 @
     map (\<lambda>i. length_byte (of_nat (length m) * 8) (7 - i)) [0..<8]"

fun chain_blocks :: "u8 list \<Rightarrow> u32 list \<Rightarrow> u32 list" where
  "chain_blocks m st =
     (if length m < 64 then st else chain_blocks (drop 64 m) (Transform (take 64 m) st))"

declare chain_blocks.simps [simp del]

definition sha256_bytes :: "u8 list \<Rightarrow> u8 list" where
  "sha256_bytes m = state_bytes (chain_blocks (pad_message m) (sha_state sha256_init))"

subsection \<open>The class computes the reference\<close>

lemma chain_blocks_short [simp]: "length r < 64 \<Longrightarrow> chain_blocks r st = st"
  by (subst chain_blocks.simps) simp

lemma chain_blocks_block:
  "length b = 64 \<Longrightarrow> chain_blocks (b @ m) st = chain_blocks m (Transform b st)"
  by (subst chain_blocks.simps) simp

lemma chain_blocks_one [simp]: "length b = 64 \<Longrightarrow> chain_blocks b st = Transform b st"
  using chain_blocks_block [of b "[]"] by simp

lemma chain_blocks_append:
  assumes "64 dvd length m"
  shows "chain_blocks (m @ m') st = chain_blocks m' (chain_blocks m st)"
  using assms
proof (induction m st rule: chain_blocks.induct)
  case (1 m st)
  show ?case
  proof (cases "length m < 64")
    case True
    with 1(2) have "m = []" using nat_dvd_not_less by fastforce
    then show ?thesis by simp
  next
    case False
    then have "64 dvd length (drop 64 m)" using 1(2) by (simp add: dvd_diff_nat)
    with 1(1) [OF False] have IH: "chain_blocks (drop 64 m @ m') (Transform (take 64 m) st) =
        chain_blocks m' (chain_blocks (drop 64 m) (Transform (take 64 m) st))" .
    from False show ?thesis
      using IH chain_blocks.simps [of "m @ m'" st] chain_blocks.simps [of m st] by simp
  qed
qed

definition sha_rep :: "u8 list \<Rightarrow> u8 list \<Rightarrow> sha256 \<Rightarrow> bool" where
  "sha_rep full rest h \<longleftrightarrow>
     64 dvd length full \<and> length rest < 64 \<and> length (sha_block h) = 64 \<and>
     buffered_bytes h = length rest \<and> take (length rest) (sha_block h) = rest \<and>
     sha_state h = chain_blocks full (sha_state sha256_init)"

definition sha_absorbed :: "u8 list \<Rightarrow> sha256 \<Rightarrow> bool" where
  "sha_absorbed m h \<longleftrightarrow> (\<exists>full rest. m = full @ rest \<and> sha_rep full rest h)"

lemma sha_absorbed_buffered: "sha_absorbed m h \<Longrightarrow> buffered_bytes h < 64"
  by (auto simp: sha_absorbed_def sha_rep_def)

lemma sha_absorbed_init: "sha_absorbed [] sha256_init"
  by (simp add: sha_absorbed_def sha_rep_def sha256_init_def)

lemma sha_absorbed_total [simp]: "sha_absorbed m (h\<lparr>total_bytes := n\<rparr>) \<longleftrightarrow> sha_absorbed m h"
  by (simp add: sha_absorbed_def sha_rep_def)

lemma fill_block_absorbed:
  assumes "sha_absorbed m h" and "copy = min (length bytes) (64 - buffered_bytes h)"
  shows "sha_absorbed (m @ take copy bytes) (fill_block bytes copy h)"
proof -
  obtain full rest where m: "m = full @ rest" and rep: "sha_rep full rest h"
    using assms(1) by (auto simp: sha_absorbed_def)
  define new where "new = rest @ take copy bytes"
  have len: "length new = length rest + copy"
    using assms(2) rep by (simp add: new_def)
  have le: "length new \<le> 64" using assms(2) rep len by (auto simp: sha_rep_def)
  let ?block = "take (buffered_bytes h) (sha_block h) @ take copy bytes @
      drop (buffered_bytes h + copy) (sha_block h)"
  have block: "?block = new @ drop (length new) (sha_block h)"
    using rep len by (simp add: sha_rep_def new_def)
  show ?thesis
  proof (cases "length new = 64")
    case True
    then have filled: "fill_block bytes copy h = h\<lparr>sha_block := new,
        buffered_bytes := 0, sha_state := Transform new (sha_state h)\<rparr>"
      using rep len block by (simp add: fill_block_def Let_def sha_rep_def)
    have "sha_rep (full @ new) [] (fill_block bytes copy h)"
      using rep True chain_blocks_append [of full new]
      by (simp add: filled sha_rep_def)
    then show ?thesis by (auto simp: sha_absorbed_def m new_def)
  next
    case False
    then have filled: "fill_block bytes copy h = h\<lparr>sha_block := ?block,
        buffered_bytes := length new\<rparr>"
      using rep len by (simp add: fill_block_def Let_def sha_rep_def)
    have "sha_rep full new (fill_block bytes copy h)"
      using rep le False unfolding filled sha_rep_def block by simp
    then show ?thesis by (auto simp: sha_absorbed_def m new_def)
  qed
qed

lemma fill_block_total [simp]: "total_bytes (fill_block bytes copy h) = total_bytes h"
  by (simp add: fill_block_def Let_def)

lemma update_loop_absorbed:
  assumes "sha_absorbed m h"
  shows "sha_absorbed (m @ bytes) (update_loop bytes h) \<and>
    total_bytes (update_loop bytes h) = total_bytes h"
  using assms
proof (induction bytes h arbitrary: m rule: update_loop.induct)
  case (1 bytes h)
  show ?case
  proof (cases "bytes = []")
    case True
    with 1(2) show ?thesis by (simp add: update_loop.simps)
  next
    case False
    define copy where "copy = min (length bytes) (64 - buffered_bytes h)"
    have nfull: "\<not> (bytes = [] \<or> 64 < buffered_bytes h)"
      using False sha_absorbed_buffered [OF 1(2)] by simp
    have step: "sha_absorbed (m @ take copy bytes) (fill_block bytes copy h)"
      using 1(2) copy_def by (rule fill_block_absorbed)
    have "update_loop bytes h = update_loop (drop copy bytes) (fill_block bytes copy h)"
      using nfull by (subst update_loop.simps) (simp add: copy_def Let_def)
    with 1(1) [OF nfull copy_def step] show ?thesis by simp
  qed
qed

lemma Update_absorbed:
  assumes "sha_absorbed m h" and "total_bytes h = of_nat (length m)"
  shows "sha_absorbed (m @ bytes) (Update bytes h)"
    and "total_bytes (Update bytes h) = of_nat (length (m @ bytes))"
  using assms update_loop_absorbed [of m "h\<lparr>total_bytes := total_bytes h + of_nat (length bytes)\<rparr>"]
  by (simp_all add: Update_def)

lemma length_8_split:
  assumes "length xs = (8::nat)"
  obtains a b c d e f g h where "xs = [a, b, c, d, e, f, g, h]"
  using assms by (auto simp: numeral_eq_Suc length_Suc_conv)

lemma store_length_eq:
  assumes "length block = 64"
  shows "store_length n block = take 56 block @ map (\<lambda>i. length_byte n (7 - i)) [0..<8]"
proof -
  from assms have "length (drop 56 block) = 8" by simp
  then obtain a b c d e f g h where "drop 56 block = [a, b, c, d, e, f, g, h]"
    by (rule length_8_split)
  then have "block = take 56 block @ [a, b, c, d, e, f, g, h]"
    by (metis append_take_drop_id)
  then obtain xs where xs: "block = xs @ [a, b, c, d, e, f, g, h]" by blast
  with assms have "length xs = 56" by simp
  then show ?thesis
    unfolding xs store_length_def by (simp add: upt_rec list_update_append) (simp add: numeral_eq_Suc)
qed

lemma Finish_absorbed:
  assumes "sha_absorbed m h" and "total_bytes h = of_nat (length m)"
  shows "Finish h = sha256_bytes m"
proof -
  obtain full rest where m: "m = full @ rest" and rep: "sha_rep full rest h"
    using assms(1) by (auto simp: sha_absorbed_def)
  let ?b = "length rest" and ?iv = "sha_state sha256_init"
  let ?len = "map (\<lambda>i. length_byte (of_nat (length m) * 8) (7 - i)) [0..<8]"
  have mod: "length m mod 64 = ?b" using rep by (auto simp: m sha_rep_def)
  have padded: "pad_message m = full @ rest @ 0x80 # replicate ((119 - ?b) mod 64) 0 @ ?len"
    unfolding pad_message_def mod by (simp add: m)
  have marked: "take (?b + 1) ((sha_block h)[?b := 0x80]) = rest @ [0x80]"
    using rep by (simp add: sha_rep_def take_Suc_conv_app_nth take_update_swap)
  have bits: "total_bytes h * 8 = of_nat (length m) * 8" by (simp add: assms(2))
  show ?thesis
  proof (cases "?b + 1 > 56")
    case True
    define first where "first = rest @ 0x80 # replicate (63 - ?b) 0"
    have first: "length first = 64" using rep by (simp add: first_def sha_rep_def)
    have k: "(119 - ?b) mod 64 = (63 - ?b) + 56" using True rep by (simp add: sha_rep_def)
    have "pad_message m = full @ first @ (replicate 56 0 @ ?len)"
      unfolding padded k replicate_add first_def by simp
    then have "sha256_bytes m = state_bytes (Transform (replicate 56 0 @ ?len)
        (Transform first (chain_blocks full ?iv)))"
      using rep first by (simp add: sha256_bytes_def chain_blocks_append sha_rep_def)
    moreover have "take 56 (take 0 first @ replicate (56 - 0) 0 @ drop 56 first) = replicate 56 0"
      by simp
    ultimately show ?thesis
      using True rep first marked unfolding Finish_def bits
      by (simp add: Let_def store_length_eq sha_rep_def first_def [symmetric])
  next
    case False
    have k: "(119 - ?b) mod 64 = 55 - ?b" using False by (simp add: mod_if)
    have "sha256_bytes m = state_bytes (Transform (rest @ 0x80 # replicate (55 - ?b) 0 @ ?len)
        (chain_blocks full ?iv))"
      using rep False
      by (simp add: sha256_bytes_def padded k chain_blocks_append sha_rep_def)
    moreover have "take (56 - ?b) (x # replicate (55 - ?b) 0 @ xs) = x # replicate (55 - ?b) 0"
      for x and xs :: "u8 list"
      using False by (simp add: take_Cons')
    ultimately show ?thesis
      using False rep marked unfolding Finish_def bits
      by (simp add: Let_def store_length_eq sha_rep_def)
  qed
qed

text \<open>Any number of updates, then the end of the message.\<close>

lemma Update_chunks_absorbed:
  assumes "sha_absorbed m h" and "total_bytes h = of_nat (length m)"
  shows "sha_absorbed (m @ concat chunks) (fold Update chunks h) \<and>
     total_bytes (fold Update chunks h) = of_nat (length (m @ concat chunks))"
  using assms
proof (induction chunks arbitrary: m h)
  case (Cons chunk chunks)
  from Cons.IH [OF Update_absorbed [OF Cons.prems]] show ?case by simp
qed simp


subsection \<open>Terminal digests\<close>

definition hex_digit :: "nat \<Rightarrow> char" where
  "hex_digit n = (if n < 10 then char_of (48 + n) else char_of (87 + n))"

definition hex_byte :: "u8 \<Rightarrow> string" where
  "hex_byte b = [hex_digit (unat b div 16), hex_digit (unat b mod 16)]"

definition TerminalDigest :: "wire \<Rightarrow> terminal_message \<Rightarrow> string option" where
  "TerminalDigest W message =
     (case serialize_terminal W message of
        None \<Rightarrow> None
      | Some encoded \<Rightarrow>
          let hash = Update (terminal_type_name W message) sha256_init;
              hash = Update [0] hash;
              hash = Update encoded hash
          in Some (''sha256:'' @ concat (map hex_byte (Finish hash))))"

lemma length_state_bytes: "length (state_bytes st) = 4 * length st"
  by (induction st) (simp_all add: state_bytes_def)

lemma length_Transform: "length (Transform b st) = 8"
  by (simp add: Transform_def Let_def split: prod.split)

lemma length_chain_blocks: "64 \<le> length m \<Longrightarrow> length (chain_blocks m st) = 8"
proof (induction m st rule: chain_blocks.induct)
  case (1 m st)
  then show ?case
    by (cases "length m < 128") (auto simp: chain_blocks.simps [of m st] length_Transform)
qed

lemma length_pad_message: "64 \<le> length (pad_message m)"
proof -
  have "length m mod 64 < 64" by simp
  moreover have "64 \<le> b + 1 + (119 - b) mod 64 + 8" if "b < 64" for b :: nat
  proof (cases "b < 56")
    case True
    then have "(119 - b) mod 64 = 55 - b" by (simp add: mod_if)
    with True show ?thesis by simp
  next
    case False
    with that have "(119 - b) mod 64 = 119 - b" by simp
    with that False show ?thesis by simp
  qed
  ultimately have "64 \<le> length m mod 64 + 1 + (119 - length m mod 64) mod 64 + 8" by blast
  moreover have "length m mod 64 \<le> length m" by simp
  ultimately show ?thesis by (simp add: pad_message_def)
qed

lemma length_sha256_bytes: "length (sha256_bytes m) = 32"
  by (simp add: sha256_bytes_def length_state_bytes length_chain_blocks length_pad_message)

lemma hex_digit_lower: "n < 16 \<Longrightarrow> is_lower_hex (hex_digit n)"
  by (auto simp: hex_digit_def char_defs of_char_of)

lemma hex_bytes_lower: "list_all is_lower_hex (concat (map hex_byte bs))"
proof -
  have "unat b div 16 < 16" for b :: u8
  proof -
    have "unat b < 2 ^ LENGTH(8)" by (rule unsigned_less)
    then show ?thesis by (simp add: less_mult_imp_div_less)
  qed
  then show ?thesis by (induction bs) (auto simp: hex_byte_def hex_digit_lower)
qed

lemma length_hex_bytes: "length (concat (map hex_byte bs)) = 2 * length bs"
  by (induction bs) (auto simp: hex_byte_def)

text \<open>The three updates of \<open>TerminalDigest\<close> hash the type name, a zero byte and the encoding.\<close>

lemma TerminalDigest_reference:
  "TerminalDigest W message =
     map_option (\<lambda>encoded. ''sha256:'' @ concat (map hex_byte
       (sha256_bytes (terminal_type_name W message @ [0] @ encoded)))) (serialize_terminal W message)"
proof -
  have "Finish (fold Update [n, [0], e] sha256_init) = sha256_bytes (n @ [0] @ e)" for n e
    using Update_chunks_absorbed [OF sha_absorbed_init, of "[n, [0], e]"] Finish_absorbed
    by (simp add: sha256_init_def)
  then show ?thesis by (simp add: TerminalDigest_def Let_def split: option.split)
qed

lemma TerminalDigest_canonical:
  assumes "TerminalDigest W message = Some d"
  shows "IsCanonicalSha256 d"
  using assms hex_bytes_lower
  by (auto simp: TerminalDigest_reference IsCanonicalSha256_def length_hex_bytes length_sha256_bytes)

text \<open>
  The contract the retention code relies on: a digest is canonical text, hence 71 characters long,
  which is what admission reserves for it.
\<close>

locale terminal_digests =
  fixes digest :: "'message \<Rightarrow> string option"
  assumes digest_canonical: "digest m = Some d \<Longrightarrow> IsCanonicalSha256 d"
begin

lemma digest_length: "digest m = Some d \<Longrightarrow> length d = 71"
  using digest_canonical [of m d] by (auto simp: IsCanonicalSha256_def split: if_splits)

lemma digest_nonempty: "digest m = Some d \<Longrightarrow> d \<noteq> []"
  using digest_length [of m d] by auto

end

interpretation terminal: terminal_digests "TerminalDigest W" for W
  by unfold_locales (rule TerminalDigest_canonical)

text \<open>
  C13: the terminal digest is the lowercase SHA-256 of the message's type name, a zero byte and its
  deterministic encoding, in the canonical text form; it exists exactly when the message encodes.
\<close>

theorem terminal_digest_text:
  "TerminalDigest W message = Some d \<longleftrightarrow>
     IsCanonicalSha256 d \<and>
     (\<exists>encoded. serialize_terminal W message = Some encoded \<and>
        d = ''sha256:'' @ concat (map hex_byte
          (sha256_bytes (terminal_type_name W message @ [0] @ encoded))))"
  using TerminalDigest_canonical [of W message d] by (auto simp: TerminalDigest_reference)

end
