(* ===== verification/Client_State.thy ===== *)
theory Client_State
  imports Digest
begin

text \<open>
  The data of the client: \<open>ClientConfig\<close> and the result types of \<open>client.hpp\<close>, and the structs and
  members of \<open>Client::Impl\<close> in \<open>client_impl.hpp\<close>.

  \<open>impl\<close> has one field per member that is guarded by \<open>mutex_\<close>. Threads, condition variables and
  gRPC handles are not state of the model: an operation of the model is one critical section (or
  the sections one thread runs in sequence), and what gRPC or a callback returns is an argument.

  \<^item> A \<open>std::shared_ptr<CancellationState>\<close> is an index into \<open>cancel_flags\<close>, the heap of the
    shared flags; the null pointer is \<open>None\<close>. Pointer comparison is comparison of indices.
  \<^item> \<open>callback_log\<close> records the application callbacks in the order they are invoked.
\<close>

subsection \<open>Public types\<close>

datatype client_state =
    kStopped | kConnecting | kRegistered | kApplyingSpec | kReady | kDraining | kReconnecting
  | kSessionLost | kStopping

datatype source_write_result =
    kAccepted | kNotReady | kUnknownStream | kNoCredit | kQueueFull | kTooLarge

record unary_result =
  succeeded :: bool
  ures_output :: payload
  ures_error :: adapter_error

record operation_result =
  ores_phase :: operation_phase
  ores_has_output :: bool
  ores_output :: payload
  ores_error :: adapter_error
  ores_native_code :: int

record source_open_decision =
  dec_accepted :: bool
  dec_has_initial_payload :: bool
  dec_initial_payload :: payload
  dec_error :: adapter_error

text \<open>What a callback does: it returns, throws a \<open>std::exception\<close>, or throws anything else.\<close>

datatype 'a callback_outcome = Returned 'a | ThrewException string | ThrewUnknown

text \<open>Whether the application bound each callback.\<close>

record capability_callbacks =
  cb_start :: bool
  cb_stop :: bool
  cb_ready :: bool
  cb_unary :: bool
  cb_operation :: bool
  cb_source_open :: bool
  cb_source_closed :: bool

record capability_binding =
  contract :: capability_contract
  callbacks :: capability_callbacks

record client_callbacks =
  cb_apply_instance_spec :: bool
  cb_clear_instance_spec :: bool
  cb_stop_requested :: bool
  cb_session_lost :: bool

record register_request =
  reg_instance_id :: string
  reg_process_generation :: u64
  reg_definition_id :: string
  reg_definition_digest :: string
  reg_software_version :: string
  reg_build_digest :: string
  reg_manifest_digest :: string
  reg_bootstrap_token :: string
  reg_sdk_version :: string
  reg_runtime_link_protocol_version :: u32
  reg_supported_capabilities :: "capability_contract list"

record client_config =
  runtime_target :: string
  registration :: register_request
  initial_spec :: instance_spec
  capabilities :: "capability_binding list"
  rpc_timeout_ms :: u32
  initial_connect_timeout_ms :: u32
  reconnect_initial_delay_ms :: u32
  reconnect_max_delay_ms :: u32
  maximum_pair_reconnect_attempts :: size_t
  maximum_control_queue :: size_t
  maximum_work_queue :: size_t
  maximum_dispatch_queue :: size_t
  maximum_terminal_replay :: size_t
  maximum_source_streams :: size_t
  maximum_source_tombstones :: size_t
  maximum_control_queue_bytes :: size_t
  maximum_work_queue_bytes :: size_t
  maximum_dispatch_queue_bytes :: size_t
  maximum_terminal_replay_bytes :: size_t
  maximum_source_state_bytes :: size_t
  dispatch_workers :: size_t

subsection \<open>Structs of the implementation\<close>

type_synonym cancellation_ptr = nat

record session_fence =
  fence_host_id :: string
  fence_session_id :: string
  fence_session_generation :: u64
  fence_runtime_epoch :: u64
  fence_runtime_link_protocol_version :: u32
  fence_heartbeat_interval_ms :: u32
  fence_maximum_control_frame_bytes :: u32
  fence_maximum_work_frame_bytes :: u32
  fence_connection_epoch :: u64

record active_capability =
  ac_binding_index :: nat
  ac_grant :: enabled_capability

datatype dispatch_kind = kUnary | kOperation | kSourceOpen

datatype terminal_commit_result = kCommitted | kCommitTooLarge | kUnavailable

record dispatch_job =
  job_kind :: dispatch_kind
  job_work_id :: string
  job_fingerprint :: string
  job_unary :: work_input
  job_operation :: work_input
  job_source_open :: source_open_request
  job_inbound_frame_sequence :: u64
  job_connection_epoch :: u64
  job_accounted_bytes :: size_t
  job_terminal_reservation_bytes :: size_t
  job_cancellation :: "cancellation_ptr option"

definition default_job :: dispatch_job where
  "default_job = \<lparr>job_kind = kUnary, job_work_id = [], job_fingerprint = [],
     job_unary = \<lparr>wi_context = None, wi_input = None\<rparr>,
     job_operation = \<lparr>wi_context = None, wi_input = None\<rparr>,
     job_source_open = \<lparr>so_context = None, so_initial_credit = None\<rparr>,
     job_inbound_frame_sequence = 0, job_connection_epoch = 0, job_accounted_bytes = 0,
     job_terminal_reservation_bytes = 0, job_cancellation = None\<rparr>"

record work_token =
  token_cancellation :: "cancellation_ptr option"
  token_reservation_bytes :: size_t

record replay_entry =
  re_kind :: dispatch_kind
  re_fingerprint :: string
  re_unary :: unary_response
  re_operation :: operation_event
  re_terminal_digest :: string
  re_accounted_bytes :: size_t

record queued_control_frame =
  qc_request :: control_frame
  qc_accounted_bytes :: size_t

record queued_work_frame =
  qw_request :: work_frame
  qw_accounted_bytes :: size_t

datatype source_phase = kOpening | kOpen

record source_state =
  src_request :: source_open_request
  src_binding_index :: nat
  src_cancellation :: "cancellation_ptr option"
  src_phase :: source_phase
  src_connection_epoch :: u64
  src_message_credit :: u64
  src_byte_credit :: u64
  src_sequence :: u64
  src_acknowledged_sequence :: u64
  src_maximum_chunk_bytes :: u32
  src_maximum_chunk_messages :: u32
  src_accounted_bytes :: size_t

definition default_source :: source_state where
  "default_source = \<lparr>src_request = \<lparr>so_context = None, so_initial_credit = None\<rparr>,
     src_binding_index = 0, src_cancellation = None, src_phase = kOpening,
     src_connection_epoch = 0, src_message_credit = 0, src_byte_credit = 0, src_sequence = 0,
     src_acknowledged_sequence = 0, src_maximum_chunk_bytes = 0, src_maximum_chunk_messages = 0,
     src_accounted_bytes = 0\<rparr>"

record closed_source =
  cls_connection_epoch :: u64
  cls_final_sequence :: u64
  cls_acknowledged_sequence :: u64
  cls_fingerprint :: string
  cls_terminal_digest :: string
  cls_terminal_frame :: work_frame
  cls_accounted_bytes :: size_t

subsection \<open>The state of the client\<close>

datatype callback_event =
    CalledApplyInstanceSpec instance_spec
  | CalledClearInstanceSpec
  | CalledStart nat enabled_capability
  | CalledStop nat
  | CalledReady nat
  | CalledUnary nat work_input
  | CalledOperation nat work_input
  | CalledSourceOpen nat source_open_request
  | CalledSourceClosed nat source_open_request adapter_error
  | CalledStopRequested string
  | CalledSessionLost string

record impl =
  config :: client_config
  client_callbacks :: client_callbacks
  \<comment> \<open>lifecycle\<close>
  cl_state :: client_state
  stop_requested :: bool
  session_failed :: bool
  accepting_work :: bool
  drain_requested :: bool
  drain_reported :: bool
  ready_callbacks_complete :: bool
  work_attach_allowed :: bool
  pair_ready :: bool
  terminal_session_failure :: bool
  session_lost_reported :: bool
  registration_attempted :: bool
  last_error :: string
  terminal_session_error :: string
  \<comment> \<open>session fence and sequences\<close>
  host_id :: string
  session_id :: string
  session_generation :: u64
  runtime_epoch :: u64
  runtime_link_protocol_version :: u32
  heartbeat_interval_ms :: u32
  maximum_control_frame_bytes :: u32
  maximum_work_frame_bytes :: u32
  connection_epoch_counter :: u64
  control_out_sequence :: u64
  work_out_sequence :: u64
  control_in_sequence :: u64
  work_in_sequence :: u64
  work_attach_connection_epoch :: u64
  \<comment> \<open>the committed spec\<close>
  active_spec :: instance_spec
  desired_spec :: instance_spec
  spec_revision :: u64
  spec_digest :: string
  active_capabilities :: "(string, active_capability) smap"
  capability_statuses :: "capability_status list"
  \<comment> \<open>queues, tokens, replay, sources and their accounting\<close>
  control_queue :: "queued_control_frame list"
  work_queue :: "queued_work_frame list"
  dispatch_queue :: "dispatch_job list"
  work_tokens :: "(string, work_token) smap"
  in_flight_work :: size_t
  active_dispatch_jobs :: size_t
  replay :: "(string, replay_entry) smap"
  source_streams :: "(string, source_state) smap"
  closed_sources :: "(string, closed_source) smap"
  rejected_dispatches :: u64
  dropped_outbound_frames :: u64
  control_queue_bytes :: size_t
  work_queue_bytes :: size_t
  dispatch_queue_bytes :: size_t
  terminal_replay_bytes :: size_t
  source_state_bytes :: size_t
  \<comment> \<open>the shared cancellation flags and the log of application callbacks\<close>
  cancel_flags :: "bool list"
  callback_log :: "callback_event list"

end
