(* ===== verification/Signals.thy ===== *)
theory Signals
  imports Client_State
begin

text \<open>
  The operations every other part of the client uses to stop Work: the shared cancellation flags
  (\<open>CancelAllWorkLocked\<close> of \<open>spec.cpp\<close>) and the failure signals of \<open>session.cpp\<close> and
  \<open>session_state.cpp\<close>. Cancelling the gRPC contexts (\<open>TryCancel\<close>) and waking waiters change no
  state of the model.
\<close>

subsection \<open>Cancellation flags\<close>

definition make_cancellation :: "impl \<Rightarrow> cancellation_ptr \<times> impl" where
  "make_cancellation s = (length (cancel_flags s), s\<lparr>cancel_flags := cancel_flags s @ [False]\<rparr>)"

definition store_requested :: "cancellation_ptr option \<Rightarrow> bool list \<Rightarrow> bool list" where
  "store_requested p flags = (case p of None \<Rightarrow> flags | Some i \<Rightarrow> flags[i := True])"

definition IsCancellationRequested :: "impl \<Rightarrow> cancellation_ptr option \<Rightarrow> bool" where
  "IsCancellationRequested s p =
     (case p of None \<Rightarrow> False
      | Some i \<Rightarrow> i < length (cancel_flags s) \<and> cancel_flags s ! i)"

definition CancelAllWorkLocked :: "impl \<Rightarrow> impl" where
  "CancelAllWorkLocked s =
     s\<lparr>cancel_flags :=
        fold (\<lambda>e. store_requested (src_cancellation (snd e))) (source_streams s)
          (fold (\<lambda>e. store_requested (token_cancellation (snd e))) (work_tokens s)
            (cancel_flags s))\<rparr>"

definition flag_set :: "bool list \<Rightarrow> cancellation_ptr \<Rightarrow> bool" where
  "flag_set flags i \<longleftrightarrow> i < length flags \<and> flags ! i"

lemma length_store_requested [simp]: "length (store_requested p flags) = length flags"
  by (simp add: store_requested_def split: option.split)

lemma flag_set_store_requested:
  "flag_set (store_requested p flags) i \<longleftrightarrow> flag_set flags i \<or> (p = Some i \<and> i < length flags)"
  by (cases "p = Some i") (auto simp: store_requested_def flag_set_def split: option.split)

lemma flag_set_fold:
  "flag_set (fold (\<lambda>e. store_requested (f e)) es flags) i \<longleftrightarrow>
     flag_set flags i \<or> (i < length flags \<and> (\<exists>e \<in> set es. f e = Some i))"
  by (induction es arbitrary: flags) (auto simp: flag_set_store_requested)

lemma length_fold_store [simp]:
  "length (fold (\<lambda>e. store_requested (f e)) es flags) = length flags"
  by (induction es arbitrary: flags) auto

lemma IsCancellationRequested_flag:
  "IsCancellationRequested s p \<longleftrightarrow> (\<exists>i. p = Some i \<and> flag_set (cancel_flags s) i)"
  by (auto simp: IsCancellationRequested_def flag_set_def split: option.split)

lemma CancelAllWorkLocked_flags:
  "flag_set (cancel_flags (CancelAllWorkLocked s)) i \<longleftrightarrow>
     flag_set (cancel_flags s) i \<or>
     (i < length (cancel_flags s) \<and>
      ((\<exists>e \<in> set (work_tokens s). token_cancellation (snd e) = Some i) \<or>
       (\<exists>e \<in> set (source_streams s). src_cancellation (snd e) = Some i)))"
  by (auto simp: CancelAllWorkLocked_def flag_set_fold)

subsection \<open>Failure signals\<close>

definition SignalSessionFailure :: "string \<Rightarrow> string \<Rightarrow> impl \<Rightarrow> impl" where
  "SignalSessionFailure expected_session reason s =
     (if session_id s \<noteq> expected_session \<or> stop_requested s \<or> session_failed s then s
      else CancelAllWorkLocked
        (s\<lparr>session_failed := True, accepting_work := False, cl_state := kReconnecting,
           last_error := reason\<rparr>))"

definition SignalCurrentSessionFailure :: "string \<Rightarrow> impl \<Rightarrow> impl" where
  "SignalCurrentSessionFailure reason s =
     (if session_id s \<noteq> [] then SignalSessionFailure (session_id s) reason s else s)"

definition SignalTerminalSessionFailure :: "string \<Rightarrow> string \<Rightarrow> impl \<Rightarrow> impl" where
  "SignalTerminalSessionFailure expected_session reason s =
     (if session_id s \<noteq> expected_session \<or> stop_requested s then s
      else CancelAllWorkLocked
        (s\<lparr>terminal_session_failure := True, terminal_session_error := reason,
           session_failed := True, accepting_work := False, last_error := reason\<rparr>))"

definition TerminalSessionFailureRequested :: "impl \<Rightarrow> bool" where
  "TerminalSessionFailureRequested s = terminal_session_failure s"

definition StopRequested :: "impl \<Rightarrow> bool" where
  "StopRequested s = stop_requested s"

definition CurrentSessionIs :: "string \<Rightarrow> impl \<Rightarrow> bool" where
  "CurrentSessionIs session s \<longleftrightarrow> session_id s = session \<and> \<not> session_failed s"

definition RecordError :: "string \<Rightarrow> impl \<Rightarrow> impl" where
  "RecordError err s = s\<lparr>last_error := err\<rparr>"

definition SetState :: "client_state \<Rightarrow> impl \<Rightarrow> impl" where
  "SetState st s = (if \<not> stop_requested s then s\<lparr>cl_state := st\<rparr> else s)"

text \<open>What \<open>WaitForCallbacks\<close> waits for.\<close>

definition callbacks_idle :: "impl \<Rightarrow> bool" where
  "callbacks_idle s \<longleftrightarrow> in_flight_work s = 0 \<and> active_dispatch_jobs s = 0"

definition NextBackoff :: "impl \<Rightarrow> u32 \<Rightarrow> u32" where
  "NextBackoff s current =
     (if current \<ge> reconnect_max_delay_ms (config s) then reconnect_max_delay_ms (config s)
      else min (reconnect_max_delay_ms (config s)) (current * 2))"

subsection \<open>The frame of the signals\<close>

text \<open>
  The signals change flags, the client state and the error texts, and nothing the byte accounting
  is about. \<open>same_books\<close> is that relation between two states.
\<close>

definition same_books :: "impl \<Rightarrow> impl \<Rightarrow> bool" where
  "same_books s t \<longleftrightarrow>
     config t = config s \<and> control_queue t = control_queue s \<and> work_queue t = work_queue s \<and>
     dispatch_queue t = dispatch_queue s \<and> work_tokens t = work_tokens s \<and>
     replay t = replay s \<and> source_streams t = source_streams s \<and>
     closed_sources t = closed_sources s \<and> control_queue_bytes t = control_queue_bytes s \<and>
     work_queue_bytes t = work_queue_bytes s \<and> dispatch_queue_bytes t = dispatch_queue_bytes s \<and>
     terminal_replay_bytes t = terminal_replay_bytes s \<and>
     source_state_bytes t = source_state_bytes s"

lemma same_books_refl [simp]: "same_books s s"
  by (simp add: same_books_def)

lemma same_books_trans: "same_books s t \<Longrightarrow> same_books t u \<Longrightarrow> same_books s u"
  by (simp add: same_books_def)

lemma same_books_CancelAll [simp]: "same_books s (CancelAllWorkLocked s)"
  by (simp add: CancelAllWorkLocked_def same_books_def)

lemma same_books_SignalSession [simp]: "same_books s (SignalSessionFailure e r s)"
  by (simp add: SignalSessionFailure_def CancelAllWorkLocked_def same_books_def)

lemma same_books_SignalCurrent [simp]: "same_books s (SignalCurrentSessionFailure r s)"
  by (simp add: SignalCurrentSessionFailure_def)

lemma same_books_SignalTerminal [simp]: "same_books s (SignalTerminalSessionFailure e r s)"
  by (simp add: SignalTerminalSessionFailure_def CancelAllWorkLocked_def same_books_def)

lemma same_books_SetState [simp]: "same_books s (SetState st s)"
  by (simp add: SetState_def same_books_def)

lemma same_books_RecordError [simp]: "same_books s (RecordError r s)"
  by (simp add: RecordError_def same_books_def)

end
