(* ===== verification/Queue.thy ===== *)
theory Queue
  imports Signals
begin

text \<open>
  \<open>src/queue.cpp\<close>: header stamping and fencing, the bounded outbound queues, the commit of a
  terminal frame into the replay table, its reservation and release, and the lookup of active
  endpoints. \<open>queues_ok\<close>, \<open>replay_ok\<close> and \<open>sources_ok\<close> are the accounting invariants of the state:
  every byte counter is the sum of what it accounts for, and every bound of the configuration
  holds. Each operation is shown to keep them.
\<close>

subsection \<open>Budgets\<close>

definition FitsByteBudget :: "size_t \<Rightarrow> size_t \<Rightarrow> size_t \<Rightarrow> bool" where
  "FitsByteBudget used added maximum \<longleftrightarrow> added \<le> maximum \<and> used \<le> maximum - added"

lemma FitsByteBudget_iff:
  "FitsByteBudget used added maximum \<longleftrightarrow> unat used + unat added \<le> unat maximum"
proof (cases "added \<le> maximum")
  case True
  then have "unat (maximum - added) = unat maximum - unat added"
    by (simp add: unat_sub_bounded word_le_nat_alt)
  with True show ?thesis by (auto simp: FitsByteBudget_def word_le_nat_alt)
qed (auto simp: FitsByteBudget_def word_le_nat_alt)

subsection \<open>Session headers\<close>

definition StampHeaderLocked :: "impl \<Rightarrow> session_fence \<Rightarrow> u64 \<Rightarrow> u64 \<Rightarrow> session_header" where
  "StampHeaderLocked s fence connection_epoch sequence =
     \<lparr>hdr_instance_id = reg_instance_id (registration (config s)),
      hdr_session_id = fence_session_id fence,
      hdr_process_generation = reg_process_generation (registration (config s)),
      hdr_session_generation = fence_session_generation fence,
      hdr_runtime_epoch = fence_runtime_epoch fence,
      hdr_connection_epoch = connection_epoch,
      hdr_frame_sequence = sequence\<rparr>"

definition ValidateHeaderLocked ::
  "impl \<Rightarrow> session_header \<Rightarrow> session_fence \<Rightarrow> u64 \<Rightarrow> u64 \<Rightarrow> string + u64" where
  "ValidateHeaderLocked s header fence connection_epoch previous_sequence =
     (if hdr_instance_id header \<noteq> reg_instance_id (registration (config s)) \<or>
         hdr_session_id header \<noteq> fence_session_id fence \<or>
         hdr_process_generation header \<noteq> reg_process_generation (registration (config s)) \<or>
         hdr_session_generation header \<noteq> fence_session_generation fence \<or>
         hdr_runtime_epoch header \<noteq> fence_runtime_epoch fence \<or>
         hdr_connection_epoch header \<noteq> connection_epoch
      then Inl ''identity/generation/epoch mismatch''
      else if hdr_frame_sequence header = 0 \<or> hdr_frame_sequence header \<le> previous_sequence
      then Inl ''frame_sequence is zero or non-monotonic''
      else Inr (hdr_frame_sequence header))"

definition ValidateControlHeader :: "session_header \<Rightarrow> session_fence \<Rightarrow> impl \<Rightarrow> status \<times> impl" where
  "ValidateControlHeader header fence s =
     (case ValidateHeaderLocked s header fence (fence_connection_epoch fence) (control_in_sequence s)
      of Inl e \<Rightarrow> (Inl e, s) | Inr n \<Rightarrow> (Inr (), s\<lparr>control_in_sequence := n\<rparr>))"

definition ValidateWorkHeader :: "session_header \<Rightarrow> session_fence \<Rightarrow> impl \<Rightarrow> status \<times> impl" where
  "ValidateWorkHeader header fence s =
     (case ValidateHeaderLocked s header fence (fence_connection_epoch fence) (work_in_sequence s)
      of Inl e \<Rightarrow> (Inl e, s) | Inr n \<Rightarrow> (Inr (), s\<lparr>work_in_sequence := n\<rparr>))"

subsection \<open>The outbound queues\<close>

text \<open>The local \<open>SessionFence\<close> the byte accounting stamps a worst-case header with.\<close>

definition accounting_fence :: "impl \<Rightarrow> session_fence" where
  "accounting_fence s = \<lparr>fence_host_id = [], fence_session_id = session_id s,
     fence_session_generation = session_generation s, fence_runtime_epoch = runtime_epoch s,
     fence_runtime_link_protocol_version = 0, fence_heartbeat_interval_ms = 1000,
     fence_maximum_control_frame_bytes = 0, fence_maximum_work_frame_bytes = 0,
     fence_connection_epoch = 0\<rparr>"

definition ControlFrameBytesLocked :: "wire \<Rightarrow> impl \<Rightarrow> control_frame \<Rightarrow> size_t" where
  "ControlFrameBytesLocked W s frame =
     control_request_bytes W
       (StampHeaderLocked s (accounting_fence s) (connection_epoch_counter s) (- 1)) frame"

definition WorkFrameBytesLocked :: "wire \<Rightarrow> impl \<Rightarrow> work_frame \<Rightarrow> size_t" where
  "WorkFrameBytesLocked W s frame =
     work_request_bytes W
       (StampHeaderLocked s (accounting_fence s) (connection_epoch_counter s) (- 1)) frame"

definition push_control :: "queued_control_frame \<Rightarrow> impl \<Rightarrow> impl" where
  "push_control q s = s\<lparr>control_queue := control_queue s @ [q],
     control_queue_bytes := control_queue_bytes s + qc_accounted_bytes q\<rparr>"

definition push_work :: "queued_work_frame \<Rightarrow> impl \<Rightarrow> impl" where
  "push_work q s = s\<lparr>work_queue := work_queue s @ [q],
     work_queue_bytes := work_queue_bytes s + qw_accounted_bytes q\<rparr>"

definition push_job :: "dispatch_job \<Rightarrow> impl \<Rightarrow> impl" where
  "push_job j s = s\<lparr>dispatch_queue := dispatch_queue s @ [j],
     dispatch_queue_bytes := dispatch_queue_bytes s + job_accounted_bytes j\<rparr>"

definition pop_control :: "impl \<Rightarrow> impl" where
  "pop_control s = (case control_queue s of [] \<Rightarrow> s
     | q # qs \<Rightarrow> s\<lparr>control_queue_bytes := control_queue_bytes s - qc_accounted_bytes q,
                   control_queue := qs\<rparr>)"

definition pop_work :: "impl \<Rightarrow> impl" where
  "pop_work s = (case work_queue s of [] \<Rightarrow> s
     | q # qs \<Rightarrow> s\<lparr>work_queue_bytes := work_queue_bytes s - qw_accounted_bytes q,
                   work_queue := qs\<rparr>)"

definition pop_job :: "impl \<Rightarrow> impl" where
  "pop_job s = (case dispatch_queue s of [] \<Rightarrow> s
     | j # js \<Rightarrow> s\<lparr>dispatch_queue_bytes := dispatch_queue_bytes s - job_accounted_bytes j,
                   dispatch_queue := js\<rparr>)"

definition QueueControlLocked :: "wire \<Rightarrow> control_frame \<Rightarrow> impl \<Rightarrow> bool \<times> impl" where
  "QueueControlLocked W request s =
     (let frame_bytes = ControlFrameBytesLocked W s request;
          full = length (control_queue s) \<ge> unat (maximum_control_queue (config s)) \<or>
                 \<not> FitsByteBudget (control_queue_bytes s) frame_bytes
                    (maximum_control_queue_bytes (config s))
      in if session_id s = [] \<or> session_failed s \<or> stop_requested s \<or> full \<or>
            frame_bytes > ucast (maximum_control_frame_bytes s)
         then (False, if full then s\<lparr>dropped_outbound_frames := dropped_outbound_frames s + 1\<rparr> else s)
         else (True, push_control \<lparr>qc_request = request, qc_accounted_bytes = frame_bytes\<rparr> s))"

definition QueueWorkLocked :: "wire \<Rightarrow> work_frame \<Rightarrow> impl \<Rightarrow> bool \<times> impl" where
  "QueueWorkLocked W request s =
     (let frame_bytes = WorkFrameBytesLocked W s request;
          full = length (work_queue s) \<ge> unat (maximum_work_queue (config s)) \<or>
                 \<not> FitsByteBudget (work_queue_bytes s) frame_bytes
                    (maximum_work_queue_bytes (config s))
      in if session_id s = [] \<or> session_failed s \<or> stop_requested s \<or> full \<or>
            frame_bytes > ucast (maximum_work_frame_bytes s)
         then (False, if full then s\<lparr>dropped_outbound_frames := dropped_outbound_frames s + 1\<rparr> else s)
         else (True, push_work \<lparr>qw_request = request, qw_accounted_bytes = frame_bytes\<rparr> s))"

definition QueueWorkOrFail :: "wire \<Rightarrow> work_frame \<Rightarrow> impl \<Rightarrow> impl" where
  "QueueWorkOrFail W request s =
     (case QueueWorkLocked W request s of
        (True, t) \<Rightarrow> t
      | (False, t) \<Rightarrow> SignalCurrentSessionFailure ''bounded outbound Work queue overflowed'' t)"

subsection \<open>The terminal replay table\<close>

definition default_unary_response :: unary_response where
  "default_unary_response = \<lparr>ur_work_id = [], ur_output = None, ur_error = None\<rparr>"

definition default_operation_event :: operation_event where
  "default_operation_event = \<lparr>oe_work_id = [], oe_phase = OperationPhaseOther 0,
     oe_occurred_unix_nanos = 0, oe_native_code = 0, oe_output = None, oe_error = None\<rparr>"

definition RememberReplayLocked :: "string \<Rightarrow> replay_entry \<Rightarrow> impl \<Rightarrow> impl" where
  "RememberReplayLocked work_id entry s =
     (let without = (case smap_find work_id (replay s) of
                       None \<Rightarrow> terminal_replay_bytes s
                     | Some previous \<Rightarrow> terminal_replay_bytes s - re_accounted_bytes previous)
      in s\<lparr>terminal_replay_bytes := without + re_accounted_bytes entry,
           replay := smap_assign work_id entry (replay s)\<rparr>)"

definition ReleaseWorkTokenLocked :: "string \<Rightarrow> impl \<Rightarrow> impl" where
  "ReleaseWorkTokenLocked work_id s =
     (case smap_find work_id (work_tokens s) of
        None \<Rightarrow> s
      | Some token \<Rightarrow>
          s\<lparr>terminal_replay_bytes :=
              (if token_reservation_bytes token \<le> terminal_replay_bytes s
               then terminal_replay_bytes s - token_reservation_bytes token else 0),
            work_tokens := smap_erase work_id (work_tokens s)\<rparr>)"

definition ReserveTerminalReplayLocked :: "dispatch_job \<Rightarrow> impl \<Rightarrow> (dispatch_job \<times> impl) option" where
  "ReserveTerminalReplayLocked job s =
     (if job_work_id job = [] \<or>
         length (replay s) + length (work_tokens s) \<ge> unat (maximum_terminal_replay (config s))
      then None
      else let metadata_bytes = of_nat (length (job_fingerprint job)) + 71 :: size_t
           in if ucast (maximum_work_frame_bytes s) > - 1 - metadata_bytes then None
              else let reservation = ucast (maximum_work_frame_bytes s) + metadata_bytes
                   in if \<not> FitsByteBudget (terminal_replay_bytes s) reservation
                             (maximum_terminal_replay_bytes (config s)) then None
                      else Some (job\<lparr>job_terminal_reservation_bytes := reservation\<rparr>,
                                 s\<lparr>terminal_replay_bytes := terminal_replay_bytes s + reservation\<rparr>))"

text \<open>The entry \<open>CommitTerminalFrame\<close> would retain for a job and a frame, if they go together.\<close>

definition replay_entry_for :: "wire \<Rightarrow> dispatch_job \<Rightarrow> work_frame \<Rightarrow> size_t \<Rightarrow> replay_entry option" where
  "replay_entry_for W job frame frame_bytes =
     (let entry = (\<lambda>u ev digest. \<lparr>re_kind = job_kind job, re_fingerprint = job_fingerprint job,
            re_unary = u, re_operation = ev, re_terminal_digest = digest,
            re_accounted_bytes = frame_bytes + of_nat (length (job_fingerprint job)) +
              of_nat (length digest)\<rparr>)
      in case (job_kind job, frame) of
           (kUnary, UnaryResponseFrame u) \<Rightarrow>
             map_option (entry u default_operation_event) (TerminalDigest W (UnaryTerminal u))
         | (kOperation, OperationEventFrame ev) \<Rightarrow>
             map_option (entry default_unary_response ev) (TerminalDigest W (OperationTerminal ev))
         | _ \<Rightarrow> None)"

text \<open>The reservation the job's own token holds; zero when the commit converts none.\<close>

definition job_reservation :: "dispatch_job \<Rightarrow> impl \<Rightarrow> size_t" where
  "job_reservation job s =
     (case smap_find (job_work_id job) (work_tokens s) of
        None \<Rightarrow> 0
      | Some token \<Rightarrow>
          if token_cancellation token = job_cancellation job
          then token_reservation_bytes token else 0)"

definition retain_terminal ::
  "dispatch_job \<Rightarrow> queued_work_frame \<Rightarrow> replay_entry \<Rightarrow> impl \<Rightarrow> terminal_commit_result \<times> impl" where
  "retain_terminal job queued entry s =
     (let reservation = job_reservation job s;
          converts_reservation = reservation \<noteq> 0;
          replay_without_reservation = terminal_replay_bytes s - reservation
      in if smap_mem (job_work_id job) (replay s) then (kUnavailable, s)
         else if reservation > terminal_replay_bytes s then (kUnavailable, s)
         else if (\<not> converts_reservation \<and>
                  length (replay s) + length (work_tokens s)
                    \<ge> unat (maximum_terminal_replay (config s))) \<or>
                 \<not> FitsByteBudget replay_without_reservation (re_accounted_bytes entry)
                    (maximum_terminal_replay_bytes (config s))
         then (kUnavailable, s)
         else let t = (if converts_reservation
                       then s\<lparr>terminal_replay_bytes := replay_without_reservation,
                              work_tokens := smap_erase (job_work_id job) (work_tokens s)\<rparr>
                       else s)
              in (kCommitted, push_work queued (RememberReplayLocked (job_work_id job) entry t)))"

definition CommitTerminalFrame ::
  "wire \<Rightarrow> dispatch_job \<Rightarrow> work_frame \<Rightarrow> impl \<Rightarrow> terminal_commit_result \<times> impl" where
  "CommitTerminalFrame W job frame s =
     (let frame_bytes = WorkFrameBytesLocked W s frame;
          full = length (work_queue s) \<ge> unat (maximum_work_queue (config s)) \<or>
                 \<not> FitsByteBudget (work_queue_bytes s) frame_bytes
                    (maximum_work_queue_bytes (config s))
      in if frame_bytes > ucast (maximum_work_frame_bytes s) then (kCommitTooLarge, s)
         else if session_id s = [] \<or> session_failed s \<or> stop_requested s \<or> full
         then (kUnavailable,
               if full then s\<lparr>dropped_outbound_frames := dropped_outbound_frames s + 1\<rparr> else s)
         else case replay_entry_for W job frame frame_bytes of
                None \<Rightarrow> (kUnavailable, s)
              | Some entry \<Rightarrow>
                  retain_terminal job \<lparr>qw_request = frame, qw_accounted_bytes = frame_bytes\<rparr> entry s)"

subsection \<open>Active endpoints\<close>

definition FindEndpoint :: "capability_contract \<Rightarrow> string \<Rightarrow> endpoint_contract option" where
  "FindEndpoint c endpoint_id = find (\<lambda>e. ep_endpoint_id e = endpoint_id) (cc_endpoints c)"

record active_endpoint =
  ae_binding_index :: nat
  ae_grant :: enabled_capability
  ae_endpoint :: endpoint_contract

definition FindActiveEndpointLocked :: "impl \<Rightarrow> string \<Rightarrow> string \<Rightarrow> active_endpoint option" where
  "FindActiveEndpointLocked s capability_id endpoint_id =
     (case smap_find capability_id (active_capabilities s) of
        None \<Rightarrow> None
      | Some active \<Rightarrow>
          if endpoint_id \<notin> set (enabled_endpoint_ids (ac_grant active)) then None
          else if \<not> ac_binding_index active < length (capabilities (config s)) then None
          else case FindEndpoint (contract (capabilities (config s) ! ac_binding_index active))
                      endpoint_id of
                 None \<Rightarrow> None
               | Some endpoint \<Rightarrow>
                   Some \<lparr>ae_binding_index = ac_binding_index active, ae_grant = ac_grant active,
                         ae_endpoint = endpoint\<rparr>)"

definition CountSourceStreamsLocked :: "impl \<Rightarrow> string \<Rightarrow> string \<Rightarrow> nat" where
  "CountSourceStreamsLocked s capability_id endpoint_id =
     length (filter (\<lambda>e. wc_capability_id (context_of (so_context (src_request (snd e)))) = capability_id
       \<and> wc_endpoint_id (context_of (so_context (src_request (snd e)))) = endpoint_id)
       (source_streams s))"

subsection \<open>The queues as byte-accounted FIFOs\<close>

interpretation cq: byte_fifo control_queue control_queue_bytes qc_accounted_bytes
  "\<lambda>s. maximum_control_queue (config s)" "\<lambda>s. maximum_control_queue_bytes (config s)"
  push_control pop_control
  by unfold_locales (simp_all add: push_control_def pop_control_def split: list.split)

interpretation wq: byte_fifo work_queue work_queue_bytes qw_accounted_bytes
  "\<lambda>s. maximum_work_queue (config s)" "\<lambda>s. maximum_work_queue_bytes (config s)"
  push_work pop_work
  by unfold_locales (simp_all add: push_work_def pop_work_def split: list.split)

interpretation dq: byte_fifo dispatch_queue dispatch_queue_bytes job_accounted_bytes
  "\<lambda>s. maximum_dispatch_queue (config s)" "\<lambda>s. maximum_dispatch_queue_bytes (config s)"
  push_job pop_job
  by unfold_locales (simp_all add: push_job_def pop_job_def split: list.split)

subsection \<open>The accounting invariants\<close>

definition control_queue_ok :: "impl \<Rightarrow> bool" where
  "control_queue_ok s \<longleftrightarrow> fifo_ok (map qc_accounted_bytes (control_queue s)) (control_queue_bytes s)
     (maximum_control_queue (config s)) (maximum_control_queue_bytes (config s))"

definition work_queue_ok :: "impl \<Rightarrow> bool" where
  "work_queue_ok s \<longleftrightarrow> fifo_ok (map qw_accounted_bytes (work_queue s)) (work_queue_bytes s)
     (maximum_work_queue (config s)) (maximum_work_queue_bytes (config s))"

definition dispatch_queue_ok :: "impl \<Rightarrow> bool" where
  "dispatch_queue_ok s \<longleftrightarrow> fifo_ok (map job_accounted_bytes (dispatch_queue s)) (dispatch_queue_bytes s)
     (maximum_dispatch_queue (config s)) (maximum_dispatch_queue_bytes (config s))"

definition queues_ok :: "impl \<Rightarrow> bool" where
  "queues_ok s \<longleftrightarrow> control_queue_ok s \<and> work_queue_ok s \<and> dispatch_queue_ok s"

text \<open>
  The replay ledger: retained terminals and reservations of accepted Work share one byte counter
  and one bound on identities.
\<close>

definition replay_ok :: "impl \<Rightarrow> bool" where
  "replay_ok s \<longleftrightarrow>
     smap_wf (replay s) \<and> smap_wf (work_tokens s) \<and>
     unat (terminal_replay_bytes s) =
       smap_weight (unat \<circ> re_accounted_bytes) (replay s) +
       smap_weight (unat \<circ> token_reservation_bytes) (work_tokens s) \<and>
     unat (terminal_replay_bytes s) \<le> unat (maximum_terminal_replay_bytes (config s)) \<and>
     length (replay s) + length (work_tokens s) \<le> unat (maximum_terminal_replay (config s))"

text \<open>
  The source ledger: open sources and tombstones share one byte counter, one bound on identities,
  and no identity is both. \<open>slack\<close> is what the counter holds beyond the entries: zero, but for
  the sources a retired connection pair has dropped and not yet written off.
\<close>

definition sources_ok :: "nat \<Rightarrow> impl \<Rightarrow> bool" where
  "sources_ok slack s \<longleftrightarrow>
     smap_wf (source_streams s) \<and> smap_wf (closed_sources s) \<and>
     unat (source_state_bytes s) =
       smap_weight (unat \<circ> src_accounted_bytes) (source_streams s) +
       smap_weight (unat \<circ> cls_accounted_bytes) (closed_sources s) + slack \<and>
     unat (source_state_bytes s) \<le> unat (maximum_source_state_bytes (config s)) \<and>
     length (source_streams s) + length (closed_sources s)
       \<le> unat (maximum_source_tombstones (config s)) \<and>
     length (source_streams s) \<le> unat (maximum_source_streams (config s)) \<and>
     (\<forall>k. smap_mem k (source_streams s) \<longrightarrow> smap_find k (closed_sources s) = None)"

definition books_ok :: "nat \<Rightarrow> impl \<Rightarrow> bool" where
  "books_ok slack s \<longleftrightarrow> queues_ok s \<and> replay_ok s \<and> sources_ok slack s"

lemma control_queue_ok_balanced: "control_queue_ok s \<longleftrightarrow> cq.balanced s"
  by (simp add: control_queue_ok_def cq.balanced_def)

lemma work_queue_ok_balanced: "work_queue_ok s \<longleftrightarrow> wq.balanced s"
  by (simp add: work_queue_ok_def wq.balanced_def)

lemma dispatch_queue_ok_balanced: "dispatch_queue_ok s \<longleftrightarrow> dq.balanced s"
  by (simp add: dispatch_queue_ok_def dq.balanced_def)

text \<open>An operation that changes none of the accounted components keeps the books.\<close>

lemma same_books_ok:
  assumes "same_books s t" and "books_ok k s"
  shows "books_ok k t"
  using assms
  by (simp add: same_books_def books_ok_def queues_ok_def control_queue_ok_def work_queue_ok_def
      dispatch_queue_ok_def replay_ok_def sources_ok_def)

lemma same_books_dropped [simp]: "same_books s (s\<lparr>dropped_outbound_frames := n\<rparr>)"
  by (simp add: same_books_def)

lemma books_push_control:
  assumes "books_ok k s" and "length (control_queue s) < unat (maximum_control_queue (config s))"
    and "FitsByteBudget (control_queue_bytes s) (qc_accounted_bytes q)
      (maximum_control_queue_bytes (config s))"
  shows "books_ok k (push_control q s)"
proof -
  have "control_queue_ok (push_control q s)"
    using assms cq.balanced_push [of s q]
    by (simp add: books_ok_def queues_ok_def control_queue_ok_balanced FitsByteBudget_iff)
  with assms(1) show ?thesis
    by (simp add: books_ok_def queues_ok_def work_queue_ok_def dispatch_queue_ok_def replay_ok_def
        sources_ok_def push_control_def)
qed

lemma books_push_work:
  assumes "books_ok k s" and "length (work_queue s) < unat (maximum_work_queue (config s))"
    and "FitsByteBudget (work_queue_bytes s) (qw_accounted_bytes q)
      (maximum_work_queue_bytes (config s))"
  shows "books_ok k (push_work q s)"
proof -
  have "work_queue_ok (push_work q s)"
    using assms wq.balanced_push [of s q]
    by (simp add: books_ok_def queues_ok_def work_queue_ok_balanced FitsByteBudget_iff)
  with assms(1) show ?thesis
    by (simp add: books_ok_def queues_ok_def control_queue_ok_def dispatch_queue_ok_def replay_ok_def
        sources_ok_def push_work_def)
qed

lemma books_push_job:
  assumes "books_ok k s" and "length (dispatch_queue s) < unat (maximum_dispatch_queue (config s))"
    and "FitsByteBudget (dispatch_queue_bytes s) (job_accounted_bytes j)
      (maximum_dispatch_queue_bytes (config s))"
  shows "books_ok k (push_job j s)"
proof -
  have "dispatch_queue_ok (push_job j s)"
    using assms dq.balanced_push [of s j]
    by (simp add: books_ok_def queues_ok_def dispatch_queue_ok_balanced FitsByteBudget_iff)
  with assms(1) show ?thesis
    by (simp add: books_ok_def queues_ok_def control_queue_ok_def work_queue_ok_def replay_ok_def
        sources_ok_def push_job_def)
qed

lemma books_pop_control: "books_ok k s \<Longrightarrow> books_ok k (pop_control s)"
proof (cases "control_queue s")
  case (Cons q qs)
  assume ok: "books_ok k s"
  then have "control_queue_ok (pop_control s)"
    using cq.balanced_pop [OF _ Cons]
    by (simp add: books_ok_def queues_ok_def control_queue_ok_balanced)
  with ok Cons show ?thesis
    by (simp add: books_ok_def queues_ok_def work_queue_ok_def dispatch_queue_ok_def replay_ok_def
        sources_ok_def pop_control_def)
qed (simp add: pop_control_def)

lemma books_pop_work: "books_ok k s \<Longrightarrow> books_ok k (pop_work s)"
proof (cases "work_queue s")
  case (Cons q qs)
  assume ok: "books_ok k s"
  then have "work_queue_ok (pop_work s)"
    using wq.balanced_pop [OF _ Cons] by (simp add: books_ok_def queues_ok_def work_queue_ok_balanced)
  with ok Cons show ?thesis
    by (simp add: books_ok_def queues_ok_def control_queue_ok_def dispatch_queue_ok_def replay_ok_def
        sources_ok_def pop_work_def)
qed (simp add: pop_work_def)

lemma books_pop_job: "books_ok k s \<Longrightarrow> books_ok k (pop_job s)"
proof (cases "dispatch_queue s")
  case (Cons q qs)
  assume ok: "books_ok k s"
  then have "dispatch_queue_ok (pop_job s)"
    using dq.balanced_pop [OF _ Cons]
    by (simp add: books_ok_def queues_ok_def dispatch_queue_ok_balanced)
  with ok Cons show ?thesis
    by (simp add: books_ok_def queues_ok_def control_queue_ok_def work_queue_ok_def replay_ok_def
        sources_ok_def pop_job_def)
qed (simp add: pop_job_def)

lemma books_QueueControlLocked:
  "books_ok k s \<Longrightarrow> books_ok k (snd (QueueControlLocked W request s))"
  by (auto simp: QueueControlLocked_def Let_def not_le
      intro: books_push_control same_books_ok [OF same_books_dropped])

lemma books_QueueWorkLocked:
  "books_ok k s \<Longrightarrow> books_ok k (snd (QueueWorkLocked W request s))"
  by (auto simp: QueueWorkLocked_def Let_def not_le
      intro: books_push_work same_books_ok [OF same_books_dropped])

lemma books_QueueWorkOrFail: "books_ok k s \<Longrightarrow> books_ok k (QueueWorkOrFail W request s)"
  using books_QueueWorkLocked [of k s W request]
  by (auto simp: QueueWorkOrFail_def split: prod.split bool.split
      intro: same_books_ok [OF same_books_SignalCurrent])

subsection \<open>The replay ledger\<close>

lemma books_replay_update:
  assumes "books_ok k s" and "replay_ok (s\<lparr>terminal_replay_bytes := n, replay := r, work_tokens := w\<rparr>)"
  shows "books_ok k (s\<lparr>terminal_replay_bytes := n, replay := r, work_tokens := w\<rparr>)"
  using assms
  by (simp add: books_ok_def queues_ok_def control_queue_ok_def work_queue_ok_def
      dispatch_queue_ok_def sources_ok_def)

lemma replay_ReleaseWorkToken:
  assumes ok: "replay_ok s"
  shows "replay_ok (ReleaseWorkTokenLocked work_id s)"
proof (cases "smap_find work_id (work_tokens s)")
  case (Some token)
  have wf: "smap_wf (work_tokens s)" using ok by (simp add: replay_ok_def)
  let ?n = "terminal_replay_bytes s - token_reservation_bytes token"
  let ?w = "smap_erase work_id (work_tokens s)"
  have le: "unat (token_reservation_bytes token) \<le> unat (terminal_replay_bytes s)"
    using ok smap.weight_ge [OF wf Some, of "unat \<circ> token_reservation_bytes"]
    by (simp add: replay_ok_def)
  have "unat ?n = smap_weight (unat \<circ> token_reservation_bytes) ?w +
      smap_weight (unat \<circ> re_accounted_bytes) (replay s)"
    using ok by (intro smap.ledger_release [OF wf Some]) (simp add: replay_ok_def)
  moreover have "unat ?n \<le> unat (terminal_replay_bytes s)"
    using le by (simp add: unat_sub_bounded)
  ultimately have "replay_ok (s\<lparr>terminal_replay_bytes := ?n, work_tokens := ?w\<rparr>)"
    using ok wf smap.size_erase [OF wf Some] by (auto simp: replay_ok_def)
  then show ?thesis using Some le by (simp add: ReleaseWorkTokenLocked_def word_le_nat_alt)
qed (simp add: ReleaseWorkTokenLocked_def ok)

lemma books_ReleaseWorkToken:
  assumes "books_ok k s"
  shows "books_ok k (ReleaseWorkTokenLocked work_id s)"
proof -
  let ?t = "ReleaseWorkTokenLocked work_id s"
  have rel: "s\<lparr>terminal_replay_bytes := terminal_replay_bytes ?t, replay := replay s,
      work_tokens := work_tokens ?t\<rparr> = ?t"
    by (simp add: ReleaseWorkTokenLocked_def split: option.split)
  have "replay_ok ?t"
    using assms by (intro replay_ReleaseWorkToken) (simp add: books_ok_def)
  then show ?thesis
    using books_replay_update [OF assms, where n = "terminal_replay_bytes ?t" and r = "replay s"
        and w = "work_tokens ?t"]
    unfolding rel by blast
qed

text \<open>Retaining a terminal under a fresh identity, with the budget checked.\<close>

lemma books_RememberReplay:
  assumes "books_ok k s" and fresh: "smap_find work_id (replay s) = None"
    and "length (replay s) + length (work_tokens s) < unat (maximum_terminal_replay (config s))"
    and "FitsByteBudget (terminal_replay_bytes s) (re_accounted_bytes entry)
      (maximum_terminal_replay_bytes (config s))"
  shows "books_ok k (RememberReplayLocked work_id entry s)"
proof -
  have ok: "replay_ok s" using assms(1) by (simp add: books_ok_def)
  let ?n = "terminal_replay_bytes s + re_accounted_bytes entry"
  let ?r = "smap_assign work_id entry (replay s)"
  have fits: "unat (terminal_replay_bytes s) + unat (re_accounted_bytes entry)
      \<le> unat (maximum_terminal_replay_bytes (config s))"
    using assms(4) by (simp add: FitsByteBudget_iff)
  have "unat ?n = smap_weight (unat \<circ> re_accounted_bytes) ?r +
      smap_weight (unat \<circ> token_reservation_bytes) (work_tokens s)"
    using ok by (intro smap.ledger_add [where w = re_accounted_bytes, OF fresh _ fits])
      (simp add: replay_ok_def)
  then have "replay_ok (s\<lparr>terminal_replay_bytes := ?n, replay := ?r, work_tokens := work_tokens s\<rparr>)"
    using ok fits assms(3) smap.size_fresh [OF fresh] unat_add_bounded [OF fits]
    by (simp add: replay_ok_def)
  then have "books_ok k (s\<lparr>terminal_replay_bytes := ?n, replay := ?r, work_tokens := work_tokens s\<rparr>)"
    using assms(1) by (rule books_replay_update [rotated])
  then show ?thesis by (simp add: RememberReplayLocked_def fresh)
qed

text \<open>
  The two ways \<open>CommitTerminalFrame\<close> ends: nothing but the drop counter changes, or the terminal is
  retained and queued, out of the job's own reservation when its token holds one.
\<close>

definition holds_reservation :: "dispatch_job \<Rightarrow> impl \<Rightarrow> work_token \<Rightarrow> bool" where
  "holds_reservation job s token \<longleftrightarrow>
     smap_find (job_work_id job) (work_tokens s) = Some token \<and>
     token_cancellation token = job_cancellation job \<and> token_reservation_bytes token \<noteq> 0"

definition can_queue_work :: "wire \<Rightarrow> impl \<Rightarrow> work_frame \<Rightarrow> bool" where
  "can_queue_work W s frame \<longleftrightarrow>
     session_id s \<noteq> [] \<and> \<not> session_failed s \<and> \<not> stop_requested s \<and>
     length (work_queue s) < unat (maximum_work_queue (config s)) \<and>
     FitsByteBudget (work_queue_bytes s) (WorkFrameBytesLocked W s frame)
       (maximum_work_queue_bytes (config s)) \<and>
     WorkFrameBytesLocked W s frame \<le> ucast (maximum_work_frame_bytes s)"

definition work_entry :: "wire \<Rightarrow> impl \<Rightarrow> work_frame \<Rightarrow> queued_work_frame" where
  "work_entry W s frame =
     \<lparr>qw_request = frame, qw_accounted_bytes = WorkFrameBytesLocked W s frame\<rparr>"

lemma QueueWorkLocked_iff:
  "QueueWorkLocked W frame s =
     (if can_queue_work W s frame then (True, push_work (work_entry W s frame) s)
      else (False,
        if length (work_queue s) \<ge> unat (maximum_work_queue (config s)) \<or>
           \<not> FitsByteBudget (work_queue_bytes s) (WorkFrameBytesLocked W s frame)
              (maximum_work_queue_bytes (config s))
        then s\<lparr>dropped_outbound_frames := dropped_outbound_frames s + 1\<rparr> else s))"
  by (auto simp: QueueWorkLocked_def can_queue_work_def work_entry_def Let_def not_le not_less)

lemma job_reservation_iff:
  "job_reservation job s \<noteq> 0 \<longleftrightarrow> (\<exists>token. holds_reservation job s token)"
  "holds_reservation job s token \<Longrightarrow> job_reservation job s = token_reservation_bytes token"
  by (auto simp: job_reservation_def holds_reservation_def split: option.split)

lemma retain_terminal_cases:
  obtains (refused) "retain_terminal job q entry s = (kUnavailable, s)"
  | (converted) token where
      "smap_find (job_work_id job) (replay s) = None" "holds_reservation job s token"
      "token_reservation_bytes token \<le> terminal_replay_bytes s"
      "FitsByteBudget (terminal_replay_bytes s - token_reservation_bytes token)
         (re_accounted_bytes entry) (maximum_terminal_replay_bytes (config s))"
      "retain_terminal job q entry s = (kCommitted, push_work q
         (RememberReplayLocked (job_work_id job) entry
           (ReleaseWorkTokenLocked (job_work_id job) s)))"
  | (unreserved)
      "smap_find (job_work_id job) (replay s) = None" "\<nexists>token. holds_reservation job s token"
      "length (replay s) + length (work_tokens s) < unat (maximum_terminal_replay (config s))"
      "FitsByteBudget (terminal_replay_bytes s) (re_accounted_bytes entry)
         (maximum_terminal_replay_bytes (config s))"
      "retain_terminal job q entry s =
         (kCommitted, push_work q (RememberReplayLocked (job_work_id job) entry s))"
proof (cases "\<exists>token. holds_reservation job s token")
  case True
  then obtain token where token: "holds_reservation job s token" by blast
  then have res: "job_reservation job s = token_reservation_bytes token"
      "token_reservation_bytes token \<noteq> 0"
      "smap_find (job_work_id job) (work_tokens s) = Some token"
    by (simp_all add: job_reservation_iff holds_reservation_def)
  show ?thesis
  proof (cases "retain_terminal job q entry s = (kUnavailable, s)")
    case False
    then have le: "smap_find (job_work_id job) (replay s) = None"
        "token_reservation_bytes token \<le> terminal_replay_bytes s"
        "FitsByteBudget (terminal_replay_bytes s - token_reservation_bytes token)
           (re_accounted_bytes entry) (maximum_terminal_replay_bytes (config s))"
      by (auto simp: retain_terminal_def res Let_def not_less split: if_splits)
    then have "retain_terminal job q entry s = (kCommitted, push_work q
         (RememberReplayLocked (job_work_id job) entry
           (ReleaseWorkTokenLocked (job_work_id job) s)))"
      by (simp add: retain_terminal_def res Let_def ReleaseWorkTokenLocked_def)
    with le token converted show ?thesis by blast
  qed (rule refused)
next
  case False
  then have zero: "job_reservation job s = 0" using job_reservation_iff(1) by blast
  show ?thesis
  proof (cases "retain_terminal job q entry s = (kUnavailable, s)")
    case nref: False
    then have "smap_find (job_work_id job) (replay s) = None"
      "length (replay s) + length (work_tokens s) < unat (maximum_terminal_replay (config s))"
      "FitsByteBudget (terminal_replay_bytes s) (re_accounted_bytes entry)
         (maximum_terminal_replay_bytes (config s))"
      by (auto simp: retain_terminal_def zero Let_def split: if_splits)
    with False show ?thesis
      by (intro unreserved) (simp_all add: retain_terminal_def zero)
  qed (rule refused)
qed

text \<open>Only a frame the queue has room for reaches the retention step.\<close>

lemma CommitTerminalFrame_unfold:
  "CommitTerminalFrame W job frame s =
     (if can_queue_work W s frame
      then (case replay_entry_for W job frame (WorkFrameBytesLocked W s frame) of
              None \<Rightarrow> (kUnavailable, s)
            | Some entry \<Rightarrow> retain_terminal job (work_entry W s frame) entry s)
      else if WorkFrameBytesLocked W s frame > ucast (maximum_work_frame_bytes s)
      then (kCommitTooLarge, s)
      else (kUnavailable,
        if length (work_queue s) \<ge> unat (maximum_work_queue (config s)) \<or>
           \<not> FitsByteBudget (work_queue_bytes s) (WorkFrameBytesLocked W s frame)
              (maximum_work_queue_bytes (config s))
        then s\<lparr>dropped_outbound_frames := dropped_outbound_frames s + 1\<rparr> else s))"
  by (cases "WorkFrameBytesLocked W s frame > ucast (maximum_work_frame_bytes s)")
    (auto simp: CommitTerminalFrame_def can_queue_work_def work_entry_def Let_def split: option.split)

lemma ReleaseWorkToken_frame [simp]:
  "replay (ReleaseWorkTokenLocked work_id s) = replay s"
  "config (ReleaseWorkTokenLocked work_id s) = config s"
  "work_queue (ReleaseWorkTokenLocked work_id s) = work_queue s"
  "work_queue_bytes (ReleaseWorkTokenLocked work_id s) = work_queue_bytes s"
  "work_tokens (ReleaseWorkTokenLocked work_id s) = smap_erase work_id (work_tokens s)"
  by (auto simp: ReleaseWorkTokenLocked_def smap_erase_absent split: option.split)

lemma RememberReplay_frame [simp]:
  "config (RememberReplayLocked work_id entry s) = config s"
  "work_queue (RememberReplayLocked work_id entry s) = work_queue s"
  "work_queue_bytes (RememberReplayLocked work_id entry s) = work_queue_bytes s"
  "work_tokens (RememberReplayLocked work_id entry s) = work_tokens s"
  "replay (RememberReplayLocked work_id entry s) = smap_assign work_id entry (replay s)"
  by (simp_all add: RememberReplayLocked_def Let_def)

lemma books_retain_terminal:
  assumes "books_ok k s" and "length (work_queue s) < unat (maximum_work_queue (config s))"
    and "FitsByteBudget (work_queue_bytes s) (qw_accounted_bytes q)
      (maximum_work_queue_bytes (config s))"
  shows "books_ok k (snd (retain_terminal job q entry s))"
proof -
  have queue: "books_ok k (push_work q t)"
    if "books_ok k t" "config t = config s" "work_queue t = work_queue s"
      "work_queue_bytes t = work_queue_bytes s" for t
    using that assms(2,3) by (intro books_push_work) simp_all
  show ?thesis
  proof (cases rule: retain_terminal_cases [of job q entry s])
    case refused
    then show ?thesis using assms by simp
  next
    case unreserved
    then have "books_ok k (RememberReplayLocked (job_work_id job) entry s)"
      by (intro books_RememberReplay [OF assms(1)])
    with unreserved queue show ?thesis by simp
  next
    case (converted token)
    let ?t = "ReleaseWorkTokenLocked (job_work_id job) s"
    have held: "smap_find (job_work_id job) (work_tokens s) = Some token"
      using converted by (simp add: holds_reservation_def)
    have ok: "replay_ok s" using assms by (simp add: books_ok_def)
    have bytes: "terminal_replay_bytes ?t = terminal_replay_bytes s - token_reservation_bytes token"
      using converted held by (simp add: ReleaseWorkTokenLocked_def)
    have "length (work_tokens s) = Suc (length (smap_erase (job_work_id job) (work_tokens s)))"
      using ok held by (intro smap.size_erase) (simp_all add: replay_ok_def)
    then have room: "length (replay ?t) + length (work_tokens ?t)
        < unat (maximum_terminal_replay (config ?t))"
      using ok by (simp add: replay_ok_def)
    have "books_ok k (RememberReplayLocked (job_work_id job) entry ?t)"
      using converted room bytes
      by (intro books_RememberReplay books_ReleaseWorkToken [OF assms(1)]) simp_all
    with converted queue show ?thesis by simp
  qed
qed

lemma books_CommitTerminalFrame:
  "books_ok k s \<Longrightarrow> books_ok k (snd (CommitTerminalFrame W job frame s))"
  by (auto simp: CommitTerminalFrame_unfold can_queue_work_def work_entry_def split: option.split
      intro: books_retain_terminal same_books_ok [OF same_books_dropped])

subsection \<open>Retention\<close>

text \<open>
  The token of an accepted job holds a reservation for the largest frame, the fingerprint and a
  digest.
\<close>

definition full_reservation :: "impl \<Rightarrow> dispatch_job \<Rightarrow> work_token \<Rightarrow> bool" where
  "full_reservation s job token \<longleftrightarrow>
     unat (token_reservation_bytes token) =
       unat (maximum_work_frame_bytes s) + length (job_fingerprint job) + 71"

lemma replay_entry_for_bytes:
  assumes "replay_entry_for W job frame n = Some entry"
    and "unat n + length (job_fingerprint job) + 71 < 2 ^ 64"
  shows "unat (re_accounted_bytes entry) = unat n + length (job_fingerprint job) + 71"
    "length (re_terminal_digest entry) = 71"
proof -
  obtain m d where d: "TerminalDigest W m = Some d"
    and e: "re_accounted_bytes entry = n + of_nat (length (job_fingerprint job)) + of_nat (length d)"
      "re_terminal_digest entry = d"
    using assms(1) by (auto simp: replay_entry_for_def Let_def split: dispatch_kind.splits work_frame.splits)
  have len: "length d = 71" using terminal.digest_length [OF d] .
  let ?k = "length (job_fingerprint job) + 71"
  have k: "unat (of_nat ?k :: u64) = ?k" using assms(2) by (intro unat_of_nat_64) linarith
  then have "unat (n + of_nat ?k) = unat n + unat (of_nat ?k :: u64)"
    using assms(2) by (intro unat_add_bounded [of _ _ "- 1"]) (simp only: unat_max_word k, simp)
  then have "unat (n + of_nat ?k) = unat n + ?k" by (simp only: k)
  then show "unat (re_accounted_bytes entry) = unat n + length (job_fingerprint job) + 71"
    by (simp add: e len add.assoc)
  show "length (re_terminal_digest entry) = 71" by (simp add: e len)
qed

lemma reservation_covers:
  assumes "full_reservation s job token" and "n \<le> ucast (maximum_work_frame_bytes s)"
    and "replay_entry_for W job frame n = Some entry"
  shows "re_accounted_bytes entry \<le> token_reservation_bytes token"
proof -
  have n: "unat n \<le> unat (maximum_work_frame_bytes s)" using assms(2) by (simp add: word_le_nat_alt)
  have "unat (token_reservation_bytes token) < 2 ^ 64"
    using unsigned_less [of "token_reservation_bytes token"] by simp
  then show ?thesis
    using replay_entry_for_bytes(1) [OF assms(3)] n assms(1)
    by (simp add: full_reservation_def word_le_nat_alt)
qed

lemma commit_with_reservation:
  assumes "books_ok k s" and token: "smap_find (job_work_id job) (work_tokens s) = Some token"
    and "token_cancellation token = job_cancellation job" and "full_reservation s job token"
    and fresh: "smap_find (job_work_id job) (replay s) = None"
    and "can_queue_work W s frame"
    and entry: "replay_entry_for W job frame (WorkFrameBytesLocked W s frame) = Some entry"
  shows "CommitTerminalFrame W job frame s = (kCommitted, push_work (work_entry W s frame)
     (RememberReplayLocked (job_work_id job) entry (ReleaseWorkTokenLocked (job_work_id job) s)))"
proof -
  have ok: "replay_ok s" using assms(1) by (simp add: books_ok_def)
  then have wf: "smap_wf (work_tokens s)" by (simp add: replay_ok_def)
  have held: "unat (token_reservation_bytes token) \<le> unat (terminal_replay_bytes s)"
    using ok smap.weight_ge [OF wf token, of "unat \<circ> token_reservation_bytes"]
    by (simp add: replay_ok_def)
  have max: "unat (terminal_replay_bytes s) \<le> unat (maximum_terminal_replay_bytes (config s))"
    using ok by (simp add: replay_ok_def)
  have nonzero: "token_reservation_bytes token \<noteq> 0"
    using assms(4) by (auto simp: full_reservation_def)
  have "re_accounted_bytes entry \<le> token_reservation_bytes token"
    using assms(4,6) entry by (intro reservation_covers) (auto simp: can_queue_work_def)
  then have fits: "FitsByteBudget (terminal_replay_bytes s - token_reservation_bytes token)
      (re_accounted_bytes entry) (maximum_terminal_replay_bytes (config s))"
    using held max by (simp add: FitsByteBudget_iff unat_sub_bounded word_le_nat_alt)
  have "job_reservation job s = token_reservation_bytes token"
    using token assms(3) by (simp add: job_reservation_def)
  then have "retain_terminal job q entry s = (kCommitted, push_work q
      (RememberReplayLocked (job_work_id job) entry (ReleaseWorkTokenLocked (job_work_id job) s)))" for q
    using fresh held nonzero fits token
    by (simp add: retain_terminal_def Let_def ReleaseWorkTokenLocked_def word_le_nat_alt
        word_less_nat_alt)
  then show ?thesis using assms(6) entry by (simp add: CommitTerminalFrame_unfold)
qed

text \<open>
  C7: the reservation taken when Work was accepted is always enough: with it, the commit of any
  terminal frame that may be sent succeeds, moves the identity from the tokens to the replay table
  and queues the frame last.
\<close>

theorem reserved_terminal_is_retained:
  assumes "books_ok k s" and "smap_find (job_work_id job) (work_tokens s) = Some token"
    and "token_cancellation token = job_cancellation job" and "full_reservation s job token"
    and "smap_find (job_work_id job) (replay s) = None"
    and "can_queue_work W s frame"
    and "replay_entry_for W job frame (WorkFrameBytesLocked W s frame) = Some entry"
  shows "\<exists>t. CommitTerminalFrame W job frame s = (kCommitted, t) \<and>
     smap_find (job_work_id job) (replay t) = Some entry \<and>
     smap_find (job_work_id job) (work_tokens t) = None \<and>
     map qw_request (work_queue t) = map qw_request (work_queue s) @ [frame]"
  using commit_with_reservation [OF assms]
  by (simp add: push_work_def work_entry_def)

text \<open>A commit that does not succeed changes nothing but the count of dropped frames.\<close>

lemma CommitTerminalFrame_refused:
  assumes "CommitTerminalFrame W job frame s = (r, t)" and "r \<noteq> kCommitted"
  shows "(t = s \<or> t = s\<lparr>dropped_outbound_frames := dropped_outbound_frames s + 1\<rparr>) \<and>
     (r = kCommitTooLarge \<longleftrightarrow> WorkFrameBytesLocked W s frame > ucast (maximum_work_frame_bytes s))"
proof (cases "can_queue_work W s frame")
  case False
  show ?thesis
  proof (cases "WorkFrameBytesLocked W s frame > ucast (maximum_work_frame_bytes s)")
    case True
    then show ?thesis using False assms(1) by (simp add: CommitTerminalFrame_unfold)
  next
    case small: False
    then have "r = kUnavailable" "t = s \<or> t = s\<lparr>dropped_outbound_frames := dropped_outbound_frames s + 1\<rparr>"
      using False assms(1) by (simp_all add: CommitTerminalFrame_unfold split: if_split_asm)
    with small show ?thesis by simp
  qed
next
  case True
  then have small: "\<not> WorkFrameBytesLocked W s frame > ucast (maximum_work_frame_bytes s)"
    by (simp add: can_queue_work_def not_less)
  show ?thesis
  proof (cases "replay_entry_for W job frame (WorkFrameBytesLocked W s frame)")
    case None
    then have "r = kUnavailable" "t = s"
      using assms(1) True by (simp_all add: CommitTerminalFrame_unfold)
    with small show ?thesis by simp
  next
    case (Some entry)
    then have ret: "retain_terminal job (work_entry W s frame) entry s = (r, t)"
      using assms(1) True by (simp add: CommitTerminalFrame_unfold)
    have "r = kUnavailable \<and> t = s"
      by (cases rule: retain_terminal_cases [of job "work_entry W s frame" entry s])
        (use ret assms(2) in simp_all)
    with small show ?thesis by simp
  qed
qed

lemma commit_replay_entry:
  assumes "CommitTerminalFrame W job frame s = (kCommitted, t)"
  obtains entry where "replay_entry_for W job frame (WorkFrameBytesLocked W s frame) = Some entry"
    "smap_find (job_work_id job) (replay t) = Some entry"
    "smap_find (job_work_id job) (replay s) = None" "can_queue_work W s frame"
proof (cases "can_queue_work W s frame")
  case False
  then show ?thesis using assms by (auto simp: CommitTerminalFrame_unfold split: if_splits)
next
  case True
  then obtain entry where entry: "replay_entry_for W job frame (WorkFrameBytesLocked W s frame) = Some entry"
    and ret: "retain_terminal job (work_entry W s frame) entry s = (kCommitted, t)"
    using assms by (auto simp: CommitTerminalFrame_unfold split: option.splits)
  have "smap_find (job_work_id job) (replay t) = Some entry \<and> smap_find (job_work_id job) (replay s) = None"
    by (cases rule: retain_terminal_cases [of job "work_entry W s frame" entry s])
      (use ret in \<open>auto simp: push_work_def\<close>)
  then show ?thesis using that entry True by blast
qed

lemma commit_queues_frame:
  assumes "CommitTerminalFrame W job frame s = (kCommitted, t)"
  shows "map qw_request (work_queue t) = map qw_request (work_queue s) @ [frame]"
proof (cases "can_queue_work W s frame")
  case False
  then show ?thesis using assms by (simp add: CommitTerminalFrame_unfold split: if_split_asm)
next
  case True
  then obtain entry where "replay_entry_for W job frame (WorkFrameBytesLocked W s frame) = Some entry"
    and ret: "retain_terminal job (work_entry W s frame) entry s = (kCommitted, t)"
    using assms by (auto simp: CommitTerminalFrame_unfold split: option.splits)
  show ?thesis
    by (cases rule: retain_terminal_cases [of job "work_entry W s frame" entry s])
      (use ret in \<open>auto simp: push_work_def work_entry_def\<close>)
qed

lemma header_accepted:
  "ValidateHeaderLocked s header fence epoch previous = Inr n \<longleftrightarrow>
     header = StampHeaderLocked s fence epoch n \<and> previous < n"
  by (cases header)
    (auto simp: ValidateHeaderLocked_def StampHeaderLocked_def not_le split: if_splits)

text \<open>
  C15: an inbound header is accepted exactly when it is the header the client itself would stamp for the
  session, connection epoch and process it belongs to, with a sequence number above the previous one:
  every stale, foreign or replayed header is refused.
\<close>

theorem header_fencing:
  "ValidateHeaderLocked s header fence epoch previous = Inr n \<longleftrightarrow>
     header = StampHeaderLocked s fence epoch n \<and> previous < n"
  by (rule header_accepted)

end
