(* ===== verification/Source_Stream.thy ===== *)
theory Source_Stream
  imports Queue
begin

text \<open>
  \<open>src/stream.cpp\<close>: publication on Host-opened sources, source credit, terminal acknowledgement,
  cancellation, drain and remote stop. A handler whose critical section decides what happens after
  the lock is released has two definitions: the section (suffix \<open>_locked\<close>), which returns that
  decision, and the handler.
\<close>

subsection \<open>Sources and their terminals\<close>

definition AddOverflows :: "u64 \<Rightarrow> u64 \<Rightarrow> bool" where
  "AddOverflows left right \<longleftrightarrow> right > - 1 - left"

definition WorkFrameFitsLocked :: "wire \<Rightarrow> work_frame \<Rightarrow> impl \<Rightarrow> bool" where
  "WorkFrameFitsLocked W frame s \<longleftrightarrow>
     maximum_work_frame_bytes s \<noteq> 0 \<and>
     WorkFrameBytesLocked W s frame \<le> ucast (maximum_work_frame_bytes s)"

definition SourceOpenRejected :: "string \<Rightarrow> adapter_error \<Rightarrow> work_frame" where
  "SourceOpenRejected stream_id err =
     SourceOpenResultFrame \<lparr>sor_stream_id = stream_id, sor_accepted = False,
       sor_initial_payload = None, sor_error = Some err\<rparr>"

definition NotifySourceClosed :: "source_state \<Rightarrow> adapter_error \<Rightarrow> impl \<Rightarrow> impl" where
  "NotifySourceClosed source err s =
     (if src_binding_index source < length (capabilities (config s)) \<and>
         cb_source_closed (callbacks (capabilities (config s) ! src_binding_index source))
      then s\<lparr>callback_log := callback_log s @
               [CalledSourceClosed (src_binding_index source) (src_request source) err]\<rparr>
      else s)"

definition tombstone :: "source_state \<Rightarrow> work_frame \<Rightarrow> string \<Rightarrow> closed_source" where
  "tombstone source terminal_frame terminal_digest =
     \<lparr>cls_connection_epoch = src_connection_epoch source,
      cls_final_sequence = src_sequence source,
      cls_acknowledged_sequence = src_acknowledged_sequence source,
      cls_fingerprint = wc_request_digest (context_of (so_context (src_request source))),
      cls_terminal_digest = terminal_digest,
      cls_terminal_frame = terminal_frame,
      cls_accounted_bytes = src_accounted_bytes source\<rparr>"

definition RememberClosedSourceLocked ::
  "string \<Rightarrow> source_state \<Rightarrow> work_frame \<Rightarrow> string \<Rightarrow> impl \<Rightarrow> impl" where
  "RememberClosedSourceLocked stream_id source terminal_frame terminal_digest s =
     s\<lparr>closed_sources := smap_assign stream_id
         (tombstone source terminal_frame terminal_digest) (closed_sources s)\<rparr>"

text \<open>The terminal message a source frame carries, when it is one and names the stream.\<close>

definition source_terminal :: "string \<Rightarrow> work_frame \<Rightarrow> terminal_message option" where
  "source_terminal stream_id frame =
     (if stream_id = [] then None
      else case frame of
             SourceOpenResultFrame r \<Rightarrow>
               if sor_stream_id r \<noteq> stream_id then None else Some (SourceOpenTerminal r)
           | SourceCloseFrame c \<Rightarrow>
               if scl_stream_id c \<noteq> stream_id then None else Some (SourceCloseTerminal c)
           | _ \<Rightarrow> None)"

definition CommitSourceTerminalLocked ::
  "wire \<Rightarrow> string \<Rightarrow> source_state \<Rightarrow> work_frame \<Rightarrow> impl \<Rightarrow> bool \<times> impl" where
  "CommitSourceTerminalLocked W stream_id source terminal_frame s =
     (case source_terminal stream_id terminal_frame of
        None \<Rightarrow> (False, s)
      | Some message \<Rightarrow>
          (case TerminalDigest W message of
             None \<Rightarrow> (False, s)
           | Some terminal_digest \<Rightarrow>
               if \<not> WorkFrameFitsLocked W terminal_frame s then (False, s)
               else case QueueWorkLocked W terminal_frame s of
                      (False, t) \<Rightarrow> (False, t)
                    | (True, t) \<Rightarrow>
                        (True, RememberClosedSourceLocked stream_id source terminal_frame
                                 terminal_digest t)))"

definition QueueWorkProtocolError :: "wire \<Rightarrow> u64 \<Rightarrow> string \<Rightarrow> impl \<Rightarrow> impl" where
  "QueueWorkProtocolError W rejected_sequence message s =
     QueueWorkOrFail W (WorkProtocolErrorFrame rejected_sequence
       (MakeError ERROR_CLASS_REJECTED ''invalid-work-frame'' message 0)) s"

subsection \<open>Publication\<close>

definition item_bytes :: "string list \<Rightarrow> u64" where
  "item_bytes items = fold (\<lambda>item bytes. SaturatingAdd bytes (of_nat (length item))) items 0"

definition charge_credit :: "source_state \<Rightarrow> string list \<Rightarrow> source_state" where
  "charge_credit stream items =
     stream\<lparr>src_message_credit := src_message_credit stream - of_nat (length items),
            src_byte_credit := src_byte_credit stream - item_bytes items,
            src_sequence := src_sequence stream + 1\<rparr>"

definition data_frame :: "string \<Rightarrow> source_state \<Rightarrow> string list \<Rightarrow> work_frame" where
  "data_frame stream_id stream items =
     SourceDataFrame \<lparr>sd_stream_id = stream_id, sd_sequence = src_sequence stream + 1,
       sd_items = items\<rparr>"

text \<open>The guards before the queue is touched, in the order of the source.\<close>

definition publish_guards :: "string \<Rightarrow> string list \<Rightarrow> impl \<Rightarrow> source_write_result + source_state" where
  "publish_guards stream_id items s =
     (if cl_state s \<noteq> kReady \<or> \<not> accepting_work s \<or> session_failed s then Inl kNotReady
      else case smap_find stream_id (source_streams s) of
        None \<Rightarrow> Inl kUnknownStream
      | Some stream \<Rightarrow>
          if src_connection_epoch stream \<noteq> connection_epoch_counter s then Inl kUnknownStream
          else if src_phase stream \<noteq> kOpen then Inl kNotReady
          else if items = [] then Inl kTooLarge
          else let bytes = item_bytes items; messages = of_nat (length items) :: u64
          in if bytes = 0 then Inl kTooLarge
          else if (src_maximum_chunk_messages stream > 0 \<and>
                   messages > ucast (src_maximum_chunk_messages stream)) \<or>
                  (src_maximum_chunk_bytes stream > 0 \<and>
                   bytes > ucast (src_maximum_chunk_bytes stream)) then Inl kTooLarge
          else if src_message_credit stream < messages \<or> src_byte_credit stream < bytes
          then Inl kNoCredit
          else Inr stream)"

definition PublishSource ::
  "wire \<Rightarrow> string \<Rightarrow> string list \<Rightarrow> impl \<Rightarrow> source_write_result \<times> impl" where
  "PublishSource W stream_id items s =
     (case publish_guards stream_id items s of
        Inl result \<Rightarrow> (result, s)
      | Inr stream \<Rightarrow>
          if length (work_queue s) \<ge> unat (maximum_work_queue (config s))
          then (kQueueFull, s\<lparr>dropped_outbound_frames := dropped_outbound_frames s + 1\<rparr>)
          else let frame = data_frame stream_id stream items
          in if \<not> WorkFrameFitsLocked W frame s then (kTooLarge, s)
          else case QueueWorkLocked W frame s of
                 (False, t) \<Rightarrow> (kQueueFull, t)
               | (True, t) \<Rightarrow>
                   (kAccepted,
                    t\<lparr>source_streams := smap_assign stream_id (charge_credit stream items)
                        (source_streams t)\<rparr>))"

definition CloseSource :: "wire \<Rightarrow> string \<Rightarrow> adapter_error option \<Rightarrow> impl \<Rightarrow> bool \<times> impl" where
  "CloseSource W stream_id err s =
     (let full = length (work_queue s) \<ge> unat (maximum_work_queue (config s));
          refuse = (False, if full then s\<lparr>dropped_outbound_frames := dropped_outbound_frames s + 1\<rparr>
                           else s)
      in case smap_find stream_id (source_streams s) of
           None \<Rightarrow> refuse
         | Some stream \<Rightarrow>
             if src_phase stream \<noteq> kOpen \<or> src_connection_epoch stream \<noteq> connection_epoch_counter s \<or>
                session_failed s \<or> stop_requested s \<or>
                (err \<noteq> None \<and> \<not> IsTypedError W (the err)) \<or> full
             then refuse
             else case CommitSourceTerminalLocked W stream_id stream
                         (SourceCloseFrame \<lparr>scl_stream_id = stream_id,
                            scl_final_sequence = src_sequence stream, scl_error = err\<rparr>) s of
                    (False, t) \<Rightarrow> (False, t)
                  | (True, t) \<Rightarrow>
                      (True, t\<lparr>source_streams := smap_erase stream_id (source_streams t)\<rparr>))"

subsection \<open>Credit\<close>

definition GrantSourceCredit_locked :: "source_credit \<Rightarrow> impl \<Rightarrow> string option \<times> impl" where
  "GrantSourceCredit_locked credit s =
     (let grant = message_or default_credit (sc_grant credit); id = sc_stream_id credit;
          ack = sc_acknowledged_sequence credit
      in if id = [] \<or> sc_grant credit = None \<or> credit_messages grant = 0 \<or> credit_bytes grant = 0
         then (Some ''SourceCredit grant must include positive message and byte credit'', s)
         else case smap_find id (source_streams s) of
           None \<Rightarrow>
             (case smap_find id (closed_sources s) of
                None \<Rightarrow> (Some ''SourceCredit references an unknown source stream'', s)
              | Some closed \<Rightarrow>
                  if cls_connection_epoch closed \<noteq> connection_epoch_counter s
                  then (Some ''SourceCredit references an unknown source stream'', s)
                  else if ack < cls_acknowledged_sequence closed \<or> ack > cls_final_sequence closed
                  then (Some ''late SourceCredit conflicts with the closed source'', s)
                  else (None, s\<lparr>closed_sources := smap_assign id
                          (closed\<lparr>cls_acknowledged_sequence := ack\<rparr>) (closed_sources s)\<rparr>))
         | Some stream \<Rightarrow>
             if src_phase stream \<noteq> kOpen \<or> src_connection_epoch stream \<noteq> connection_epoch_counter s
             then (Some ''SourceCredit references an unopened source stream'', s)
             else if ack < src_acknowledged_sequence stream \<or> ack > src_sequence stream
             then (Some ''SourceCredit acknowledged_sequence is invalid'', s)
             else if AddOverflows (src_message_credit stream) (credit_messages grant) \<or>
                     AddOverflows (src_byte_credit stream) (credit_bytes grant)
             then (Some ''SourceCredit would overflow the available credit'', s)
             else (None, s\<lparr>source_streams := smap_assign id
                     (stream\<lparr>src_acknowledged_sequence := ack,
                             src_message_credit := src_message_credit stream + credit_messages grant,
                             src_byte_credit := src_byte_credit stream + credit_bytes grant\<rparr>)
                     (source_streams s)\<rparr>))"

definition report_protocol_error :: "wire \<Rightarrow> u64 \<Rightarrow> string option \<times> impl \<Rightarrow> impl" where
  "report_protocol_error W frame_sequence r =
     (case r of (None, t) \<Rightarrow> t | (Some e, t) \<Rightarrow> QueueWorkProtocolError W frame_sequence e t)"

definition GrantSourceCredit :: "wire \<Rightarrow> source_credit \<Rightarrow> u64 \<Rightarrow> impl \<Rightarrow> impl" where
  "GrantSourceCredit W credit frame_sequence s =
     report_protocol_error W frame_sequence (GrantSourceCredit_locked credit s)"

subsection \<open>Terminal acknowledgement\<close>

definition HandleTerminalAcknowledgement_locked ::
  "terminal_acknowledgement \<Rightarrow> impl \<Rightarrow> string option \<times> impl" where
  "HandleTerminalAcknowledgement_locked ack s =
     (if \<not> IsCanonicalSha256 (ta_terminal_digest ack)
      then (Some ''TerminalAcknowledgement terminal_digest is non-canonical'', s)
      else case ta_identity ack of
        WorkIdentity work_id \<Rightarrow>
          if work_id = [] then (Some ''TerminalAcknowledgement work_id must not be empty'', s)
          else if smap_mem work_id (work_tokens s) \<or> smap_mem work_id (source_streams s)
          then (Some ''TerminalAcknowledgement references an active identity'', s)
          else if smap_mem work_id (closed_sources s)
          then (Some ''TerminalAcknowledgement used work_id for a source terminal'', s)
          else (case smap_find work_id (replay s) of
                  None \<Rightarrow> (None, s)
                | Some entry \<Rightarrow>
                    if re_terminal_digest entry \<noteq> ta_terminal_digest ack
                    then (Some ''TerminalAcknowledgement digest conflicts with retained Work'', s)
                    else (None, s\<lparr>terminal_replay_bytes :=
                                    terminal_replay_bytes s - re_accounted_bytes entry,
                                  replay := smap_erase work_id (replay s)\<rparr>))
      | StreamIdentity stream_id \<Rightarrow>
          if stream_id = [] then (Some ''TerminalAcknowledgement stream_id must not be empty'', s)
          else if smap_mem stream_id (source_streams s) \<or> smap_mem stream_id (work_tokens s)
          then (Some ''TerminalAcknowledgement references an active identity'', s)
          else if smap_mem stream_id (replay s)
          then (Some ''TerminalAcknowledgement used stream_id for a Work terminal'', s)
          else (case smap_find stream_id (closed_sources s) of
                  None \<Rightarrow> (None, s)
                | Some closed \<Rightarrow>
                    if cls_terminal_digest closed = [] \<or>
                       cls_terminal_digest closed \<noteq> ta_terminal_digest ack
                    then (Some ''TerminalAcknowledgement digest conflicts with retained source'', s)
                    else (None, s\<lparr>source_state_bytes :=
                                    (if cls_accounted_bytes closed \<le> source_state_bytes s
                                     then source_state_bytes s - cls_accounted_bytes closed else 0),
                                  closed_sources := smap_erase stream_id (closed_sources s)\<rparr>))
      | IdentityNotSet \<Rightarrow>
          (Some ''TerminalAcknowledgement must identify exactly one terminal'', s))"

definition HandleTerminalAcknowledgement ::
  "wire \<Rightarrow> terminal_acknowledgement \<Rightarrow> u64 \<Rightarrow> impl \<Rightarrow> impl" where
  "HandleTerminalAcknowledgement W ack frame_sequence s =
     report_protocol_error W frame_sequence (HandleTerminalAcknowledgement_locked ack s)"

subsection \<open>Cancellation\<close>

datatype cancellation_action =
    NoAction | ProtocolError string | FailPair | NotifySource source_state

definition cancellation_error :: "work_cancellation \<Rightarrow> adapter_error" where
  "cancellation_error c =
     MakeError ERROR_CLASS_CANCELLED ''peer-cancelled''
       (if IsCanonicalText (can_reason c) then can_reason c else ''Host cancelled Work'') 0"

definition request_cancellation :: "cancellation_ptr option \<Rightarrow> impl \<Rightarrow> impl" where
  "request_cancellation p s = s\<lparr>cancel_flags := store_requested p (cancel_flags s)\<rparr>"

definition HandleCancellation_locked ::
  "wire \<Rightarrow> work_cancellation \<Rightarrow> impl \<Rightarrow> cancellation_action \<times> impl" where
  "HandleCancellation_locked W c s =
     (case can_identity c of
        IdentityNotSet \<Rightarrow>
          (ProtocolError ''WorkCancellation must identify exactly one work_id or stream_id'', s)
      | WorkIdentity work_id \<Rightarrow>
          if work_id = [] then (ProtocolError ''WorkCancellation work_id must not be empty'', s)
          else (case smap_find work_id (work_tokens s) of
                  None \<Rightarrow> (NoAction, s)
                | Some token \<Rightarrow> (NoAction, request_cancellation (token_cancellation token) s))
      | StreamIdentity stream_id \<Rightarrow>
          if stream_id = [] then (ProtocolError ''WorkCancellation stream_id must not be empty'', s)
          else (case smap_find stream_id (source_streams s) of
            None \<Rightarrow>
              (case smap_find stream_id (closed_sources s) of
                 None \<Rightarrow> (ProtocolError ''WorkCancellation references an unknown source stream'', s)
               | Some closed \<Rightarrow>
                   if cls_connection_epoch closed \<noteq> connection_epoch_counter s
                   then (ProtocolError ''WorkCancellation references an unknown source stream'', s)
                   else (NoAction, s))
          | Some stream \<Rightarrow>
              if src_connection_epoch stream \<noteq> connection_epoch_counter s
              then (ProtocolError ''WorkCancellation references a stale source stream'', s)
              else let t = request_cancellation (src_cancellation stream) s
              in if src_phase stream \<noteq> kOpen then (NoAction, t)
              else if length (work_queue t) \<ge> unat (maximum_work_queue (config t))
              then (FailPair, t\<lparr>dropped_outbound_frames := dropped_outbound_frames t + 1\<rparr>)
              else case CommitSourceTerminalLocked W stream_id stream
                          (SourceCloseFrame \<lparr>scl_stream_id = stream_id,
                             scl_final_sequence = src_sequence stream,
                             scl_error = Some (cancellation_error c)\<rparr>) t of
                     (False, u) \<Rightarrow> (FailPair, u)
                   | (True, u) \<Rightarrow>
                       (NotifySource stream,
                        u\<lparr>source_streams := smap_erase stream_id (source_streams u)\<rparr>)))"

definition HandleCancellation :: "wire \<Rightarrow> work_cancellation \<Rightarrow> u64 \<Rightarrow> impl \<Rightarrow> impl" where
  "HandleCancellation W c frame_sequence s =
     (case HandleCancellation_locked W c s of
        (NoAction, t) \<Rightarrow> t
      | (ProtocolError e, t) \<Rightarrow> QueueWorkProtocolError W frame_sequence e t
      | (FailPair, t) \<Rightarrow> SignalCurrentSessionFailure
          ''bounded Work queue could not acknowledge source cancellation'' t
      | (NotifySource source, t) \<Rightarrow> NotifySourceClosed source (cancellation_error c) t)"

subsection \<open>Drain and remote stop\<close>

definition MaybeQueueDrainStatusLocked :: "wire \<Rightarrow> impl \<Rightarrow> impl" where
  "MaybeQueueDrainStatusLocked W s =
     (if \<not> drain_requested s \<or> drain_reported s \<or> in_flight_work s \<noteq> 0 \<or>
         active_dispatch_jobs s \<noteq> 0 \<or> dispatch_queue s \<noteq> [] \<or>
         length (control_queue s) \<ge> unat (maximum_control_queue (config s))
      then s
      else case QueueControlLocked W (DrainStatusFrame True 0) s of
             (True, t) \<Rightarrow> t\<lparr>drain_reported := True\<rparr>
           | (False, t) \<Rightarrow> CancelAllWorkLocked
               (t\<lparr>session_failed := True, accepting_work := False, cl_state := kReconnecting,
                  last_error := ''Control byte budget could not report drain completion''\<rparr>))"

definition BeginDrain :: "wire \<Rightarrow> impl \<Rightarrow> impl" where
  "BeginDrain W s =
     (let t = (if cl_state s = kReady \<or> cl_state s = kApplyingSpec
               then s\<lparr>cl_state := kDraining\<rparr> else s)
      in MaybeQueueDrainStatusLocked W (t\<lparr>accepting_work := False, drain_requested := True\<rparr>))"

definition RequestRemoteStop :: "string \<Rightarrow> impl \<Rightarrow> impl" where
  "RequestRemoteStop reason s =
     (let t = (if cb_stop_requested (client_callbacks s)
               then s\<lparr>callback_log := callback_log s @ [CalledStopRequested reason]\<rparr> else s)
      in CancelAllWorkLocked
           (t\<lparr>stop_requested := True, accepting_work := False, cl_state := kStopping\<rparr>))"

subsection \<open>The source ledger\<close>

lemma same_books_NotifySourceClosed [simp]: "same_books s (NotifySourceClosed source err s)"
  by (simp add: NotifySourceClosed_def same_books_def)

lemma same_books_request_cancellation [simp]: "same_books s (request_cancellation p s)"
  by (simp add: request_cancellation_def same_books_def)

text \<open>A source that closes becomes a tombstone: the bytes and the identity are carried over.\<close>

definition bury_source ::
  "string \<Rightarrow> source_state \<Rightarrow> work_frame \<Rightarrow> string \<Rightarrow> impl \<Rightarrow> impl" where
  "bury_source stream_id source frame digest s =
     (RememberClosedSourceLocked stream_id source frame digest s)
       \<lparr>source_streams := smap_erase stream_id (source_streams s)\<rparr>"

lemma books_source_update:
  assumes "books_ok k s"
    and "sources_ok k' (s\<lparr>source_state_bytes := n, source_streams := r, closed_sources := w\<rparr>)"
  shows "books_ok k' (s\<lparr>source_state_bytes := n, source_streams := r, closed_sources := w\<rparr>)"
  using assms
  by (simp add: books_ok_def queues_ok_def control_queue_ok_def work_queue_ok_def
      dispatch_queue_ok_def replay_ok_def)

lemma books_bury_source:
  assumes "books_ok k s" and find: "smap_find stream_id (source_streams s) = Some source"
  shows "books_ok k (bury_source stream_id source frame digest s)"
proof -
  have ok: "sources_ok k s" using assms(1) by (simp add: books_ok_def)
  then have wf: "smap_wf (source_streams s)" and fresh: "smap_find stream_id (closed_sources s) = None"
    using find by (auto simp: sources_ok_def)
  let ?c = "tombstone source frame digest"
  have bury: "bury_source stream_id source frame digest s =
      s\<lparr>source_state_bytes := source_state_bytes s,
        source_streams := smap_erase stream_id (source_streams s),
        closed_sources := smap_assign stream_id ?c (closed_sources s)\<rparr>"
    by (rule impl.equality) (simp_all add: bury_source_def RememberClosedSourceLocked_def)
  have bytes: "cls_accounted_bytes ?c = src_accounted_bytes source"
    by (simp add: tombstone_def)
  have "sources_ok k (s\<lparr>source_state_bytes := source_state_bytes s,
        source_streams := smap_erase stream_id (source_streams s),
        closed_sources := smap_assign stream_id ?c (closed_sources s)\<rparr>)"
    using ok bytes smap.size_erase [OF wf find] smap.weight_erase [OF wf find, of "unat \<circ> src_accounted_bytes"]
      smap.size_fresh [OF fresh, of ?c] smap.weight_fresh [OF fresh, of "unat \<circ> cls_accounted_bytes" ?c]
    by (auto simp: sources_ok_def)
  then show ?thesis using assms(1) unfolding bury by (rule books_source_update [rotated])
qed

lemma CommitSourceTerminal_cases:
  obtains (refused) t where "CommitSourceTerminalLocked W sid source frame s = (False, t)" "same_books s t"
  | (committed) message digest where
      "source_terminal sid frame = Some message" "TerminalDigest W message = Some digest"
      "can_queue_work W s frame"
      "CommitSourceTerminalLocked W sid source frame s =
         (True, RememberClosedSourceLocked sid source frame digest (push_work (work_entry W s frame) s))"
proof (cases "\<exists>m d. source_terminal sid frame = Some m \<and> TerminalDigest W m = Some d \<and>
    can_queue_work W s frame \<and> WorkFrameFitsLocked W frame s")
  case True
  then show ?thesis
    by (elim exE conjE, intro committed) (simp_all add: CommitSourceTerminalLocked_def QueueWorkLocked_iff)
next
  case False
  then show ?thesis
    by (intro refused [of "snd (CommitSourceTerminalLocked W sid source frame s)"])
      (auto simp: CommitSourceTerminalLocked_def QueueWorkLocked_iff split: option.splits)
qed

lemma push_work_frame [simp]:
  "source_streams (push_work q s) = source_streams s"
  "closed_sources (push_work q s) = closed_sources s"
  "config (push_work q s) = config s"
  by (simp_all add: push_work_def)

lemma books_queue_work:
  "books_ok k s \<Longrightarrow> can_queue_work W s frame \<Longrightarrow> books_ok k (push_work (work_entry W s frame) s)"
  by (intro books_push_work) (simp_all add: can_queue_work_def work_entry_def)

text \<open>What committing the terminal of an open source and erasing the source does to the books.\<close>

lemma books_commit_and_erase:
  assumes "books_ok k s" and "smap_find sid (source_streams s) = Some source"
    and "CommitSourceTerminalLocked W sid source frame s = (ok, t)"
  shows "\<not> ok \<Longrightarrow> books_ok k t"
    and "ok \<Longrightarrow> books_ok k (t\<lparr>source_streams := smap_erase sid (source_streams t)\<rparr>)"
proof -
  have "(\<not> ok \<longrightarrow> books_ok k t) \<and>
      (ok \<longrightarrow> books_ok k (t\<lparr>source_streams := smap_erase sid (source_streams t)\<rparr>))"
  proof (cases rule: CommitSourceTerminal_cases [of W sid source frame s])
    case (refused u)
    then show ?thesis using assms same_books_ok by auto
  next
    case (committed m digest)
    then have "books_ok k (bury_source sid source frame digest (push_work (work_entry W s frame) s))"
      using assms by (intro books_bury_source books_queue_work) simp_all
    then show ?thesis using committed assms(3)
      by (auto simp: bury_source_def RememberClosedSourceLocked_def)
  qed
  then show "\<not> ok \<Longrightarrow> books_ok k t"
    and "ok \<Longrightarrow> books_ok k (t\<lparr>source_streams := smap_erase sid (source_streams t)\<rparr>)" by blast+
qed

lemma books_QueueWorkProtocolError:
  "books_ok k s \<Longrightarrow> books_ok k (QueueWorkProtocolError W n e s)"
  by (simp add: QueueWorkProtocolError_def books_QueueWorkOrFail)

lemma books_report_protocol_error:
  "books_ok k (snd r) \<Longrightarrow> books_ok k (report_protocol_error W n r)"
  by (cases r) (auto simp: report_protocol_error_def intro: books_QueueWorkProtocolError split: option.split)

text \<open>Changing credit and sequences of an open source or of a tombstone moves no bytes.\<close>

lemma books_stream_update:
  assumes "books_ok k s" and "smap_find sid (source_streams s) = Some u"
    and "src_accounted_bytes v = src_accounted_bytes u"
  shows "books_ok k (s\<lparr>source_streams := smap_assign sid v (source_streams s)\<rparr>)"
proof -
  have ok: "sources_ok k s" using assms(1) by (simp add: books_ok_def)
  then have wf: "smap_wf (source_streams s)" by (simp add: sources_ok_def)
  have "smap_weight (unat \<circ> src_accounted_bytes) (smap_assign sid v (source_streams s)) =
      smap_weight (unat \<circ> src_accounted_bytes) (source_streams s)"
    using assms(3) by (intro smap.weight_replace_same [OF wf assms(2)]) simp
  with ok wf assms(2) smap.size_replace [OF wf assms(2), of v]
  have "sources_ok k (s\<lparr>source_state_bytes := source_state_bytes s,
      source_streams := smap_assign sid v (source_streams s), closed_sources := closed_sources s\<rparr>)"
    by (auto simp: sources_ok_def)
  from books_source_update [OF assms(1) this] show ?thesis by simp
qed

lemma books_tombstone_update:
  assumes "books_ok k s" and "smap_find sid (closed_sources s) = Some u"
    and "cls_accounted_bytes v = cls_accounted_bytes u"
  shows "books_ok k (s\<lparr>closed_sources := smap_assign sid v (closed_sources s)\<rparr>)"
proof -
  have ok: "sources_ok k s" using assms(1) by (simp add: books_ok_def)
  then have wf: "smap_wf (closed_sources s)" by (simp add: sources_ok_def)
  have "smap_weight (unat \<circ> cls_accounted_bytes) (smap_assign sid v (closed_sources s)) =
      smap_weight (unat \<circ> cls_accounted_bytes) (closed_sources s)"
    using assms(3) by (intro smap.weight_replace_same [OF wf assms(2)]) simp
  with ok wf assms(2) smap.size_replace [OF wf assms(2), of v]
  have "sources_ok k (s\<lparr>source_state_bytes := source_state_bytes s,
      source_streams := source_streams s, closed_sources := smap_assign sid v (closed_sources s)\<rparr>)"
    by (auto simp: sources_ok_def)
  from books_source_update [OF assms(1) this] show ?thesis by simp
qed

text \<open>The acknowledged tombstone gives its bytes back.\<close>

lemma books_release_tombstone:
  assumes "books_ok k s" and "smap_find sid (closed_sources s) = Some c"
  shows "cls_accounted_bytes c \<le> source_state_bytes s"
    and "books_ok k (s\<lparr>source_state_bytes := source_state_bytes s - cls_accounted_bytes c,
      closed_sources := smap_erase sid (closed_sources s)\<rparr>)"
proof -
  have ok: "sources_ok k s" using assms(1) by (simp add: books_ok_def)
  then have wf: "smap_wf (closed_sources s)" by (simp add: sources_ok_def)
  show le: "cls_accounted_bytes c \<le> source_state_bytes s"
    using ok smap.weight_ge [OF wf assms(2), of "unat \<circ> cls_accounted_bytes"]
    by (simp add: sources_ok_def word_le_nat_alt)
  let ?n = "source_state_bytes s - cls_accounted_bytes c"
  have "unat ?n = smap_weight (unat \<circ> cls_accounted_bytes) (smap_erase sid (closed_sources s)) +
      (smap_weight (unat \<circ> src_accounted_bytes) (source_streams s) + k)"
    using ok by (intro smap.ledger_release [OF wf assms(2)]) (simp add: sources_ok_def)
  moreover have "unat ?n \<le> unat (source_state_bytes s)"
    using le by (simp add: unat_sub_bounded word_le_nat_alt)
  ultimately have "sources_ok k (s\<lparr>source_state_bytes := ?n, source_streams := source_streams s,
      closed_sources := smap_erase sid (closed_sources s)\<rparr>)"
    using ok wf smap.size_erase [OF wf assms(2)] by (auto simp: sources_ok_def)
  from books_source_update [OF assms(1) this]
  show "books_ok k (s\<lparr>source_state_bytes := ?n, closed_sources := smap_erase sid (closed_sources s)\<rparr>)"
    by simp
qed

text \<open>The acknowledged Work terminal gives its bytes back.\<close>

lemma books_release_replay:
  assumes "books_ok k s" and "smap_find wid (replay s) = Some e"
  shows "re_accounted_bytes e \<le> terminal_replay_bytes s"
    and "books_ok k (s\<lparr>terminal_replay_bytes := terminal_replay_bytes s - re_accounted_bytes e,
      replay := smap_erase wid (replay s)\<rparr>)"
proof -
  have ok: "replay_ok s" using assms(1) by (simp add: books_ok_def)
  then have wf: "smap_wf (replay s)" by (simp add: replay_ok_def)
  show le: "re_accounted_bytes e \<le> terminal_replay_bytes s"
    using ok smap.weight_ge [OF wf assms(2), of "unat \<circ> re_accounted_bytes"]
    by (simp add: replay_ok_def word_le_nat_alt)
  let ?n = "terminal_replay_bytes s - re_accounted_bytes e"
  have "unat ?n = smap_weight (unat \<circ> re_accounted_bytes) (smap_erase wid (replay s)) +
      smap_weight (unat \<circ> token_reservation_bytes) (work_tokens s)"
    using ok by (intro smap.ledger_release [OF wf assms(2)]) (simp add: replay_ok_def)
  moreover have "unat ?n \<le> unat (terminal_replay_bytes s)"
    using le by (simp add: unat_sub_bounded word_le_nat_alt)
  ultimately have "replay_ok (s\<lparr>terminal_replay_bytes := ?n, replay := smap_erase wid (replay s),
      work_tokens := work_tokens s\<rparr>)"
    using ok wf smap.size_erase [OF wf assms(2)] by (auto simp: replay_ok_def)
  from books_replay_update [OF assms(1) this]
  show "books_ok k (s\<lparr>terminal_replay_bytes := ?n, replay := smap_erase wid (replay s)\<rparr>)"
    by simp
qed

lemma publish_guards_Inr:
  assumes "publish_guards sid items s = Inr stream"
  shows "smap_find sid (source_streams s) = Some stream" "src_phase stream = kOpen"
    "src_connection_epoch stream = connection_epoch_counter s"
    "of_nat (length items) \<le> src_message_credit stream" "item_bytes items \<le> src_byte_credit stream"
    "0 < item_bytes items"
  using assms
  by (auto simp: publish_guards_def Let_def not_less word_gt_0 split: option.splits if_splits)

lemma publish_guards_Inl: "publish_guards sid items s = Inl result \<Longrightarrow> result \<noteq> kAccepted"
  by (auto simp: publish_guards_def Let_def split: option.splits if_splits)

lemma PublishSource_cases:
  obtains (accepted) stream where
      "publish_guards sid items s = Inr stream" "can_queue_work W s (data_frame sid stream items)"
      "PublishSource W sid items s = (kAccepted, (push_work (work_entry W s (data_frame sid stream items)) s)
         \<lparr>source_streams := smap_assign sid (charge_credit stream items) (source_streams s)\<rparr>)"
  | (refused) result t where "result \<noteq> kAccepted"
      "PublishSource W sid items s = (result, t)"
      "t = s \<or> t = s\<lparr>dropped_outbound_frames := dropped_outbound_frames s + 1\<rparr>"
proof (cases "publish_guards sid items s")
  case (Inl result)
  then show ?thesis
    by (intro refused [of result s]) (simp_all add: PublishSource_def publish_guards_Inl)
next
  case (Inr stream)
  let ?f = "data_frame sid stream items"
  have sent: "PublishSource W sid items s =
     (if length (work_queue s) \<ge> unat (maximum_work_queue (config s))
      then (kQueueFull, s\<lparr>dropped_outbound_frames := dropped_outbound_frames s + 1\<rparr>)
      else if \<not> WorkFrameFitsLocked W ?f s then (kTooLarge, s)
      else case QueueWorkLocked W ?f s of
             (False, t) \<Rightarrow> (kQueueFull, t)
           | (True, t) \<Rightarrow> (kAccepted, t\<lparr>source_streams :=
               smap_assign sid (charge_credit stream items) (source_streams t)\<rparr>))"
    by (simp add: PublishSource_def Inr Let_def)
  show ?thesis
  proof (cases "can_queue_work W s ?f \<and> WorkFrameFitsLocked W ?f s")
    case True
    with Inr show ?thesis
      by (intro accepted [of stream]) (simp_all add: sent QueueWorkLocked_iff can_queue_work_def)
  next
    case False
    then have "fst (PublishSource W sid items s) \<noteq> kAccepted"
      "snd (PublishSource W sid items s) = s \<or> snd (PublishSource W sid items s) =
         s\<lparr>dropped_outbound_frames := dropped_outbound_frames s + 1\<rparr>"
      unfolding sent QueueWorkLocked_iff by simp_all
    then show ?thesis
      using refused [of "fst (PublishSource W sid items s)" "snd (PublishSource W sid items s)"] by simp
  qed
qed

lemma books_PublishSource:
  assumes "books_ok k s"
  shows "books_ok k (snd (PublishSource W sid items s))"
proof (cases rule: PublishSource_cases [of sid items s W])
  case (accepted stream)
  let ?t = "push_work (work_entry W s (data_frame sid stream items)) s"
  have "books_ok k (?t\<lparr>source_streams := smap_assign sid (charge_credit stream items) (source_streams ?t)\<rparr>)"
    using accepted publish_guards_Inr assms
    by (intro books_stream_update books_queue_work) (simp_all add: charge_credit_def)
  then show ?thesis using accepted by simp
next
  case (refused result t)
  then show ?thesis using assms by (auto intro: same_books_ok [OF same_books_dropped])
qed

lemma books_CloseSource: "books_ok k s \<Longrightarrow> books_ok k (snd (CloseSource W sid err s))"
  using books_commit_and_erase [of k s sid]
  by (fastforce simp: CloseSource_def Let_def split: option.split prod.split bool.split
      intro: same_books_ok [OF same_books_dropped])

lemma books_GrantSourceCredit: "books_ok k s \<Longrightarrow> books_ok k (GrantSourceCredit W credit n s)"
  unfolding GrantSourceCredit_def
  by (rule books_report_protocol_error)
    (auto simp: GrantSourceCredit_locked_def Let_def split: option.split
      intro: books_stream_update books_tombstone_update)

lemma books_HandleTerminalAcknowledgement:
  "books_ok k s \<Longrightarrow> books_ok k (HandleTerminalAcknowledgement W ack n s)"
  unfolding HandleTerminalAcknowledgement_def
  by (rule books_report_protocol_error)
    (auto simp: HandleTerminalAcknowledgement_locked_def books_release_tombstone(1)
      split: option.split work_identity.split
      intro: books_release_replay(2) books_release_tombstone(2))

lemma books_HandleCancellation_locked:
  assumes "books_ok k s"
  shows "books_ok k (snd (HandleCancellation_locked W c s))"
proof -
  have req: "books_ok k (request_cancellation p s)" for p
    using assms same_books_ok same_books_request_cancellation by blast
  have streams: "source_streams (request_cancellation p s) = source_streams s" for p
    by (simp add: request_cancellation_def)
  note commit = books_commit_and_erase [OF req, unfolded streams]
  show ?thesis using assms
    by (auto simp: HandleCancellation_locked_def Let_def req
        split: option.split work_identity.split prod.split bool.split
        intro: commit same_books_ok [OF same_books_dropped])
qed

lemma books_HandleCancellation: "books_ok k s \<Longrightarrow> books_ok k (HandleCancellation W c n s)"
  using books_HandleCancellation_locked [of k s W c]
  by (auto simp: HandleCancellation_def split: prod.split cancellation_action.split
      intro: books_QueueWorkProtocolError same_books_ok [OF same_books_SignalCurrent]
        same_books_ok [OF same_books_NotifySourceClosed])

lemma books_MaybeQueueDrainStatus: "books_ok k s \<Longrightarrow> books_ok k (MaybeQueueDrainStatusLocked W s)"
proof -
  assume ok: "books_ok k s"
  have same: "same_books t (t\<lparr>drain_reported := True\<rparr>)"
    "same_books t (CancelAllWorkLocked (t\<lparr>session_failed := True, accepting_work := False,
       cl_state := kReconnecting, last_error := e\<rparr>))" for t e
    by (simp_all add: same_books_def CancelAllWorkLocked_def)
  show ?thesis using ok books_QueueControlLocked [OF ok, of W "DrainStatusFrame True 0"]
    by (auto simp: MaybeQueueDrainStatusLocked_def split: prod.split bool.split
        intro: same_books_ok [OF same(1)] same_books_ok [OF same(2)])
qed

lemma books_BeginDrain: "books_ok k s \<Longrightarrow> books_ok k (BeginDrain W s)"
proof -
  assume ok: "books_ok k s"
  have same: "same_books s (s\<lparr>cl_state := c, accepting_work := False, drain_requested := True\<rparr>)"
    "same_books s (s\<lparr>accepting_work := False, drain_requested := True\<rparr>)" for c
    by (simp_all add: same_books_def)
  show ?thesis using ok
    by (auto simp: BeginDrain_def Let_def
        intro: books_MaybeQueueDrainStatus same_books_ok [OF same(1)] same_books_ok [OF same(2)])
qed

lemma same_books_RequestRemoteStop [simp]: "same_books s (RequestRemoteStop reason s)"
  by (simp add: RequestRemoteStop_def same_books_def CancelAllWorkLocked_def)

lemma item_bytes_fold:
  assumes "\<forall>i \<in> set items. length i < 2 ^ 64"
  shows "unat (fold (\<lambda>item bytes. SaturatingAdd bytes (of_nat (length item))) items b) =
     min (unat b + sum_list (map length items)) (2 ^ 64 - 1)"
  using assms
proof (induction items arbitrary: b)
  case Nil
  have "unat b < 2 ^ 64" using unsigned_less [of b] by simp
  then show ?case by simp
next
  case (Cons i items)
  have "unat (of_nat (length i) :: u64) = length i" using Cons.prems by simp
  then have "unat (SaturatingAdd b (of_nat (length i))) = min (unat b + length i) (2 ^ 64 - 1)"
    by (simp add: unat_SaturatingAdd)
  then show ?case using Cons by (simp add: min_def)
qed

lemma item_bytes_exact:
  assumes "sum_list (map length items) < 2 ^ 64"
  shows "unat (item_bytes items) = sum_list (map length items)"
proof -
  have "length i \<le> sum_list (map length items)" if "i \<in> set items" for i
    using that by (simp add: member_le_sum_list)
  then have "\<forall>i \<in> set items. length i < 2 ^ 64" using assms le_less_trans by blast
  then show ?thesis using assms by (simp add: item_bytes_def item_bytes_fold)
qed

text \<open>What a publication that fits into memory consumes.\<close>

definition chunk_ok :: "string list \<Rightarrow> bool" where
  "chunk_ok items \<longleftrightarrow> length items < 2 ^ 64 \<and> sum_list (map length items) < 2 ^ 64"

lemma charge_credit_exact:
  assumes "chunk_ok items"
    and "of_nat (length items) \<le> src_message_credit a" and "item_bytes items \<le> src_byte_credit a"
  shows "unat (src_message_credit (charge_credit a items)) + length items = unat (src_message_credit a)"
    "unat (src_byte_credit (charge_credit a items)) + sum_list (map length items)
       = unat (src_byte_credit a)"
    "src_sequence (charge_credit a items) = src_sequence a + 1"
  using assms item_bytes_exact [of items]
  by (simp_all add: chunk_ok_def charge_credit_def unat_sub_bounded word_le_nat_alt)

text \<open>
  C10: a publication is accepted only on an open stream, consumes exactly its number of messages and
  bytes of the stream's credit (neither counter wraps), takes the next sequence number and queues
  exactly the one data frame with it; a refused publication changes neither the streams nor the
  outbound queue.
\<close>

theorem PublishSource_consumes_credit:
  assumes "PublishSource W sid items s = (result, t)" and "chunk_ok items"
  shows "if result = kAccepted
     then \<exists>a b. smap_find sid (source_streams s) = Some a \<and> src_phase a = kOpen \<and>
       source_streams t = smap_assign sid b (source_streams s) \<and>
       unat (src_message_credit b) + length items = unat (src_message_credit a) \<and>
       unat (src_byte_credit b) + sum_list (map length items) = unat (src_byte_credit a) \<and>
       src_sequence b = src_sequence a + 1 \<and>
       map qw_request (work_queue t) = map qw_request (work_queue s) @
         [SourceDataFrame \<lparr>sd_stream_id = sid, sd_sequence = src_sequence b, sd_items = items\<rparr>]
     else source_streams t = source_streams s \<and> work_queue t = work_queue s"
proof (cases rule: PublishSource_cases [of sid items s W])
  case (accepted a)
  note guards = publish_guards_Inr [OF accepted(1)]
  show ?thesis
    using assms(1) accepted(3) guards charge_credit_exact [OF assms(2) guards(4,5)]
    by (auto simp: push_work_def work_entry_def data_frame_def intro!: exI [of _ "charge_credit a items"])
next
  case (refused r u)
  then show ?thesis using assms(1) by auto
qed

subsection \<open>Conservation of credit\<close>

text \<open>
  A history of one source: publications and credit grants in any order. \<open>source_history\<close> runs it and
  adds up the messages of the accepted publications and of the accepted grants.
\<close>

datatype source_op = OpPublish "string list" | OpCredit source_credit

abbreviation granted_credit :: "source_credit \<Rightarrow> stream_credit" where
  "granted_credit c \<equiv> message_or default_credit (sc_grant c)"

fun source_history :: "wire \<Rightarrow> string \<Rightarrow> source_op list \<Rightarrow> impl \<Rightarrow> nat \<times> nat \<times> impl" where
  "source_history W sid [] s = (0, 0, s)"
| "source_history W sid (OpPublish items # ops) s =
     (let r = PublishSource W sid items s; (sent, granted, u) = source_history W sid ops (snd r)
      in (if fst r = kAccepted then length items + sent else sent, granted, u))"
| "source_history W sid (OpCredit c # ops) s =
     (let r = GrantSourceCredit_locked c s; (sent, granted, u) = source_history W sid ops (snd r)
      in (sent,
          if fst r = None \<and> sc_stream_id c = sid
          then unat (credit_messages (granted_credit c)) + granted else granted,
          u))"

lemma AddOverflows_exact: "\<not> AddOverflows a b \<Longrightarrow> unat (a + b) = unat a + unat b"
proof -
  assume "\<not> AddOverflows a b"
  then have "unat b \<le> 2 ^ 64 - 1 - unat a"
    by (simp add: AddOverflows_def not_less word_le_nat_alt unat_not_word)
  moreover have "unat a < 2 ^ 64" using unsigned_less [of a] by simp
  ultimately have "unat a + unat b \<le> unat (- 1 :: u64)" by (simp add: unat_max_word)
  then show ?thesis by (rule unat_add_bounded)
qed

lemma publish_credit_step:
  assumes "smap_find sid (source_streams s) = Some a" and "chunk_ok items"
  shows "\<exists>b. smap_find sid (source_streams (snd (PublishSource W sid items s))) = Some b \<and>
    unat (src_message_credit b) + (if fst (PublishSource W sid items s) = kAccepted then length items else 0)
      = unat (src_message_credit a)"
proof (cases rule: PublishSource_cases [of sid items s W])
  case (accepted c)
  note guards = publish_guards_Inr [OF accepted(1)]
  with assms(1) have "c = a" by simp
  with accepted guards charge_credit_exact(1) [OF assms(2) guards(4,5)] show ?thesis by simp
next
  case (refused r u)
  then show ?thesis using assms(1) by auto
qed

definition credited :: "source_state \<Rightarrow> source_credit \<Rightarrow> source_state" where
  "credited a c = a\<lparr>src_acknowledged_sequence := sc_acknowledged_sequence c,
     src_message_credit := src_message_credit a + credit_messages (granted_credit c),
     src_byte_credit := src_byte_credit a + credit_bytes (granted_credit c)\<rparr>"

lemma GrantSourceCredit_cases:
  obtains (refused) e where "GrantSourceCredit_locked c s = (Some e, s)"
  | (stream) a where "smap_find (sc_stream_id c) (source_streams s) = Some a"
      "src_acknowledged_sequence a \<le> sc_acknowledged_sequence c"
      "sc_acknowledged_sequence c \<le> src_sequence a"
      "\<not> AddOverflows (src_message_credit a) (credit_messages (granted_credit c))"
      "\<not> AddOverflows (src_byte_credit a) (credit_bytes (granted_credit c))"
      "GrantSourceCredit_locked c s =
         (None, s\<lparr>source_streams := smap_assign (sc_stream_id c) (credited a c) (source_streams s)\<rparr>)"
  | (tombstone) d where "smap_find (sc_stream_id c) (source_streams s) = None"
      "smap_find (sc_stream_id c) (closed_sources s) = Some d"
      "GrantSourceCredit_locked c s = (None, s\<lparr>closed_sources := smap_assign (sc_stream_id c)
         (d\<lparr>cls_acknowledged_sequence := sc_acknowledged_sequence c\<rparr>) (closed_sources s)\<rparr>)"
proof (cases "smap_find (sc_stream_id c) (source_streams s)")
  case None
  show ?thesis
  proof (cases "smap_find (sc_stream_id c) (closed_sources s)")
    case inner: None
    have "\<exists>e. GrantSourceCredit_locked c s = (Some e, s)"
      by (simp add: GrantSourceCredit_locked_def Let_def None inner)
    then show ?thesis using refused by blast
  next
    case (Some d)
    have "(\<exists>e. GrantSourceCredit_locked c s = (Some e, s)) \<or>
        GrantSourceCredit_locked c s = (None, s\<lparr>closed_sources := smap_assign (sc_stream_id c)
          (d\<lparr>cls_acknowledged_sequence := sc_acknowledged_sequence c\<rparr>) (closed_sources s)\<rparr>)"
      by (simp add: GrantSourceCredit_locked_def Let_def None Some)
    then show ?thesis using refused tombstone [OF None Some] by blast
  qed
next
  case (Some a)
  let ?ok = "src_acknowledged_sequence a \<le> sc_acknowledged_sequence c \<and>
      sc_acknowledged_sequence c \<le> src_sequence a \<and>
      \<not> AddOverflows (src_message_credit a) (credit_messages (granted_credit c)) \<and>
      \<not> AddOverflows (src_byte_credit a) (credit_bytes (granted_credit c))"
  have "(\<exists>e. GrantSourceCredit_locked c s = (Some e, s)) \<or> ?ok \<and> GrantSourceCredit_locked c s =
      (None, s\<lparr>source_streams := smap_assign (sc_stream_id c) (credited a c) (source_streams s)\<rparr>)"
    by (simp add: GrantSourceCredit_locked_def Let_def Some credited_def not_less)
  then show ?thesis using refused stream [OF Some] by blast
qed

lemma grant_credit_step:
  assumes "smap_find sid (source_streams s) = Some a"
  shows "\<exists>b. smap_find sid (source_streams (snd (GrantSourceCredit_locked c s))) = Some b \<and>
    unat (src_message_credit b) = unat (src_message_credit a) +
      (if fst (GrantSourceCredit_locked c s) = None \<and> sc_stream_id c = sid
       then unat (credit_messages (granted_credit c)) else 0)"
proof (cases rule: GrantSourceCredit_cases [of c s])
  case (stream d)
  then show ?thesis using assms by (auto simp: credited_def AddOverflows_exact)
qed (use assms in auto)

text \<open>
  C11: over every history of publications and credit grants on one stream, the messages sent plus the
  remaining credit are the initial credit plus what was granted: the adapter never sends more than
  the Runtime allowed, and no credit is lost.
\<close>

theorem source_credit_conserved:
  assumes "smap_find sid (source_streams s) = Some a"
    and "\<forall>op \<in> set ops. case op of OpPublish items \<Rightarrow> chunk_ok items | OpCredit _ \<Rightarrow> True"
    and "source_history W sid ops s = (sent, granted, t)"
  shows "\<exists>b. smap_find sid (source_streams t) = Some b \<and>
     unat (src_message_credit b) + sent = unat (src_message_credit a) + granted"
  using assms
proof (induction W sid ops s arbitrary: a sent granted t rule: source_history.induct)
  case (2 W sid items ops s)
  obtain b where b: "smap_find sid (source_streams (snd (PublishSource W sid items s))) = Some b"
    "unat (src_message_credit b) +
      (if fst (PublishSource W sid items s) = kAccepted then length items else 0)
        = unat (src_message_credit a)"
    using publish_credit_step [OF 2(2), of items W] 2(3) by auto
  obtain sent' granted' where h: "source_history W sid ops (snd (PublishSource W sid items s))
      = (sent', granted', t)"
    and eq: "sent = (if fst (PublishSource W sid items s) = kAccepted then length items + sent' else sent')"
      "granted = granted'"
    using 2(4) by (auto simp: Let_def split: prod.splits)
  from 2(1) [OF refl b(1) _ h] 2(3) b(2) eq show ?case by auto
next
  case (3 W sid c ops s)
  obtain b where b: "smap_find sid (source_streams (snd (GrantSourceCredit_locked c s))) = Some b"
    "unat (src_message_credit b) = unat (src_message_credit a) +
      (if fst (GrantSourceCredit_locked c s) = None \<and> sc_stream_id c = sid
       then unat (credit_messages (granted_credit c)) else 0)"
    using grant_credit_step [OF 3(2)] by blast
  obtain sent' granted' where h: "source_history W sid ops (snd (GrantSourceCredit_locked c s))
      = (sent', granted', t)"
    and eq: "sent = sent'" "granted = (if fst (GrantSourceCredit_locked c s) = None \<and> sc_stream_id c = sid
       then unat (credit_messages (granted_credit c)) + granted' else granted')"
    using 3(4) by (auto simp: Let_def split: prod.splits)
  from 3(1) [OF refl b(1) _ h] 3(3) b(2) eq show ?case by auto
qed auto


subsection \<open>Acknowledgement\<close>



text \<open>When an acknowledgement is a protocol error.\<close>

fun acknowledgement_conflict :: "terminal_acknowledgement \<Rightarrow> impl \<Rightarrow> bool" where
  "acknowledgement_conflict \<lparr>ta_terminal_digest = d, ta_identity = i\<rparr> s \<longleftrightarrow>
     \<not> IsCanonicalSha256 d \<or>
     (case i of
        IdentityNotSet \<Rightarrow> True
      | WorkIdentity wid \<Rightarrow>
          wid = [] \<or> smap_mem wid (work_tokens s) \<or> smap_mem wid (source_streams s) \<or>
          smap_mem wid (closed_sources s) \<or>
          (\<exists>e. smap_find wid (replay s) = Some e \<and> re_terminal_digest e \<noteq> d)
      | StreamIdentity sid \<Rightarrow>
          sid = [] \<or> smap_mem sid (work_tokens s) \<or> smap_mem sid (source_streams s) \<or>
          smap_mem sid (replay s) \<or>
          (\<exists>c. smap_find sid (closed_sources s) = Some c \<and> cls_terminal_digest c \<noteq> d))"

text \<open>
  C27: an acknowledgement is a protocol error exactly when its digest is not canonical, it names no
  identity or an empty one, the identity is still in flight or of the other kind, or the digest is
  not the one retained.
\<close>

theorem acknowledgement_error_iff:
  "(\<exists>e. HandleTerminalAcknowledgement_locked ack s = (Some e, s)) \<longleftrightarrow> acknowledgement_conflict ack s"
proof (cases ack)
  case (fields d i)
  have "[] \<noteq> d" if "IsCanonicalSha256 d" using that by (auto simp: IsCanonicalSha256_def)
  then show ?thesis
    by (cases i) (auto simp: fields HandleTerminalAcknowledgement_locked_def split: option.splits)
qed

subsection \<open>Cancellation of an open source\<close>


end
