(* ===== verification/Results.thy ===== *)
theory Results
  imports Source_Stream
begin

text \<open>
  The result constructors of \<open>src/client.cpp\<close> and the checks every handler result passes before it
  becomes a terminal frame (\<open>HasError\<close>, \<open>HasPayload\<close>, \<open>OutputMatches\<close>, \<open>ValidateInput\<close> of
  \<open>dispatch.cpp\<close> and \<open>source_dispatch.cpp\<close>). A callback of the application is an argument: a
  function from the state to its outcome and to the state in which it returns, so that what the
  callback and the other threads do while it runs is part of the argument.
\<close>

type_synonym 'a handler = "impl \<Rightarrow> 'a callback_outcome \<times> impl"

subsection \<open>Names of states and write results\<close>

fun ToString_ClientState :: "client_state \<Rightarrow> string" where
  "ToString_ClientState kStopped = ''stopped''"
| "ToString_ClientState kConnecting = ''connecting''"
| "ToString_ClientState kRegistered = ''registered''"
| "ToString_ClientState kApplyingSpec = ''applying-spec''"
| "ToString_ClientState kReady = ''ready''"
| "ToString_ClientState kDraining = ''draining''"
| "ToString_ClientState kReconnecting = ''reconnecting''"
| "ToString_ClientState kSessionLost = ''session-lost''"
| "ToString_ClientState kStopping = ''stopping''"

fun ToString_SourceWriteResult :: "source_write_result \<Rightarrow> string" where
  "ToString_SourceWriteResult kAccepted = ''accepted''"
| "ToString_SourceWriteResult kNotReady = ''not-ready''"
| "ToString_SourceWriteResult kUnknownStream = ''unknown-stream''"
| "ToString_SourceWriteResult kNoCredit = ''no-credit''"
| "ToString_SourceWriteResult kQueueFull = ''queue-full''"
| "ToString_SourceWriteResult kTooLarge = ''too-large''"

text \<open>Both are total on the enumerations, name canonical identifiers, and distinguish every value.\<close>

lemma ToString_ClientState_inject: "ToString_ClientState a = ToString_ClientState b \<longleftrightarrow> a = b"
  by (cases a; cases b; simp)

lemma ToString_SourceWriteResult_inject:
  "ToString_SourceWriteResult a = ToString_SourceWriteResult b \<longleftrightarrow> a = b"
  by (cases a; cases b; simp)

subsection \<open>Result constructors\<close>

definition UnaryResult_Success :: "payload \<Rightarrow> unary_result" where
  "UnaryResult_Success output = \<lparr>succeeded = True, ures_output = output, ures_error = default_error\<rparr>"

definition UnaryResult_Failure :: "error_class \<Rightarrow> string \<Rightarrow> string \<Rightarrow> u32 \<Rightarrow> unary_result" where
  "UnaryResult_Failure c code msg retry = \<lparr>succeeded = False, ures_output = default_payload,
     ures_error = MakeError c code msg retry\<rparr>"

definition OperationResult_Success :: "payload \<Rightarrow> bool \<Rightarrow> operation_result" where
  "OperationResult_Success output has_output = \<lparr>ores_phase = OPERATION_PHASE_SUCCEEDED,
     ores_has_output = has_output, ores_output = output, ores_error = default_error,
     ores_native_code = 0\<rparr>"

fun failure_phase :: "error_class \<Rightarrow> operation_phase" where
  "failure_phase ERROR_CLASS_UNCERTAIN = OPERATION_PHASE_UNCERTAIN"
| "failure_phase ERROR_CLASS_CANCELLED = OPERATION_PHASE_CANCELLED"
| "failure_phase ERROR_CLASS_REJECTED = OPERATION_PHASE_REJECTED"
| "failure_phase ERROR_CLASS_DEADLINE = OPERATION_PHASE_EXPIRED"
| "failure_phase _ = OPERATION_PHASE_FAILED"

definition OperationResult_Failure :: "error_class \<Rightarrow> string \<Rightarrow> string \<Rightarrow> int \<Rightarrow> operation_result" where
  "OperationResult_Failure c code msg native = \<lparr>ores_phase = failure_phase c,
     ores_has_output = False, ores_output = default_payload, ores_error = MakeError c code msg 0,
     ores_native_code = native\<rparr>"

definition OperationResult_Rejected :: "string \<Rightarrow> string \<Rightarrow> operation_result" where
  "OperationResult_Rejected code msg = \<lparr>ores_phase = OPERATION_PHASE_REJECTED,
     ores_has_output = False, ores_output = default_payload,
     ores_error = MakeError ERROR_CLASS_REJECTED code msg 0, ores_native_code = 0\<rparr>"

definition OperationResult_Cancelled :: "string \<Rightarrow> operation_result" where
  "OperationResult_Cancelled msg = \<lparr>ores_phase = OPERATION_PHASE_CANCELLED,
     ores_has_output = False, ores_output = default_payload,
     ores_error = MakeError ERROR_CLASS_CANCELLED ''cancelled'' msg 0, ores_native_code = 0\<rparr>"

definition SourceOpenDecision_Accept :: "payload option \<Rightarrow> source_open_decision" where
  "SourceOpenDecision_Accept p = \<lparr>dec_accepted = True, dec_has_initial_payload = (p \<noteq> None),
     dec_initial_payload = message_or default_payload p, dec_error = default_error\<rparr>"

definition SourceOpenDecision_Reject ::
  "error_class \<Rightarrow> string \<Rightarrow> string \<Rightarrow> u32 \<Rightarrow> source_open_decision" where
  "SourceOpenDecision_Reject c code msg retry = \<lparr>dec_accepted = False,
     dec_has_initial_payload = False, dec_initial_payload = default_payload,
     dec_error = MakeError c code msg retry\<rparr>"

subsection \<open>Checks of results and inputs\<close>

definition HasError :: "adapter_error \<Rightarrow> bool" where
  "HasError e \<longleftrightarrow> err_class e \<noteq> ERROR_CLASS_UNSPECIFIED \<or> err_code e \<noteq> [] \<or> err_message e \<noteq> [] \<or>
     err_retry_after_ms e \<noteq> 0 \<or> err_details e \<noteq> None"

definition HasPayload :: "wire \<Rightarrow> payload \<Rightarrow> bool" where
  "HasPayload W p \<longleftrightarrow> payload_bytes W p \<noteq> 0"

definition OutputMatches :: "wire \<Rightarrow> endpoint_contract \<Rightarrow> payload \<Rightarrow> bool" where
  "OutputMatches W endpoint output \<longleftrightarrow>
     IsValidPayload W output \<and>
     SchemaMatches (message_or default_schema (output_schema endpoint)) (schema_of output)"

definition ValidateInput :: "wire \<Rightarrow> endpoint_contract \<Rightarrow> payload \<Rightarrow> bool" where
  "ValidateInput W endpoint input =
     (if \<not> SchemaMatches (message_or default_schema (input_schema endpoint)) (schema_of input)
      then False
      else IsValidPayload W input \<and>
           length (payload_value input) \<le> maximum_request_bytes (limits endpoint))"

definition IsValidSubject :: "scope_reference \<Rightarrow> bool" where
  "IsValidSubject subject =
     (if \<not> IsCanonicalIdentifier (scope_kind subject) \<or> \<not> IsCanonicalSha256 (scope_key subject) \<or>
         scope_attributes subject = [] then False
      else list_all (\<lambda>a. IsCanonicalIdentifier (fst a) \<and> IsCanonicalText (snd a))
             (scope_attributes subject))"

lemma not_HasError_default: "\<not> HasError e \<longleftrightarrow> e = default_error"
  by (cases e) (auto simp: HasError_def default_error_def)

subsection \<open>Errors the client makes itself\<close>

text \<open>
  The numbers of the error classes are generated code; the sources compare a class with the
  first and the last typed one. \<open>typed_classes_ok\<close> says that the typed classes they name lie
  between these two and that the unspecified class does not.
\<close>

definition typed_classes_ok :: "wire \<Rightarrow> bool" where
  "typed_classes_ok W \<longleftrightarrow>
     list_all (\<lambda>c. error_class_number W ERROR_CLASS_PERMANENT \<le> error_class_number W c \<and>
                   error_class_number W c \<le> error_class_number W ERROR_CLASS_RESOURCE_EXHAUSTED)
       [ERROR_CLASS_PERMANENT, ERROR_CLASS_TRANSIENT, ERROR_CLASS_REJECTED, ERROR_CLASS_DEADLINE,
        ERROR_CLASS_CANCELLED, ERROR_CLASS_UNCERTAIN, ERROR_CLASS_RESOURCE_EXHAUSTED] \<and>
     error_class_number W ERROR_CLASS_UNSPECIFIED < error_class_number W ERROR_CLASS_PERMANENT"

lemma IsTypedError_MakeError:
  assumes "typed_classes_ok W"
    and "c \<in> {ERROR_CLASS_PERMANENT, ERROR_CLASS_TRANSIENT, ERROR_CLASS_REJECTED,
      ERROR_CLASS_DEADLINE, ERROR_CLASS_CANCELLED, ERROR_CLASS_UNCERTAIN,
      ERROR_CLASS_RESOURCE_EXHAUSTED}"
    and "IsCanonicalIdentifier code" and "IsCanonicalText msg"
  shows "IsTypedError W (MakeError c code msg retry)"
  using assms by (auto simp: typed_classes_ok_def IsTypedError_def MakeError_def)

end
