(* ===== verification/Source_Dispatch.thy ===== *)
theory Source_Dispatch
  imports Results
begin

text \<open>
  \<open>src/source_dispatch.cpp\<close>: the open handler of a Host-owned source, the terminal frames the
  client makes itself, the completion of a cancelled job and the release of a Work token.
\<close>

subsection \<open>Frames the client makes\<close>

definition rejected_phase :: "error_class \<Rightarrow> operation_phase" where
  "rejected_phase c =
     (if c = ERROR_CLASS_CANCELLED then OPERATION_PHASE_CANCELLED
      else if c = ERROR_CLASS_DEADLINE then OPERATION_PHASE_EXPIRED
      else if c = ERROR_CLASS_REJECTED then OPERATION_PHASE_REJECTED
      else OPERATION_PHASE_FAILED)"

definition RejectedDispatch ::
  "int \<Rightarrow> dispatch_kind \<Rightarrow> string \<Rightarrow> string \<Rightarrow> string \<Rightarrow> error_class \<Rightarrow> work_frame" where
  "RejectedDispatch now kind work_id code msg c =
     (let err = MakeError c code msg 0
      in if kind = kUnary
         then UnaryResponseFrame \<lparr>ur_work_id = work_id, ur_output = None, ur_error = Some err\<rparr>
         else OperationEventFrame \<lparr>oe_work_id = work_id, oe_phase = rejected_phase c,
                oe_occurred_unix_nanos = now, oe_native_code = 0, oe_output = None,
                oe_error = Some err\<rparr>)"

definition OperationFrame :: "int \<Rightarrow> string \<Rightarrow> operation_phase \<Rightarrow> work_frame" where
  "OperationFrame now work_id phase =
     OperationEventFrame \<lparr>oe_work_id = work_id, oe_phase = phase, oe_occurred_unix_nanos = now,
       oe_native_code = 0, oe_output = None, oe_error = None\<rparr>"

subsection \<open>Tokens\<close>

definition EraseWorkToken :: "wire \<Rightarrow> string \<Rightarrow> impl \<Rightarrow> impl" where
  "EraseWorkToken W work_id s = MaybeQueueDrainStatusLocked W (ReleaseWorkTokenLocked work_id s)"

text \<open>Committing a frame the client has no smaller substitute for: on failure the pair is retired.\<close>

definition commit_or_fail :: "wire \<Rightarrow> dispatch_job \<Rightarrow> work_frame \<Rightarrow> string \<Rightarrow> impl \<Rightarrow> impl" where
  "commit_or_fail W job frame reason s =
     (case CommitTerminalFrame W job frame s of
        (r, t) \<Rightarrow> if r \<noteq> kCommitted then SignalCurrentSessionFailure reason t else t)"

definition CompleteCancelledJob :: "wire \<Rightarrow> int \<Rightarrow> dispatch_job \<Rightarrow> impl \<Rightarrow> impl" where
  "CompleteCancelledJob W now job s =
     EraseWorkToken W (job_work_id job)
       (commit_or_fail W job
          (RejectedDispatch now (job_kind job) (job_work_id job) ''cancelled''
             ''Work was cancelled before dispatch'' ERROR_CLASS_CANCELLED)
          ''bounded Work transport could not retain cancellation terminal'' s)"

subsection \<open>Opening a source\<close>

definition open_outcome :: "source_open_decision callback_outcome \<Rightarrow> source_open_decision" where
  "open_outcome r =
     (case r of
        Returned d \<Rightarrow> d
      | ThrewException _ \<Rightarrow> SourceOpenDecision_Reject ERROR_CLASS_PERMANENT ''handler-exception''
          ''source open handler threw an exception'' 0
      | ThrewUnknown \<Rightarrow> SourceOpenDecision_Reject ERROR_CLASS_PERMANENT ''handler-exception''
          ''source open handler threw an unknown exception'' 0)"

definition initial_payload_ok :: "wire \<Rightarrow> endpoint_contract option \<Rightarrow> payload \<Rightarrow> bool" where
  "initial_payload_ok W endpoint p \<longleftrightarrow>
     (case endpoint of
        None \<Rightarrow> False
      | Some e \<Rightarrow> IsValidPayload W p \<and>
          SchemaMatches (message_or default_schema (output_schema e)) (schema_of p) \<and>
          \<not> (maximum_response_bytes (limits e) > 0 \<and>
              length (payload_value p) > maximum_response_bytes (limits e)))"

definition check_decision ::
  "wire \<Rightarrow> endpoint_contract option \<Rightarrow> bool \<Rightarrow> source_open_decision \<Rightarrow> source_open_decision" where
  "check_decision W endpoint cancelled d =
     (if cancelled
      then SourceOpenDecision_Reject ERROR_CLASS_CANCELLED ''cancelled'' ''source open was cancelled'' 0
      else if dec_accepted d \<and>
              (HasError (dec_error d) \<or>
               (\<not> dec_has_initial_payload d \<and> HasPayload W (dec_initial_payload d)))
      then SourceOpenDecision_Reject ERROR_CLASS_PERMANENT ''invalid-handler-result''
             ''accepted source open also returned an error'' 0
      else if \<not> dec_accepted d \<and>
              (dec_has_initial_payload d \<or> HasPayload W (dec_initial_payload d) \<or>
               \<not> IsTypedError W (dec_error d))
      then SourceOpenDecision_Reject ERROR_CLASS_PERMANENT ''invalid-handler-result''
             ''rejected source open must return one typed error and no payload'' 0
      else if dec_accepted d \<and> dec_has_initial_payload d \<and>
              \<not> initial_payload_ok W endpoint (dec_initial_payload d)
      then SourceOpenDecision_Reject ERROR_CLASS_REJECTED ''initial-payload-invalid''
             ''source initial payload violates its output contract'' 0
      else d)"

definition open_result_frame :: "string \<Rightarrow> source_open_decision \<Rightarrow> work_frame" where
  "open_result_frame work_id d =
     SourceOpenResultFrame \<lparr>sor_stream_id = work_id, sor_accepted = dec_accepted d,
       sor_initial_payload = (if dec_accepted d \<and> dec_has_initial_payload d
                              then Some (dec_initial_payload d) else None),
       sor_error = (if dec_accepted d then None else Some (dec_error d))\<rparr>"

datatype open_action = OpenDone | OpenFailPair | OpenNotify source_state

text \<open>The last critical section of \<open>HandleSourceOpen\<close>: the decision takes effect.\<close>

definition SettleSourceOpen_locked ::
  "wire \<Rightarrow> dispatch_job \<Rightarrow> source_open_decision \<Rightarrow> impl \<Rightarrow> open_action \<times> impl" where
  "SettleSourceOpen_locked W job d s =
     (case smap_find (job_work_id job) (source_streams s) of
        None \<Rightarrow> (OpenDone, s)
      | Some source \<Rightarrow>
          if src_connection_epoch source \<noteq> job_connection_epoch job \<or>
             src_cancellation source \<noteq> job_cancellation job then (OpenDone, s)
          else if session_failed s \<or> stop_requested s \<or>
                  connection_epoch_counter s \<noteq> job_connection_epoch job then (OpenDone, s)
          else if length (work_queue s) \<ge> unat (maximum_work_queue (config s))
          then (OpenFailPair, s\<lparr>dropped_outbound_frames := dropped_outbound_frames s + 1\<rparr>)
          else let frame = open_result_frame (job_work_id job) d
          in if dec_accepted d
             then if \<not> WorkFrameFitsLocked W frame s then (OpenFailPair, s)
                  else case QueueWorkLocked W frame s of
                         (False, t) \<Rightarrow> (OpenFailPair, t)
                       | (True, t) \<Rightarrow>
                           let credit = message_or default_credit
                                 (so_initial_credit (job_source_open job))
                           in (OpenDone, t\<lparr>source_streams := smap_assign (job_work_id job)
                                (source\<lparr>src_phase := kOpen,
                                        src_message_credit := credit_messages credit,
                                        src_byte_credit := credit_bytes credit\<rparr>)
                                (source_streams t)\<rparr>)
             else case CommitSourceTerminalLocked W (job_work_id job) source frame s of
                    (False, t) \<Rightarrow> (OpenFailPair, t)
                  | (True, t) \<Rightarrow>
                      (if err_class (dec_error d) = ERROR_CLASS_CANCELLED
                       then OpenNotify source else OpenDone,
                       t\<lparr>source_streams := smap_erase (job_work_id job) (source_streams t)\<rparr>))"

definition SettleSourceOpen ::
  "wire \<Rightarrow> dispatch_job \<Rightarrow> source_open_decision \<Rightarrow> impl \<Rightarrow> impl" where
  "SettleSourceOpen W job d s =
     (case SettleSourceOpen_locked W job d s of
        (OpenDone, t) \<Rightarrow> t
      | (OpenFailPair, t) \<Rightarrow>
          SignalCurrentSessionFailure ''bounded Work queue could not send SourceOpenResult'' t
      | (OpenNotify source, t) \<Rightarrow> NotifySourceClosed source (dec_error d) t)"

text \<open>Invoking the bound callback; an empty \<open>std::function\<close> throws \<open>std::bad_function_call\<close>.\<close>

definition invoke :: "bool \<Rightarrow> callback_event \<Rightarrow> 'a handler \<Rightarrow> 'a handler" where
  "invoke bound event callback s =
     (if bound then callback (s\<lparr>callback_log := callback_log s @ [event]\<rparr>)
      else (ThrewException ''bad_function_call'', s))"

definition HandleSourceOpen ::
  "wire \<Rightarrow> source_open_decision handler \<Rightarrow> dispatch_job \<Rightarrow> impl \<Rightarrow> impl" where
  "HandleSourceOpen W callback job s =
     (let initial = message_or default_source (smap_find (job_work_id job) (source_streams s))
      in if src_cancellation initial = None \<or> src_connection_epoch initial \<noteq> job_connection_epoch job
         then s
         else let binding = capabilities (config s) ! src_binding_index initial;
                  endpoint = FindEndpoint (contract binding)
                    (wc_endpoint_id (context_of (so_context (job_source_open job))));
                  r =
                    (if IsCancellationRequested s (job_cancellation job)
                     then (SourceOpenDecision_Reject ERROR_CLASS_CANCELLED ''cancelled''
                             ''source open was cancelled before dispatch'' 0, s)
                     else apfst open_outcome
                       (invoke (cb_source_open (callbacks binding))
                          (CalledSourceOpen (src_binding_index initial) (job_source_open job))
                          callback s))
              in SettleSourceOpen W job
                   (check_decision W endpoint
                      (IsCancellationRequested (snd r) (job_cancellation job)) (fst r)) (snd r))"

subsection \<open>The decision that is reported\<close>

text \<open>
  Whatever the application returns, what goes out is either an acceptance without an error, whose
  payload (if any) satisfies the output contract, or one typed error and no payload.
\<close>

definition decision_ok :: "wire \<Rightarrow> endpoint_contract option \<Rightarrow> source_open_decision \<Rightarrow> bool" where
  "decision_ok W endpoint d \<longleftrightarrow>
     (if dec_accepted d
      then \<not> HasError (dec_error d) \<and>
           (dec_has_initial_payload d \<longrightarrow> initial_payload_ok W endpoint (dec_initial_payload d))
      else \<not> dec_has_initial_payload d \<and> IsTypedError W (dec_error d))"

lemma source_error_texts:
  "list_all IsCanonicalIdentifier [''cancelled'', ''invalid-handler-result'', ''initial-payload-invalid'']"
  "list_all IsCanonicalText [''source open was cancelled'',
     ''accepted source open also returned an error'',
     ''rejected source open must return one typed error and no payload'',
     ''source initial payload violates its output contract'']"
  by code_simp+

lemma check_decision_ok:
  assumes "typed_classes_ok W"
  shows "decision_ok W endpoint (check_decision W endpoint cancelled d)"
proof -
  have reject: "decision_ok W endpoint (SourceOpenDecision_Reject c code msg 0)"
    if "c \<in> {ERROR_CLASS_CANCELLED, ERROR_CLASS_PERMANENT, ERROR_CLASS_REJECTED}"
      "IsCanonicalIdentifier code" "IsCanonicalText msg" for c code msg
    using that IsTypedError_MakeError [OF assms, of c code msg 0]
    by (auto simp: decision_ok_def SourceOpenDecision_Reject_def)
  show ?thesis
    using source_error_texts
    by (auto simp: check_decision_def decision_ok_def [of W endpoint d] intro!: reject)
qed

subsection \<open>The books\<close>

lemma same_books_log [simp]: "same_books s (s\<lparr>callback_log := l\<rparr>)"
  by (simp add: same_books_def)

lemma books_EraseWorkToken: "books_ok k s \<Longrightarrow> books_ok k (EraseWorkToken W work_id s)"
  by (simp add: EraseWorkToken_def books_MaybeQueueDrainStatus books_ReleaseWorkToken)

lemma books_commit_or_fail: "books_ok k s \<Longrightarrow> books_ok k (commit_or_fail W job frame reason s)"
  using books_CommitTerminalFrame [of k s W job frame]
  by (auto simp: commit_or_fail_def split: prod.split intro: same_books_ok [OF same_books_SignalCurrent])

lemma books_CompleteCancelledJob: "books_ok k s \<Longrightarrow> books_ok k (CompleteCancelledJob W now job s)"
  by (simp add: CompleteCancelledJob_def books_EraseWorkToken books_commit_or_fail)

lemma books_SettleSourceOpen_locked:
  assumes "books_ok k s"
  shows "books_ok k (snd (SettleSourceOpen_locked W job d s))"
proof -
  have opened: "books_ok k (push_work (work_entry W s f) s
      \<lparr>source_streams := smap_assign sid v (source_streams s)\<rparr>)"
    if "can_queue_work W s f" "smap_find sid (source_streams s) = Some u"
      "src_accounted_bytes v = src_accounted_bytes u" for f sid u v
    using books_stream_update [of k "push_work (work_entry W s f) s" sid u v] that
      books_queue_work [OF assms that(1)] by simp
  show ?thesis using assms
    by (auto simp: SettleSourceOpen_locked_def Let_def QueueWorkLocked_iff
        split: option.split prod.split bool.split
        intro: opened books_commit_and_erase same_books_ok [OF same_books_dropped])
qed

lemma books_SettleSourceOpen: "books_ok k s \<Longrightarrow> books_ok k (SettleSourceOpen W job d s)"
  using books_SettleSourceOpen_locked [of k s W job d]
  by (auto simp: SettleSourceOpen_def split: prod.split open_action.split
      intro: same_books_ok [OF same_books_SignalCurrent] same_books_ok [OF same_books_NotifySourceClosed])

text \<open>A callback that leaves the books in order while it runs.\<close>

definition keeps_books :: "'a handler \<Rightarrow> bool" where
  "keeps_books callback \<longleftrightarrow> (\<forall>k s. books_ok k s \<longrightarrow> books_ok k (snd (callback s)))"

lemma books_invoke:
  "books_ok k s \<Longrightarrow> keeps_books callback \<Longrightarrow> books_ok k (snd (invoke bound event callback s))"
  by (auto simp: invoke_def keeps_books_def same_books_ok [OF same_books_log])

lemma books_HandleSourceOpen:
  assumes "books_ok k s" and "keeps_books callback"
  shows "books_ok k (HandleSourceOpen W callback job s)"
  using assms
  by (auto simp: HandleSourceOpen_def Let_def intro!: books_SettleSourceOpen books_invoke)

end
