(* ===== verification/Dispatch.thy ===== *)
theory Dispatch
  imports Source_Dispatch
begin

text \<open>
  \<open>src/dispatch.cpp\<close>: admission of Work (identity, replay, bounds, reservation), the dispatch
  loop, the validation of a Work context, and the unary and operation handlers. \<open>clock i\<close> is what
  the \<open>i\<close>-th call of \<open>UnixNanos\<close> in an operation returns.
\<close>

subsection \<open>Admission of unary and operation Work\<close>

datatype enqueue_action =
    Enqueued | IdentityViolation | RetirePair | ReplayImmediate work_frame
  | CommitImmediate work_frame

definition stream_uses_work_id :: "string \<Rightarrow> impl \<Rightarrow> bool" where
  "stream_uses_work_id work_id s \<longleftrightarrow>
     list_ex (\<lambda>e. wc_work_id (context_of (so_context (src_request (snd e)))) = work_id)
       (source_streams s)"

definition count_rejected :: "impl \<Rightarrow> impl" where
  "count_rejected s = s\<lparr>rejected_dispatches := rejected_dispatches s + 1\<rparr>"

definition replayed_frame :: "dispatch_kind \<Rightarrow> replay_entry \<Rightarrow> work_frame" where
  "replayed_frame kind entry =
     (if kind = kUnary then UnaryResponseFrame (re_unary entry)
      else OperationEventFrame (re_operation entry))"

definition AdmitWork_locked :: "dispatch_job \<Rightarrow> impl \<Rightarrow> enqueue_action \<times> impl" where
  "AdmitWork_locked job s =
     (let (p, t) = make_cancellation s; job = job\<lparr>job_cancellation := Some p\<rparr>
      in case ReserveTerminalReplayLocked job t of
           None \<Rightarrow> (RetirePair, t)
         | Some (job, u) \<Rightarrow>
             (Enqueued, push_job job (u\<lparr>work_tokens := smap_emplace (job_work_id job)
                \<lparr>token_cancellation = job_cancellation job,
                 token_reservation_bytes = job_terminal_reservation_bytes job\<rparr>
                (work_tokens u)\<rparr>)))"

definition EnqueueDispatch_locked :: "int \<Rightarrow> dispatch_job \<Rightarrow> impl \<Rightarrow> enqueue_action \<times> impl" where
  "EnqueueDispatch_locked now job s =
     (let rejected = (\<lambda>code msg. (CommitImmediate (RejectedDispatch now (job_kind job)
            (job_work_id job) code msg ERROR_CLASS_REJECTED), count_rejected s));
          violation = (IdentityViolation, count_rejected s)
      in if job_work_id job \<noteq> [] \<and> smap_mem (job_work_id job) (replay s)
         then let entry = the (smap_find (job_work_id job) (replay s))
              in if re_kind entry = job_kind job \<and> re_fingerprint entry = job_fingerprint job
                 then (ReplayImmediate (replayed_frame (job_kind job) entry), count_rejected s)
                 else violation
         else if job_work_id job = [] then violation
         else if \<not> accepting_work s \<or> cl_state s \<noteq> kReady
         then rejected ''not-ready'' ''capabilities are not ready for Work''
         else if smap_mem (job_work_id job) (work_tokens s) then violation
         else if stream_uses_work_id (job_work_id job) s then violation
         else if length (dispatch_queue s) \<ge> unat (maximum_dispatch_queue (config s))
         then rejected ''dispatch-queue-full'' ''bounded dispatch queue is full''
         else if \<not> FitsByteBudget (dispatch_queue_bytes s) (job_accounted_bytes job)
                   (maximum_dispatch_queue_bytes (config s))
         then rejected ''dispatch-byte-budget'' ''dispatch byte budget is exhausted''
         else AdmitWork_locked job s)"

text \<open>\<open>if (!QueueWork(frame)) SignalCurrentSessionFailure(reason)\<close>\<close>

definition queue_or_signal :: "wire \<Rightarrow> work_frame \<Rightarrow> string \<Rightarrow> impl \<Rightarrow> impl" where
  "queue_or_signal W frame reason s =
     (case QueueWorkLocked W frame s of
        (True, t) \<Rightarrow> t | (False, t) \<Rightarrow> SignalCurrentSessionFailure reason t)"

definition EnqueueDispatch :: "wire \<Rightarrow> int \<Rightarrow> dispatch_job \<Rightarrow> impl \<Rightarrow> impl" where
  "EnqueueDispatch W now job s =
     (case EnqueueDispatch_locked now job s of
        (Enqueued, t) \<Rightarrow> t
      | (IdentityViolation, t) \<Rightarrow>
          QueueWorkProtocolError W (job_inbound_frame_sequence job)
            ''Work request must use one exact, unused nonempty work_id identity'' t
      | (RetirePair, t) \<Rightarrow> SignalCurrentSessionFailure
          ''terminal replay identity or byte budget requires connection-pair retirement'' t
      | (ReplayImmediate frame, t) \<Rightarrow>
          queue_or_signal W frame ''Work queue rejected dispatch response'' t
      | (CommitImmediate frame, t) \<Rightarrow>
          commit_or_fail W job frame
            (''bounded Work transport could not retain immediate terminal for '' @ job_work_id job) t)"

definition normalize_context :: "work_context option \<Rightarrow> int \<Rightarrow> work_context" where
  "normalize_context c received =
     (context_of c)\<lparr>wc_deadline := Some (NormalizeDeadline (deadline_of (context_of c)) received)\<rparr>"

definition RequestFingerprint :: "work_context \<Rightarrow> string" where
  "RequestFingerprint c = wc_request_digest c"

definition unary_job :: "wire \<Rightarrow> int \<Rightarrow> work_input \<Rightarrow> u64 \<Rightarrow> dispatch_job" where
  "unary_job W received request frame_sequence =
     (let unary = request\<lparr>wi_context := Some (normalize_context (wi_context request) received)\<rparr>
      in default_job\<lparr>job_kind := kUnary, job_work_id := wc_work_id (context_of (wi_context request)),
           job_fingerprint := RequestFingerprint (context_of (wi_context request)),
           job_inbound_frame_sequence := frame_sequence, job_unary := unary,
           job_accounted_bytes := unary_request_bytes W unary\<rparr>)"

definition operation_job :: "wire \<Rightarrow> int \<Rightarrow> work_input \<Rightarrow> u64 \<Rightarrow> dispatch_job" where
  "operation_job W received request frame_sequence =
     (let operation = request\<lparr>wi_context := Some (normalize_context (wi_context request) received)\<rparr>
      in default_job\<lparr>job_kind := kOperation,
           job_work_id := wc_work_id (context_of (wi_context request)),
           job_fingerprint := RequestFingerprint (context_of (wi_context request)),
           job_inbound_frame_sequence := frame_sequence, job_operation := operation,
           job_accounted_bytes := operation_request_bytes W operation\<rparr>)"

definition source_open_job :: "wire \<Rightarrow> int \<Rightarrow> source_open_request \<Rightarrow> u64 \<Rightarrow> dispatch_job" where
  "source_open_job W received request frame_sequence =
     (let open_request = request\<lparr>so_context := Some (normalize_context (so_context request) received)\<rparr>
      in default_job\<lparr>job_kind := kSourceOpen,
           job_work_id := wc_work_id (context_of (so_context request)),
           job_fingerprint := RequestFingerprint (context_of (so_context request)),
           job_inbound_frame_sequence := frame_sequence, job_source_open := open_request,
           job_accounted_bytes := source_open_request_bytes W open_request\<rparr>)"

definition EnqueueUnary :: "wire \<Rightarrow> (nat \<Rightarrow> int) \<Rightarrow> work_input \<Rightarrow> u64 \<Rightarrow> impl \<Rightarrow> impl" where
  "EnqueueUnary W clock request frame_sequence s =
     EnqueueDispatch W (clock 1) (unary_job W (clock 0) request frame_sequence) s"

definition EnqueueOperation :: "wire \<Rightarrow> (nat \<Rightarrow> int) \<Rightarrow> work_input \<Rightarrow> u64 \<Rightarrow> impl \<Rightarrow> impl" where
  "EnqueueOperation W clock request frame_sequence s =
     EnqueueDispatch W (clock 1) (operation_job W (clock 0) request frame_sequence) s"

subsection \<open>Validation of a Work context\<close>

definition expected_mode :: "dispatch_kind \<Rightarrow> interaction_mode" where
  "expected_mode kind =
     (case kind of kUnary \<Rightarrow> INTERACTION_MODE_UNARY | kOperation \<Rightarrow> INTERACTION_MODE_OPERATION
      | kSourceOpen \<Rightarrow> INTERACTION_MODE_STREAM_SOURCE)"

definition ValidateWorkContextLocked ::
  "wire \<Rightarrow> int \<Rightarrow> work_context \<Rightarrow> dispatch_kind \<Rightarrow> impl \<Rightarrow> string + (nat \<times> endpoint_contract)" where
  "ValidateWorkContextLocked W now c kind s =
     (if \<not> accepting_work s \<or> cl_state s \<noteq> kReady \<or> session_failed s
      then Inl ''Runtime Link is not ready''
      else if wc_spec_revision c \<noteq> spec_revision s
      then Inl ''Work references a stale spec revision''
      else case FindActiveEndpointLocked s (wc_capability_id c) (wc_endpoint_id c) of
        None \<Rightarrow> Inl ''Work does not match an active capability contract''
      | Some active \<Rightarrow>
          let e = ae_endpoint active; due = deadline_unix_nanos (deadline_of c)
          in if wc_contract_version c \<noteq> ec_contract_version (ae_grant active) \<or>
                wc_contract_digest c \<noteq> ec_contract_digest (ae_grant active)
          then Inl ''Work does not match an active capability contract''
          else if interaction e \<noteq> expected_mode kind
          then Inl ''Work interaction mode does not match the endpoint''
          else if deadline_required e \<and> due \<le> 0 then Inl ''endpoint requires a deadline''
          else if due > 0 \<and> now \<ge> due then Inl ''Work deadline has expired''
          else if idempotency_mode e = idempotency_required W \<and> wc_idempotency_key c = []
          then Inl ''endpoint requires an idempotency key''
          else if \<not> IsCanonicalSha256 (wc_request_digest c)
          then Inl ''Work request_digest must use sha256:<lowercase-hex>''
          else case wc_subject c of
                 None \<Rightarrow> Inl ''Work subject is missing or non-canonical''
               | Some subject \<Rightarrow>
                   if \<not> IsValidSubject subject
                   then Inl ''Work subject is missing or non-canonical''
                   else Inr (ae_binding_index active, e))"

subsection \<open>Admission of a source\<close>

definition source_bytes :: "dispatch_job \<Rightarrow> impl \<Rightarrow> size_t option" where
  "source_bytes job s =
     (let digest_bytes = 71 :: size_t; fingerprint = of_nat (length (job_fingerprint job)) :: size_t
      in if fingerprint > - 1 - digest_bytes then None
         else let metadata = digest_bytes + fingerprint;
                  frame = ucast (maximum_work_frame_bytes s) :: size_t
              in if frame > - 1 - metadata then None
                 else let metadata = metadata + frame
                      in if job_accounted_bytes job > - 1 - metadata then None
                         else Some (job_accounted_bytes job + metadata))"

definition source_fits :: "dispatch_job \<Rightarrow> impl \<Rightarrow> bool" where
  "source_fits job s =
     (case source_bytes job s of None \<Rightarrow> False
      | Some bytes \<Rightarrow> FitsByteBudget (source_state_bytes s) bytes (maximum_source_state_bytes (config s)))"

datatype open_verdict =
    OpenReplay work_frame | OpenViolation | OpenRetire | OpenReject error_class string string
  | OpenAdmit nat endpoint_contract

text \<open>The chain of conditions of \<open>EnqueueSourceOpen\<close>, in the order of the source.\<close>

definition judge_source_open ::
  "wire \<Rightarrow> int \<Rightarrow> source_open_request \<Rightarrow> dispatch_job \<Rightarrow> impl \<Rightarrow> open_verdict" where
  "judge_source_open W now request job s =
     (let c = context_of (so_context request); wid = job_work_id job;
          credit = message_or default_credit (so_initial_credit request);
          duplicate = smap_mem wid (work_tokens s) \<or> smap_mem wid (replay s) \<or>
                      stream_uses_work_id wid s
      in if wid \<noteq> [] \<and> smap_mem wid (closed_sources s)
         then let closed = the (smap_find wid (closed_sources s))
              in if cls_fingerprint closed = job_fingerprint job \<and> cls_terminal_digest closed \<noteq> []
                 then OpenReplay (cls_terminal_frame closed) else OpenViolation
         else if wid \<noteq> [] \<and> (smap_mem wid (source_streams s) \<or> duplicate) then OpenViolation
         else if wid = [] then OpenViolation
         else if wc_capability_id c = [] \<or> wc_endpoint_id c = []
         then OpenReject ERROR_CLASS_REJECTED ''invalid-source-open''
                ''source stream and WorkContext identity must not be empty''
         else if so_initial_credit request = None \<or> credit_messages credit = 0 \<or>
                 credit_bytes credit = 0
         then OpenReject ERROR_CLASS_REJECTED ''invalid-initial-credit''
                ''source open requires positive message and byte credit''
         else case ValidateWorkContextLocked W now (context_of (so_context (job_source_open job)))
                     kSourceOpen s of
           Inl e \<Rightarrow> OpenReject ERROR_CLASS_REJECTED ''invalid-work-context'' e
         | Inr (binding_index, endpoint) \<Rightarrow>
             if \<not> cb_source_open (callbacks (capabilities (config s) ! binding_index))
             then OpenReject ERROR_CLASS_REJECTED ''handler-not-bound''
                    ''source endpoint has no bound open handler''
             else if length (source_streams s) + length (closed_sources s)
                       \<ge> unat (maximum_source_tombstones (config s)) then OpenRetire
             else if length (source_streams s) \<ge> unat (maximum_source_streams (config s))
             then OpenReject ERROR_CLASS_RESOURCE_EXHAUSTED ''source-stream-limit''
                    ''global source stream limit is exhausted''
             else if maximum_streams (limits endpoint) > 0 \<and>
                     CountSourceStreamsLocked s (wc_capability_id c) (wc_endpoint_id c)
                       \<ge> maximum_streams (limits endpoint)
             then OpenReject ERROR_CLASS_RESOURCE_EXHAUSTED ''endpoint-stream-limit''
                    ''endpoint source stream limit is exhausted''
             else if length (dispatch_queue s) \<ge> unat (maximum_dispatch_queue (config s))
             then OpenReject ERROR_CLASS_RESOURCE_EXHAUSTED ''dispatch-queue-full''
                    ''bounded dispatch queue is full''
             else if \<not> FitsByteBudget (dispatch_queue_bytes s) (job_accounted_bytes job)
                       (maximum_dispatch_queue_bytes (config s))
             then OpenReject ERROR_CLASS_RESOURCE_EXHAUSTED ''dispatch-byte-budget''
                    ''dispatch byte budget is exhausted''
             else if \<not> source_fits job s then OpenRetire
             else OpenAdmit binding_index endpoint)"

definition opening_source ::
  "nat \<Rightarrow> endpoint_contract \<Rightarrow> dispatch_job \<Rightarrow> cancellation_ptr \<Rightarrow> size_t \<Rightarrow> impl \<Rightarrow> source_state" where
  "opening_source binding_index endpoint job p bytes s =
     default_source\<lparr>src_request := job_source_open job, src_binding_index := binding_index,
       src_cancellation := Some p, src_connection_epoch := connection_epoch_counter s,
       src_maximum_chunk_bytes := maximum_stream_chunk_bytes (limits endpoint),
       src_maximum_chunk_messages := maximum_stream_chunk_messages (limits endpoint),
       src_accounted_bytes := bytes\<rparr>"

definition AdmitSource_locked :: "nat \<Rightarrow> endpoint_contract \<Rightarrow> dispatch_job \<Rightarrow> impl \<Rightarrow> impl" where
  "AdmitSource_locked binding_index endpoint job s =
     (let bytes = the (source_bytes job s); (p, t) = make_cancellation s
      in push_job (job\<lparr>job_cancellation := Some p, job_connection_epoch := connection_epoch_counter s\<rparr>)
           (t\<lparr>source_state_bytes := source_state_bytes t + bytes,
              source_streams := smap_emplace (job_work_id job)
                (opening_source binding_index endpoint job p bytes s) (source_streams t)\<rparr>))"

text \<open>A rejected open is a terminal too: it is retained as a tombstone, or the pair is retired.\<close>

definition RejectSource_locked :: "wire \<Rightarrow> work_frame \<Rightarrow> dispatch_job \<Rightarrow> impl \<Rightarrow> enqueue_action \<times> impl" where
  "RejectSource_locked W frame job s =
     (if length (source_streams s) + length (closed_sources s)
           \<ge> unat (maximum_source_tombstones (config s)) \<or> \<not> source_fits job s
      then (RetirePair, s)
      else let bytes = the (source_bytes job s); (p, t) = make_cancellation s;
               source = default_source\<lparr>src_request := job_source_open job,
                 src_cancellation := Some p, src_connection_epoch := connection_epoch_counter s,
                 src_accounted_bytes := bytes\<rparr>
           in case CommitSourceTerminalLocked W (job_work_id job) source frame
                     (t\<lparr>source_state_bytes := source_state_bytes t + bytes\<rparr>) of
                (True, u) \<Rightarrow> (Enqueued, u)
              | (False, u) \<Rightarrow> (RetirePair, u\<lparr>source_state_bytes := source_state_bytes u - bytes\<rparr>))"

definition EnqueueSourceOpen_locked ::
  "wire \<Rightarrow> int \<Rightarrow> source_open_request \<Rightarrow> dispatch_job \<Rightarrow> impl \<Rightarrow> enqueue_action \<times> impl" where
  "EnqueueSourceOpen_locked W now request job s =
     (case judge_source_open W now request job s of
        OpenReplay frame \<Rightarrow> (ReplayImmediate frame, s)
      | OpenViolation \<Rightarrow> (IdentityViolation, count_rejected s)
      | OpenRetire \<Rightarrow> (RetirePair, s)
      | OpenReject c code msg \<Rightarrow>
          RejectSource_locked W (SourceOpenRejected (job_work_id job) (MakeError c code msg 0)) job
            (count_rejected s)
      | OpenAdmit binding_index endpoint \<Rightarrow>
          (Enqueued, AdmitSource_locked binding_index endpoint job s))"

definition EnqueueSourceOpen :: "wire \<Rightarrow> (nat \<Rightarrow> int) \<Rightarrow> source_open_request \<Rightarrow> u64 \<Rightarrow> impl \<Rightarrow> impl" where
  "EnqueueSourceOpen W clock request frame_sequence s =
     (let job = source_open_job W (clock 0) request frame_sequence
      in case EnqueueSourceOpen_locked W (clock 1) request job s of
           (IdentityViolation, t) \<Rightarrow>
             QueueWorkProtocolError W (job_inbound_frame_sequence job)
               ''SourceOpenRequest must use one exact, unused context.work_id identity'' t
         | (RetirePair, t) \<Rightarrow> SignalCurrentSessionFailure
             ''source identity or byte budget requires connection-pair retirement'' t
         | (ReplayImmediate frame, t) \<Rightarrow>
             queue_or_signal W frame ''Work queue rejected SourceOpenResult'' t
         | (_, t) \<Rightarrow> t)"

subsection \<open>Unary Work\<close>

definition unary_outcome :: "unary_result callback_outcome \<Rightarrow> unary_result" where
  "unary_outcome r =
     (case r of
        Returned result \<Rightarrow> result
      | ThrewException _ \<Rightarrow> UnaryResult_Failure ERROR_CLASS_PERMANENT ''handler-exception''
          ''unary handler threw an exception'' 0
      | ThrewUnknown \<Rightarrow> UnaryResult_Failure ERROR_CLASS_PERMANENT ''handler-exception''
          ''unary handler threw an unknown exception'' 0)"

definition check_unary_result ::
  "wire \<Rightarrow> endpoint_contract \<Rightarrow> bool \<Rightarrow> unary_result \<Rightarrow> unary_result" where
  "check_unary_result W endpoint cancelled r =
     (if succeeded r \<and> (HasError (ures_error r) \<or> \<not> OutputMatches W endpoint (ures_output r))
      then UnaryResult_Failure ERROR_CLASS_PERMANENT ''invalid-handler-result''
             ''unary handler returned a malformed success result'' 0
      else if \<not> succeeded r \<and> (HasPayload W (ures_output r) \<or> \<not> IsTypedError W (ures_error r))
      then UnaryResult_Failure ERROR_CLASS_PERMANENT ''invalid-handler-result''
             ''unary handler returned a malformed failure result'' 0
      else if succeeded r \<and>
              length (payload_value (ures_output r)) > maximum_response_bytes (limits endpoint)
      then UnaryResult_Failure ERROR_CLASS_RESOURCE_EXHAUSTED ''response-too-large''
             ''unary output exceeds its contract limit'' 0
      else if cancelled \<and> succeeded r
      then UnaryResult_Failure ERROR_CLASS_CANCELLED ''cancelled'' ''unary work was cancelled'' 0
      else r)"

definition unary_response_of :: "string \<Rightarrow> unary_result \<Rightarrow> unary_response" where
  "unary_response_of work_id r =
     \<lparr>ur_work_id = work_id, ur_output = (if succeeded r then Some (ures_output r) else None),
      ur_error = (if succeeded r then None else Some (ures_error r))\<rparr>"

text \<open>A result too large for a frame is replaced by a compact error, which is committed instead.\<close>

definition commit_with_fallback ::
  "wire \<Rightarrow> dispatch_job \<Rightarrow> work_frame \<Rightarrow> work_frame \<Rightarrow> string \<Rightarrow> impl \<Rightarrow> impl" where
  "commit_with_fallback W job frame fallback reason s =
     (let (r, t) = (case CommitTerminalFrame W job frame s of
                      (kCommitTooLarge, t) \<Rightarrow> CommitTerminalFrame W job fallback t
                    | rt \<Rightarrow> rt)
      in if r \<noteq> kCommitted then SignalCurrentSessionFailure reason t else t)"

definition unary_fallback :: "string \<Rightarrow> work_frame" where
  "unary_fallback work_id =
     UnaryResponseFrame \<lparr>ur_work_id = work_id, ur_output = None,
       ur_error = Some (MakeError ERROR_CLASS_RESOURCE_EXHAUSTED ''response-too-large''
         ''unary result exceeds the Work frame limit'' 0)\<rparr>"

definition HandleUnary ::
  "wire \<Rightarrow> int \<Rightarrow> unary_result handler \<Rightarrow> dispatch_job \<Rightarrow> nat \<Rightarrow> impl \<Rightarrow> impl" where
  "HandleUnary W now callback job binding_index s =
     (let binding = capabilities (config s) ! binding_index
      in case FindEndpoint (contract binding)
                (wc_endpoint_id (context_of (wi_context (job_unary job)))) of
           Some endpoint \<Rightarrow>
             if \<not> ValidateInput W endpoint (message_or default_payload (wi_input (job_unary job)))
             then commit_or_fail W job
               (RejectedDispatch now kUnary (job_work_id job) ''input-schema-mismatch''
                  ''unary input does not match its contract'' ERROR_CLASS_REJECTED)
               ''bounded Work transport could not retain unary input rejection'' s
             else let r = invoke (cb_unary (callbacks binding)) (CalledUnary binding_index (job_unary job))
                        callback s;
                      result = check_unary_result W endpoint
                        (IsCancellationRequested (snd r) (job_cancellation job)) (unary_outcome (fst r))
                  in commit_with_fallback W job
                       (UnaryResponseFrame (unary_response_of (job_work_id job) result))
                       (unary_fallback (job_work_id job))
                       ''bounded Work transport could not commit the unary terminal result'' (snd r)
         | None \<Rightarrow> commit_or_fail W job
             (RejectedDispatch now kUnary (job_work_id job) ''input-schema-mismatch''
                ''unary input does not match its contract'' ERROR_CLASS_REJECTED)
             ''bounded Work transport could not retain unary input rejection'' s)"

subsection \<open>Operation Work\<close>

definition operation_outcome :: "operation_result callback_outcome \<Rightarrow> operation_result" where
  "operation_outcome r =
     (case r of
        Returned result \<Rightarrow> result
      | ThrewException _ \<Rightarrow> OperationResult_Failure ERROR_CLASS_PERMANENT ''handler-exception''
          ''operation handler threw an exception'' 0
      | ThrewUnknown \<Rightarrow> OperationResult_Failure ERROR_CLASS_PERMANENT ''handler-exception''
          ''operation handler threw an unknown exception'' 0)"

definition operation_malformed :: "wire \<Rightarrow> endpoint_contract \<Rightarrow> operation_result \<Rightarrow> bool" where
  "operation_malformed W endpoint r \<longleftrightarrow>
     \<not> IsTerminal (ores_phase r) \<or>
     (ores_phase r = OPERATION_PHASE_SUCCEEDED \<and>
      (HasError (ores_error r) \<or>
       (ores_has_output r \<and> \<not> OutputMatches W endpoint (ores_output r)) \<or>
       (\<not> ores_has_output r \<and> HasPayload W (ores_output r)))) \<or>
     (ores_phase r \<noteq> OPERATION_PHASE_SUCCEEDED \<and>
      (ores_has_output r \<or> HasPayload W (ores_output r) \<or> \<not> IsTypedError W (ores_error r) \<or>
       \<not> ErrorMatchesOperationPhase (ores_phase r) (err_class (ores_error r))))"

definition check_operation_result ::
  "wire \<Rightarrow> endpoint_contract \<Rightarrow> operation_result \<Rightarrow> operation_result" where
  "check_operation_result W endpoint r =
     (if operation_malformed W endpoint r
      then OperationResult_Failure ERROR_CLASS_PERMANENT ''invalid-handler-result''
             ''operation handler returned a malformed terminal result'' 0
      else if ores_has_output r \<and>
              length (payload_value (ores_output r)) > maximum_response_bytes (limits endpoint)
      then OperationResult_Failure ERROR_CLASS_RESOURCE_EXHAUSTED ''response-too-large''
             ''operation output exceeds its contract limit'' 0
      else r)"

definition operation_event_of :: "int \<Rightarrow> string \<Rightarrow> operation_result \<Rightarrow> operation_event" where
  "operation_event_of now work_id r =
     \<lparr>oe_work_id = work_id, oe_phase = ores_phase r, oe_occurred_unix_nanos = now,
      oe_native_code = ores_native_code r,
      oe_output = (if ores_has_output r then Some (ores_output r) else None),
      oe_error = (if err_code (ores_error r) \<noteq> [] \<or> err_class (ores_error r) \<noteq> ERROR_CLASS_UNSPECIFIED
                  then Some (ores_error r) else None)\<rparr>"

definition operation_fallback :: "int \<Rightarrow> string \<Rightarrow> work_frame" where
  "operation_fallback now work_id =
     OperationEventFrame \<lparr>oe_work_id = work_id, oe_phase = OPERATION_PHASE_FAILED,
       oe_occurred_unix_nanos = now, oe_native_code = 0, oe_output = None,
       oe_error = Some (MakeError ERROR_CLASS_RESOURCE_EXHAUSTED ''response-too-large''
         ''operation result exceeds the Work frame limit'' 0)\<rparr>"

text \<open>The lifecycle events; the second is queued only when the first was.\<close>

definition queue_lifecycle :: "wire \<Rightarrow> (nat \<Rightarrow> int) \<Rightarrow> string \<Rightarrow> impl \<Rightarrow> bool \<times> impl" where
  "queue_lifecycle W clock work_id s =
     (case QueueWorkLocked W (OperationFrame (clock 0) work_id OPERATION_PHASE_ACCEPTED) s of
        (False, t) \<Rightarrow> (False, t)
      | (True, t) \<Rightarrow>
          QueueWorkLocked W (OperationFrame (clock 1) work_id OPERATION_PHASE_STARTED) t)"

definition HandleOperation ::
  "wire \<Rightarrow> (nat \<Rightarrow> int) \<Rightarrow> operation_result handler \<Rightarrow> dispatch_job \<Rightarrow> nat \<Rightarrow> impl \<Rightarrow> impl" where
  "HandleOperation W clock callback job binding_index s =
     (let binding = capabilities (config s) ! binding_index;
          reject = commit_or_fail W job
            (RejectedDispatch (clock 0) kOperation (job_work_id job) ''input-schema-mismatch''
               ''operation input does not match its contract'' ERROR_CLASS_REJECTED)
            ''bounded Work transport could not retain operation input rejection'' s
      in case FindEndpoint (contract binding)
                (wc_endpoint_id (context_of (wi_context (job_operation job)))) of
           None \<Rightarrow> reject
         | Some endpoint \<Rightarrow>
             if \<not> ValidateInput W endpoint (message_or default_payload (wi_input (job_operation job)))
             then reject
             else case queue_lifecycle W clock (job_work_id job) s of
               (False, t) \<Rightarrow> SignalCurrentSessionFailure
                 ''bounded Work transport could not send operation lifecycle events'' t
             | (True, t) \<Rightarrow>
                 let r = invoke (cb_operation (callbacks binding))
                       (CalledOperation binding_index (job_operation job)) callback t;
                     result = check_operation_result W endpoint (operation_outcome (fst r))
                 in commit_with_fallback W job
                      (OperationEventFrame (operation_event_of (clock 2) (job_work_id job) result))
                      (operation_fallback (clock 3) (job_work_id job))
                      ''bounded Work transport could not commit the operation terminal result''
                      (snd r))"

subsection \<open>The dispatch loop\<close>

record handlers =
  on_unary :: "unary_result handler"
  on_operation :: "operation_result handler"
  on_source_open :: "source_open_decision handler"

text \<open>The worker takes the head of the queue; \<open>None\<close> when it has to wait.\<close>

definition TakeJob :: "impl \<Rightarrow> (dispatch_job \<times> impl) option" where
  "TakeJob s =
     (case dispatch_queue s of
        [] \<Rightarrow> None
      | job # _ \<Rightarrow>
          Some (job, (pop_job s)\<lparr>active_dispatch_jobs := active_dispatch_jobs s + 1\<rparr>))"

definition FinishJob :: "wire \<Rightarrow> bool \<Rightarrow> impl \<Rightarrow> impl" where
  "FinishJob W counted s =
     MaybeQueueDrainStatusLocked W
       (s\<lparr>in_flight_work := (if counted \<and> in_flight_work s > 0 then in_flight_work s - 1
                             else in_flight_work s),
          active_dispatch_jobs := active_dispatch_jobs s - 1\<rparr>)"

definition source_job_current :: "dispatch_job \<Rightarrow> impl \<Rightarrow> bool" where
  "source_job_current job s =
     (case smap_find (job_work_id job) (source_streams s) of
        None \<Rightarrow> False
      | Some source \<Rightarrow> src_connection_epoch source = job_connection_epoch job \<and>
          src_cancellation source = job_cancellation job)"

definition RunSourceOpen ::
  "wire \<Rightarrow> source_open_decision handler \<Rightarrow> dispatch_job \<Rightarrow> impl \<Rightarrow> impl" where
  "RunSourceOpen W callback job s =
     (if source_job_current job s
      then FinishJob W True
             (HandleSourceOpen W callback job (s\<lparr>in_flight_work := in_flight_work s + 1\<rparr>))
      else FinishJob W False s)"

definition leave_job :: "impl \<Rightarrow> impl" where
  "leave_job s = s\<lparr>active_dispatch_jobs := active_dispatch_jobs s - 1\<rparr>"

definition FinishWork :: "wire \<Rightarrow> string \<Rightarrow> impl \<Rightarrow> impl" where
  "FinishWork W work_id s =
     MaybeQueueDrainStatusLocked W (ReleaseWorkTokenLocked work_id
       (s\<lparr>in_flight_work := (if in_flight_work s > 0 then in_flight_work s - 1 else in_flight_work s),
          active_dispatch_jobs := active_dispatch_jobs s - 1\<rparr>))"

definition RunWork ::
  "wire \<Rightarrow> (nat \<Rightarrow> int) \<Rightarrow> handlers \<Rightarrow> dispatch_job \<Rightarrow> impl \<Rightarrow> impl" where
  "RunWork W clock h job s =
     (if IsCancellationRequested s (job_cancellation job)
      then leave_job (CompleteCancelledJob W (clock 0) job s)
      else let c = context_of (wi_context (if job_kind job = kUnary then job_unary job
                                           else job_operation job))
      in case ValidateWorkContextLocked W (clock 0) c (job_kind job) s of
           Inl e \<Rightarrow>
             leave_job (EraseWorkToken W (job_work_id job)
               (commit_or_fail W job
                  (RejectedDispatch (clock 1) (job_kind job) (job_work_id job)
                     ''invalid-work-context'' e ERROR_CLASS_REJECTED)
                  ''bounded Work transport could not retain context rejection'' (count_rejected s)))
         | Inr (binding_index, _) \<Rightarrow>
             let t = s\<lparr>in_flight_work := in_flight_work s + 1\<rparr>;
                 u = (if job_kind job = kUnary
                      then HandleUnary W (clock 1) (on_unary h) job binding_index t
                      else HandleOperation W (\<lambda>i. clock (i + 1)) (on_operation h) job binding_index t)
             in FinishWork W (job_work_id job) u)"

definition DispatchLoop_iteration ::
  "wire \<Rightarrow> (nat \<Rightarrow> int) \<Rightarrow> handlers \<Rightarrow> impl \<Rightarrow> impl option" where
  "DispatchLoop_iteration W clock h s =
     map_option (\<lambda>(job, t). if job_kind job = kSourceOpen
                            then RunSourceOpen W (on_source_open h) job t
                            else RunWork W clock h job t) (TakeJob s)"

subsection \<open>The books of admission\<close>

lemma same_books_count_rejected [simp]: "same_books s (count_rejected s)"
  by (simp add: count_rejected_def same_books_def)

lemma same_books_make_cancellation [simp]: "same_books s (snd (make_cancellation s))"
  by (simp add: make_cancellation_def same_books_def)

lemma ReserveTerminalReplay_Some:
  assumes "ReserveTerminalReplayLocked job s = Some (job', t)"
  obtains r where "job' = job\<lparr>job_terminal_reservation_bytes := r\<rparr>"
    "t = s\<lparr>terminal_replay_bytes := terminal_replay_bytes s + r\<rparr>"
    "job_work_id job \<noteq> []"
    "length (replay s) + length (work_tokens s) < unat (maximum_terminal_replay (config s))"
    "FitsByteBudget (terminal_replay_bytes s) r (maximum_terminal_replay_bytes (config s))"
    "r = ucast (maximum_work_frame_bytes s) + (of_nat (length (job_fingerprint job)) + 71)"
    "\<not> ucast (maximum_work_frame_bytes s) > - 1 - (of_nat (length (job_fingerprint job)) + 71 :: size_t)"
  using assms by (auto simp: ReserveTerminalReplayLocked_def Let_def split: if_splits)

text \<open>Reserving the terminal of a job and issuing its token keeps the replay ledger exact.\<close>

lemma books_issue_token:
  assumes "books_ok k s" and fresh: "smap_find wid (work_tokens s) = None"
    and "length (replay s) + length (work_tokens s) < unat (maximum_terminal_replay (config s))"
    and "FitsByteBudget (terminal_replay_bytes s) (token_reservation_bytes token)
      (maximum_terminal_replay_bytes (config s))"
  shows "books_ok k (s\<lparr>terminal_replay_bytes := terminal_replay_bytes s + token_reservation_bytes token,
    work_tokens := smap_assign wid token (work_tokens s)\<rparr>)"
proof -
  have ok: "replay_ok s" using assms(1) by (simp add: books_ok_def)
  let ?n = "terminal_replay_bytes s + token_reservation_bytes token"
  let ?w = "smap_assign wid token (work_tokens s)"
  have fits: "unat (terminal_replay_bytes s) + unat (token_reservation_bytes token)
      \<le> unat (maximum_terminal_replay_bytes (config s))"
    using assms(4) by (simp add: FitsByteBudget_iff)
  have "unat ?n = smap_weight (unat \<circ> token_reservation_bytes) ?w +
      smap_weight (unat \<circ> re_accounted_bytes) (replay s)"
    using ok by (intro smap.ledger_add [where w = token_reservation_bytes, OF fresh _ fits])
      (simp add: replay_ok_def)
  then have "replay_ok (s\<lparr>terminal_replay_bytes := ?n, replay := replay s, work_tokens := ?w\<rparr>)"
    using ok fits assms(3) smap.size_fresh [OF fresh] unat_add_bounded [OF fits]
    by (simp add: replay_ok_def)
  from books_replay_update [OF assms(1) this] show ?thesis by simp
qed

text \<open>Admission: the job gets a fresh flag, a reservation, a token, and the last place in the queue.\<close>

lemma AdmitWork_cases:
  assumes "smap_find (job_work_id job) (work_tokens s) = None"
  obtains (retired) "AdmitWork_locked job s = (RetirePair, snd (make_cancellation s))"
  | (admitted) r where
      "job_work_id job \<noteq> []"
      "length (replay s) + length (work_tokens s) < unat (maximum_terminal_replay (config s))"
      "FitsByteBudget (terminal_replay_bytes s) r (maximum_terminal_replay_bytes (config s))"
      "r = ucast (maximum_work_frame_bytes s) + (of_nat (length (job_fingerprint job)) + 71)"
      "\<not> ucast (maximum_work_frame_bytes s) > - 1 - (of_nat (length (job_fingerprint job)) + 71 :: size_t)"
      "AdmitWork_locked job s = (Enqueued,
         push_job (job\<lparr>job_cancellation := Some (length (cancel_flags s)),
                       job_terminal_reservation_bytes := r\<rparr>)
          (s\<lparr>cancel_flags := cancel_flags s @ [False],
             terminal_replay_bytes := terminal_replay_bytes s + r,
             work_tokens := smap_assign (job_work_id job)
               \<lparr>token_cancellation = Some (length (cancel_flags s)), token_reservation_bytes = r\<rparr>
               (work_tokens s)\<rparr>))"
proof (cases "ReserveTerminalReplayLocked (job\<lparr>job_cancellation := Some (length (cancel_flags s))\<rparr>)
    (snd (make_cancellation s))")
  case None
  then show ?thesis by (intro retired) (simp add: AdmitWork_locked_def make_cancellation_def)
next
  case (Some jt)
  then obtain job' t where jt: "jt = (job', t)" by (cases jt)
  from Some [unfolded jt] show ?thesis
    by (rule ReserveTerminalReplay_Some, intro admitted)
      (use Some jt assms in \<open>auto simp: AdmitWork_locked_def make_cancellation_def smap_emplace_def\<close>)
qed

lemma books_AdmitWork:
  assumes "books_ok k s" and fresh: "smap_find (job_work_id job) (work_tokens s) = None"
    and "length (dispatch_queue s) < unat (maximum_dispatch_queue (config s))"
    and "FitsByteBudget (dispatch_queue_bytes s) (job_accounted_bytes job)
      (maximum_dispatch_queue_bytes (config s))"
  shows "books_ok k (snd (AdmitWork_locked job s))"
proof (cases rule: AdmitWork_cases [OF fresh])
  case 1
  then show ?thesis using assms(1) same_books_ok [OF same_books_make_cancellation] by simp
next
  case (2 r)
  let ?token = "\<lparr>token_cancellation = Some (length (cancel_flags s)), token_reservation_bytes = r\<rparr>"
  have "books_ok k (s\<lparr>cancel_flags := cancel_flags s @ [False]\<rparr>)"
    using assms(1) same_books_ok [OF same_books_make_cancellation] by (simp add: make_cancellation_def)
  from books_issue_token [OF this, of "job_work_id job" ?token]
  have "books_ok k (s\<lparr>cancel_flags := cancel_flags s @ [False],
      terminal_replay_bytes := terminal_replay_bytes s + r,
      work_tokens := smap_assign (job_work_id job) ?token (work_tokens s)\<rparr>)"
    using 2 fresh by simp
  then show ?thesis using 2 assms(3,4) by (auto intro: books_push_job)
qed

lemma books_EnqueueDispatch_locked:
  assumes "books_ok k s"
  shows "books_ok k (snd (EnqueueDispatch_locked now job s))"
  using assms same_books_ok [OF same_books_count_rejected assms]
  by (auto simp: EnqueueDispatch_locked_def Let_def not_le intro!: books_AdmitWork)

lemma books_queue_or_signal: "books_ok k s \<Longrightarrow> books_ok k (queue_or_signal W frame reason s)"
  using books_QueueWorkLocked [of k s W frame]
  by (auto simp: queue_or_signal_def split: prod.split bool.split
      intro: same_books_ok [OF same_books_SignalCurrent])

lemma books_EnqueueDispatch: "books_ok k s \<Longrightarrow> books_ok k (EnqueueDispatch W now job s)"
  using books_EnqueueDispatch_locked [of k s now job]
  by (auto simp: EnqueueDispatch_def split: prod.split enqueue_action.split
      intro: books_QueueWorkProtocolError same_books_ok [OF same_books_SignalCurrent]
        books_commit_or_fail books_queue_or_signal)

text \<open>A new source, or the tombstone of a source that never opened, is paid for when it is stored.\<close>

lemma books_add_source:
  assumes "books_ok k s" and fresh: "smap_find sid (source_streams s) = None"
    and "smap_find sid (closed_sources s) = None"
    and "length (source_streams s) + length (closed_sources s)
      < unat (maximum_source_tombstones (config s))"
    and "length (source_streams s) < unat (maximum_source_streams (config s))"
    and fits: "unat (source_state_bytes s) + unat (src_accounted_bytes src)
      \<le> unat (maximum_source_state_bytes (config s))"
  shows "books_ok k (s\<lparr>source_state_bytes := source_state_bytes s + src_accounted_bytes src,
    source_streams := smap_assign sid src (source_streams s)\<rparr>)"
proof -
  have ok: "sources_ok k s" using assms(1) by (simp add: books_ok_def)
  let ?n = "source_state_bytes s + src_accounted_bytes src"
  let ?r = "smap_assign sid src (source_streams s)"
  have "unat ?n = smap_weight (unat \<circ> src_accounted_bytes) ?r +
      (smap_weight (unat \<circ> cls_accounted_bytes) (closed_sources s) + k)"
    using ok by (intro smap.ledger_add [where w = src_accounted_bytes, OF fresh _ fits])
      (simp add: sources_ok_def)
  then have "sources_ok k (s\<lparr>source_state_bytes := ?n, source_streams := ?r,
      closed_sources := closed_sources s\<rparr>)"
    using ok assms(3-6) smap.size_fresh [OF fresh] unat_add_bounded [OF fits]
    by (auto simp: sources_ok_def)
  from books_source_update [OF assms(1) this] show ?thesis by simp
qed

lemma books_add_tombstone:
  assumes "books_ok k s" and fresh: "smap_find sid (closed_sources s) = None"
    and "smap_find sid (source_streams s) = None"
    and "length (source_streams s) + length (closed_sources s)
      < unat (maximum_source_tombstones (config s))"
    and fits: "unat (source_state_bytes s) + unat (cls_accounted_bytes c)
      \<le> unat (maximum_source_state_bytes (config s))"
  shows "books_ok k (s\<lparr>source_state_bytes := source_state_bytes s + cls_accounted_bytes c,
    closed_sources := smap_assign sid c (closed_sources s)\<rparr>)"
proof -
  have ok: "sources_ok k s" using assms(1) by (simp add: books_ok_def)
  let ?n = "source_state_bytes s + cls_accounted_bytes c"
  let ?r = "smap_assign sid c (closed_sources s)"
  have "unat ?n = smap_weight (unat \<circ> cls_accounted_bytes) ?r +
      (smap_weight (unat \<circ> src_accounted_bytes) (source_streams s) + k)"
    using ok by (intro smap.ledger_add [where w = cls_accounted_bytes, OF fresh _ fits])
      (simp add: sources_ok_def)
  then have "sources_ok k (s\<lparr>source_state_bytes := ?n, source_streams := source_streams s,
      closed_sources := ?r\<rparr>)"
    using ok assms(3-5) smap.size_fresh [OF fresh] unat_add_bounded [OF fits]
    by (auto simp: sources_ok_def)
  from books_source_update [OF assms(1) this] show ?thesis by simp
qed

lemma make_cancellation_frame [simp]:
  "source_streams (snd (make_cancellation s)) = source_streams s"
  "closed_sources (snd (make_cancellation s)) = closed_sources s"
  "source_state_bytes (snd (make_cancellation s)) = source_state_bytes s"
  "config (snd (make_cancellation s)) = config s"
  "dispatch_queue (snd (make_cancellation s)) = dispatch_queue s"
  "dispatch_queue_bytes (snd (make_cancellation s)) = dispatch_queue_bytes s"
  "fst (make_cancellation s) = length (cancel_flags s)"
  by (simp_all add: make_cancellation_def)

lemma books_make_cancellation: "books_ok k s \<Longrightarrow> books_ok k (snd (make_cancellation s))"
  using same_books_ok same_books_make_cancellation by blast

lemma source_fits_iff:
  "source_fits job s \<longleftrightarrow> (\<exists>bytes. source_bytes job s = Some bytes \<and>
     unat (source_state_bytes s) + unat bytes \<le> unat (maximum_source_state_bytes (config s)))"
  by (auto simp: source_fits_def FitsByteBudget_iff split: option.split)

lemma books_AdmitSource:
  assumes "books_ok k s" and "smap_find (job_work_id job) (source_streams s) = None"
    and "smap_find (job_work_id job) (closed_sources s) = None"
    and "length (source_streams s) + length (closed_sources s)
      < unat (maximum_source_tombstones (config s))"
    and "length (source_streams s) < unat (maximum_source_streams (config s))"
    and "length (dispatch_queue s) < unat (maximum_dispatch_queue (config s))"
    and "FitsByteBudget (dispatch_queue_bytes s) (job_accounted_bytes job)
      (maximum_dispatch_queue_bytes (config s))"
    and "source_fits job s"
  shows "books_ok k (AdmitSource_locked binding_index endpoint job s)"
proof -
  obtain bytes where bytes: "source_bytes job s = Some bytes"
    and fits: "unat (source_state_bytes s) + unat bytes \<le> unat (maximum_source_state_bytes (config s))"
    using assms(8) by (auto simp: source_fits_iff)
  let ?t = "snd (make_cancellation s)"
  let ?src = "opening_source binding_index endpoint job (length (cancel_flags s)) bytes s"
  have src: "src_accounted_bytes ?src = bytes" by (simp add: opening_source_def)
  have "books_ok k (?t\<lparr>source_state_bytes := source_state_bytes s + bytes,
      source_streams := smap_assign (job_work_id job) ?src (source_streams s)\<rparr>)"
    using books_add_source [OF books_make_cancellation [OF assms(1)], of "job_work_id job" ?src]
      assms(2-5) fits by (simp add: src)
  then show ?thesis
    using assms(2,6,7)
    by (auto simp: AdmitSource_locked_def bytes Let_def split_beta smap_emplace_def intro!: books_push_job)
qed

text \<open>A rejected open: the tombstone is paid for first, and refunded when it cannot be retained.\<close>

lemma books_RejectSource:
  assumes "books_ok k s" and streams: "smap_find (job_work_id job) (source_streams s) = None"
    and fresh: "smap_find (job_work_id job) (closed_sources s) = None"
  shows "books_ok k (snd (RejectSource_locked W frame job s))"
proof (cases "length (source_streams s) + length (closed_sources s)
    \<ge> unat (maximum_source_tombstones (config s)) \<or> \<not> source_fits job s")
  case True
  then show ?thesis using assms(1) by (simp add: RejectSource_locked_def)
next
  case False
  then obtain bytes where bytes: "source_bytes job s = Some bytes"
    and fits: "unat (source_state_bytes s) + unat bytes \<le> unat (maximum_source_state_bytes (config s))"
    by (auto simp: source_fits_iff)
  let ?t = "snd (make_cancellation s)" and ?wid = "job_work_id job"
  let ?p = "?t\<lparr>source_state_bytes := source_state_bytes s + bytes\<rparr>"
  let ?src = "default_source\<lparr>src_request := job_source_open job,
     src_cancellation := Some (length (cancel_flags s)),
     src_connection_epoch := connection_epoch_counter s, src_accounted_bytes := bytes\<rparr>"
  have t: "books_ok k ?t" by (rule books_make_cancellation [OF assms(1)])
  have reject: "RejectSource_locked W frame job s =
      (case CommitSourceTerminalLocked W ?wid ?src frame ?p of
         (True, u) \<Rightarrow> (Enqueued, u)
       | (False, u) \<Rightarrow> (RetirePair, u\<lparr>source_state_bytes := source_state_bytes u - bytes\<rparr>))"
    using False by (simp add: RejectSource_locked_def bytes make_cancellation_def)
  show ?thesis
  proof (cases rule: CommitSourceTerminal_cases [of W ?wid ?src frame ?p])
    case (refused u)
    then have "same_books ?t (u\<lparr>source_state_bytes := source_state_bytes u - bytes\<rparr>)"
      by (simp add: same_books_def)
    then show ?thesis using refused(1) t same_books_ok by (simp add: reject)
  next
    case (committed m d)
    let ?c = "tombstone ?src frame d" and ?q = "push_work (work_entry W ?p frame) ?t"
    have w: "cls_accounted_bytes ?c = bytes" by (simp add: tombstone_def)
    have q: "books_ok k ?q"
      using committed(3) t by (intro books_push_work) (auto simp: can_queue_work_def work_entry_def)
    have "source_state_bytes ?q = source_state_bytes s" by (simp add: push_work_def)
    then have "books_ok k (?q\<lparr>source_state_bytes := source_state_bytes s + bytes,
        closed_sources := smap_assign ?wid ?c (closed_sources s)\<rparr>)"
      using books_add_tombstone [OF q, of ?wid ?c] False streams fresh fits by (simp add: w)
    moreover have "RememberClosedSourceLocked ?wid ?src frame d (push_work (work_entry W ?p frame) ?p) =
        ?q\<lparr>source_state_bytes := source_state_bytes s + bytes,
           closed_sources := smap_assign ?wid ?c (closed_sources s)\<rparr>"
      by (rule impl.equality) (simp_all add: RememberClosedSourceLocked_def push_work_def)
    ultimately show ?thesis by (simp add: reject committed(4))
  qed
qed

lemma judge_source_open_fresh:
  assumes "judge_source_open W now request job s = v" and "v \<noteq> OpenViolation"
    and "\<nexists>frame. v = OpenReplay frame"
  shows "job_work_id job \<noteq> []" "smap_find (job_work_id job) (source_streams s) = None"
    "smap_find (job_work_id job) (closed_sources s) = None"
    "smap_find (job_work_id job) (work_tokens s) = None" "smap_find (job_work_id job) (replay s) = None"
  using assms unfolding judge_source_open_def Let_def by (auto split: if_splits)

lemma judge_source_open_admit:
  assumes "judge_source_open W now request job s = OpenAdmit i e"
  shows "length (source_streams s) + length (closed_sources s)
      < unat (maximum_source_tombstones (config s))"
    "length (source_streams s) < unat (maximum_source_streams (config s))"
    "length (dispatch_queue s) < unat (maximum_dispatch_queue (config s))"
    "FitsByteBudget (dispatch_queue_bytes s) (job_accounted_bytes job)
      (maximum_dispatch_queue_bytes (config s))"
    "source_fits job s"
    "ValidateWorkContextLocked W now (context_of (so_context (job_source_open job))) kSourceOpen s
      = Inr (i, e)"
  using assms unfolding judge_source_open_def Let_def
  by (simp_all split: if_splits sum.splits prod.splits)

lemma count_rejected_frame [simp]:
  "source_streams (count_rejected s) = source_streams s"
  "closed_sources (count_rejected s) = closed_sources s"
  by (simp_all add: count_rejected_def)

lemma books_EnqueueSourceOpen_locked:
  assumes ok: "books_ok k s"
  shows "books_ok k (snd (EnqueueSourceOpen_locked W now request job s))"
proof (cases "judge_source_open W now request job s")
  case (OpenReject c code msg)
  note fresh = judge_source_open_fresh [OF OpenReject]
  have "books_ok k (count_rejected s)" using ok same_books_ok same_books_count_rejected by blast
  then show ?thesis
    using fresh by (simp add: EnqueueSourceOpen_locked_def OpenReject books_RejectSource)
next
  case (OpenAdmit i e)
  show ?thesis
    using judge_source_open_fresh [OF OpenAdmit] judge_source_open_admit [OF OpenAdmit]
    by (simp add: EnqueueSourceOpen_locked_def OpenAdmit books_AdmitSource [OF ok])
qed (use ok same_books_ok [OF same_books_count_rejected] in \<open>simp_all add: EnqueueSourceOpen_locked_def\<close>)

lemma books_EnqueueSourceOpen: "books_ok k s \<Longrightarrow> books_ok k (EnqueueSourceOpen W clock request n s)"
  using books_EnqueueSourceOpen_locked
    [of k s W "clock 1" request "source_open_job W (clock 0) request n"]
  by (auto simp: EnqueueSourceOpen_def Let_def split: prod.split enqueue_action.split
      intro: books_QueueWorkProtocolError same_books_ok [OF same_books_SignalCurrent]
        books_queue_or_signal)

subsection \<open>The books of the handlers\<close>

lemma books_commit_with_fallback:
  "books_ok k s \<Longrightarrow> books_ok k (commit_with_fallback W job frame fallback reason s)"
proof -
  assume ok: "books_ok k s"
  obtain r t where rt: "CommitTerminalFrame W job frame s = (r, t)" by fastforce
  then have t: "books_ok k t" using books_CommitTerminalFrame [OF ok, of W job frame] by simp
  then have "books_ok k (snd (CommitTerminalFrame W job fallback t))"
    by (rule books_CommitTerminalFrame)
  then show ?thesis using t
    by (cases r) (auto simp: commit_with_fallback_def rt split: prod.split
        intro: same_books_ok [OF same_books_SignalCurrent])
qed

lemma books_HandleUnary:
  "books_ok k s \<Longrightarrow> keeps_books callback \<Longrightarrow> books_ok k (HandleUnary W now callback job i s)"
  by (auto simp: HandleUnary_def Let_def split: option.split
      intro: books_commit_or_fail books_commit_with_fallback books_invoke)

lemma books_queue_lifecycle: "books_ok k s \<Longrightarrow> books_ok k (snd (queue_lifecycle W clock wid s))"
proof -
  assume ok: "books_ok k s"
  note q = books_QueueWorkLocked [OF ok, of W "OperationFrame (clock 0) wid OPERATION_PHASE_ACCEPTED"]
  then show ?thesis
    by (auto simp: queue_lifecycle_def split: prod.split bool.split intro: books_QueueWorkLocked)
qed

lemma books_HandleOperation:
  assumes "books_ok k s" and "keeps_books callback"
  shows "books_ok k (HandleOperation W clock callback job i s)"
  using assms books_queue_lifecycle [OF assms(1), of W clock "job_work_id job"]
  by (auto simp: HandleOperation_def Let_def split: option.split prod.split bool.split
      intro!: books_commit_or_fail books_commit_with_fallback books_invoke
      intro: same_books_ok [OF same_books_SignalCurrent])

lemma same_books_counters [simp]:
  "same_books s (s\<lparr>in_flight_work := a, active_dispatch_jobs := b\<rparr>)"
  "same_books s (s\<lparr>in_flight_work := a\<rparr>)"
  "same_books s (leave_job s)"
  "same_books s (s\<lparr>active_dispatch_jobs := b\<rparr>)"
  by (simp_all add: same_books_def leave_job_def)

lemmas books_counters = same_books_counters [THEN same_books_ok]

lemma books_FinishJob: "books_ok k s \<Longrightarrow> books_ok k (FinishJob W counted s)"
  by (simp add: FinishJob_def books_MaybeQueueDrainStatus books_counters)

lemma books_RunSourceOpen:
  "books_ok k s \<Longrightarrow> keeps_books callback \<Longrightarrow> books_ok k (RunSourceOpen W callback job s)"
  by (simp add: RunSourceOpen_def books_FinishJob books_HandleSourceOpen books_counters)

definition keeps_books_handlers :: "handlers \<Rightarrow> bool" where
  "keeps_books_handlers h \<longleftrightarrow>
     keeps_books (on_unary h) \<and> keeps_books (on_operation h) \<and> keeps_books (on_source_open h)"

lemma books_FinishWork: "books_ok k s \<Longrightarrow> books_ok k (FinishWork W work_id s)"
  unfolding FinishWork_def
  by (intro books_MaybeQueueDrainStatus books_ReleaseWorkToken books_counters)

lemma books_RunWork:
  assumes ok: "books_ok k s" and "keeps_books_handlers h"
  shows "books_ok k (RunWork W clock h job s)"
proof -
  have rejected: "books_ok k (count_rejected s)"
    using ok same_books_ok same_books_count_rejected by blast
  have t: "books_ok k (s\<lparr>in_flight_work := a\<rparr>)" for a using ok by (rule books_counters)
  show ?thesis
    using assms(2) unfolding RunWork_def Let_def keeps_books_handlers_def
    by (auto split: sum.split intro!: books_FinishWork books_counters(3) books_CompleteCancelledJob ok
        books_EraseWorkToken books_commit_or_fail rejected books_HandleUnary books_HandleOperation t)
qed

lemma books_TakeJob: "books_ok k s \<Longrightarrow> TakeJob s = Some (job, t) \<Longrightarrow> books_ok k t"
  using books_pop_job [of k s]
  by (auto simp: TakeJob_def split: list.splits intro: books_counters)

lemma books_DispatchLoop_iteration:
  assumes "books_ok k s" and "keeps_books_handlers h" and "DispatchLoop_iteration W clock h s = Some t"
  shows "books_ok k t"
proof -
  obtain job u where "TakeJob s = Some (job, u)"
    and t: "t = (if job_kind job = kSourceOpen then RunSourceOpen W (on_source_open h) job u
                 else RunWork W clock h job u)"
    using assms(3) by (auto simp: DispatchLoop_iteration_def)
  then have "books_ok k u" using assms(1) books_TakeJob by blast
  then show ?thesis
    using assms(2) books_RunSourceOpen books_RunWork by (simp add: t keeps_books_handlers_def)
qed

subsection \<open>What admission promises\<close>

lemma AdmitWork_reservation:
  fixes m :: u32 and n :: nat
  assumes "n + 71 < 2 ^ 64" and "\<not> ucast m > - 1 - (of_nat n + 71 :: size_t)"
  shows "unat (ucast m + (of_nat n + 71) :: size_t) = unat m + n + 71"
proof -
  let ?k = "of_nat n + 71 :: size_t"
  have "?k = of_nat (n + 71)" by simp
  then have k: "unat ?k = n + 71" using assms(1) by (simp only: unat_of_nat_64)
  have "unat (ucast m :: size_t) \<le> unat (- 1 - ?k)" using assms(2) by (simp add: word_le_nat_alt not_less)
  moreover have "unat (- 1 - ?k) = 2 ^ 64 - 1 - unat ?k"
    using assms(1) by (subst unat_sub_bounded) (simp_all add: unat_max_word k)
  ultimately have "unat (ucast m :: size_t) + unat ?k \<le> unat (- 1 :: size_t)"
    using assms(1) by (simp add: unat_max_word k)
  from unat_add_bounded [OF this] show ?thesis by (simp add: k)
qed

lemma EnqueueDispatch_admits:
  assumes "EnqueueDispatch_locked now job s = (Enqueued, t)"
  shows "job_work_id job \<noteq> []" "accepting_work s" "cl_state s = kReady"
    "smap_find (job_work_id job) (replay s) = None" "smap_find (job_work_id job) (work_tokens s) = None"
    "\<not> stream_uses_work_id (job_work_id job) s"
    "AdmitWork_locked job s = (Enqueued, t)"
  using assms by (auto simp: EnqueueDispatch_locked_def Let_def split: if_splits)

text \<open>
  C9: Work is admitted only while the client is ready, under an identity that is neither retained nor
  in flight; it then holds a token with a reservation for the largest terminal the session allows,
  a fresh cancellation flag that is not set, and the last place in the dispatch queue.
\<close>

theorem work_admission:
  assumes "EnqueueDispatch_locked now job s = (Enqueued, t)"
    and "length (job_fingerprint job) + 71 < 2 ^ 64"
  shows "job_work_id job \<noteq> [] \<and> accepting_work s \<and> cl_state s = kReady \<and>
     smap_find (job_work_id job) (replay s) = None \<and>
     smap_find (job_work_id job) (work_tokens s) = None \<and>
     (\<exists>token queued. smap_find (job_work_id job) (work_tokens t) = Some token \<and>
        full_reservation t job token \<and>
        token_cancellation token = Some (length (cancel_flags s)) \<and>
        \<not> IsCancellationRequested t (token_cancellation token) \<and>
        dispatch_queue t = dispatch_queue s @ [queued] \<and>
        job_work_id queued = job_work_id job \<and>
        job_cancellation queued = token_cancellation token)"
proof -
  note adm = EnqueueDispatch_admits [OF assms(1)]
  show ?thesis
  proof (cases rule: AdmitWork_cases [OF adm(5)])
    case 1
    then show ?thesis using adm(7) by simp
  next
    case (2 r)
    have "unat r = unat (maximum_work_frame_bytes s) + length (job_fingerprint job) + 71"
      using 2(4) AdmitWork_reservation [OF assms(2) 2(5)] by simp
    with 2 adm show ?thesis
      by (auto simp: push_job_def full_reservation_def IsCancellationRequested_def)
  qed
qed

subsection \<open>Redelivery\<close>

lemma replay_entry_frame:
  assumes "replay_entry_for W job frame n = Some entry"
  shows "re_kind entry = job_kind job" "re_fingerprint entry = job_fingerprint job"
    "replayed_frame (job_kind job) entry = frame"
  using assms by (auto simp: replay_entry_for_def Let_def replayed_frame_def
      split: dispatch_kind.splits work_frame.splits)

text \<open>
  C5: once the terminal of a job is committed, a redelivery of the same identity is never executed
  again: with the same kind and fingerprint it is answered with exactly the committed frame, with
  another kind or fingerprint it is an identity violation.
\<close>

theorem redelivery_replays_terminal:
  assumes "CommitTerminalFrame W job frame s = (kCommitted, t)"
    and "job_work_id job \<noteq> []" and "job_work_id again = job_work_id job"
  shows "EnqueueDispatch_locked now again t =
     (if job_kind again = job_kind job \<and> job_fingerprint again = job_fingerprint job
      then ReplayImmediate frame else IdentityViolation, count_rejected t)"
proof -
  obtain entry where entry: "replay_entry_for W job frame (WorkFrameBytesLocked W s frame) = Some entry"
    "smap_find (job_work_id job) (replay t) = Some entry"
    using commit_replay_entry [OF assms(1)] by blast
  show ?thesis
    using replay_entry_frame [OF entry(1)] assms(2,3) entry(2)
    by (auto simp: EnqueueDispatch_locked_def Let_def)
qed

text \<open>
  C6: once the terminal of a source is committed, a redelivered open under its identity is answered
  with exactly that terminal frame when its request digest is the same, and is an identity
  violation otherwise.
\<close>

theorem source_redelivery_replays_terminal:
  assumes "CommitSourceTerminalLocked W sid source frame s = (True, t)"
    and "sid \<noteq> []" and "job_work_id job = sid"
  shows "EnqueueSourceOpen_locked W now request job t =
     (if wc_request_digest (context_of (so_context (src_request source))) = job_fingerprint job
      then (ReplayImmediate frame, t) else (IdentityViolation, count_rejected t))"
proof (cases rule: CommitSourceTerminal_cases [of W sid source frame s])
  case (refused u)
  then show ?thesis using assms(1) by simp
next
  case (committed m d)
  then have "smap_find sid (closed_sources t) = Some (tombstone source frame d)"
    using assms(1) by (auto simp: RememberClosedSourceLocked_def)
  moreover have "d \<noteq> []" using terminal.digest_length [OF committed(2)] by auto
  ultimately show ?thesis using assms(2,3)
    by (simp add: EnqueueSourceOpen_locked_def judge_source_open_def Let_def tombstone_def)
qed

subsection \<open>Exactly one terminal\<close>

text \<open>
  \<open>settled W job s frames reason t\<close>: one of \<open>frames\<close> was queued, last, and is retained for replay
  under the job's identity and fingerprint; or none was, no accounted component changed, and the
  pair is retired.
\<close>

definition terminal_settled ::
  "dispatch_job \<Rightarrow> impl \<Rightarrow> work_frame set \<Rightarrow> string \<Rightarrow> impl \<Rightarrow> bool" where
  "terminal_settled job s frames reason t \<longleftrightarrow>
     (\<exists>frame \<in> frames. \<exists>entry. smap_find (job_work_id job) (replay t) = Some entry \<and>
        re_kind entry = job_kind job \<and> re_fingerprint entry = job_fingerprint job \<and>
        replayed_frame (job_kind job) entry = frame \<and>
        map qw_request (work_queue t) = map qw_request (work_queue s) @ [frame]) \<or>
     (\<exists>u. t = SignalCurrentSessionFailure reason u \<and> same_books s u)"

lemma CommitTerminalFrame_settles:
  assumes "CommitTerminalFrame W job frame s = (r, t)"
  shows "if r = kCommitted then terminal_settled job s {frame} reason t else same_books s t"
proof (cases "r = kCommitted")
  case True
  then have com: "CommitTerminalFrame W job frame s = (kCommitted, t)" using assms by simp
  then obtain entry where e: "replay_entry_for W job frame (WorkFrameBytesLocked W s frame) = Some entry"
    "smap_find (job_work_id job) (replay t) = Some entry"
    using commit_replay_entry by blast
  with commit_queues_frame [OF com] True replay_entry_frame [OF e(1)] show ?thesis
    by (auto simp: terminal_settled_def)
next
  case False
  then show ?thesis using CommitTerminalFrame_refused [OF assms] by (auto simp: same_books_def)
qed


subsection \<open>What a handler's result becomes\<close>

text \<open>
  A unary response carries exactly one of an output that satisfies the endpoint's output contract
  and a typed error; an operation event is terminal, and an error goes with a phase of its class.
\<close>

definition unary_response_ok :: "wire \<Rightarrow> endpoint_contract \<Rightarrow> unary_response \<Rightarrow> bool" where
  "unary_response_ok W endpoint u \<longleftrightarrow>
     (case (ur_output u, ur_error u) of
        (Some output, None) \<Rightarrow> OutputMatches W endpoint output \<and>
          length (payload_value output) \<le> maximum_response_bytes (limits endpoint)
      | (None, Some e) \<Rightarrow> IsTypedError W e
      | _ \<Rightarrow> False)"

definition operation_event_ok :: "wire \<Rightarrow> endpoint_contract \<Rightarrow> operation_event \<Rightarrow> bool" where
  "operation_event_ok W endpoint ev \<longleftrightarrow>
     IsTerminal (oe_phase ev) \<and>
     (oe_phase ev = OPERATION_PHASE_SUCCEEDED \<longrightarrow> oe_error ev = None) \<and>
     (oe_phase ev \<noteq> OPERATION_PHASE_SUCCEEDED \<longrightarrow> oe_output ev = None \<and>
        (\<exists>e. oe_error ev = Some e \<and> IsTypedError W e \<and>
           ErrorMatchesOperationPhase (oe_phase ev) (err_class e))) \<and>
     (\<forall>output. oe_output ev = Some output \<longrightarrow> OutputMatches W endpoint output \<and>
        length (payload_value output) \<le> maximum_response_bytes (limits endpoint))"

lemma handler_error_texts:
  "list_all IsCanonicalIdentifier [''cancelled'', ''invalid-handler-result'', ''response-too-large'']"
  "list_all IsCanonicalText [''unary handler returned a malformed success result'',
     ''unary handler returned a malformed failure result'',
     ''unary output exceeds its contract limit'', ''unary work was cancelled'',
     ''operation handler returned a malformed terminal result'',
     ''operation output exceeds its contract limit'']"
  by code_simp+

lemma unary_failure_ok:
  assumes "typed_classes_ok W"
    and "c \<in> {ERROR_CLASS_CANCELLED, ERROR_CLASS_PERMANENT, ERROR_CLASS_RESOURCE_EXHAUSTED}"
    and "IsCanonicalIdentifier code" and "IsCanonicalText msg"
  shows "unary_response_ok W endpoint (unary_response_of wid (UnaryResult_Failure c code msg 0))"
  using IsTypedError_MakeError [OF assms(1), of c code msg 0] assms(2-)
  by (auto simp: unary_response_ok_def unary_response_of_def UnaryResult_Failure_def)

text \<open>
  C22: whatever the unary handler returns or throws, the response that goes out carries exactly one of
  an output that satisfies the endpoint's contract and size limit, and a typed error.
\<close>

theorem unary_response_well_formed:
  assumes "typed_classes_ok W"
  shows "unary_response_ok W endpoint
     (unary_response_of wid (check_unary_result W endpoint cancelled (unary_outcome r)))"
proof -
  let ?r = "unary_outcome r"
  note fail = unary_failure_ok [OF assms, of _ _ _ endpoint wid]
  show ?thesis
    using handler_error_texts
    by (cases "succeeded ?r")
      (auto simp: check_unary_result_def intro!: fail,
       auto simp: unary_response_ok_def unary_response_of_def)
qed

lemma operation_failure_ok:
  assumes "typed_classes_ok W"
    and "c \<in> {ERROR_CLASS_PERMANENT, ERROR_CLASS_RESOURCE_EXHAUSTED}"
    and "IsCanonicalIdentifier code" and "IsCanonicalText msg"
  shows "operation_event_ok W endpoint
     (operation_event_of now wid (OperationResult_Failure c code msg 0))"
  using IsTypedError_MakeError [OF assms(1), of c code msg 0] assms(2-)
  by (auto simp: operation_event_ok_def operation_event_of_def OperationResult_Failure_def MakeError_def)

text \<open>
  C23: whatever the operation handler returns or throws, the event that goes out is terminal, a success
  carries no error, any other phase carries a typed error of the phase's class and no output, and an
  output satisfies the endpoint's contract and size limit.
\<close>

theorem operation_event_well_formed:
  assumes "typed_classes_ok W"
  shows "operation_event_ok W endpoint
     (operation_event_of now wid (check_operation_result W endpoint (operation_outcome r)))"
proof -
  let ?r = "operation_outcome r"
  note fail = operation_failure_ok [OF assms, of _ _ _ endpoint now wid]
  consider "operation_malformed W endpoint ?r"
    | "\<not> operation_malformed W endpoint ?r" "ores_has_output ?r"
        "length (payload_value (ores_output ?r)) > maximum_response_bytes (limits endpoint)"
    | (kept) "\<not> operation_malformed W endpoint ?r"
        "\<not> (ores_has_output ?r \<and>
            length (payload_value (ores_output ?r)) > maximum_response_bytes (limits endpoint))"
    by blast
  then show ?thesis
  proof cases
    case kept
    have typed: "err_class e \<noteq> ERROR_CLASS_UNSPECIFIED \<or> err_code e \<noteq> []" if "IsTypedError W e" for e
      using that assms by (auto simp: IsTypedError_def typed_classes_ok_def)
    show ?thesis
      using kept typed [of "ores_error ?r"]
      by (auto simp: check_operation_result_def operation_malformed_def operation_event_ok_def
          operation_event_of_def HasError_def)
  qed (use handler_error_texts in \<open>auto simp: check_operation_result_def intro!: fail\<close>)
qed

subsection \<open>Contexts\<close>

text \<open>
  C20: Work passes validation only while the client is ready, for the current spec revision, for an
  endpoint that the grant enables and the bound contract declares, with the granted contract version
  and digest, the interaction mode of its kind, an unexpired deadline, a canonical request digest and
  a valid subject.
\<close>

theorem ValidateWorkContext_sound:
  assumes "ValidateWorkContextLocked W now c kind s = Inr (i, endpoint)"
  shows "accepting_work s \<and> cl_state s = kReady \<and> \<not> session_failed s \<and>
     wc_spec_revision c = spec_revision s \<and>
     (\<exists>active. smap_find (wc_capability_id c) (active_capabilities s) = Some active \<and>
        ac_binding_index active = i \<and> i < length (capabilities (config s)) \<and>
        wc_endpoint_id c \<in> set (enabled_endpoint_ids (ac_grant active)) \<and>
        endpoint \<in> set (cc_endpoints (contract (capabilities (config s) ! i))) \<and>
        ep_endpoint_id endpoint = wc_endpoint_id c \<and>
        wc_contract_version c = ec_contract_version (ac_grant active) \<and>
        wc_contract_digest c = ec_contract_digest (ac_grant active)) \<and>
     interaction endpoint = expected_mode kind \<and>
     (deadline_unix_nanos (deadline_of c) > 0 \<longrightarrow> now < deadline_unix_nanos (deadline_of c)) \<and>
     (deadline_required endpoint \<longrightarrow> deadline_unix_nanos (deadline_of c) > 0) \<and>
     IsCanonicalSha256 (wc_request_digest c) \<and>
     (\<exists>subject. wc_subject c = Some subject \<and> IsValidSubject subject)"
  using assms
  by (auto simp: ValidateWorkContextLocked_def FindActiveEndpointLocked_def FindEndpoint_def Let_def
      find_Some_iff split: if_splits option.splits)

subsection \<open>When a handler runs\<close>

text \<open>The components of the state that no commit and no release of a token touches.\<close>

definition same_progress :: "impl \<Rightarrow> impl \<Rightarrow> bool" where
  "same_progress s t \<longleftrightarrow>
     callback_log t = callback_log s \<and> dispatch_queue t = dispatch_queue s \<and>
     control_queue t = control_queue s \<and>
     in_flight_work t = in_flight_work s \<and> active_dispatch_jobs t = active_dispatch_jobs s \<and>
     drain_requested t = drain_requested s \<and> drain_reported t = drain_reported s"

lemma same_progress_refl [simp]: "same_progress s s"
  by (simp add: same_progress_def)

lemma same_progress_trans: "same_progress s t \<Longrightarrow> same_progress t u \<Longrightarrow> same_progress s u"
  by (simp add: same_progress_def)

lemma same_progress_Signal: "same_progress s (SignalCurrentSessionFailure reason s)"
  by (simp add: same_progress_def SignalCurrentSessionFailure_def SignalSessionFailure_def
      CancelAllWorkLocked_def)

lemma same_progress_retain: "same_progress s (snd (retain_terminal job q entry s))"
  by (cases rule: retain_terminal_cases [of job q entry s])
    (simp_all add: same_progress_def push_work_def RememberReplayLocked_def ReleaseWorkTokenLocked_def
      Let_def split: option.split)

lemma same_progress_Commit: "same_progress s (snd (CommitTerminalFrame W job frame s))"
proof -
  have "same_progress s (s\<lparr>dropped_outbound_frames := n\<rparr>)" for n by (simp add: same_progress_def)
  then show ?thesis
    by (simp add: CommitTerminalFrame_unfold same_progress_retain split: option.split)
qed

lemma same_progress_commit_or_fail: "same_progress s (commit_or_fail W job frame reason s)"
  using same_progress_Commit [of s W job frame]
  by (auto simp: commit_or_fail_def split: prod.split intro: same_progress_trans same_progress_Signal)

text \<open>While a worker still counts as active, releasing a token never reports the drain.\<close>

lemma same_progress_EraseWorkToken:
  assumes "active_dispatch_jobs s \<noteq> 0"
  shows "same_progress s (EraseWorkToken W work_id s)"
proof -
  let ?t = "ReleaseWorkTokenLocked work_id s"
  have t: "same_progress s ?t"
    by (simp add: same_progress_def ReleaseWorkTokenLocked_def split: option.split)
  then have "MaybeQueueDrainStatusLocked W ?t = ?t"
    using assms by (simp add: MaybeQueueDrainStatusLocked_def same_progress_def)
  with t show ?thesis by (simp add: EraseWorkToken_def)
qed

lemma same_progress_settle_early:
  assumes "active_dispatch_jobs s \<noteq> 0"
  shows "same_progress s (EraseWorkToken W wid (commit_or_fail W job frame reason s))"
proof -
  note c = same_progress_commit_or_fail [of s W job frame reason]
  then have "active_dispatch_jobs (commit_or_fail W job frame reason s) \<noteq> 0"
    using assms by (simp add: same_progress_def)
  from same_progress_trans [OF c same_progress_EraseWorkToken [OF this]] show ?thesis .
qed

text \<open>The worker refuses a job that was cancelled while it was queued, or whose context is stale.\<close>

definition work_refused :: "wire \<Rightarrow> int \<Rightarrow> dispatch_job \<Rightarrow> impl \<Rightarrow> bool" where
  "work_refused W now job s \<longleftrightarrow>
     IsCancellationRequested s (job_cancellation job) \<or>
     isl (ValidateWorkContextLocked W now (context_of (wi_context
        (if job_kind job = kUnary then job_unary job else job_operation job))) (job_kind job) s)"

lemma RunWork_early:
  assumes "active_dispatch_jobs s \<noteq> 0"
    and "work_refused W (clock 0) job s"
  shows "\<exists>t. RunWork W clock h job s = leave_job t \<and> same_progress s t"
proof (cases "IsCancellationRequested s (job_cancellation job)")
  case True
  then show ?thesis
    using same_progress_settle_early [OF assms(1)] by (auto simp: RunWork_def CompleteCancelledJob_def)
next
  case False
  have r: "same_progress s (count_rejected s)" by (simp add: same_progress_def count_rejected_def)
  moreover have "active_dispatch_jobs (count_rejected s) \<noteq> 0"
    using assms(1) by (simp add: count_rejected_def)
  ultimately show ?thesis
    using False assms(2) same_progress_trans [OF r same_progress_settle_early]
    by (cases "ValidateWorkContextLocked W (clock 0) (context_of (wi_context
        (if job_kind job = kUnary then job_unary job else job_operation job))) (job_kind job) s")
      (auto simp: RunWork_def Let_def work_refused_def)
qed

text \<open>
  C21: an application callback runs only for Work that was not cancelled in the queue and whose context
  is valid when the worker takes it.
\<close>

theorem handler_runs_only_for_current_work:
  assumes "active_dispatch_jobs s \<noteq> 0" and "callback_log (RunWork W clock h job s) \<noteq> callback_log s"
  shows "\<not> work_refused W (clock 0) job s"
  using RunWork_early [OF assms(1), of W clock job h] assms(2)
  by (auto simp: leave_job_def same_progress_def)

subsection \<open>Drain and refused Work\<close>

text \<open>
  C38: when the last job of a drain is cancelled or refused by the worker, the worker leaves no Work
  behind and the completion of the drain is still not reported: the check for it runs while the
  worker still counts as active, and is not repeated.
\<close>

theorem drain_unreported_after_refused_work:
  assumes "drain_requested s" and "\<not> drain_reported s" and "dispatch_queue s = []"
    and "active_dispatch_jobs s = 1"
    and "work_refused W (clock 0) job s"
  shows "let t = RunWork W clock h job s
     in active_dispatch_jobs t = 0 \<and> dispatch_queue t = [] \<and> in_flight_work t = in_flight_work s \<and>
        drain_requested t \<and> \<not> drain_reported t \<and> control_queue t = control_queue s"
proof -
  have "active_dispatch_jobs s \<noteq> 0" using assms(4) by simp
  from RunWork_early [where clock = clock and h = h, OF this assms(5)] show ?thesis
    using assms(1-4) by (auto simp: leave_job_def same_progress_def Let_def)
qed

lemma commit_known_identity:
  assumes "smap_find (job_work_id job) (replay s) = Some entry"
  shows "fst (CommitTerminalFrame W job frame s) \<noteq> kCommitted"
proof
  assume "fst (CommitTerminalFrame W job frame s) = kCommitted"
  then have "CommitTerminalFrame W job frame s = (kCommitted, snd (CommitTerminalFrame W job frame s))"
    by (metis prod.collapse)
  from commit_replay_entry [OF this] assms show False by (metis option.distinct(1))
qed


text \<open>
  C40: Work can be admitted under the identity of a source whose terminal is still retained, and from
  then on the acknowledgement of that terminal, which was accepted before, is refused.
\<close>

theorem work_under_a_closed_source:
  assumes "EnqueueDispatch_locked now job s = (Enqueued, t)"
    and "smap_find (job_work_id job) (closed_sources s) = Some c"
    and "smap_find (job_work_id job) (source_streams s) = None"
    and "IsCanonicalSha256 (cls_terminal_digest c)"
  shows "let ack = \<lparr>ta_terminal_digest = cls_terminal_digest c,
           ta_identity = StreamIdentity (job_work_id job)\<rparr>
     in fst (HandleTerminalAcknowledgement_locked ack s) = None \<and>
        fst (HandleTerminalAcknowledgement_locked ack t) \<noteq> None"
proof -
  have adm: "job_work_id job \<noteq> []" "smap_find (job_work_id job) (replay s) = None"
    "smap_find (job_work_id job) (work_tokens s) = None" "AdmitWork_locked job s = (Enqueued, t)"
    using assms(1) by (auto simp: EnqueueDispatch_locked_def Let_def split: if_splits)
  have "smap_mem (job_work_id job) (work_tokens t)"
    by (cases rule: AdmitWork_cases [OF adm(3)]) (use adm(4) in \<open>auto simp: push_job_def\<close>)
  moreover have "cls_terminal_digest c \<noteq> []" using assms(4) by (auto simp: IsCanonicalSha256_def)
  ultimately show ?thesis
    using adm assms(2-4) by (auto simp: HandleTerminalAcknowledgement_locked_def Let_def)
qed

end
