(* ===== verification/Instance_Spec.thy ===== *)
theory Instance_Spec
  imports Dispatch
begin

text \<open>
  \<open>src/spec.cpp\<close>: validation of an instance spec against the trusted contracts, the transition
  that applies one (deactivation, application callback, start callbacks in grant order, commit,
  ready callbacks), its rollback, and deactivation.

  The callbacks of the application are arguments (\<open>spec_callbacks\<close>): each takes the state in which
  it is invoked to the state in which it returns, so that the effects of the callback and of the
  other threads meanwhile are part of it. \<open>on_wait\<close> is what the other threads do while the
  transition waits for running callbacks (\<open>WaitForCallbacks\<close>). An application callback that
  takes \<open>std::string* error\<close> receives the text held so far and returns the text it leaves.
\<close>

record spec_callbacks =
  on_apply :: "instance_spec \<Rightarrow> string \<Rightarrow> (bool \<times> string) handler"
  on_clear :: "impl \<Rightarrow> impl"
  on_start :: "nat \<Rightarrow> instance_spec \<Rightarrow> enabled_capability \<Rightarrow> string \<Rightarrow> (bool \<times> string) handler"
  on_stop :: "nat \<Rightarrow> impl \<Rightarrow> impl"
  on_ready :: "nat \<Rightarrow> unit handler"
  on_wait :: "impl \<Rightarrow> impl"

subsection \<open>Validation\<close>

definition IsCanonicalScope :: "scope_reference \<Rightarrow> bool" where
  "IsCanonicalScope scope =
     (if \<not> IsCanonicalIdentifier (scope_kind scope) \<or> \<not> IsCanonicalSha256 (scope_key scope) \<or>
         scope_attributes scope = [] then False
      else list_all (\<lambda>a. IsCanonicalIdentifier (fst a) \<and> IsCanonicalText (snd a))
             (scope_attributes scope))"

fun valid_secrets :: "string list \<Rightarrow> secret_reference list \<Rightarrow> bool" where
  "valid_secrets seen [] = True"
| "valid_secrets seen (r # rs) =
     (if \<not> IsCanonicalIdentifier (secret_name r) \<or> \<not> IsCanonicalText (secret_ref r) \<or>
         \<not> IsCanonicalText (secret_version r) \<or> secret_name r \<in> set seen then False
      else valid_secrets (secret_name r # seen) rs)"

fun find_index :: "('a \<Rightarrow> bool) \<Rightarrow> nat \<Rightarrow> 'a list \<Rightarrow> nat option" where
  "find_index p i [] = None"
| "find_index p i (x # xs) = (if p x then Some i else find_index p (i + 1) xs)"

definition FindBindingIndex :: "client_config \<Rightarrow> enabled_capability \<Rightarrow> nat option" where
  "FindBindingIndex cfg grant =
     find_index (\<lambda>b. contract_key (contract b) = grant_key grant) 0 (capabilities cfg)"

fun validate_endpoints :: "capability_binding \<Rightarrow> string list \<Rightarrow> string list \<Rightarrow> status" where
  "validate_endpoints b seen [] = Inr ()"
| "validate_endpoints b seen (endpoint_id # rest) =
     (case FindEndpoint (contract b) endpoint_id of
        None \<Rightarrow> Inl ''instance spec grants an unknown or duplicate endpoint''
      | Some endpoint \<Rightarrow>
          if \<not> IsCanonicalIdentifier endpoint_id \<or> endpoint_id \<in> set seen
          then Inl ''instance spec grants an unknown or duplicate endpoint''
          else if interaction endpoint = INTERACTION_MODE_UNARY \<and> \<not> cb_unary (callbacks b)
          then Inl ''enabled unary endpoint has no bound handler''
          else if interaction endpoint = INTERACTION_MODE_OPERATION \<and> \<not> cb_operation (callbacks b)
          then Inl ''enabled operation endpoint has no bound handler''
          else if interaction endpoint = INTERACTION_MODE_STREAM_SOURCE \<and> \<not> cb_source_open (callbacks b)
          then Inl ''enabled source endpoint has no bound open handler''
          else validate_endpoints b (endpoint_id # seen) rest)"

fun validate_grants ::
  "wire \<Rightarrow> client_config \<Rightarrow> string list \<Rightarrow> enabled_capability list \<Rightarrow> string + nat list" where
  "validate_grants W cfg seen [] = Inr []"
| "validate_grants W cfg seen (g # gs) =
     (if \<not> IsCanonicalIdentifier (ec_capability_id g) \<or> ec_capability_id g \<in> set seen
      then Inl ''instance spec contains an empty or duplicate capability''
      else case FindBindingIndex cfg g of
        None \<Rightarrow> Inl (''instance spec grants an unsupported contract: '' @ ec_capability_id g)
      | Some i \<Rightarrow>
          if ec_configuration g \<noteq> None \<and> \<not> IsValidPayload W (the (ec_configuration g))
          then Inl ''enabled capability configuration is malformed''
          else if enabled_endpoint_ids g = [] then Inl ''enabled capability grants no endpoints''
          else case validate_endpoints (capabilities cfg ! i) [] (enabled_endpoint_ids g) of
            Inl e \<Rightarrow> Inl e
          | Inr _ \<Rightarrow>
              (case validate_grants W cfg (ec_capability_id g # seen) gs of
                 Inl e \<Rightarrow> Inl e | Inr rest \<Rightarrow> Inr (i # rest)))"

definition ValidateInstanceSpec :: "wire \<Rightarrow> client_config \<Rightarrow> instance_spec \<Rightarrow> string + nat list" where
  "ValidateInstanceSpec W cfg spec =
     (if spec_instance_id spec \<noteq> reg_instance_id (registration cfg) \<or>
         spec_process_generation spec \<noteq> reg_process_generation (registration cfg)
      then Inl ''instance spec identity or process generation mismatch''
      else if spec_rev spec = 0 \<or> \<not> IsCanonicalSha256 (spec_dig spec)
      then Inl ''instance spec revision and digest are required''
      else case spec_scope spec of
        None \<Rightarrow> Inl ''instance spec scope is missing or non-canonical''
      | Some scope \<Rightarrow>
          if \<not> IsCanonicalScope scope then Inl ''instance spec scope is missing or non-canonical''
          else if spec_scope (initial_spec cfg) = None \<or>
                  \<not> scope_equals W scope (the (spec_scope (initial_spec cfg)))
          then Inl ''instance scope is immutable for the Adapter instance''
          else if spec_configuration spec = None \<or> \<not> IsValidPayload W (the (spec_configuration spec))
          then Inl ''instance configuration must be one valid typed payload''
          else if \<not> valid_secrets [] (spec_secrets spec)
          then Inl ''secret references must be canonical and uniquely named''
          else validate_grants W cfg [] (spec_capabilities spec))"

subsection \<open>Capability statuses\<close>

definition disabled_status :: "capability_binding \<Rightarrow> capability_status" where
  "disabled_status b = \<lparr>cs_capability_id = cc_capability_id (contract b),
     cs_contract_version = cc_contract_version (contract b),
     cs_contract_digest = cc_contract_digest (contract b), cs_state = CAPABILITY_STATE_DISABLED,
     cs_detail = ''capability contract is not enabled by the current spec''\<rparr>"

definition DisabledCapabilityStatuses :: "client_config \<Rightarrow> capability_status list" where
  "DisabledCapabilityStatuses cfg = map disabled_status (capabilities cfg)"

text \<open>Setting state and detail of every status of one contract.\<close>

definition mark_status ::
  "string \<Rightarrow> capability_state \<Rightarrow> string \<Rightarrow> capability_status list \<Rightarrow> capability_status list" where
  "mark_status key st detail =
     map (\<lambda>c. if status_key c = key then c\<lparr>cs_state := st, cs_detail := detail\<rparr> else c)"

subsection \<open>Callbacks whose exceptions are swallowed\<close>

definition SafeStopCapability :: "spec_callbacks \<Rightarrow> nat \<Rightarrow> impl \<Rightarrow> impl" where
  "SafeStopCapability cb i s =
     (if cb_stop (callbacks (capabilities (config s) ! i))
      then on_stop cb i (s\<lparr>callback_log := callback_log s @ [CalledStop i]\<rparr>) else s)"

definition SafeClearInstanceSpec :: "spec_callbacks \<Rightarrow> impl \<Rightarrow> impl" where
  "SafeClearInstanceSpec cb s =
     (if cb_clear_instance_spec (client_callbacks s)
      then on_clear cb (s\<lparr>callback_log := callback_log s @ [CalledClearInstanceSpec]\<rparr>) else s)"

definition stop_capabilities :: "spec_callbacks \<Rightarrow> nat list \<Rightarrow> impl \<Rightarrow> impl" where
  "stop_capabilities cb started s = fold (SafeStopCapability cb) (rev started) s"

subsection \<open>Deactivation\<close>

definition Deactivate_locked :: "impl \<Rightarrow> impl" where
  "Deactivate_locked s =
     (CancelAllWorkLocked (s\<lparr>accepting_work := False\<rparr>))
       \<lparr>source_streams := [], closed_sources := [], source_state_bytes := 0,
        active_capabilities := [], active_spec := default_spec, spec_revision := 0,
        spec_digest := [], capability_statuses := DisabledCapabilityStatuses (config s)\<rparr>"

definition closed_error :: "string \<Rightarrow> adapter_error" where
  "closed_error reason = MakeError ERROR_CLASS_CANCELLED ''source-stream-closed''
     (if IsCanonicalText reason then reason else ''source stream closed'') 0"

definition DeactivateApplicationUnlocked :: "spec_callbacks \<Rightarrow> string \<Rightarrow> impl \<Rightarrow> impl" where
  "DeactivateApplicationUnlocked cb reason s =
     (let bindings = map (ac_binding_index \<circ> snd) (active_capabilities s);
          streams = map snd (source_streams s);
          had_spec = spec_revision s \<noteq> 0;
          t = stop_capabilities cb bindings (on_wait cb (Deactivate_locked s));
          u = (if had_spec then SafeClearInstanceSpec cb t else t)
      in fold (\<lambda>stream. NotifySourceClosed stream (closed_error reason)) streams u)"

definition DeactivateApplication :: "spec_callbacks \<Rightarrow> string \<Rightarrow> impl \<Rightarrow> impl" where
  "DeactivateApplication cb reason s = DeactivateApplicationUnlocked cb reason s"

subsection \<open>Applying a spec\<close>

definition spec_result :: "instance_spec \<Rightarrow> apply_result" where
  "spec_result spec = \<lparr>ar_revision = spec_rev spec, ar_spec_digest = spec_dig spec,
     ar_applied = False, ar_error = None, ar_capabilities = []\<rparr>"

definition failed_result ::
  "instance_spec \<Rightarrow> error_class \<Rightarrow> string \<Rightarrow> string \<Rightarrow> capability_status list \<Rightarrow> apply_result" where
  "failed_result spec c code msg statuses =
     (spec_result spec)\<lparr>ar_error := Some (MakeError c code msg 0), ar_capabilities := statuses\<rparr>"

definition applied_result :: "instance_spec \<Rightarrow> capability_status list \<Rightarrow> apply_result" where
  "applied_result spec statuses = (spec_result spec)\<lparr>ar_applied := True, ar_capabilities := statuses\<rparr>"

text \<open>The first critical section: \<open>Inl\<close> is an early return, \<open>Inr\<close> the transition has begun.\<close>

definition BeginApply_locked ::
  "wire \<Rightarrow> string \<Rightarrow> instance_spec \<Rightarrow> impl \<Rightarrow> apply_result + impl" where
  "BeginApply_locked W expected_session spec s =
     (if session_id s \<noteq> expected_session \<or> stop_requested s \<or> session_failed s
      then Inl (failed_result spec ERROR_CLASS_CANCELLED ''stale-session''
             ''instance spec belongs to a stale or stopping session'' [])
      else if spec_rev spec = spec_revision s \<and> spec_dig spec = spec_digest s
      then if \<not> spec_equals W spec (active_spec s)
           then Inl (failed_result spec ERROR_CLASS_REJECTED ''spec-content-mismatch''
                  ''Host changed instance spec content without changing its identity'' [])
           else Inl (applied_result spec (capability_statuses s))
      else if spec_revision s \<noteq> 0 \<and> spec_rev spec \<le> spec_revision s
      then Inl (failed_result spec ERROR_CLASS_REJECTED ''stale-spec-revision''
             ''instance spec revision did not advance'' [])
      else if spec_revision s = 0 \<and> \<not> spec_equals W spec (desired_spec s)
      then Inl (failed_result spec ERROR_CLASS_REJECTED ''initial-spec-mismatch''
             ''Host spec does not match the exact desired spec for this registered session'' [])
      else Inr (CancelAllWorkLocked (s\<lparr>desired_spec := spec, cl_state := kApplyingSpec,
             accepting_work := False\<rparr>)))"

text \<open>
  One call of a callback that may refuse: whether it succeeded, the error text it leaves, and the
  state. A callback that is not bound succeeds.
\<close>

definition outcome_text ::
  "string \<Rightarrow> string \<Rightarrow> (bool \<times> string) callback_outcome \<Rightarrow> bool \<times> string" where
  "outcome_text threw threw_unknown r =
     (case r of Returned bt \<Rightarrow> bt | ThrewException what \<Rightarrow> (False, threw @ what)
      | ThrewUnknown \<Rightarrow> (False, threw_unknown))"

definition attempt ::
  "bool \<Rightarrow> callback_event \<Rightarrow> string \<Rightarrow> string \<Rightarrow> (bool \<times> string) handler \<Rightarrow> string \<Rightarrow> impl
     \<Rightarrow> (bool \<times> string) \<times> impl" where
  "attempt bound event threw threw_unknown callback err s =
     (if \<not> bound then ((True, err), s)
      else apfst (outcome_text threw threw_unknown)
             (callback (s\<lparr>callback_log := callback_log s @ [event]\<rparr>)))"

definition apply_top_level ::
  "spec_callbacks \<Rightarrow> instance_spec \<Rightarrow> impl \<Rightarrow> (bool \<times> string) \<times> impl" where
  "apply_top_level cb spec s =
     (let r = attempt (cb_apply_instance_spec (client_callbacks s)) (CalledApplyInstanceSpec spec)
            ''apply_instance_spec threw: '' ''apply_instance_spec threw an unknown exception''
            (on_apply cb spec []) [] s
      in if fst (fst r) then r
         else ((False, if IsCanonicalText (snd (fst r)) then snd (fst r)
                       else ''application rejected the instance spec''),
               SafeClearInstanceSpec cb (snd r)))"

definition start_capability ::
  "spec_callbacks \<Rightarrow> instance_spec \<Rightarrow> nat \<Rightarrow> enabled_capability \<Rightarrow> string \<Rightarrow> impl
     \<Rightarrow> (bool \<times> string) \<times> impl" where
  "start_capability cb spec i grant err s =
     attempt (cb_start (callbacks (capabilities (config s) ! i))) (CalledStart i grant)
       ''capability start threw: '' ''capability start threw an unknown exception''
       (on_start cb i spec grant err) err s"

text \<open>
  The start loop over bindings and grants: the bindings started, the contract key of the failure
  (if any), the error text and the state.
\<close>

fun start_loop ::
  "spec_callbacks \<Rightarrow> instance_spec \<Rightarrow> (nat \<times> enabled_capability) list \<Rightarrow> string \<Rightarrow> impl
     \<Rightarrow> nat list \<times> string option \<times> string \<times> impl" where
  "start_loop cb spec [] err s = ([], None, err, s)"
| "start_loop cb spec ((i, grant) # rest) err s =
     (let r = start_capability cb spec i grant err s
      in if \<not> fst (fst r)
         then ([], Some (grant_key grant),
               if IsCanonicalText (snd (fst r)) then snd (fst r)
               else ''capability start rejected '' @ ec_capability_id grant, snd r)
         else apfst (Cons i) (start_loop cb spec rest (snd (fst r)) (snd r)))"

definition active_map :: "(nat \<times> enabled_capability) list \<Rightarrow> (string, active_capability) smap" where
  "active_map grants =
     fold (\<lambda>(i, g) m. smap_emplace (ec_capability_id g)
             \<lparr>ac_binding_index = i, ac_grant = g\<rparr> m) grants []"

definition ready_statuses ::
  "client_config \<Rightarrow> (nat \<times> enabled_capability) list \<Rightarrow> capability_status list" where
  "ready_statuses cfg grants =
     fold (\<lambda>(i, g). mark_status (grant_key g) CAPABILITY_STATE_READY ''capability grant is active'')
       grants (DisabledCapabilityStatuses cfg)"

definition configuring :: "capability_status list \<Rightarrow> capability_status list" where
  "configuring = map (\<lambda>c. if cs_state c = CAPABILITY_STATE_READY
     then c\<lparr>cs_state := CAPABILITY_STATE_CONFIGURING,
            cs_detail := ''capability ready callback is pending''\<rparr> else c)"

text \<open>The commit of the new spec; \<open>None\<close> when the session went stale meanwhile.\<close>

definition CommitSpec_locked ::
  "string \<Rightarrow> instance_spec \<Rightarrow> (nat \<times> enabled_capability) list \<Rightarrow> impl \<Rightarrow> impl option" where
  "CommitSpec_locked expected_session spec grants s =
     (if session_id s \<noteq> expected_session \<or> stop_requested s \<or> session_failed s then None
      else Some (s\<lparr>active_capabilities := active_map grants, active_spec := spec,
             spec_revision := spec_rev spec, spec_digest := spec_dig spec,
             capability_statuses := configuring (ready_statuses (config s) grants),
             accepting_work := False, cl_state := kApplyingSpec,
             ready_callbacks_complete := False\<rparr>))"

fun ready_loop :: "spec_callbacks \<Rightarrow> nat list \<Rightarrow> impl \<Rightarrow> nat option \<times> impl" where
  "ready_loop cb [] s = (None, s)"
| "ready_loop cb (i # rest) s =
     (if \<not> cb_ready (callbacks (capabilities (config s) ! i)) then ready_loop cb rest s
      else case on_ready cb i (s\<lparr>callback_log := callback_log s @ [CalledReady i]\<rparr>) of
             (Returned _, t) \<Rightarrow> ready_loop cb rest t
           | (_, t) \<Rightarrow> (Some i, t))"

definition SettleReady_locked ::
  "string \<Rightarrow> (nat \<times> enabled_capability) list \<Rightarrow> impl \<Rightarrow> impl" where
  "SettleReady_locked expected_session grants s =
     (if session_id s = expected_session \<and> \<not> session_failed s \<and> \<not> stop_requested s
      then s\<lparr>capability_statuses := ready_statuses (config s) grants, accepting_work := True,
             cl_state := kReady, ready_callbacks_complete := True\<rparr>
      else s)"

definition fail_statuses :: "capability_status list \<Rightarrow> impl \<Rightarrow> impl" where
  "fail_statuses statuses s = s\<lparr>capability_statuses := statuses, cl_state := kRegistered\<rparr>"

text \<open>A start failure: the started capabilities stop in reverse order, then the spec is cleared.\<close>

definition abort_apply ::
  "spec_callbacks \<Rightarrow> instance_spec \<Rightarrow> bool \<Rightarrow> nat list \<Rightarrow> string option \<Rightarrow> string \<Rightarrow> impl
     \<Rightarrow> apply_result \<times> impl" where
  "abort_apply cb spec top_level_applied started failed err s =
     (let t = stop_capabilities cb started s;
          u = (if top_level_applied then SafeClearInstanceSpec cb t else t);
          statuses = (case failed of
                        None \<Rightarrow> DisabledCapabilityStatuses (config u)
                      | Some key \<Rightarrow> mark_status key CAPABILITY_STATE_FAILED err
                          (DisabledCapabilityStatuses (config u)))
      in (failed_result spec ERROR_CLASS_PERMANENT ''spec-apply-failed''
            (if err = [] then ''instance spec apply failed'' else err) statuses,
          fail_statuses statuses u))"

definition ready_failure ::
  "spec_callbacks \<Rightarrow> instance_spec \<Rightarrow> nat \<Rightarrow> impl \<Rightarrow> apply_result \<times> impl" where
  "ready_failure cb spec i s =
     (let statuses = mark_status (contract_key (contract (capabilities (config s) ! i)))
            CAPABILITY_STATE_FAILED ''capability ready callback failed''
            (DisabledCapabilityStatuses (config s));
          t = DeactivateApplicationUnlocked cb ''capability ready callback failed'' s
      in (failed_result spec ERROR_CLASS_PERMANENT ''ready-callback-failed''
            ''capability ready callback failed after instance spec commit'' statuses,
          (fail_statuses statuses t)\<lparr>accepting_work := False, ready_callbacks_complete := False\<rparr>))"

text \<open>From the commit on.\<close>

definition commit_stage ::
  "spec_callbacks \<Rightarrow> string \<Rightarrow> instance_spec \<Rightarrow> (nat \<times> enabled_capability) list \<Rightarrow> nat list \<Rightarrow> impl
     \<Rightarrow> apply_result \<times> impl" where
  "commit_stage cb expected_session spec grants started s =
     (case CommitSpec_locked expected_session spec grants s of
        None \<Rightarrow>
          (failed_result spec ERROR_CLASS_CANCELLED ''stale-session''
             ''session changed before instance spec commit'' [],
           SafeClearInstanceSpec cb (stop_capabilities cb started s))
      | Some t \<Rightarrow>
          (case ready_loop cb started t of
             (Some i, u) \<Rightarrow> ready_failure cb spec i u
           | (None, u) \<Rightarrow>
               (applied_result spec (ready_statuses (config u) grants),
                SettleReady_locked expected_session grants u)))"

text \<open>From the start callbacks on.\<close>

definition start_stage ::
  "spec_callbacks \<Rightarrow> string \<Rightarrow> instance_spec \<Rightarrow> (nat \<times> enabled_capability) list \<Rightarrow> string \<Rightarrow> impl
     \<Rightarrow> apply_result \<times> impl" where
  "start_stage cb expected_session spec grants err s =
     (case start_loop cb spec grants err s of
        (started, failed, err', t) \<Rightarrow>
          if length started \<noteq> length grants then abort_apply cb spec True started failed err' t
          else commit_stage cb expected_session spec grants started t)"

text \<open>The transition proper, once no callback runs any more.\<close>

definition transition_stage ::
  "spec_callbacks \<Rightarrow> string \<Rightarrow> instance_spec \<Rightarrow> (nat \<times> enabled_capability) list \<Rightarrow> impl
     \<Rightarrow> apply_result \<times> impl" where
  "transition_stage cb expected_session spec grants s =
     (if \<not> CurrentSessionIs expected_session s \<or> StopRequested s
      then (failed_result spec ERROR_CLASS_CANCELLED ''stale-session''
              ''session changed while applying instance spec'' [], s)
      else let r = apply_top_level cb spec
                 (DeactivateApplicationUnlocked cb ''instance spec replaced'' s)
           in if fst (fst r) then start_stage cb expected_session spec grants (snd (fst r)) (snd r)
              else abort_apply cb spec False [] None (snd (fst r)) (snd r))"

definition ApplyInstanceSpec ::
  "wire \<Rightarrow> spec_callbacks \<Rightarrow> string \<Rightarrow> instance_spec \<Rightarrow> impl \<Rightarrow> apply_result \<times> impl" where
  "ApplyInstanceSpec W cb expected_session spec s =
     (case ValidateInstanceSpec W (config s) spec of
        Inl e \<Rightarrow> (failed_result spec ERROR_CLASS_REJECTED ''invalid-instance-spec'' e
                   (DisabledCapabilityStatuses (config s)), s)
      | Inr indices \<Rightarrow>
          (case BeginApply_locked W expected_session spec s of
             Inl result \<Rightarrow> (result, s)
           | Inr begun \<Rightarrow>
               transition_stage cb expected_session spec (zip indices (spec_capabilities spec))
                 (on_wait cb begun)))"

subsection \<open>The books\<close>

definition env_keeps_books :: "(impl \<Rightarrow> impl) \<Rightarrow> bool" where
  "env_keeps_books f \<longleftrightarrow> (\<forall>k s. books_ok k s \<longrightarrow> books_ok k (f s))"

definition spec_env_ok :: "spec_callbacks \<Rightarrow> bool" where
  "spec_env_ok cb \<longleftrightarrow>
     (\<forall>spec e. keeps_books (on_apply cb spec e)) \<and> env_keeps_books (on_clear cb) \<and>
     (\<forall>i spec g e. keeps_books (on_start cb i spec g e)) \<and> (\<forall>i. env_keeps_books (on_stop cb i)) \<and>
     (\<forall>i. keeps_books (on_ready cb i)) \<and> env_keeps_books (on_wait cb)"

lemma spec_env_okD:
  assumes "spec_env_ok cb" and "books_ok k s"
  shows "books_ok k (snd (on_apply cb spec e s))" "books_ok k (on_clear cb s)"
    "books_ok k (snd (on_start cb i spec g e s))" "books_ok k (on_stop cb i s)"
    "books_ok k (snd (on_ready cb i s))" "books_ok k (on_wait cb s)"
  using assms by (auto simp: spec_env_ok_def keeps_books_def env_keeps_books_def)

lemmas books_log = same_books_ok [OF same_books_log]

lemma books_SafeStop: "spec_env_ok cb \<Longrightarrow> books_ok k s \<Longrightarrow> books_ok k (SafeStopCapability cb i s)"
  by (simp add: SafeStopCapability_def spec_env_okD books_log)

lemma books_SafeClear: "spec_env_ok cb \<Longrightarrow> books_ok k s \<Longrightarrow> books_ok k (SafeClearInstanceSpec cb s)"
  by (simp add: SafeClearInstanceSpec_def spec_env_okD books_log)

lemma books_fold: "(\<And>x s. books_ok k s \<Longrightarrow> books_ok k (f x s)) \<Longrightarrow> books_ok k s \<Longrightarrow> books_ok k (fold f xs s)"
  by (induction xs arbitrary: s) auto

lemma books_stop_capabilities:
  "spec_env_ok cb \<Longrightarrow> books_ok k s \<Longrightarrow> books_ok k (stop_capabilities cb started s)"
  unfolding stop_capabilities_def by (rule books_fold) (simp_all add: books_SafeStop)

text \<open>Deactivation writes the sources off, whatever slack the counter had.\<close>

lemma books_Deactivate_locked: "books_ok k s \<Longrightarrow> books_ok 0 (Deactivate_locked s)"
  by (auto simp: Deactivate_locked_def CancelAllWorkLocked_def books_ok_def queues_ok_def
      control_queue_ok_def work_queue_ok_def dispatch_queue_ok_def replay_ok_def sources_ok_def)

lemma books_DeactivateApplicationUnlocked:
  assumes "spec_env_ok cb" and "books_ok k s"
  shows "books_ok 0 (DeactivateApplicationUnlocked cb reason s)"
proof -
  have "books_ok 0 (on_wait cb (Deactivate_locked s))"
    using assms by (simp add: spec_env_okD books_Deactivate_locked)
  then show ?thesis
    unfolding DeactivateApplicationUnlocked_def Let_def
    by (intro books_fold)
      (auto intro: same_books_ok [OF same_books_NotifySourceClosed] books_SafeClear
        books_stop_capabilities assms(1))
qed

lemma same_books_spec [simp]:
  "same_books s (s\<lparr>capability_statuses := a, cl_state := b\<rparr>)"
  "same_books s (s\<lparr>accepting_work := c, ready_callbacks_complete := d\<rparr>)"
  "same_books s (s\<lparr>capability_statuses := a, accepting_work := c, cl_state := b,
     ready_callbacks_complete := d\<rparr>)"
  "same_books s (s\<lparr>active_capabilities := ac, active_spec := sp, spec_revision := n, spec_digest := dg,
     capability_statuses := a, accepting_work := c, cl_state := b, ready_callbacks_complete := d\<rparr>)"
  "same_books s (s\<lparr>desired_spec := sp, cl_state := b, accepting_work := c\<rparr>)"
  by (simp_all add: same_books_def)

lemmas books_spec = same_books_spec [THEN same_books_ok]

lemma books_BeginApply: "books_ok k s \<Longrightarrow> BeginApply_locked W e spec s = Inr t \<Longrightarrow> books_ok k t"
  by (auto simp: BeginApply_locked_def split: if_splits
      intro: same_books_ok [OF same_books_CancelAll] books_spec)

lemma books_attempt:
  "keeps_books callback \<Longrightarrow> books_ok k s \<Longrightarrow> books_ok k (snd (attempt bound event a b callback err s))"
  by (auto simp: attempt_def keeps_books_def books_log)

lemma books_apply_top_level:
  assumes "spec_env_ok cb" and "books_ok k s"
  shows "books_ok k (snd (apply_top_level cb spec s))"
proof -
  have "keeps_books (on_apply cb spec [])" using assms(1) by (simp add: spec_env_ok_def)
  then show ?thesis using assms
    by (simp add: apply_top_level_def Let_def books_attempt books_SafeClear)
qed

lemma books_start_loop:
  assumes "spec_env_ok cb" and "books_ok k s"
  shows "books_ok k (snd (snd (snd (start_loop cb spec grants err s))))"
  using assms
proof (induction cb spec grants err s rule: start_loop.induct)
  case (2 cb spec i grant rest err s)
  have "books_ok k (snd (start_capability cb spec i grant err s))"
    using 2(2,3) by (auto simp: start_capability_def spec_env_ok_def intro: books_attempt)
  then show ?case using 2 by (simp add: Let_def)
qed simp

lemma books_ready_loop:
  assumes "spec_env_ok cb" and "books_ok k s"
  shows "books_ok k (snd (ready_loop cb started s))"
  using assms
proof (induction cb started s rule: ready_loop.induct)
  case (2 cb i rest s)
  then show ?case
    using spec_env_okD(5) [OF 2(3) books_log [OF 2(4)], of i "callback_log s @ [CalledReady i]"]
    by (auto split: prod.split callback_outcome.split)
qed simp

lemma books_CommitSpec: "books_ok k s \<Longrightarrow> CommitSpec_locked e spec g s = Some t \<Longrightarrow> books_ok k t"
  by (auto simp: CommitSpec_locked_def split: if_splits intro: books_spec)

lemma books_fail_statuses: "books_ok k s \<Longrightarrow> books_ok k (fail_statuses a s)"
  by (simp add: fail_statuses_def books_spec)

lemma books_abort_apply:
  "spec_env_ok cb \<Longrightarrow> books_ok k s \<Longrightarrow> books_ok k (snd (abort_apply cb spec applied started failed err s))"
  by (auto simp: abort_apply_def Let_def
      intro!: books_fail_statuses books_SafeClear books_stop_capabilities)

lemma books_ready_failure:
  "spec_env_ok cb \<Longrightarrow> books_ok k s \<Longrightarrow> books_ok 0 (snd (ready_failure cb spec i s))"
  by (auto simp: ready_failure_def Let_def
      intro!: books_spec books_fail_statuses books_DeactivateApplicationUnlocked)

lemma books_SettleReady: "books_ok k s \<Longrightarrow> books_ok k (SettleReady_locked e g s)"
  by (simp add: SettleReady_locked_def books_spec)

lemma books_commit_stage:
  assumes "spec_env_ok cb" and "books_ok 0 s"
  shows "books_ok 0 (snd (commit_stage cb e spec grants started s))"
proof (cases "CommitSpec_locked e spec grants s")
  case None
  then show ?thesis
    using assms by (simp add: commit_stage_def books_SafeClear books_stop_capabilities)
next
  case (Some t)
  have "books_ok 0 (snd (ready_loop cb started t))"
    using Some assms books_CommitSpec books_ready_loop by blast
  then show ?thesis using Some assms(1)
    by (auto simp: commit_stage_def split: prod.split option.split
        intro: books_ready_failure books_SettleReady)
qed

lemma books_start_stage:
  assumes "spec_env_ok cb" and "books_ok 0 s"
  shows "books_ok 0 (snd (start_stage cb e spec grants err s))"
  using books_start_loop [OF assms, of spec grants err] assms(1)
  by (auto simp: start_stage_def split: prod.split intro: books_abort_apply books_commit_stage)

lemma books_transition_stage:
  assumes "spec_env_ok cb" and "books_ok 0 s"
  shows "books_ok 0 (snd (transition_stage cb e spec grants s))"
proof -
  have "books_ok 0 (snd (apply_top_level cb spec (DeactivateApplicationUnlocked cb reason s)))"
    for reason using assms by (intro books_apply_top_level books_DeactivateApplicationUnlocked)
  then show ?thesis using assms
    by (simp add: transition_stage_def Let_def books_start_stage books_abort_apply)
qed

lemma books_ApplyInstanceSpec:
  assumes env: "spec_env_ok cb" and ok: "books_ok 0 s"
  shows "books_ok 0 (snd (ApplyInstanceSpec W cb e spec s))"
  using ok spec_env_okD(6) [OF env books_BeginApply [OF ok]]
  by (auto simp: ApplyInstanceSpec_def split: sum.split intro: books_transition_stage [OF env])

subsection \<open>What a valid spec grants\<close>

lemma find_index_Some:
  assumes "find_index p i xs = Some j"
  shows "i \<le> j \<and> j < i + length xs \<and> p (xs ! (j - i))"
  using assms
proof (induction xs arbitrary: i)
  case (Cons x xs)
  show ?case
  proof (cases "p x")
    case False
    then have "find_index p (i + 1) xs = Some j" using Cons.prems by simp
    from Cons.IH [OF this] show ?thesis by (auto simp: nth_Cons')
  qed (use Cons.prems in auto)
qed simp

definition endpoint_bound :: "capability_binding \<Rightarrow> string \<Rightarrow> bool" where
  "endpoint_bound b endpoint_id \<longleftrightarrow>
     (\<exists>e. FindEndpoint (contract b) endpoint_id = Some e \<and>
        (interaction e = INTERACTION_MODE_UNARY \<longrightarrow> cb_unary (callbacks b)) \<and>
        (interaction e = INTERACTION_MODE_OPERATION \<longrightarrow> cb_operation (callbacks b)) \<and>
        (interaction e = INTERACTION_MODE_STREAM_SOURCE \<longrightarrow> cb_source_open (callbacks b)))"

definition grant_bound :: "client_config \<Rightarrow> nat \<Rightarrow> enabled_capability \<Rightarrow> bool" where
  "grant_bound cfg i g \<longleftrightarrow>
     i < length (capabilities cfg) \<and> contract_key (contract (capabilities cfg ! i)) = grant_key g \<and>
     enabled_endpoint_ids g \<noteq> [] \<and>
     (\<forall>endpoint_id \<in> set (enabled_endpoint_ids g). endpoint_bound (capabilities cfg ! i) endpoint_id)"

lemma validate_endpoints_Inr:
  "validate_endpoints b seen ids = Inr () \<Longrightarrow> endpoint_id \<in> set ids \<Longrightarrow> endpoint_bound b endpoint_id"
proof (induction b seen ids rule: validate_endpoints.induct)
  case (2 b seen x rest)
  then show ?case by (auto simp: endpoint_bound_def split: option.splits if_splits)
qed simp

lemma validate_grants_Inr:
  assumes "validate_grants W cfg seen gs = Inr is"
  shows "list_all2 (grant_bound cfg) is gs \<and> distinct (map ec_capability_id gs) \<and>
     set (map ec_capability_id gs) \<inter> set seen = {}"
  using assms
proof (induction W cfg seen gs arbitrary: "is" rule: validate_grants.induct)
  case (2 W cfg seen g gs)
  obtain i js where i: "FindBindingIndex cfg g = Some i" "is = i # js"
    "validate_grants W cfg (ec_capability_id g # seen) gs = Inr js"
    "ec_capability_id g \<notin> set seen" "enabled_endpoint_ids g \<noteq> []"
    "validate_endpoints (capabilities cfg ! i) [] (enabled_endpoint_ids g) = Inr ()"
    "IsCanonicalIdentifier (ec_capability_id g)"
    "\<not> (ec_configuration g \<noteq> None \<and> \<not> IsValidPayload W (the (ec_configuration g)))"
    using 2(2) by (auto split: if_splits option.splits sum.splits)
  have "list_all2 (grant_bound cfg) js gs \<and> distinct (map ec_capability_id gs) \<and>
     set (map ec_capability_id gs) \<inter> set (ec_capability_id g # seen) = {}"
    using 2(1) i by auto
  moreover have "grant_bound cfg i g"
    using find_index_Some [OF i(1) [unfolded FindBindingIndex_def]] i(5,6) validate_endpoints_Inr
    by (auto simp: grant_bound_def)
  ultimately show ?case using i by auto
qed simp

text \<open>
  C19: a spec is valid only for this instance and process generation, with a revision, a canonical digest
  and the immutable scope; every grant names a different capability and is matched to a bound contract
  of the same identity, each of its endpoints is declared there, and the handler of the endpoint's
  interaction mode is bound.
\<close>

theorem ValidateInstanceSpec_sound:
  assumes "ValidateInstanceSpec W cfg spec = Inr bindings"
  shows "spec_instance_id spec = reg_instance_id (registration cfg) \<and>
     spec_process_generation spec = reg_process_generation (registration cfg) \<and>
     spec_rev spec \<noteq> 0 \<and> IsCanonicalSha256 (spec_dig spec) \<and>
     (\<exists>a b. spec_scope spec = Some a \<and> spec_scope (initial_spec cfg) = Some b \<and> scope_equals W a b) \<and>
     distinct (map ec_capability_id (spec_capabilities spec)) \<and>
     list_all2 (grant_bound cfg) bindings (spec_capabilities spec)"
proof -
  have g: "validate_grants W cfg [] (spec_capabilities spec) = Inr bindings"
    and "spec_instance_id spec = reg_instance_id (registration cfg)"
    "spec_process_generation spec = reg_process_generation (registration cfg)" "spec_rev spec \<noteq> 0"
    "IsCanonicalSha256 (spec_dig spec)"
    "\<exists>a b. spec_scope spec = Some a \<and> spec_scope (initial_spec cfg) = Some b \<and> scope_equals W a b"
    using assms by (auto simp: ValidateInstanceSpec_def split: if_splits option.splits)
  then show ?thesis using validate_grants_Inr [OF g] by auto
qed

subsection \<open>The beginning of a transition\<close>

text \<open>
  C18: a spec transition begins only on the current session and only forward: the revision advances, or
  the very first spec is the desired one. From then on no Work is accepted, every Work in flight has
  its cancellation flag set, and the new spec is remembered for the next pair.
\<close>

theorem spec_transition_guard:
  assumes "BeginApply_locked W expected spec s = Inr t"
  shows "session_id s = expected \<and> \<not> stop_requested s \<and> \<not> session_failed s \<and>
     (spec_revision s \<noteq> 0 \<longrightarrow> spec_revision s < spec_rev spec) \<and>
     (spec_revision s = 0 \<longrightarrow> spec_equals W spec (desired_spec s)) \<and>
     desired_spec t = spec \<and> \<not> accepting_work t \<and> cl_state t = kApplyingSpec \<and>
     (\<forall>e \<in> set (work_tokens t). \<forall>p. token_cancellation (snd e) = Some p \<longrightarrow>
        p < length (cancel_flags s) \<longrightarrow> flag_set (cancel_flags t) p)"
proof -
  have t: "t = CancelAllWorkLocked (s\<lparr>desired_spec := spec, cl_state := kApplyingSpec,
      accepting_work := False\<rparr>)"
    and g: "session_id s = expected" "\<not> stop_requested s" "\<not> session_failed s"
      "spec_revision s \<noteq> 0 \<longrightarrow> spec_revision s < spec_rev spec"
      "spec_revision s = 0 \<longrightarrow> spec_equals W spec (desired_spec s)"
    using assms by (auto simp: BeginApply_locked_def not_le split: if_splits)
  have "desired_spec t = spec" "\<not> accepting_work t" "cl_state t = kApplyingSpec"
    "work_tokens t = work_tokens s"
    by (simp_all add: t CancelAllWorkLocked_def)
  then show ?thesis using g unfolding t by (auto simp: CancelAllWorkLocked_flags)
qed

subsection \<open>Rollback of a failed start\<close>

text \<open>Callbacks whose only effect on the client is that they were called.\<close>

definition quiet :: "spec_callbacks \<Rightarrow> bool" where
  "quiet cb \<longleftrightarrow> (\<forall>s. on_clear cb s = s) \<and> (\<forall>i s. on_stop cb i s = s) \<and>
     (\<forall>i spec g e s. snd (on_start cb i spec g e s) = s)"

definition bound_events :: "(capability_callbacks \<Rightarrow> bool) \<Rightarrow> (nat \<Rightarrow> callback_event) \<Rightarrow> client_config
    \<Rightarrow> nat list \<Rightarrow> callback_event list" where
  "bound_events bound event cfg is =
     map event (filter (\<lambda>i. bound (callbacks (capabilities cfg ! i))) is)"

lemma log_stop_capabilities:
  assumes "quiet cb"
  shows "fold (SafeStopCapability cb) is s =
     s\<lparr>callback_log := callback_log s @ bound_events cb_stop CalledStop (config s) is\<rparr>"
  using assms
proof (induction "is" arbitrary: s)
  case (Cons i "is")
  then show ?case by (simp add: SafeStopCapability_def quiet_def bound_events_def)
qed (simp add: bound_events_def)

lemma log_start_loop:
  assumes "quiet cb" and "start_loop cb spec grants err s = (begun, failed, err', t)"
  shows "\<exists>tried. (\<exists>rest. grants = tried @ rest) \<and>
     begun = map fst (if failed = None then tried else butlast tried) \<and>
     (failed \<noteq> None \<longrightarrow> tried \<noteq> []) \<and>
     t = s\<lparr>callback_log := callback_log s @ map (\<lambda>(i, g). CalledStart i g)
        (filter (\<lambda>(i, g). cb_start (callbacks (capabilities (config s) ! i))) tried)\<rparr>"
  using assms(2)
proof (induction grants arbitrary: s err begun)
  case Nil
  then show ?case by auto
next
  case (Cons ig grants)
  obtain i g where ig: "ig = (i, g)" by (cases ig)
  let ?r = "start_capability cb spec i g err s"
  let ?s = "s\<lparr>callback_log := callback_log s @ map (\<lambda>(i, g). CalledStart i g)
        (filter (\<lambda>(i, g). cb_start (callbacks (capabilities (config s) ! i))) [(i, g)])\<rparr>"
  have r: "snd ?r = ?s"
    using assms(1) by (simp add: start_capability_def attempt_def quiet_def)
  show ?case
  proof (cases "fst (fst ?r)")
    case False
    then have "begun = []" "failed \<noteq> None" "t = ?s"
      using Cons.prems r by (auto simp: ig Let_def)
    then show ?thesis by (intro exI [of _ "[(i, g)]"]) (auto simp: ig)
  next
    case True
    then obtain st where st: "start_loop cb spec grants (snd (fst ?r)) ?s = (st, failed, err', t)"
      "begun = i # st"
      using Cons.prems r by (cases "start_loop cb spec grants (snd (fst ?r)) ?s") (auto simp: ig Let_def)
    obtain tried rest where tr: "grants = tried @ rest"
      "st = map fst (if failed = None then tried else butlast tried)" "failed \<noteq> None \<longrightarrow> tried \<noteq> []"
      "t = ?s\<lparr>callback_log := callback_log ?s @ map (\<lambda>(i, g). CalledStart i g)
        (filter (\<lambda>(i, g). cb_start (callbacks (capabilities (config ?s) ! i))) tried)\<rparr>"
      using Cons.IH [OF st(1)] by blast
    then show ?thesis using st(2)
      by (intro exI [of _ "(i, g) # tried"]) (auto simp: ig)
  qed
qed


end
