(* ===== verification/Session.thy ===== *)
theory Session
  imports Instance_Spec
begin

text \<open>
  \<open>src/session.cpp\<close> and \<open>src/session_state.cpp\<close>: registration, the state a session and a
  connection pair start from, pair replacement, loss of the session, stop, and the supervisor loop
  with its reconnect budget. The gRPC status and the response of \<open>Register\<close> are arguments.
\<close>

subsection \<open>Statuses\<close>

datatype grpc_code =
    GRPC_OK | GRPC_FAILED_PRECONDITION | GRPC_PERMISSION_DENIED | GRPC_UNAUTHENTICATED
  | GRPC_ABORTED | GrpcCodeOther int

record grpc_status =
  error_code :: grpc_code
  status_message :: string

definition IsTerminalSessionStatus :: "grpc_status \<Rightarrow> bool" where
  "IsTerminalSessionStatus st \<longleftrightarrow>
     error_code st = GRPC_FAILED_PRECONDITION \<or> error_code st = GRPC_PERMISSION_DENIED \<or>
     error_code st = GRPC_UNAUTHENTICATED \<or> error_code st = GRPC_ABORTED"

record register_response =
  rr_accepted :: bool
  rr_error_message :: string
  rr_host_id :: string
  rr_session_id :: string
  rr_process_generation :: u64
  rr_session_generation :: u64
  rr_runtime_epoch :: u64
  rr_runtime_link_protocol_version :: u32
  rr_heartbeat_interval_ms :: u32
  rr_maximum_control_frame_bytes :: u32
  rr_maximum_work_frame_bytes :: u32

definition kClientVersion :: string where "kClientVersion = ''0.6.0''"
definition kRuntimeLinkProtocolVersion :: u32 where "kRuntimeLinkProtocolVersion = 2"
definition kDefaultHeartbeatIntervalMs :: u32 where "kDefaultHeartbeatIntervalMs = 1000"
definition kMinimumHeartbeatIntervalMs :: u32 where "kMinimumHeartbeatIntervalMs = 100"

subsection \<open>Registration\<close>

definition BeginRegister_locked :: "impl \<Rightarrow> string + impl" where
  "BeginRegister_locked s =
     (if registration_attempted s then Inl ''Register is single-use for this process generation''
      else if stop_requested s then Inl ''Register was cancelled before dispatch''
      else Inr (s\<lparr>registration_attempted := True\<rparr>))"

definition register_request_of :: "impl \<Rightarrow> register_request" where
  "register_request_of s = (registration (config s))\<lparr>reg_sdk_version := kClientVersion\<rparr>"

definition ForgetBootstrapToken :: "impl \<Rightarrow> impl" where
  "ForgetBootstrapToken s =
     s\<lparr>config := (config s)\<lparr>registration := (registration (config s))\<lparr>reg_bootstrap_token := []\<rparr>\<rparr>\<rparr>"

definition fence_of_response :: "register_response \<Rightarrow> session_fence" where
  "fence_of_response r =
     \<lparr>fence_host_id = rr_host_id r, fence_session_id = rr_session_id r,
      fence_session_generation = rr_session_generation r, fence_runtime_epoch = rr_runtime_epoch r,
      fence_runtime_link_protocol_version = rr_runtime_link_protocol_version r,
      fence_heartbeat_interval_ms =
        (if rr_heartbeat_interval_ms r = 0 then kDefaultHeartbeatIntervalMs
         else max kMinimumHeartbeatIntervalMs (rr_heartbeat_interval_ms r)),
      fence_maximum_control_frame_bytes = rr_maximum_control_frame_bytes r,
      fence_maximum_work_frame_bytes = rr_maximum_work_frame_bytes r,
      fence_connection_epoch = 1\<rparr>"

definition CheckRegistration ::
  "client_config \<Rightarrow> grpc_status \<Rightarrow> register_response \<Rightarrow> string + session_fence" where
  "CheckRegistration cfg st r =
     (let work_frame_bytes = ucast (rr_maximum_work_frame_bytes r) :: size_t;
          digest_metadata_bytes = 71 * 2 :: size_t;
          minimum_terminal_replay_bytes = work_frame_bytes + digest_metadata_bytes;
          minimum_source_state_bytes = work_frame_bytes * 2 + digest_metadata_bytes
      in if error_code st \<noteq> GRPC_OK
         then Inl (if status_message st = [] then ''Register transport failed'' else status_message st)
         else if \<not> rr_accepted r
         then Inl (if rr_error_message r = [] then ''Register was rejected'' else rr_error_message r)
         else if rr_host_id r = [] \<or> rr_session_id r = [] \<or>
                 rr_process_generation r \<noteq> reg_process_generation (registration cfg) \<or>
                 rr_session_generation r = 0 \<or> rr_runtime_epoch r = 0
         then Inl ''Register omitted or mismatched session fencing''
         else if rr_runtime_link_protocol_version r \<noteq> kRuntimeLinkProtocolVersion
         then Inl ''Host did not select Runtime Link protocol version 2''
         else if rr_maximum_control_frame_bytes r = 0 \<or> rr_maximum_work_frame_bytes r = 0
         then Inl ''Host omitted mandatory Control/Work frame limits''
         else if work_frame_bytes > - 1 - digest_metadata_bytes \<or>
                 work_frame_bytes > (- 1 - digest_metadata_bytes) div 2
         then Inl ''negotiated Work frame limit cannot be represented''
         else if maximum_control_queue_bytes cfg < ucast (rr_maximum_control_frame_bytes r) \<or>
                 maximum_work_queue_bytes cfg < work_frame_bytes \<or>
                 maximum_dispatch_queue_bytes cfg < work_frame_bytes \<or>
                 maximum_terminal_replay_bytes cfg < minimum_terminal_replay_bytes \<or>
                 maximum_source_state_bytes cfg < minimum_source_state_bytes
         then Inl ''configured byte budgets cannot hold one negotiated frame''
         else Inr (fence_of_response r))"

text \<open>The whole call: the request that is sent, if one is, the result and the state.\<close>

definition Register ::
  "(register_request \<Rightarrow> grpc_status \<times> register_response) \<Rightarrow> impl
     \<Rightarrow> register_request option \<times> (string + session_fence) \<times> impl" where
  "Register rpc s =
     (case BeginRegister_locked s of
        Inl e \<Rightarrow> (None, Inl e, s)
      | Inr t \<Rightarrow>
          let request = register_request_of t; (st, r) = rpc request; u = ForgetBootstrapToken t
          in (Some request, CheckRegistration (config u) st r, u))"

subsection \<open>Releasing every token\<close>

function ReleaseAllTokensLocked :: "impl \<Rightarrow> impl" where
  "ReleaseAllTokensLocked s =
     (case work_tokens s of
        [] \<Rightarrow> s
      | e # _ \<Rightarrow> ReleaseAllTokensLocked (ReleaseWorkTokenLocked (fst e) s))"
  by pat_completeness auto
termination
  by (relation "measure (\<lambda>s. length (work_tokens s))")
    (auto simp: smap_erase_def le_imp_less_Suc split: list.splits)

declare ReleaseAllTokensLocked.simps [simp del]

subsection \<open>Session and pair state\<close>

definition InstallSession :: "session_fence \<Rightarrow> impl \<Rightarrow> impl" where
  "InstallSession fence s =
     s\<lparr>session_failed := False, host_id := fence_host_id fence, session_id := fence_session_id fence,
       session_generation := fence_session_generation fence,
       runtime_epoch := fence_runtime_epoch fence,
       runtime_link_protocol_version := fence_runtime_link_protocol_version fence,
       heartbeat_interval_ms := fence_heartbeat_interval_ms fence,
       maximum_control_frame_bytes := fence_maximum_control_frame_bytes fence,
       maximum_work_frame_bytes := fence_maximum_work_frame_bytes fence,
       connection_epoch_counter := fence_connection_epoch fence,
       desired_spec := initial_spec (config s),
       control_out_sequence := 0, work_out_sequence := 0, control_in_sequence := 0,
       work_in_sequence := 0, control_queue := [], work_queue := [], dispatch_queue := [],
       source_streams := [], closed_sources := [], control_queue_bytes := 0, work_queue_bytes := 0,
       dispatch_queue_bytes := 0, source_state_bytes := 0,
       capability_statuses := DisabledCapabilityStatuses (config s), accepting_work := False,
       drain_requested := False, drain_reported := False, ready_callbacks_complete := False,
       cl_state := kRegistered\<rparr>"

definition PrepareConnectionPairLocked :: "session_fence \<Rightarrow> impl \<Rightarrow> impl" where
  "PrepareConnectionPairLocked fence s =
     (let t = ReleaseAllTokensLocked (s\<lparr>session_failed := False, pair_ready := False,
            work_attach_allowed := False, work_attach_connection_epoch := 0,
            control_out_sequence := 0, work_out_sequence := 0, control_in_sequence := 0,
            work_in_sequence := 0, control_queue := [], work_queue := [], dispatch_queue := []\<rparr>)
      in t\<lparr>closed_sources := [], control_queue_bytes := 0, work_queue_bytes := 0,
           dispatch_queue_bytes := 0, source_state_bytes := 0, accepting_work := False,
           drain_requested := False, drain_reported := False,
           ready_callbacks_complete := (spec_revision t \<noteq> 0),
           cl_state := (if fence_connection_epoch fence = 1 then kRegistered else kReconnecting)\<rparr>)"

definition RetireSources_locked :: "impl \<Rightarrow> impl" where
  "RetireSources_locked s =
     (CancelAllWorkLocked (s\<lparr>accepting_work := False\<rparr>))
       \<lparr>source_streams := [], dispatch_queue := [], dispatch_queue_bytes := 0\<rparr>"

definition replaced_error :: "bool \<Rightarrow> adapter_error" where
  "replaced_error stopped = MakeError ERROR_CLASS_CANCELLED ''connection-pair-replaced''
     (if stopped then ''Runtime Link stopped'' else ''Runtime Link connection pair was replaced'') 0"

definition PreparePairReplacement :: "(impl \<Rightarrow> impl) \<Rightarrow> impl \<Rightarrow> impl" where
  "PreparePairReplacement wait s =
     (let sources = map snd (source_streams s);
          t = ReleaseAllTokensLocked (wait (RetireSources_locked s))
      in fold (\<lambda>source. NotifySourceClosed source (replaced_error (StopRequested t))) sources t)"

definition ClearConnectionStateLocked :: "impl \<Rightarrow> impl" where
  "ClearConnectionStateLocked s =
     (let t = ReleaseAllTokensLocked (s\<lparr>control_queue := [], work_queue := [], dispatch_queue := []\<rparr>)
      in t\<lparr>control_queue_bytes := 0, work_queue_bytes := 0, dispatch_queue_bytes := 0,
           control_out_sequence := 0, work_out_sequence := 0, control_in_sequence := 0,
           work_in_sequence := 0, work_attach_allowed := False, pair_ready := False,
           work_attach_connection_epoch := 0, session_failed := False, accepting_work := False,
           drain_requested := False, drain_reported := False,
           ready_callbacks_complete := (spec_revision t \<noteq> 0)\<rparr>)"

definition ResetSessionLocked :: "impl \<Rightarrow> impl" where
  "ResetSessionLocked s =
     (let t = ReleaseAllTokensLocked (s\<lparr>host_id := [], session_id := [], session_generation := 0,
            runtime_epoch := 0, runtime_link_protocol_version := 0, heartbeat_interval_ms := 0,
            maximum_control_frame_bytes := 0, maximum_work_frame_bytes := 0,
            connection_epoch_counter := 0, spec_revision := 0, spec_digest := [],
            active_spec := default_spec, desired_spec := default_spec, active_capabilities := [],
            source_streams := [], closed_sources := [], control_queue := [], work_queue := [],
            dispatch_queue := []\<rparr>)
      in t\<lparr>replay := [], control_queue_bytes := 0, work_queue_bytes := 0, dispatch_queue_bytes := 0,
           source_state_bytes := 0, terminal_replay_bytes := 0,
           capability_statuses := DisabledCapabilityStatuses (config t), accepting_work := False,
           session_failed := False, drain_requested := False, drain_reported := False,
           ready_callbacks_complete := False, work_attach_allowed := False, pair_ready := False,
           work_attach_connection_epoch := 0, terminal_session_failure := False,
           terminal_session_error := []\<rparr>)"

text \<open>The critical section of \<open>EnterSessionLost\<close>: whether the loss has to be reported.\<close>

definition SessionLost_locked :: "string \<Rightarrow> impl \<Rightarrow> bool \<times> impl" where
  "SessionLost_locked reason s =
     (if stop_requested s then (False, s)
      else (\<not> session_lost_reported s,
            s\<lparr>terminal_session_failure := True, terminal_session_error := reason,
              session_failed := True, accepting_work := False, cl_state := kSessionLost,
              last_error := reason, session_lost_reported := True\<rparr>))"

definition report_session_lost :: "string \<Rightarrow> impl \<Rightarrow> impl" where
  "report_session_lost reason s =
     (if cb_session_lost (client_callbacks s)
      then s\<lparr>callback_log := callback_log s @ [CalledSessionLost reason]\<rparr> else s)"

definition EnterSessionLost :: "spec_callbacks \<Rightarrow> string \<Rightarrow> impl \<Rightarrow> impl" where
  "EnterSessionLost cb reason s =
     (case SessionLost_locked reason (DeactivateApplication cb reason s) of
        (notify, t) \<Rightarrow> if notify then report_session_lost reason t else t)"

subsection \<open>Start, stop and the snapshot\<close>

text \<open>\<open>threads\<close>: whether the supervisor thread or a dispatch thread has not been joined yet.\<close>

definition BeginStart_locked :: "bool \<Rightarrow> impl \<Rightarrow> string + impl" where
  "BeginStart_locked threads s =
     (if cl_state s \<noteq> kStopped \<or> threads then Inl ''Adapter Runtime client is already started''
      else Inr (s\<lparr>stop_requested := False, session_failed := False, terminal_session_failure := False,
             session_lost_reported := False, cl_state := kConnecting, last_error := [],
             terminal_session_error := [], replay := [], terminal_replay_bytes := 0,
             rejected_dispatches := 0, dropped_outbound_frames := 0\<rparr>))"

definition start_ready :: "impl \<Rightarrow> bool" where
  "start_ready s \<longleftrightarrow> cl_state s = kReady \<and> ready_callbacks_complete s \<and> pair_ready s"

definition RequestStop_locked :: "impl \<Rightarrow> impl" where
  "RequestStop_locked s =
     CancelAllWorkLocked (s\<lparr>stop_requested := True, accepting_work := False, cl_state := kStopping\<rparr>)"

text \<open>After every thread has been joined.\<close>

definition FinishStop :: "spec_callbacks \<Rightarrow> impl \<Rightarrow> impl" where
  "FinishStop cb s =
     (let t = ResetSessionLocked (DeactivateApplication cb ''client stopped'' s);
          u = ReleaseAllTokensLocked (t\<lparr>cl_state := kStopped, dispatch_queue := []\<rparr>)
      in u\<lparr>replay := [], terminal_replay_bytes := 0\<rparr>)"

text \<open>\<open>joins\<close> is what the threads still do until they are joined.\<close>

definition Stop :: "spec_callbacks \<Rightarrow> (impl \<Rightarrow> impl) \<Rightarrow> bool \<Rightarrow> impl \<Rightarrow> impl" where
  "Stop cb joins threads s =
     (if cl_state s = kStopped \<and> \<not> threads then s
      else FinishStop cb (joins (RequestStop_locked s)))"

record session_snapshot =
  snap_state :: client_state
  snap_host_id :: string
  snap_session_id :: string
  snap_process_generation :: u64
  snap_session_generation :: u64
  snap_runtime_epoch :: u64
  snap_spec_revision :: u64
  snap_spec_digest :: string
  snap_runtime_link_protocol_version :: u32
  snap_heartbeat_interval_ms :: u32
  snap_in_flight_work :: size_t
  snap_rejected_dispatches :: u64
  snap_dropped_outbound_frames :: u64
  snap_last_error :: string
  snap_capabilities :: "capability_status list"

definition session :: "impl \<Rightarrow> session_snapshot" where
  "session s = \<lparr>snap_state = cl_state s, snap_host_id = host_id s, snap_session_id = session_id s,
     snap_process_generation = reg_process_generation (registration (config s)),
     snap_session_generation = session_generation s, snap_runtime_epoch = runtime_epoch s,
     snap_spec_revision = spec_revision s, snap_spec_digest = spec_digest s,
     snap_runtime_link_protocol_version = runtime_link_protocol_version s,
     snap_heartbeat_interval_ms = heartbeat_interval_ms s, snap_in_flight_work = in_flight_work s,
     snap_rejected_dispatches = rejected_dispatches s,
     snap_dropped_outbound_frames = dropped_outbound_frames s, snap_last_error = last_error s,
     snap_capabilities = capability_statuses s\<rparr>"

subsection \<open>The supervisor\<close>

record supervisor =
  sv_reconnects_used :: size_t
  sv_reconnect_delay :: u32

text \<open>What the loop body decides once the streams of a pair have been joined.\<close>

datatype pair_verdict = PairStopped | PairLost string | PairRetry supervisor

definition exhausted_reason :: "string \<Rightarrow> string" where
  "exhausted_reason pair_error = ''paired Runtime Link reconnect budget exhausted'' @
     (if pair_error = [] then [] else '': '' @ pair_error)"

definition JudgePair :: "bool \<Rightarrow> supervisor \<Rightarrow> impl \<Rightarrow> pair_verdict \<times> impl" where
  "JudgePair pair_was_ready sv s =
     (if StopRequested s then (PairStopped, s)
      else if TerminalSessionFailureRequested s then (PairLost (terminal_session_error s), s)
      else let sv' = (if pair_was_ready
                      then \<lparr>sv_reconnects_used = 0,
                            sv_reconnect_delay = reconnect_initial_delay_ms (config s)\<rparr>
                      else sv)
           in if sv_reconnects_used sv' \<ge> maximum_pair_reconnect_attempts (config s)
              then (PairLost (exhausted_reason (last_error s)), s)
              else if connection_epoch_counter s = - 1
              then (PairLost ''connection epoch is exhausted'',
                    s\<lparr>terminal_session_failure := True,
                      terminal_session_error := ''connection epoch is exhausted''\<rparr>)
              else (PairRetry \<lparr>sv_reconnects_used = sv_reconnects_used sv' + 1,
                               sv_reconnect_delay = NextBackoff s (sv_reconnect_delay sv')\<rparr>,
                    s\<lparr>connection_epoch_counter := connection_epoch_counter s + 1,
                      cl_state := kReconnecting\<rparr>))"

text \<open>
  One iteration: the pair is prepared, \<open>run\<close> is everything the threads of the pair do until they
  are joined, then the pair is retired and judged.
\<close>

definition SupervisorPair ::
  "(impl \<Rightarrow> impl) \<Rightarrow> (impl \<Rightarrow> impl) \<Rightarrow> session_fence \<Rightarrow> supervisor \<Rightarrow> impl \<Rightarrow> pair_verdict \<times> impl" where
  "SupervisorPair wait run session_fence sv s =
     (let fence = session_fence\<lparr>fence_connection_epoch := connection_epoch_counter s\<rparr>;
          t = PreparePairReplacement wait (run (PrepareConnectionPairLocked fence s))
      in JudgePair (pair_ready t) sv (ClearConnectionStateLocked t))"

definition SupervisorExit :: "spec_callbacks \<Rightarrow> impl \<Rightarrow> impl" where
  "SupervisorExit cb s =
     (ResetSessionLocked (DeactivateApplication cb ''Runtime Link supervisor stopped'' s))
       \<lparr>cl_state := kStopped\<rparr>"

text \<open>The loop, with fuel for its iterations; \<open>run n\<close> is the \<open>n\<close>-th pair. \<open>None\<close>: out of fuel.\<close>

fun supervisor_pairs ::
  "nat \<Rightarrow> spec_callbacks \<Rightarrow> (nat \<Rightarrow> impl \<Rightarrow> impl) \<Rightarrow> session_fence \<Rightarrow> nat \<Rightarrow> supervisor \<Rightarrow> impl
     \<Rightarrow> impl option" where
  "supervisor_pairs 0 cb run fence n sv s = None"
| "supervisor_pairs (Suc fuel) cb run fence n sv s =
     (if StopRequested s then Some (SupervisorExit cb s)
      else case SupervisorPair (on_wait cb) (run n) fence sv s of
             (PairStopped, t) \<Rightarrow> Some (SupervisorExit cb t)
           | (PairLost reason, t) \<Rightarrow> Some (EnterSessionLost cb reason t)
           | (PairRetry sv', t) \<Rightarrow> supervisor_pairs fuel cb run fence (Suc n) sv' t)"

definition SupervisorLoop ::
  "nat \<Rightarrow> spec_callbacks \<Rightarrow> (register_request \<Rightarrow> grpc_status \<times> register_response)
     \<Rightarrow> (nat \<Rightarrow> impl \<Rightarrow> impl) \<Rightarrow> impl \<Rightarrow> impl option" where
  "SupervisorLoop fuel cb rpc run s =
     (case Register rpc s of
        (_, Inl e, t) \<Rightarrow>
          Some (if StopRequested t then t else EnterSessionLost cb (''registration failed: '' @ e) t)
      | (_, Inr fence, t) \<Rightarrow>
          let u = InstallSession fence t
          in supervisor_pairs fuel cb run fence 0
               \<lparr>sv_reconnects_used = 0,
                sv_reconnect_delay = reconnect_initial_delay_ms (config u)\<rparr> u)"

subsection \<open>The books\<close>

lemma ReleaseWorkToken_fields:
  "\<exists>n. ReleaseWorkTokenLocked work_id s =
     s\<lparr>terminal_replay_bytes := n, work_tokens := smap_erase work_id (work_tokens s)\<rparr>"
proof (cases "smap_find work_id (work_tokens s)")
  case None
  then have "ReleaseWorkTokenLocked work_id s = s\<lparr>terminal_replay_bytes := terminal_replay_bytes s,
      work_tokens := smap_erase work_id (work_tokens s)\<rparr>"
    by (simp add: ReleaseWorkTokenLocked_def smap_erase_absent)
  then show ?thesis by blast
qed (auto simp: ReleaseWorkTokenLocked_def)

lemma ReleaseAllTokens_Nil: "work_tokens s = [] \<Longrightarrow> ReleaseAllTokensLocked s = s"
  by (subst ReleaseAllTokensLocked.simps) simp

lemma ReleaseAllTokens_Cons:
  "work_tokens s = e # es \<Longrightarrow>
     ReleaseAllTokensLocked s = ReleaseAllTokensLocked (ReleaseWorkTokenLocked (fst e) s)"
  by (subst ReleaseAllTokensLocked.simps) simp

lemma ReleaseAllTokens_fields:
  "\<exists>n. ReleaseAllTokensLocked s = s\<lparr>terminal_replay_bytes := n, work_tokens := []\<rparr>"
proof (induction s rule: ReleaseAllTokensLocked.induct)
  case (1 s)
  show ?case
  proof (cases "work_tokens s")
    case Nil
    then have "s = s\<lparr>terminal_replay_bytes := terminal_replay_bytes s, work_tokens := []\<rparr>"
      by (intro impl.equality) simp_all
    then show ?thesis unfolding ReleaseAllTokens_Nil [OF Nil] by (rule exI)
  next
    case (Cons e es)
    obtain n where "ReleaseWorkTokenLocked (fst e) s =
        s\<lparr>terminal_replay_bytes := n, work_tokens := smap_erase (fst e) (work_tokens s)\<rparr>"
      using ReleaseWorkToken_fields by blast
    then show ?thesis using "1.IH" [OF Cons] by (auto simp: ReleaseAllTokens_Cons [OF Cons])
  qed
qed

lemma ReleaseAllTokens_keeps:
  assumes "\<And>t wid. P t \<Longrightarrow> P (ReleaseWorkTokenLocked wid t)"
  shows "P s \<Longrightarrow> P (ReleaseAllTokensLocked s)"
proof (induction s rule: ReleaseAllTokensLocked.induct)
  case (1 s)
  then show ?case
    using assms by (cases "work_tokens s") (simp_all add: ReleaseAllTokens_Nil ReleaseAllTokens_Cons)
qed

lemma replay_ReleaseAllTokens: "replay_ok s \<Longrightarrow> replay_ok (ReleaseAllTokensLocked s)"
  by (rule ReleaseAllTokens_keeps) (rule replay_ReleaseWorkToken)

lemma books_ReleaseAllTokens: "books_ok k s \<Longrightarrow> books_ok k (ReleaseAllTokensLocked s)"
  by (rule ReleaseAllTokens_keeps) (rule books_ReleaseWorkToken)

text \<open>The replay ledger looks at no other component.\<close>

lemma replay_ok_cong:
  assumes "replay t = replay s" "work_tokens t = work_tokens s" "config t = config s"
    "terminal_replay_bytes t = terminal_replay_bytes s"
  shows "replay_ok t = replay_ok s"
  using assms by (simp add: replay_ok_def)

text \<open>Empty queues and no sources, with their counters at zero.\<close>

definition idle :: "impl \<Rightarrow> bool" where
  "idle s \<longleftrightarrow> control_queue s = [] \<and> control_queue_bytes s = 0 \<and> work_queue s = [] \<and>
     work_queue_bytes s = 0 \<and> dispatch_queue s = [] \<and> dispatch_queue_bytes s = 0"

lemma books_idle:
  assumes "idle s" and "replay_ok s" and "sources_ok k s"
  shows "books_ok k s"
  using assms
  by (simp add: books_ok_def idle_def queues_ok_def control_queue_ok_def work_queue_ok_def
      dispatch_queue_ok_def)

lemma sources_none: "source_streams s = [] \<Longrightarrow> closed_sources s = [] \<Longrightarrow> source_state_bytes s = 0 \<Longrightarrow>
    sources_ok 0 s"
  by (simp add: sources_ok_def)

lemma books_InstallSession: "books_ok k s \<Longrightarrow> books_ok 0 (InstallSession fence s)"
  by (intro books_idle sources_none)
    (simp_all add: InstallSession_def idle_def books_ok_def replay_ok_def)

lemma books_PrepareConnectionPair:
  assumes "books_ok k s" and "source_streams s = []"
  shows "books_ok 0 (PrepareConnectionPairLocked fence s)"
proof -
  let ?s = "s\<lparr>session_failed := False, pair_ready := False,
            work_attach_allowed := False, work_attach_connection_epoch := 0,
            control_out_sequence := 0, work_out_sequence := 0, control_in_sequence := 0,
            work_in_sequence := 0, control_queue := [], work_queue := [], dispatch_queue := []\<rparr>"
  have "replay_ok ?s" using assms(1) by (simp add: books_ok_def replay_ok_def)
  then have "replay_ok (ReleaseAllTokensLocked ?s)" by (rule replay_ReleaseAllTokens)
  moreover obtain n where "ReleaseAllTokensLocked ?s = ?s\<lparr>terminal_replay_bytes := n, work_tokens := []\<rparr>"
    using ReleaseAllTokens_fields by blast
  ultimately show ?thesis using assms(2)
    by (intro books_idle sources_none)
      (simp_all add: PrepareConnectionPairLocked_def Let_def idle_def replay_ok_def)
qed

text \<open>Retiring the sources of a pair leaves their bytes in the counter until the next pair.\<close>

definition stream_bytes :: "impl \<Rightarrow> nat" where
  "stream_bytes s = smap_weight (unat \<circ> src_accounted_bytes) (source_streams s)"

lemma books_RetireSources:
  "books_ok k s \<Longrightarrow> books_ok (stream_bytes s + k) (RetireSources_locked s)"
  by (auto simp: RetireSources_locked_def CancelAllWorkLocked_def books_ok_def queues_ok_def
      control_queue_ok_def work_queue_ok_def dispatch_queue_ok_def replay_ok_def sources_ok_def
      stream_bytes_def)

lemma books_PreparePairReplacement:
  assumes "env_keeps_books wait" and "books_ok k s"
  shows "books_ok (stream_bytes s + k) (PreparePairReplacement wait s)"
proof -
  have "books_ok (stream_bytes s + k) (ReleaseAllTokensLocked (wait (RetireSources_locked s)))"
    using assms by (intro books_ReleaseAllTokens) (simp add: env_keeps_books_def books_RetireSources)
  then show ?thesis
    unfolding PreparePairReplacement_def Let_def
    by (intro books_fold) (auto intro: same_books_ok [OF same_books_NotifySourceClosed])
qed

lemma books_ClearConnectionState: 
  assumes "books_ok k s"
  shows "books_ok k (ClearConnectionStateLocked s)"
proof -
  let ?s = "s\<lparr>control_queue := [], work_queue := [], dispatch_queue := []\<rparr>"
  have "replay_ok ?s" using assms(1) by (simp add: books_ok_def replay_ok_def)
  then have "replay_ok (ReleaseAllTokensLocked ?s)" by (rule replay_ReleaseAllTokens)
  moreover obtain n where "ReleaseAllTokensLocked ?s = ?s\<lparr>terminal_replay_bytes := n, work_tokens := []\<rparr>"
    using ReleaseAllTokens_fields by blast
  ultimately show ?thesis using assms
    by (intro books_idle)
      (simp_all add: ClearConnectionStateLocked_def Let_def idle_def replay_ok_def sources_ok_def
        books_ok_def)
qed

lemma empty_books: "idle s \<Longrightarrow> replay s = [] \<Longrightarrow> work_tokens s = [] \<Longrightarrow> terminal_replay_bytes s = 0 \<Longrightarrow>
    source_streams s = [] \<Longrightarrow> closed_sources s = [] \<Longrightarrow> source_state_bytes s = 0 \<Longrightarrow> books_ok 0 s"
  by (intro books_idle sources_none) (simp_all add: replay_ok_def)

lemma ReleaseAllTokens_frame [simp]:
  "work_tokens (ReleaseAllTokensLocked s) = []"
  "replay (ReleaseAllTokensLocked s) = replay s"
  "config (ReleaseAllTokensLocked s) = config s"
  "source_streams (ReleaseAllTokensLocked s) = source_streams s"
  "closed_sources (ReleaseAllTokensLocked s) = closed_sources s"
  "source_state_bytes (ReleaseAllTokensLocked s) = source_state_bytes s"
  "cl_state (ReleaseAllTokensLocked s) = cl_state s"
  "session_id (ReleaseAllTokensLocked s) = session_id s"
  "spec_revision (ReleaseAllTokensLocked s) = spec_revision s"
  "stop_requested (ReleaseAllTokensLocked s) = stop_requested s"
  "pair_ready (ReleaseAllTokensLocked s) = pair_ready s"
  "connection_epoch_counter (ReleaseAllTokensLocked s) = connection_epoch_counter s"
  "control_queue (ReleaseAllTokensLocked s) = control_queue s"
  "work_queue (ReleaseAllTokensLocked s) = work_queue s"
  "dispatch_queue (ReleaseAllTokensLocked s) = dispatch_queue s"
  "control_queue_bytes (ReleaseAllTokensLocked s) = control_queue_bytes s"
  "work_queue_bytes (ReleaseAllTokensLocked s) = work_queue_bytes s"
  "dispatch_queue_bytes (ReleaseAllTokensLocked s) = dispatch_queue_bytes s"
  "accepting_work (ReleaseAllTokensLocked s) = accepting_work s"
  "active_capabilities (ReleaseAllTokensLocked s) = active_capabilities s"
  using ReleaseAllTokens_fields [of s] by (auto simp: idle_def)

lemma books_ResetSession: "books_ok 0 (ResetSessionLocked s)"
  by (rule empty_books) (simp_all add: ResetSessionLocked_def Let_def idle_def)

lemma books_BeginStart:
  assumes "books_ok k s" and "work_tokens s = []" and "BeginStart_locked threads s = Inr t"
  shows "books_ok k t"
  using assms
  by (auto simp: BeginStart_locked_def books_ok_def queues_ok_def control_queue_ok_def
      work_queue_ok_def dispatch_queue_ok_def replay_ok_def sources_ok_def split: if_splits)

lemma books_FinishStop: "books_ok 0 (FinishStop cb s)"
  by (rule empty_books) (simp_all add: FinishStop_def ResetSessionLocked_def Let_def idle_def)

lemma same_books_session_lost [simp]:
  "same_books s (snd (SessionLost_locked reason s))" "same_books s (report_session_lost reason s)"
  by (simp_all add: SessionLost_locked_def report_session_lost_def same_books_def)

lemma books_EnterSessionLost:
  assumes "spec_env_ok cb" and "books_ok k s"
  shows "books_ok 0 (EnterSessionLost cb reason s)"
proof -
  have "books_ok 0 (DeactivateApplication cb reason s)"
    using assms by (simp add: DeactivateApplication_def books_DeactivateApplicationUnlocked)
  then have "books_ok 0 (snd (SessionLost_locked reason (DeactivateApplication cb reason s)))"
    using same_books_ok same_books_session_lost(1) by blast
  then show ?thesis
    by (auto simp: EnterSessionLost_def split_beta intro: same_books_ok [OF same_books_session_lost(2)])
qed

lemma books_ForgetBootstrapToken: "books_ok k (ForgetBootstrapToken s) = books_ok k s"
  by (simp add: ForgetBootstrapToken_def books_ok_def queues_ok_def control_queue_ok_def
      work_queue_ok_def dispatch_queue_ok_def replay_ok_def sources_ok_def)

lemma same_books_JudgePair: "same_books s (snd (JudgePair ready sv s))"
  by (auto simp: JudgePair_def Let_def same_books_def)

lemma books_SupervisorPair:
  assumes "env_keeps_books wait" and "books_ok k s" and "source_streams s = []"
    and run: "\<And>t. books_ok 0 t \<Longrightarrow> books_ok 0 (run t)"
  shows "\<exists>k'. books_ok k' (snd (SupervisorPair wait run fence sv s))"
proof -
  let ?fence = "fence\<lparr>fence_connection_epoch := connection_epoch_counter s\<rparr>"
  have "books_ok 0 (run (PrepareConnectionPairLocked ?fence s))"
    by (rule run [OF books_PrepareConnectionPair [OF assms(2,3)]])
  from books_PreparePairReplacement [OF assms(1) this] show ?thesis
    unfolding SupervisorPair_def Let_def
    by (blast intro: same_books_ok [OF same_books_JudgePair] books_ClearConnectionState)
qed

subsection \<open>The reconnect budget\<close>

text \<open>
  A pair that never becomes ready uses up one attempt; the loop ends after at most
  \<open>maximum_pair_reconnect_attempts + 1\<close> pairs.
\<close>

lemma JudgePair_retry:
  assumes "JudgePair ready sv s = (PairRetry sv', t)"
  shows "unat (sv_reconnects_used sv') =
      (if ready then 0 else unat (sv_reconnects_used sv)) + 1"
    "(if ready then 0 else unat (sv_reconnects_used sv))
      < unat (maximum_pair_reconnect_attempts (config s))"
    "config t = config s" "\<not> stop_requested s" "\<not> terminal_session_failure s"
    "connection_epoch_counter t = connection_epoch_counter s + 1"
    "unat (connection_epoch_counter t) = unat (connection_epoch_counter s) + 1"
proof -
  have inc: "unat (x + 1) = unat x + 1" if "x \<noteq> - 1" for x :: u64
  proof -
    have "x < - 1" using that by (simp add: order_less_le)
    then have "unat x + unat (1 :: u64) \<le> unat (- 1 :: u64)" by (simp add: word_less_nat_alt)
    from unat_add_bounded [OF this] show ?thesis by simp
  qed
  have neq: "x \<noteq> - 1" if "x < y" for x y :: u64
    using that by (metis word_n1_ge linorder_not_less)
  show "unat (sv_reconnects_used sv') =
      (if ready then 0 else unat (sv_reconnects_used sv)) + 1"
    "(if ready then 0 else unat (sv_reconnects_used sv))
      < unat (maximum_pair_reconnect_attempts (config s))"
    "config t = config s" "\<not> stop_requested s" "\<not> terminal_session_failure s"
    "connection_epoch_counter t = connection_epoch_counter s + 1"
    "unat (connection_epoch_counter t) = unat (connection_epoch_counter s) + 1"
    using assms inc neq
    by (auto simp: JudgePair_def Let_def StopRequested_def TerminalSessionFailureRequested_def
        not_le word_less_nat_alt split: if_splits)
qed

lemma fold_NotifySourceClosed_frame:
  "config (fold (\<lambda>source. NotifySourceClosed source e) sources s) = config s"
  "pair_ready (fold (\<lambda>source. NotifySourceClosed source e) sources s) = pair_ready s"
  by (induction sources arbitrary: s) (simp_all add: NotifySourceClosed_def)

text \<open>A pair whose threads never reach the ready state, and never touch the configuration.\<close>

definition never_ready :: "(impl \<Rightarrow> impl) \<Rightarrow> bool" where
  "never_ready run \<longleftrightarrow> (\<forall>s. config (run s) = config s \<and> (\<not> pair_ready s \<longrightarrow> \<not> pair_ready (run s)))"

lemma SupervisorPair_never_ready:
  assumes "never_ready wait" and "never_ready run"
  obtains u where "config u = config s"
    "SupervisorPair wait run fence sv s = JudgePair False sv u"
proof -
  let ?f = "fence\<lparr>fence_connection_epoch := connection_epoch_counter s\<rparr>"
  let ?p = "PrepareConnectionPairLocked ?f s"
  have p: "config ?p = config s" "\<not> pair_ready ?p"
    by (simp_all add: PrepareConnectionPairLocked_def Let_def)
  have r: "config (run ?p) = config s" "\<not> pair_ready (run ?p)"
    using assms(2) p by (simp_all add: never_ready_def)
  have "config (RetireSources_locked (run ?p)) = config s" "\<not> pair_ready (RetireSources_locked (run ?p))"
    using r by (simp_all add: RetireSources_locked_def CancelAllWorkLocked_def)
  then have "config (wait (RetireSources_locked (run ?p))) = config s"
    "\<not> pair_ready (wait (RetireSources_locked (run ?p)))"
    using assms(1) by (simp_all add: never_ready_def)
  then have "config (PreparePairReplacement wait (run ?p)) = config s"
    "\<not> pair_ready (PreparePairReplacement wait (run ?p))"
    by (simp_all add: PreparePairReplacement_def Let_def fold_NotifySourceClosed_frame)
  then show ?thesis
    by (intro that [of "ClearConnectionStateLocked (PreparePairReplacement wait (run ?p))"])
      (simp_all add: SupervisorPair_def Let_def ClearConnectionStateLocked_def)
qed

lemma supervisor_budget:
  assumes "never_ready (on_wait cb)" and "\<And>n. never_ready (run n)"
    and "unat (maximum_pair_reconnect_attempts (config s)) - unat (sv_reconnects_used sv) < fuel"
  shows "\<exists>t. supervisor_pairs fuel cb run fence n sv s = Some t"
  using assms(3)
proof (induction fuel arbitrary: n sv s)
  case (Suc fuel)
  obtain u where config: "config u = config s"
    and pair: "SupervisorPair (on_wait cb) (run n) fence sv s = JudgePair False sv u"
    using SupervisorPair_never_ready [OF assms(1,2)] by blast
  show ?case
  proof (cases "JudgePair False sv u")
    case (Pair verdict t)
    then show ?thesis
    proof (cases verdict)
      case (PairRetry sv')
      note retry = JudgePair_retry [OF Pair [unfolded PairRetry]]
      then have "unat (maximum_pair_reconnect_attempts (config t)) - unat (sv_reconnects_used sv') < fuel"
        using Suc.prems config by simp
      from Suc.IH [OF this] show ?thesis by (auto simp: pair Pair PairRetry)
    qed (simp_all add: pair Pair)
  qed
qed simp

text \<open>
  C14: when no connection pair becomes ready, the supervisor ends after at most one pair more than the
  configured number of reconnect attempts.
\<close>

theorem SupervisorLoop_terminates:
  assumes "never_ready (on_wait cb)" and "\<forall>n. never_ready (run n)"
    and "unat (maximum_pair_reconnect_attempts (config s)) < fuel"
  shows "\<exists>t. SupervisorLoop fuel cb rpc run s = Some t"
proof (cases "Register rpc s")
  case (fields request result t)
  show ?thesis
  proof (cases result)
    case (Inr fence)
    have "maximum_pair_reconnect_attempts (config (InstallSession fence t)) =
        maximum_pair_reconnect_attempts (config s)"
      using fields by (auto simp: Register_def BeginRegister_locked_def ForgetBootstrapToken_def
          InstallSession_def Let_def split: if_splits prod.splits)
    then show ?thesis
      using assms(2,3) fields Inr
      by (auto simp: SupervisorLoop_def Let_def intro!: supervisor_budget [OF assms(1)])
  qed (simp add: SupervisorLoop_def fields)
qed

subsection \<open>Registration\<close>

text \<open>
  C29: a registration request is sent at most once: it carries the configured registration with the
  client's own version, afterwards the bootstrap token is erased, and every further call is refused
  without a request.
\<close>

theorem registration_single_use:
  assumes "Register rpc s = (Some request, result, t)"
  shows "request = (registration (config s))\<lparr>reg_sdk_version := kClientVersion\<rparr> \<and>
     reg_bootstrap_token (registration (config t)) = [] \<and>
     Register rpc' t = (None, Inl ''Register is single-use for this process generation'', t)"
  using assms
  by (auto simp: Register_def BeginRegister_locked_def register_request_of_def ForgetBootstrapToken_def
      Let_def split: if_splits prod.splits)

lemma unat_double_frame:
  fixes m :: u32
  shows "unat (ucast m + 142 :: size_t) = unat m + 142"
    and "unat (ucast m * 2 + 142 :: size_t) = 2 * unat m + 142"
proof -
  have m: "unat m < 2 ^ 32" using unsigned_less [of m] by simp
  then have "(ucast m + 142 :: size_t) = of_nat (unat m + 142)"
    "(ucast m * 2 + 142 :: size_t) = of_nat (2 * unat m + 142)" by simp_all
  moreover have "unat (of_nat (unat m + 142) :: size_t) = unat m + 142"
    "unat (of_nat (2 * unat m + 142) :: size_t) = 2 * unat m + 142"
    using m by (intro unat_of_nat_64; simp)+
  ultimately show "unat (ucast m + 142 :: size_t) = unat m + 142"
    "unat (ucast m * 2 + 142 :: size_t) = 2 * unat m + 142" by (simp_all only:)
qed


subsection \<open>Backoff\<close>

text \<open>
  C31: the reconnect delay doubles and never exceeds the configured maximum, for every maximum below
  \<open>2^31\<close> milliseconds.
\<close>

theorem NextBackoff_doubles:
  assumes "unat (reconnect_max_delay_ms (config s)) < 2 ^ 31"
  shows "unat (NextBackoff s current) =
     (if current \<ge> reconnect_max_delay_ms (config s) then unat (reconnect_max_delay_ms (config s))
      else min (unat (reconnect_max_delay_ms (config s))) (2 * unat current))"
proof (cases "current \<ge> reconnect_max_delay_ms (config s)")
  case False
  then have "unat current < 2 ^ 31" using assms by (simp add: word_le_nat_alt)
  then have "unat (current * 2) = 2 * unat current"
    by (simp add: unat_word_ariths)
  with False show ?thesis by (simp add: NextBackoff_def min_def word_le_nat_alt)
qed (simp add: NextBackoff_def)

subsection \<open>Reconnect and stop\<close>

lemma fold_NotifySourceClosed_replay:
  "replay (fold (\<lambda>source. NotifySourceClosed source e) sources s) = replay s"
  by (induction sources arbitrary: s) (simp_all add: NotifySourceClosed_def)

text \<open>
  Replacing a connection pair drops no retained Work terminal: what the pair left in the replay
  table is still there after the pair is retired, and preparing the next pair keeps it.
\<close>

lemma reconnect_keeps_terminals:
  assumes "\<forall>u. replay (wait u) = replay u"
    and "SupervisorPair wait run fence sv s = (verdict, t)"
  shows "replay t = replay (run (PrepareConnectionPairLocked
       (fence\<lparr>fence_connection_epoch := connection_epoch_counter s\<rparr>) s)) \<and>
     replay (PrepareConnectionPairLocked fence' s) = replay s"
proof -
  have judge: "replay (snd (JudgePair ready sv u)) = replay u" for ready u
    by (simp add: JudgePair_def Let_def)
  have "replay (PreparePairReplacement wait u) = replay u" for u
    using assms(1) by (simp add: PreparePairReplacement_def Let_def fold_NotifySourceClosed_replay
        RetireSources_locked_def CancelAllWorkLocked_def)
  moreover have "replay (ClearConnectionStateLocked u) = replay u" for u
    by (simp add: ClearConnectionStateLocked_def Let_def)
  moreover have "replay (PrepareConnectionPairLocked fence' s) = replay s"
    by (simp add: PrepareConnectionPairLocked_def Let_def)
  moreover have "t = snd (SupervisorPair wait run fence sv s)" using assms(2) by simp
  ultimately show ?thesis by (simp add: SupervisorPair_def Let_def judge)
qed

text \<open>
  A stopped client holds no session, no queued frame or job, no token, terminal, source or grant,
  and every byte counter is zero.
\<close>

lemma stop_leaves_nothing:
  "let t = FinishStop cb s
   in cl_state t = kStopped \<and> session_id t = [] \<and> \<not> accepting_work t \<and>
      control_queue t = [] \<and> work_queue t = [] \<and> dispatch_queue t = [] \<and> work_tokens t = [] \<and>
      replay t = [] \<and> source_streams t = [] \<and> closed_sources t = [] \<and>
      active_capabilities t = [] \<and> spec_revision t = 0 \<and>
      control_queue_bytes t = 0 \<and> work_queue_bytes t = 0 \<and> dispatch_queue_bytes t = 0 \<and>
      terminal_replay_bytes t = 0 \<and> source_state_bytes t = 0"
  by (simp add: FinishStop_def ResetSessionLocked_def Let_def)

end
