(* ===== verification/Streams.thy ===== *)
theory Streams
  imports Session
begin

text \<open>
  \<open>src/control.cpp\<close> and \<open>src/work.cpp\<close>: the handling of inbound frames, the writer loops, the
  WorkAttach gate, heartbeats, and the end of a stream. What gRPC reads and whether a write
  succeeds are arguments; one definition is one turn of a loop.
\<close>

subsection \<open>Inbound Control frames\<close>

definition BuildHeartbeatLocked :: "int \<Rightarrow> u64 \<Rightarrow> impl \<Rightarrow> heartbeat" where
  "BuildHeartbeatLocked now ping_nonce s =
     \<lparr>hb_observed_unix_nanos = now, hb_applied_spec_revision = spec_revision s,
      hb_applied_spec_digest = spec_digest s, hb_ping_nonce = ping_nonce,
      hb_capabilities = capability_statuses s\<rparr>"

definition queue_control_or_fail ::
  "wire \<Rightarrow> session_fence \<Rightarrow> control_frame \<Rightarrow> string \<Rightarrow> impl \<Rightarrow> bool \<times> impl" where
  "queue_control_or_fail W fence frame reason s =
     (case QueueControlLocked W frame s of
        (True, t) \<Rightarrow> (True, t)
      | (False, t) \<Rightarrow> (False, SignalSessionFailure (fence_session_id fence) reason t))"

definition HandleControlResponse ::
  "wire \<Rightarrow> spec_callbacks \<Rightarrow> int \<Rightarrow> session_fence \<Rightarrow> control_response \<Rightarrow> impl \<Rightarrow> bool \<times> impl" where
  "HandleControlResponse W cb now fence response s =
     (case cresp_frame response of
        HostInstanceSpec spec \<Rightarrow>
          (case ApplyInstanceSpec W cb (fence_session_id fence) spec s of
             (result, t) \<Rightarrow> queue_control_or_fail W fence (ApplyResultFrame result)
                ''Control queue rejected spec result'' t)
      | HostPing nonce \<Rightarrow>
          queue_control_or_fail W fence (HeartbeatFrame (BuildHeartbeatLocked now nonce s))
            ''Control queue rejected ping response'' s
      | HostDrain \<Rightarrow> (True, BeginDrain W s)
      | HostStop reason \<Rightarrow> (False, RequestRemoteStop reason s)
      | HostControlProtocolError e \<Rightarrow>
          (False, SignalTerminalSessionFailure (fence_session_id fence)
                    (''Host reported Control protocol error: '' @ err_message e) s)
      | HostControlFrameNotSet \<Rightarrow>
          (False, SignalSessionFailure (fence_session_id fence) ''Host sent an empty Control frame'' s))"

definition ControlReadTurn ::
  "wire \<Rightarrow> spec_callbacks \<Rightarrow> int \<Rightarrow> session_fence \<Rightarrow> control_response \<Rightarrow> impl \<Rightarrow> bool \<times> impl" where
  "ControlReadTurn W cb now fence response s =
     (if control_response_bytes W response > ucast (fence_maximum_control_frame_bytes fence)
      then (False, SignalTerminalSessionFailure (fence_session_id fence)
                     ''Host Control frame exceeds the negotiated limit'' s)
      else case ValidateControlHeader (cresp_header response) fence s of
             (Inl e, t) \<Rightarrow> (False, SignalTerminalSessionFailure (fence_session_id fence)
                              (''invalid Control fence: '' @ e) t)
           | (Inr _, t) \<Rightarrow> HandleControlResponse W cb now fence response t)"

subsection \<open>Inbound Work frames\<close>

definition HandleWorkResponse ::
  "wire \<Rightarrow> (nat \<Rightarrow> int) \<Rightarrow> session_fence \<Rightarrow> work_response \<Rightarrow> impl \<Rightarrow> bool \<times> impl" where
  "HandleWorkResponse W clock fence response s =
     (let n = hdr_frame_sequence (wresp_header response)
      in case wresp_frame response of
           HostUnaryRequest r \<Rightarrow> (True, EnqueueUnary W clock r n s)
         | HostOperationRequest r \<Rightarrow> (True, EnqueueOperation W clock r n s)
         | HostSourceOpenRequest r \<Rightarrow> (True, EnqueueSourceOpen W clock r n s)
         | HostSourceCredit c \<Rightarrow> (True, GrantSourceCredit W c n s)
         | HostCancellation c \<Rightarrow> (True, HandleCancellation W c n s)
         | HostTerminalAcknowledgement a \<Rightarrow> (True, HandleTerminalAcknowledgement W a n s)
         | HostWorkProtocolError e \<Rightarrow>
             (False, SignalTerminalSessionFailure (fence_session_id fence)
                       (''Host reported Work protocol error: '' @ err_message e) s)
         | HostWorkFrameNotSet \<Rightarrow>
             (True, QueueWorkProtocolError W n ''Host sent an empty Work frame'' s))"

definition WorkReadTurn ::
  "wire \<Rightarrow> (nat \<Rightarrow> int) \<Rightarrow> session_fence \<Rightarrow> work_response \<Rightarrow> impl \<Rightarrow> bool \<times> impl" where
  "WorkReadTurn W clock fence response s =
     (if work_response_bytes W response > ucast (fence_maximum_work_frame_bytes fence)
      then (False, SignalTerminalSessionFailure (fence_session_id fence)
                     ''Host Work frame exceeds the negotiated limit'' s)
      else case ValidateWorkHeader (wresp_header response) fence s of
             (Inl e, t) \<Rightarrow> (False, SignalTerminalSessionFailure (fence_session_id fence)
                              (''invalid Work fence: '' @ e) t)
           | (Inr _, t) \<Rightarrow> HandleWorkResponse W clock fence response t)"

subsection \<open>The end of a stream\<close>

definition end_of_stream :: "string \<Rightarrow> session_fence \<Rightarrow> grpc_status \<Rightarrow> impl \<Rightarrow> impl" where
  "end_of_stream name fence st s =
     (if \<not> StopRequested s \<and> IsTerminalSessionStatus st
      then SignalTerminalSessionFailure (fence_session_id fence)
             (name @ '' attachment was rejected: '' @
              (if status_message st = [] then ''terminal gRPC status'' else status_message st)) s
      else if \<not> StopRequested s \<and> CurrentSessionIs (fence_session_id fence) s
      then SignalSessionFailure (fence_session_id fence)
             (if error_code st = GRPC_OK then name @ '' stream closed''
              else name @ '' stream failed: '' @ status_message st) s
      else s)"

definition ControlStreamEnd :: "session_fence \<Rightarrow> grpc_status \<Rightarrow> impl \<Rightarrow> impl" where
  "ControlStreamEnd = end_of_stream ''Control''"

definition WorkStreamEnd :: "session_fence \<Rightarrow> grpc_status \<Rightarrow> impl \<Rightarrow> impl" where
  "WorkStreamEnd = end_of_stream ''Work''"

subsection \<open>The Control writer\<close>

text \<open>
  One turn takes a frame under the lock: the heartbeat when it is due, else the head of the queue.
  \<open>ControlIdle\<close>: neither is there yet; \<open>ControlExit\<close>: the session is over for this writer.
\<close>

datatype control_turn = ControlExit | ControlIdle | ControlSend session_header control_frame

definition writer_done :: "session_fence \<Rightarrow> impl \<Rightarrow> bool" where
  "writer_done fence s \<longleftrightarrow>
     stop_requested s \<or> session_failed s \<or> session_id s \<noteq> fence_session_id fence"

definition stamp_control :: "session_fence \<Rightarrow> impl \<Rightarrow> session_header \<times> impl" where
  "stamp_control fence s =
     (let n = control_out_sequence s + 1
      in (StampHeaderLocked s fence (fence_connection_epoch fence) n, s\<lparr>control_out_sequence := n\<rparr>))"

definition stamp_work :: "session_fence \<Rightarrow> impl \<Rightarrow> session_header \<times> impl" where
  "stamp_work fence s =
     (let n = work_out_sequence s + 1
      in (StampHeaderLocked s fence (fence_connection_epoch fence) n, s\<lparr>work_out_sequence := n\<rparr>))"

definition ControlWriterTake ::
  "session_fence \<Rightarrow> int \<Rightarrow> int \<Rightarrow> int \<Rightarrow> int \<Rightarrow> impl \<Rightarrow> control_turn \<times> int \<times> impl" where
  "ControlWriterTake fence unix_nanos wall now next_heartbeat s =
     (if writer_done fence s then (ControlExit, next_heartbeat, s)
      else if now \<ge> next_heartbeat
      then case stamp_control fence s of
             (header, t) \<Rightarrow>
               (ControlSend header (HeartbeatFrame (BuildHeartbeatLocked unix_nanos 0 s)),
                NextAlignedHeartbeatDeadline wall now (uint (fence_heartbeat_interval_ms fence)), t)
      else case control_queue s of
             [] \<Rightarrow> (ControlIdle, next_heartbeat, s)
           | q # _ \<Rightarrow>
               (case stamp_control fence (pop_control s) of
                  (header, t) \<Rightarrow> (ControlSend header (qc_request q), next_heartbeat, t)))"

definition IsTerminalSpecFailure :: "string \<Rightarrow> bool" where
  "IsTerminalSpecFailure code \<longleftrightarrow>
     code = ''invalid-instance-spec'' \<or> code = ''spec-content-mismatch'' \<or>
     code = ''initial-spec-mismatch'' \<or> code = ''ready-callback-failed''"

definition AllowAttach_locked :: "session_fence \<Rightarrow> impl \<Rightarrow> impl" where
  "AllowAttach_locked fence s =
     (if session_id s = fence_session_id fence \<and> \<not> session_failed s \<and> \<not> stop_requested s \<and>
         spec_revision s \<noteq> 0 \<and> spec_digest s \<noteq> []
      then s\<lparr>work_attach_allowed := True,
             work_attach_connection_epoch := fence_connection_epoch fence\<rparr>
      else s)"

text \<open>After the frame was taken: the size check, the write, and what a spec result entails. The
  Boolean says whether the writer goes on.\<close>

definition ControlWriterSent ::
  "wire \<Rightarrow> session_fence \<Rightarrow> session_header \<Rightarrow> control_frame \<Rightarrow> bool \<Rightarrow> impl \<Rightarrow> bool \<times> impl" where
  "ControlWriterSent W fence header frame write_ok s =
     (if (fence_maximum_control_frame_bytes fence > 0 \<and>
          control_request_bytes W header frame > ucast (fence_maximum_control_frame_bytes fence)) \<or>
         \<not> write_ok
      then (False, SignalSessionFailure (fence_session_id fence)
                     ''Control outbound frame failed or exceeded limit'' s)
      else case frame of
             ApplyResultFrame result \<Rightarrow>
               if ar_applied result then (True, AllowAttach_locked fence s)
               else let code = (case ar_error result of None \<Rightarrow> [] | Some e \<Rightarrow> err_code e);
                        msg = (case ar_error result of None \<Rightarrow> [] | Some e \<Rightarrow> err_message e);
                        failure = ''exact instance spec was not applied'' @
                          (if msg = [] then [] else '': '' @ msg)
                    in (False,
                        if IsTerminalSpecFailure code
                        then SignalTerminalSessionFailure (fence_session_id fence) failure s
                        else SignalSessionFailure (fence_session_id fence) failure s)
           | _ \<Rightarrow> (True, s))"

subsection \<open>The Work writer\<close>

definition attach_gate :: "session_fence \<Rightarrow> impl \<Rightarrow> bool" where
  "attach_gate fence s \<longleftrightarrow>
     work_attach_allowed s \<and> work_attach_connection_epoch s = fence_connection_epoch fence \<and>
     session_id s = fence_session_id fence \<and> \<not> session_failed s \<and> \<not> stop_requested s"

definition WorkAttach_locked :: "session_fence \<Rightarrow> impl \<Rightarrow> (session_header \<times> work_frame) option \<times> impl" where
  "WorkAttach_locked fence s =
     (if attach_gate fence s
      then case stamp_work fence s of
             (header, t) \<Rightarrow> (Some (header, AttachFrame (spec_revision s) (spec_digest s)), t)
      else (None, s))"

definition WorkAttached_locked :: "session_fence \<Rightarrow> impl \<Rightarrow> impl" where
  "WorkAttached_locked fence s =
     (if attach_gate fence s
      then s\<lparr>accepting_work := True, cl_state := kReady, ready_callbacks_complete := True,
             pair_ready := True\<rparr>
      else s)"

definition WorkWriterAttach :: "wire \<Rightarrow> session_fence \<Rightarrow> bool \<Rightarrow> impl \<Rightarrow> bool \<times> impl" where
  "WorkWriterAttach W fence write_ok s =
     (case WorkAttach_locked fence s of
        (None, t) \<Rightarrow>
          (False, SignalSessionFailure (fence_session_id fence)
                    ''WorkAttach gate was lost before the paired Work stream started'' t)
      | (Some (header, frame), t) \<Rightarrow>
          if (fence_maximum_work_frame_bytes fence > 0 \<and>
              work_request_bytes W header frame > ucast (fence_maximum_work_frame_bytes fence)) \<or>
             \<not> write_ok
          then (False, SignalSessionFailure (fence_session_id fence)
                         ''mandatory WorkAttach could not be written'' t)
          else (True, WorkAttached_locked fence t))"

datatype work_turn = WorkExit | WorkIdle | WorkSend session_header work_frame

definition WorkWriterTake :: "session_fence \<Rightarrow> impl \<Rightarrow> work_turn \<times> impl" where
  "WorkWriterTake fence s =
     (if writer_done fence s then (WorkExit, s)
      else case work_queue s of
             [] \<Rightarrow> (WorkIdle, s)
           | q # _ \<Rightarrow>
               (case stamp_work fence (pop_work s) of
                  (header, t) \<Rightarrow> (WorkSend header (qw_request q), t)))"

definition WorkWriterSent ::
  "wire \<Rightarrow> session_fence \<Rightarrow> session_header \<Rightarrow> work_frame \<Rightarrow> bool \<Rightarrow> impl \<Rightarrow> bool \<times> impl" where
  "WorkWriterSent W fence header frame write_ok s =
     (if (fence_maximum_work_frame_bytes fence > 0 \<and>
          work_request_bytes W header frame > ucast (fence_maximum_work_frame_bytes fence)) \<or>
         \<not> write_ok
      then (False, SignalSessionFailure (fence_session_id fence)
                     ''Work outbound frame failed or exceeded limit'' s)
      else (True, s))"

subsection \<open>The books\<close>

lemma same_books_sequences [simp]:
  "same_books s (s\<lparr>control_in_sequence := n\<rparr>)" "same_books s (s\<lparr>work_in_sequence := n\<rparr>)"
  "same_books s (s\<lparr>control_out_sequence := n\<rparr>)" "same_books s (s\<lparr>work_out_sequence := n\<rparr>)"
  by (simp_all add: same_books_def)

lemma same_books_headers [simp]:
  "same_books s (snd (ValidateControlHeader h fence s))"
  "same_books s (snd (ValidateWorkHeader h fence s))"
  "same_books s (snd (stamp_control fence s))" "same_books s (snd (stamp_work fence s))"
  by (simp_all add: ValidateControlHeader_def ValidateWorkHeader_def stamp_control_def stamp_work_def
      Let_def split: sum.split)

lemma same_books_stream_ends [simp]:
  "same_books s (ControlStreamEnd fence st s)" "same_books s (WorkStreamEnd fence st s)"
  by (simp_all add: ControlStreamEnd_def WorkStreamEnd_def end_of_stream_def)

lemma same_books_gates [simp]:
  "same_books s (AllowAttach_locked fence s)" "same_books s (WorkAttached_locked fence s)"
  by (simp_all add: AllowAttach_locked_def WorkAttached_locked_def same_books_def)

lemma same_books_sent [simp]:
  "same_books s (snd (ControlWriterSent W fence h cf ok s))"
  "same_books s (snd (WorkWriterSent W fence h f ok s))"
  by (auto simp: ControlWriterSent_def WorkWriterSent_def Let_def split: control_frame.split)

lemma books_queue_control_or_fail:
  "books_ok k s \<Longrightarrow> books_ok k (snd (queue_control_or_fail W fence frame reason s))"
  using books_QueueControlLocked [of k s W frame]
  by (auto simp: queue_control_or_fail_def split: prod.split bool.split
      intro: same_books_ok [OF same_books_SignalSession])

lemma books_HandleControlResponse:
  assumes "spec_env_ok cb" and "books_ok 0 s"
  shows "books_ok 0 (snd (HandleControlResponse W cb now fence response s))"
  using assms
  by (auto simp: HandleControlResponse_def split_beta split: host_control_frame.split
      intro: books_ApplyInstanceSpec books_BeginDrain same_books_ok [OF same_books_RequestRemoteStop]
        same_books_ok [OF same_books_SignalTerminal] same_books_ok [OF same_books_SignalSession]
        books_queue_control_or_fail)

lemma books_ControlReadTurn:
  assumes "spec_env_ok cb" and "books_ok 0 s"
  shows "books_ok 0 (snd (ControlReadTurn W cb now fence response s))"
proof -
  have t: "books_ok 0 (snd (ValidateControlHeader (cresp_header response) fence s))"
    using assms(2) same_books_ok same_books_headers by blast
  show ?thesis using assms t
    by (auto simp: ControlReadTurn_def split: prod.split sum.split
        intro: books_HandleControlResponse same_books_ok [OF same_books_SignalTerminal])
qed

lemma books_HandleWorkResponse:
  "books_ok k s \<Longrightarrow> books_ok k (snd (HandleWorkResponse W clock fence response s))"
  by (auto simp: HandleWorkResponse_def Let_def EnqueueUnary_def EnqueueOperation_def
      split: host_work_frame.split
      intro: books_EnqueueDispatch books_EnqueueSourceOpen books_GrantSourceCredit
        books_HandleCancellation books_HandleTerminalAcknowledgement books_QueueWorkProtocolError
        same_books_ok [OF same_books_SignalTerminal])

lemma books_WorkReadTurn:
  assumes "books_ok k s"
  shows "books_ok k (snd (WorkReadTurn W clock fence response s))"
proof -
  have t: "books_ok k (snd (ValidateWorkHeader (wresp_header response) fence s))"
    using assms same_books_ok same_books_headers by blast
  show ?thesis using assms t
    by (auto simp: WorkReadTurn_def split: prod.split sum.split
        intro: books_HandleWorkResponse same_books_ok [OF same_books_SignalTerminal])
qed

lemma books_ControlWriterTake:
  assumes "books_ok k s"
  shows "books_ok k (snd (snd (ControlWriterTake fence u w now next_hb s)))"
  using assms same_books_ok [OF same_books_headers(3)] books_pop_control [OF assms]
  by (auto simp: ControlWriterTake_def stamp_control_def Let_def split: list.split
      intro: same_books_ok [OF same_books_sequences(3)])

lemma books_WorkWriterTake:
  assumes "books_ok k s"
  shows "books_ok k (snd (WorkWriterTake fence s))"
  using assms books_pop_work [OF assms]
  by (auto simp: WorkWriterTake_def stamp_work_def Let_def split: list.split
      intro: same_books_ok [OF same_books_sequences(4)])

lemma books_WorkWriterAttach:
  assumes "books_ok k s"
  shows "books_ok k (snd (WorkWriterAttach W fence ok s))"
  using assms
  by (auto simp: WorkWriterAttach_def WorkAttach_locked_def stamp_work_def Let_def
      intro: same_books_ok [OF same_books_SignalSession] same_books_ok [OF same_books_gates(2)]
        same_books_ok [OF same_books_sequences(4)])

subsection \<open>Fencing of the streams, and the attach gate\<close>

text \<open>
  C16: an inbound Work frame that is larger than negotiated, or whose header is not the next one of this
  session and connection epoch, ends the session as terminal: no Work is admitted, no accounted
  component changes, no callback runs.
\<close>

theorem stale_work_frame_is_fatal:
  assumes "\<not> (\<exists>n. wresp_header response = StampHeaderLocked s fence (fence_connection_epoch fence) n \<and>
       work_in_sequence s < n) \<or>
     work_response_bytes W response > ucast (fence_maximum_work_frame_bytes fence)"
    and "session_id s = fence_session_id fence" and "\<not> stop_requested s"
  shows "\<exists>t. WorkReadTurn W clock fence response s = (False, t) \<and> same_books s t \<and>
     terminal_session_failure t \<and> \<not> accepting_work t \<and> callback_log t = callback_log s \<and>
     work_in_sequence t = work_in_sequence s"
proof -
  have signal: "same_books s (SignalTerminalSessionFailure (fence_session_id fence) reason s) \<and>
      terminal_session_failure (SignalTerminalSessionFailure (fence_session_id fence) reason s) \<and>
      \<not> accepting_work (SignalTerminalSessionFailure (fence_session_id fence) reason s) \<and>
      callback_log (SignalTerminalSessionFailure (fence_session_id fence) reason s) = callback_log s \<and>
      work_in_sequence (SignalTerminalSessionFailure (fence_session_id fence) reason s) =
        work_in_sequence s" for reason
    using assms(2,3) by (simp add: SignalTerminalSessionFailure_def CancelAllWorkLocked_def same_books_def)
  show ?thesis
  proof (cases "work_response_bytes W response > ucast (fence_maximum_work_frame_bytes fence)")
    case True
    then show ?thesis using signal by (auto simp: WorkReadTurn_def)
  next
    case False
    then have "\<not> (\<exists>n. ValidateHeaderLocked s (wresp_header response) fence
        (fence_connection_epoch fence) (work_in_sequence s) = Inr n)"
      using assms(1) by (auto simp: header_accepted)
    then obtain e where "ValidateHeaderLocked s (wresp_header response) fence
        (fence_connection_epoch fence) (work_in_sequence s) = Inl e"
      by (metis sum.exhaust)
    then show ?thesis using False signal by (auto simp: WorkReadTurn_def ValidateWorkHeader_def)
  qed
qed

text \<open>Writing the WorkAttach makes the client accept Work again even when a drain was requested
  meanwhile.\<close>

lemma attach_reopens_a_drain:
  assumes "attach_gate fence s" and "drain_requested s"
  shows "let t = WorkAttached_locked fence s
     in accepting_work t \<and> cl_state t = kReady \<and> drain_requested t"
  using assms by (simp add: WorkAttached_locked_def)

lemma attach_needs_applied_spec:
  assumes "attach_gate fence (AllowAttach_locked fence s)" and "\<not> attach_gate fence s"
  shows "spec_revision s \<noteq> 0 \<and> spec_digest s \<noteq> [] \<and> session_id s = fence_session_id fence \<and>
     \<not> session_failed s \<and> \<not> stop_requested s"
  using assms by (auto simp: AllowAttach_locked_def attach_gate_def split: if_splits)

end
