(* ===== verification/Bootstrap.thy ===== *)
theory Bootstrap
  imports Session
begin

text \<open>
  \<open>src/bootstrap.cpp\<close> and the configuration part of \<open>src/client.cpp\<close>: the validation of the
  configuration and of the endpoint contracts, reading a bootstrap file, binding callbacks to a
  trusted contract, and the entry to \<open>Start\<close>. The operating system and the protobuf parser are
  arguments.
\<close>

subsection \<open>Identities\<close>

fun segments_start_lower :: "bool \<Rightarrow> string \<Rightarrow> bool" where
  "segments_start_lower first [] = True"
| "segments_start_lower first (c # cs) =
     (if first \<and> \<not> is_lower c then False else segments_start_lower (c = CHR ''.'') cs)"

definition IsCanonicalCapabilityId :: "string \<Rightarrow> bool" where
  "IsCanonicalCapabilityId value =
     (if CHR ''.'' \<notin> set value \<or> \<not> IsCanonicalIdentifier value then False
      else segments_start_lower True value)"

definition IsCanonicalInstanceId :: "string \<Rightarrow> bool" where
  "IsCanonicalInstanceId value =
     (if length value \<noteq> 36 \<or> take 4 value \<noteq> ''ari-'' then False
      else list_all is_lower_hex (drop 4 value))"

definition ValidSchema :: "schema_reference \<Rightarrow> bool" where
  "ValidSchema r \<longleftrightarrow> message_id r > 0 \<and> schema_version r > 0 \<and> schema_fingerprint r > 0 \<and>
     IsCanonicalText (type_name r)"

definition schema_ok :: "schema_reference option \<Rightarrow> bool" where
  "schema_ok r \<longleftrightarrow> (case r of None \<Rightarrow> True | Some x \<Rightarrow> ValidSchema x)"

definition ValidateEndpointShape :: "wire \<Rightarrow> endpoint_contract \<Rightarrow> status" where
  "ValidateEndpointShape W e =
     (let unary = interaction e = INTERACTION_MODE_UNARY;
          operation = interaction e = INTERACTION_MODE_OPERATION;
          source = interaction e = INTERACTION_MODE_STREAM_SOURCE;
          lim = limits e;
          any_stream_limit = maximum_streams lim \<noteq> 0 \<or> maximum_stream_chunk_bytes lim \<noteq> 0 \<or>
            maximum_stream_chunk_messages lim \<noteq> 0
      in if \<not> IsCanonicalIdentifier (ep_endpoint_id e) \<or> (\<not> unary \<and> \<not> operation \<and> \<not> source)
         then Inl ''capability endpoint identity or mode is invalid''
         else if \<not> schema_ok (input_schema e) \<or> \<not> schema_ok (output_schema e) \<or>
                 \<not> schema_ok (event_schema e)
         then Inl ''capability endpoint schema identity is invalid''
         else if (unary \<or> operation) \<and> input_schema e = None
         then Inl ''endpoint interaction requires input schema''
         else if (unary \<or> operation \<or> source) \<and> output_schema e = None
         then Inl ''endpoint interaction requires output schema''
         else if side_effect_class e < side_effect_read_only W \<or>
                 side_effect_class e > side_effect_non_idempotent W \<or>
                 idempotency_mode e < idempotency_not_supported W \<or>
                 idempotency_mode e > idempotency_required W
         then Inl ''endpoint side-effect or idempotency mode is invalid''
         else if default_timeout_ms e = 0 \<or> maximum_timeout_ms e = 0 \<or>
                 default_timeout_ms e > maximum_timeout_ms e
         then Inl ''endpoint timeouts must be positive and ordered''
         else if maximum_request_bytes lim = 0 \<or> maximum_response_bytes lim = 0 \<or>
                 maximum_concurrency lim = 0
         then Inl ''endpoint request/response/concurrency limits must be positive''
         else if source \<and> (maximum_streams lim = 0 \<or> maximum_stream_chunk_bytes lim = 0 \<or>
                 maximum_stream_chunk_messages lim = 0)
         then Inl ''source endpoint stream limits must be positive''
         else if \<not> source \<and> any_stream_limit
         then Inl ''non-stream endpoint declares stream limits''
         else Inr ())"

subsection \<open>The configuration\<close>

fun validate_shapes :: "wire \<Rightarrow> string list \<Rightarrow> endpoint_contract list \<Rightarrow> status" where
  "validate_shapes W seen [] = Inr ()"
| "validate_shapes W seen (e # es) =
     (case ValidateEndpointShape W e of
        Inl msg \<Rightarrow> Inl msg
      | Inr _ \<Rightarrow>
          if ep_endpoint_id e \<in> set seen
          then Inl ''capability contract contains an invalid or duplicate endpoint''
          else validate_shapes W (ep_endpoint_id e # seen) es)"

fun validate_contracts ::
  "wire \<Rightarrow> capability_contract list \<Rightarrow> string list \<Rightarrow> capability_binding list \<Rightarrow> status" where
  "validate_contracts W advertised seen [] = Inr ()"
| "validate_contracts W advertised seen (b # bs) =
     (let c = contract b
      in if \<not> IsCanonicalCapabilityId (cc_capability_id c) \<or> cc_contract_version c = 0 \<or>
            \<not> IsCanonicalSha256 (cc_contract_digest c) \<or> cc_endpoints c = [] \<or>
            contract_key c \<in> set seen
         then Inl ''capability contracts must have unique identity and endpoints''
         else case validate_shapes W [] (cc_endpoints c) of
           Inl e \<Rightarrow> Inl e
         | Inr _ \<Rightarrow>
             if \<not> list_ex (\<lambda>a. contract_key a = contract_key c) advertised
             then Inl ''application capability is not present in bootstrap registration''
             else validate_contracts W advertised (contract_key c # seen) bs)"

definition bounds_positive :: "client_config \<Rightarrow> bool" where
  "bounds_positive cfg \<longleftrightarrow>
     \<not> (rpc_timeout_ms cfg = 0 \<or> initial_connect_timeout_ms cfg = 0 \<or>
        reconnect_initial_delay_ms cfg = 0 \<or>
        reconnect_max_delay_ms cfg < reconnect_initial_delay_ms cfg \<or>
        maximum_pair_reconnect_attempts cfg = 0 \<or> maximum_control_queue cfg = 0 \<or>
        maximum_work_queue cfg = 0 \<or> maximum_dispatch_queue cfg = 0 \<or>
        maximum_terminal_replay cfg = 0 \<or> maximum_source_streams cfg = 0 \<or>
        maximum_source_tombstones cfg < maximum_source_streams cfg \<or>
        maximum_control_queue_bytes cfg = 0 \<or> maximum_work_queue_bytes cfg = 0 \<or>
        maximum_dispatch_queue_bytes cfg = 0 \<or> maximum_terminal_replay_bytes cfg = 0 \<or>
        maximum_source_state_bytes cfg = 0 \<or> dispatch_workers cfg = 0)"

definition ValidateConfig :: "wire \<Rightarrow> client_config \<Rightarrow> status" where
  "ValidateConfig W cfg =
     (let r = registration cfg; spec = initial_spec cfg
      in case ValidateRuntimeTarget (runtime_target cfg) of
           Inl e \<Rightarrow> Inl e
         | Inr _ \<Rightarrow>
             if \<not> IsCanonicalInstanceId (reg_instance_id r) \<or> reg_process_generation r = 0
             then Inl ''instance_id must be canonical and process_generation positive''
             else if \<not> IsCanonicalIdentifier (reg_definition_id r) \<or>
                     \<not> IsCanonicalSha256 (reg_definition_digest r) \<or>
                     \<not> IsCanonicalText (reg_software_version r) \<or>
                     \<not> IsCanonicalSha256 (reg_build_digest r) \<or>
                     \<not> IsCanonicalSha256 (reg_manifest_digest r) \<or>
                     \<not> IsCanonicalText (reg_bootstrap_token r) \<or> reg_sdk_version r \<noteq> kClientVersion
             then Inl ''trusted definition/build/manifest/software/token/SDK identity is required''
             else if reg_runtime_link_protocol_version r \<noteq> kRuntimeLinkProtocolVersion
             then Inl ''Runtime SDK requires protocol version 2 exclusively''
             else if spec_instance_id spec \<noteq> reg_instance_id r \<or>
                     spec_process_generation spec \<noteq> reg_process_generation r \<or>
                     spec_rev spec = 0 \<or> \<not> IsCanonicalSha256 (spec_dig spec)
             then Inl ''initial_spec must match registration identity and generation''
             else if \<not> bounds_positive cfg
             then Inl ''timeouts, queue bounds, and worker counts must be positive''
             else case validate_contracts W (reg_supported_capabilities r) [] (capabilities cfg) of
               Inl e \<Rightarrow> Inl e
             | Inr _ \<Rightarrow>
                 if length (capabilities cfg) \<noteq> length (reg_supported_capabilities r)
                 then Inl ''bootstrap capability contracts were dropped or added''
                 else map_sum (\<lambda>e. e) (\<lambda>_. ()) (ValidateInstanceSpec W cfg spec))"

subsection \<open>Entering \<open>Start\<close>\<close>

definition BeginStart :: "wire \<Rightarrow> bool \<Rightarrow> impl \<Rightarrow> string + impl" where
  "BeginStart W threads s =
     (if registration_attempted s
      then Inl ''Adapter Runtime registration is single-use; start a new process generation''
      else case ValidateConfig W (config s) of
             Inl e \<Rightarrow> Inl e
           | Inr _ \<Rightarrow> BeginStart_locked threads s)"

subsection \<open>Binding callbacks\<close>

definition already_bound :: "capability_callbacks \<Rightarrow> bool" where
  "already_bound c \<longleftrightarrow> cb_start c \<or> cb_stop c \<or> cb_ready c \<or> cb_unary c \<or> cb_operation c \<or>
     cb_source_open c \<or> cb_source_closed c"

fun bind_loop ::
  "string \<Rightarrow> capability_callbacks \<Rightarrow> capability_binding list \<Rightarrow> string + capability_binding list" where
  "bind_loop key cbs [] = Inl ''capability handlers are not a trusted bootstrap contract''"
| "bind_loop key cbs (b # bs) =
     (if contract_key (contract b) \<noteq> key
      then map_sum (\<lambda>e. e) (Cons b) (bind_loop key cbs bs)
      else if already_bound (callbacks b) then Inl ''capability handlers are already bound''
      else Inr (b\<lparr>callbacks := cbs\<rparr> # bs))"

definition BindCapability ::
  "string \<Rightarrow> u32 \<Rightarrow> string \<Rightarrow> capability_callbacks \<Rightarrow> client_config \<Rightarrow> string + client_config" where
  "BindCapability capability_id contract_version contract_digest cbs cfg =
     map_sum (\<lambda>e. e) (\<lambda>bs. cfg\<lparr>capabilities := bs\<rparr>)
       (bind_loop (ContractKey capability_id contract_version contract_digest) cbs (capabilities cfg))"

subsection \<open>The bootstrap file\<close>

record file_status =
  st_is_regular :: bool
  st_owned_by_user :: bool
  st_mode :: "32 word"
  st_size :: int

record bootstrap_message =
  bm_format_version :: u32
  bm_runtime_target :: string
  bm_registration :: "register_request option"
  bm_initial_spec :: "instance_spec option"

text \<open>
  In \<open>FromBootstrapFile\<close>, \<open>0x1FF\<close> is the octal mask 0777 and \<open>0x180\<close> the octal mode 0600.
  The results of successive \<open>read\<close> calls: bytes (none at the end of the file), an interrupt, or an
  error. A call asks for \<open>want\<close> bytes and gets at most that many.
\<close>

datatype read_result = ReadBytes "u8 list" | ReadInterrupted | ReadError

definition kMaximumBootstrapBytes :: int where "kMaximumBootstrapBytes = 4 * 1024 * 1024"

fun read_exact :: "nat \<Rightarrow> read_result list \<Rightarrow> (u8 list \<times> read_result list) option" where
  "read_exact want rs =
     (if want = 0 then Some ([], rs)
      else case rs of
             [] \<Rightarrow> None
           | ReadInterrupted # rest \<Rightarrow> read_exact want rest
           | ReadError # _ \<Rightarrow> None
           | ReadBytes bs # rest \<Rightarrow>
               if bs = [] then None
               else map_option (apfst (\<lambda>more. take want bs @ more))
                      (read_exact (want - length (take want bs)) rest))"

fun read_extra :: "read_result list \<Rightarrow> bool" where
  "read_extra [] = True"
| "read_extra (ReadInterrupted # rest) = read_extra rest"
| "read_extra (ReadError # _) = False"
| "read_extra (ReadBytes bs # _) = (bs = [])"

datatype bootstrap_error = InvalidArgument string | RuntimeError string

definition default_limits_config :: client_config where
  "default_limits_config =
     \<lparr>runtime_target = [],
      registration = \<lparr>reg_instance_id = [], reg_process_generation = 0, reg_definition_id = [],
        reg_definition_digest = [], reg_software_version = [], reg_build_digest = [],
        reg_manifest_digest = [], reg_bootstrap_token = [], reg_sdk_version = [],
        reg_runtime_link_protocol_version = 0, reg_supported_capabilities = []\<rparr>,
      initial_spec = default_spec, capabilities = [], rpc_timeout_ms = 3000,
      initial_connect_timeout_ms = 10000, reconnect_initial_delay_ms = 250,
      reconnect_max_delay_ms = 5000, maximum_pair_reconnect_attempts = 8,
      maximum_control_queue = 128, maximum_work_queue = 4096, maximum_dispatch_queue = 1024,
      maximum_terminal_replay = 1024, maximum_source_streams = 128,
      maximum_source_tombstones = 1024, maximum_control_queue_bytes = 4 * 1024 * 1024,
      maximum_work_queue_bytes = 16 * 1024 * 1024, maximum_dispatch_queue_bytes = 16 * 1024 * 1024,
      maximum_terminal_replay_bytes = 16 * 1024 * 1024,
      maximum_source_state_bytes = 16 * 1024 * 1024, dispatch_workers = 1\<rparr>"

definition no_callbacks :: capability_callbacks where
  "no_callbacks = \<lparr>cb_start = False, cb_stop = False, cb_ready = False, cb_unary = False,
     cb_operation = False, cb_source_open = False, cb_source_closed = False\<rparr>"

definition config_of_bootstrap :: "bootstrap_message \<Rightarrow> bootstrap_error + client_config" where
  "config_of_bootstrap m =
     (case (bm_registration m, bm_initial_spec m) of
        (Some reg, Some spec) \<Rightarrow>
          if bm_format_version m \<noteq> 2 \<or> bm_runtime_target m = []
          then Inl (InvalidArgument
            ''AdapterProcessBootstrap format, target, registration, or spec is invalid'')
          else (case ValidateRuntimeTarget (bm_runtime_target m) of
                  Inl e \<Rightarrow> Inl (InvalidArgument e)
                | Inr _ \<Rightarrow>
                    if reg_sdk_version reg \<noteq> []
                    then Inl (InvalidArgument ''bootstrap must not pre-assert the Runtime SDK version'')
                    else Inr (default_limits_config\<lparr>runtime_target := bm_runtime_target m,
                           registration := reg\<lparr>reg_sdk_version := kClientVersion\<rparr>,
                           initial_spec := spec,
                           capabilities := map (\<lambda>c. \<lparr>contract = c, callbacks = no_callbacks\<rparr>)
                             (reg_supported_capabilities reg)\<rparr>))
      | _ \<Rightarrow> Inl (InvalidArgument
          ''AdapterProcessBootstrap format, target, registration, or spec is invalid''))"

definition FromBootstrapFile ::
  "(string \<Rightarrow> (file_status option \<times> read_result list) option) \<Rightarrow> (u8 list \<Rightarrow> bootstrap_message option)
     \<Rightarrow> string \<Rightarrow> bootstrap_error + client_config" where
  "FromBootstrapFile open_file parse path =
     (if path = [] \<or> hd path \<noteq> CHR ''/''
      then Inl (InvalidArgument ''adapter bootstrap path must be absolute'')
      else case open_file path of
        None \<Rightarrow> Inl (RuntimeError ''adapter bootstrap could not be opened securely'')
      | Some (None, _) \<Rightarrow> Inl (RuntimeError ''adapter bootstrap must be a regular file'')
      | Some (Some st, reads) \<Rightarrow>
          if \<not> st_is_regular st then Inl (RuntimeError ''adapter bootstrap must be a regular file'')
          else if \<not> st_owned_by_user st \<or> and (st_mode st) 0x1FF \<noteq> 0x180
          then Inl (RuntimeError
            ''adapter bootstrap must be owned by the process user and mode 0600'')
          else if st_size st \<le> 0 \<or> st_size st > kMaximumBootstrapBytes
          then Inl (RuntimeError ''adapter bootstrap size must be between 1 byte and 4 MiB'')
          else (case read_exact (nat (st_size st)) reads of
                  None \<Rightarrow> Inl (RuntimeError ''adapter bootstrap changed or ended during read'')
                | Some (bytes, rest) \<Rightarrow>
                    if \<not> read_extra rest
                    then Inl (RuntimeError ''adapter bootstrap changed or grew during read'')
                    else case parse bytes of
                           None \<Rightarrow> Inl (RuntimeError ''failed to parse binary AdapterProcessBootstrap'')
                         | Some m \<Rightarrow> config_of_bootstrap m))"

subsection \<open>What a valid configuration guarantees\<close>

lemma bind_loop_Inr:
  assumes "bind_loop key cbs bs = Inr bs'"
  shows "\<exists>pre b post. bs = pre @ b # post \<and> bs' = pre @ b\<lparr>callbacks := cbs\<rparr> # post \<and>
     contract_key (contract b) = key \<and> \<not> already_bound (callbacks b) \<and>
     key \<notin> set (map (contract_key \<circ> contract) pre)"
  using assms
proof (induction bs arbitrary: bs')
  case (Cons b bs)
  show ?case
  proof (cases "contract_key (contract b) = key")
    case True
    then show ?thesis using Cons.prems
      by (intro exI [of _ "[]"] exI [of _ b] exI [of _ bs]) (auto split: if_splits)
  next
    case False
    then obtain cs where cs: "bind_loop key cbs bs = Inr cs" "bs' = b # cs"
      using Cons.prems by (cases "bind_loop key cbs bs") auto
    from Cons.IH [OF cs(1)] obtain pre c post where
      "bs = pre @ c # post" "cs = pre @ c\<lparr>callbacks := cbs\<rparr> # post"
      "contract_key (contract c) = key" "\<not> already_bound (callbacks c)"
      "key \<notin> set (map (contract_key \<circ> contract) pre)" by blast
    then show ?thesis using False cs(2)
      by (intro exI [of _ "b # pre"] exI [of _ c] exI [of _ post]) auto
  qed
qed simp


lemma validate_contracts_Inr:
  assumes "validate_contracts W advertised seen bs = Inr ()"
  shows "distinct (map (contract_key \<circ> contract) bs) \<and>
     set (map (contract_key \<circ> contract) bs) \<inter> set seen = {} \<and>
     (\<forall>b \<in> set bs. IsCanonicalSha256 (cc_contract_digest (contract b)) \<and>
        (\<exists>a \<in> set advertised. contract_key a = contract_key (contract b)))"
  using assms
proof (induction W advertised seen bs rule: validate_contracts.induct)
  case (2 W advertised seen b bs)
  then show ?case
    by (auto simp: Let_def list_ex_iff split: if_splits sum.splits)
qed simp

text \<open>What a valid configuration guarantees.\<close>

lemma ValidateConfig_sound:
  assumes "ValidateConfig W cfg = Inr ()"
  shows "ValidateRuntimeTarget (runtime_target cfg) = Inr () \<and>
     distinct (map (contract_key \<circ> contract) (capabilities cfg)) \<and>
     (\<forall>b \<in> set (capabilities cfg).
        \<exists>a \<in> set (reg_supported_capabilities (registration cfg)). contract_key a = contract_key (contract b)) \<and>
     length (capabilities cfg) = length (reg_supported_capabilities (registration cfg)) \<and>
     0 < maximum_work_queue cfg \<and> 0 < maximum_dispatch_queue cfg \<and> 0 < maximum_terminal_replay cfg \<and>
     maximum_source_streams cfg \<le> maximum_source_tombstones cfg \<and>
     reconnect_initial_delay_ms cfg \<le> reconnect_max_delay_ms cfg \<and>
     spec_instance_id (initial_spec cfg) = reg_instance_id (registration cfg) \<and>
     (\<exists>bindings. ValidateInstanceSpec W cfg (initial_spec cfg) = Inr bindings)"
proof -
  have c: "validate_contracts W (reg_supported_capabilities (registration cfg)) [] (capabilities cfg) = Inr ()"
    "bounds_positive cfg" "ValidateRuntimeTarget (runtime_target cfg) = Inr ()"
    "length (capabilities cfg) = length (reg_supported_capabilities (registration cfg))"
    "spec_instance_id (initial_spec cfg) = reg_instance_id (registration cfg)"
    "map_sum (\<lambda>e. e) (\<lambda>_. ()) (ValidateInstanceSpec W cfg (initial_spec cfg)) = Inr ()"
    using assms by (auto simp: ValidateConfig_def Let_def split: if_splits sum.splits)
  then have "\<exists>bindings. ValidateInstanceSpec W cfg (initial_spec cfg) = Inr bindings"
    by (cases "ValidateInstanceSpec W cfg (initial_spec cfg)") auto
  then show ?thesis
    using c(1-5) validate_contracts_Inr [OF c(1)]
    by (auto simp: bounds_positive_def word_neq_0_conv)
qed

declare read_exact.simps [simp del]

lemma read_exact_length: "read_exact want rs = Some (bytes, rest) \<Longrightarrow> length bytes = want"
proof (induction rs arbitrary: want bytes)
  case Nil
  then show ?case by (subst (asm) read_exact.simps) (auto split: if_splits)
next
  case (Cons r rs)
  from Cons.prems Cons.IH show ?case
    unfolding read_exact.simps [of want "r # rs"] by (auto split: if_splits read_result.splits)
qed

text \<open>
  C33: a configuration is read only from a regular file of the process user with mode 0600 and at most
  4 MiB, of which exactly the reported size was read and nothing was left; it carries a canonical
  target, the client's own version, and the advertised contracts without handlers.
\<close>

theorem FromBootstrapFile_secure:
  assumes "FromBootstrapFile open_file parse path = Inr cfg"
  shows "\<exists>st reads bytes rest m. open_file path = Some (Some st, reads) \<and> hd path = CHR ''/'' \<and>
     st_is_regular st \<and> st_owned_by_user st \<and> and (st_mode st) 0x1FF = 0x180 \<and>
     0 < st_size st \<and> st_size st \<le> 4 * 1024 * 1024 \<and>
     read_exact (nat (st_size st)) reads = Some (bytes, rest) \<and> int (length bytes) = st_size st \<and>
     read_extra rest \<and> parse bytes = Some m \<and>
     ValidateRuntimeTarget (runtime_target cfg) = Inr () \<and>
     reg_sdk_version (registration cfg) = kClientVersion \<and>
     map contract (capabilities cfg) = reg_supported_capabilities (registration cfg) \<and>
     (\<forall>b \<in> set (capabilities cfg). \<not> already_bound (callbacks b))"
proof -
  obtain st reads bytes rest m where m: "open_file path = Some (Some st, reads)" "path \<noteq> []"
    "hd path = CHR ''/''" "st_is_regular st" "st_owned_by_user st" "and (st_mode st) 0x1FF = 0x180"
    "0 < st_size st" "st_size st \<le> kMaximumBootstrapBytes"
    "read_exact (nat (st_size st)) reads = Some (bytes, rest)" "read_extra rest"
    "parse bytes = Some m" "config_of_bootstrap m = Inr cfg"
    using assms by (auto simp: FromBootstrapFile_def not_le split: if_splits option.splits prod.splits)
  moreover have "ValidateRuntimeTarget (runtime_target cfg) = Inr ()"
     "reg_sdk_version (registration cfg) = kClientVersion"
     "map contract (capabilities cfg) = reg_supported_capabilities (registration cfg)"
     "\<forall>b \<in> set (capabilities cfg). \<not> already_bound (callbacks b)"
    using m(12) by (auto simp: config_of_bootstrap_def already_bound_def no_callbacks_def comp_def
        split: if_splits option.splits sum.splits)
  ultimately show ?thesis
    using read_exact_length [OF m(9)] by (auto simp: kMaximumBootstrapBytes_def)
qed

end
