(* ===== verification/System.thy ===== *)
theory System
  imports Streams Bootstrap
begin

text \<open>
  The client as a concurrent system. Every access to the state of \<open>Client::Impl\<close> happens in a
  critical section of \<open>mutex_\<close>; \<open>background_step\<close> and \<open>link_step\<close> are the sections of the dispatch
  workers and application threads, and of the threads of a connection pair. They are interleaved
  arbitrarily: a section may run at any time, with any job, frame, decision or reason, which covers
  every schedule of the threads. \<open>client_step\<close> adds the supervisor, which owns the phases of the
  connection pair: the pair's threads run only between \<open>PrepareConnectionPairLocked\<close> and their
  join, the other threads all the time.
\<close>

subsection \<open>The initial state\<close>

definition initial_impl :: "client_config \<Rightarrow> client_callbacks \<Rightarrow> impl" where
  "initial_impl cfg cbs =
     \<lparr>config = cfg, client_callbacks = cbs, cl_state = kStopped, stop_requested = False,
      session_failed = False, accepting_work = False, drain_requested = False,
      drain_reported = False, ready_callbacks_complete = False, work_attach_allowed = False,
      pair_ready = False, terminal_session_failure = False, session_lost_reported = False,
      registration_attempted = False, last_error = [], terminal_session_error = [], host_id = [],
      session_id = [], session_generation = 0, runtime_epoch = 0,
      runtime_link_protocol_version = 0, heartbeat_interval_ms = 0,
      maximum_control_frame_bytes = 0, maximum_work_frame_bytes = 0, connection_epoch_counter = 0,
      control_out_sequence = 0, work_out_sequence = 0, control_in_sequence = 0,
      work_in_sequence = 0, work_attach_connection_epoch = 0, active_spec = default_spec,
      desired_spec = default_spec, spec_revision = 0, spec_digest = [], active_capabilities = [],
      capability_statuses = [], control_queue = [], work_queue = [], dispatch_queue = [],
      work_tokens = [], in_flight_work = 0, active_dispatch_jobs = 0, replay = [],
      source_streams = [], closed_sources = [], rejected_dispatches = 0,
      dropped_outbound_frames = 0, control_queue_bytes = 0, work_queue_bytes = 0,
      dispatch_queue_bytes = 0, terminal_replay_bytes = 0, source_state_bytes = 0,
      cancel_flags = [], callback_log = []\<rparr>"

subsection \<open>Workers and application threads\<close>

inductive background_step :: "wire \<Rightarrow> impl \<Rightarrow> impl \<Rightarrow> bool" for W :: wire where
  bg_publish: "background_step W s (snd (PublishSource W sid items s))"
| bg_close: "background_step W s (snd (CloseSource W sid err s))"
| bg_take: "TakeJob s = Some (job, t) \<Longrightarrow> background_step W s t"
| bg_running: "background_step W s (s\<lparr>in_flight_work := in_flight_work s + 1\<rparr>)"
| bg_invoke: "background_step W s (s\<lparr>callback_log := callback_log s @ [event]\<rparr>)"
| bg_settle_open: "background_step W s (snd (SettleSourceOpen_locked W job d s))"
| bg_notify: "background_step W s (NotifySourceClosed source err s)"
| bg_commit: "background_step W s (snd (CommitTerminalFrame W job frame s))"
| bg_queue: "background_step W s (snd (QueueWorkLocked W frame s))"
| bg_signal: "background_step W s (SignalCurrentSessionFailure reason s)"
| bg_rejected: "background_step W s (count_rejected s)"
| bg_erase: "background_step W s (EraseWorkToken W wid s)"
| bg_leave: "background_step W s (leave_job s)"
| bg_finish: "background_step W s (FinishJob W counted s)"
| bg_finish_work: "background_step W s (FinishWork W wid s)"

subsection \<open>The threads of a connection pair\<close>

inductive link_step :: "wire \<Rightarrow> impl \<Rightarrow> impl \<Rightarrow> bool" for W :: wire where
  lk_control_header: "link_step W s (snd (ValidateControlHeader h fence s))"
| lk_work_header: "link_step W s (snd (ValidateWorkHeader h fence s))"
| lk_admit: "link_step W s (snd (EnqueueDispatch_locked now job s))"
| lk_admit_source: "link_step W s (snd (EnqueueSourceOpen_locked W now request job s))"
| lk_credit: "link_step W s (snd (GrantSourceCredit_locked credit s))"
| lk_acknowledge: "link_step W s (snd (HandleTerminalAcknowledgement_locked ack s))"
| lk_cancel: "link_step W s (snd (HandleCancellation_locked W c s))"
| lk_notify: "link_step W s (NotifySourceClosed source err s)"
| lk_commit: "link_step W s (snd (CommitTerminalFrame W job frame s))"
| lk_queue_work: "link_step W s (snd (QueueWorkLocked W wframe s))"
| lk_queue_control: "link_step W s (snd (QueueControlLocked W cframe s))"
| lk_drain: "link_step W s (BeginDrain W s)"
| lk_remote_stop: "link_step W s (RequestRemoteStop reason s)"
| lk_signal: "link_step W s (SignalSessionFailure e reason s)"
| lk_signal_current: "link_step W s (SignalCurrentSessionFailure reason s)"
| lk_signal_terminal: "link_step W s (SignalTerminalSessionFailure e reason s)"
| lk_begin_apply: "BeginApply_locked W e spec s = Inr t \<Longrightarrow> link_step W s t"
| lk_deactivate: "link_step W s (Deactivate_locked s)"
| lk_invoke: "link_step W s (s\<lparr>callback_log := callback_log s @ [event]\<rparr>)"
| lk_fail_spec: "link_step W s (fail_statuses statuses s)"
| lk_fail_ready: "link_step W s ((fail_statuses statuses s)\<lparr>accepting_work := False,
    ready_callbacks_complete := False\<rparr>)"
| lk_commit_spec: "CommitSpec_locked e spec grants s = Some t \<Longrightarrow> link_step W s t"
| lk_settle_ready: "link_step W s (SettleReady_locked e grants s)"
| lk_control_take: "link_step W s (snd (snd (ControlWriterTake fence u w now hb s)))"
| lk_allow_attach: "link_step W s (AllowAttach_locked fence s)"
| lk_attach: "link_step W s (snd (WorkAttach_locked fence s))"
| lk_attached: "link_step W s (WorkAttached_locked fence s)"
| lk_work_take: "link_step W s (snd (WorkWriterTake fence s))"

subsection \<open>The supervisor\<close>

datatype phase = Unstarted | Starting | Paired | Retiring | Unpaired | Lost

inductive client_step :: "wire \<Rightarrow> phase \<times> impl \<Rightarrow> phase \<times> impl \<Rightarrow> bool" for W :: wire where
  st_start: "BeginStart W False s = Inr t \<Longrightarrow> client_step W (Unstarted, s) (Starting, t)"
| st_begin_register: "BeginRegister_locked s = Inr t \<Longrightarrow> client_step W (Starting, s) (Starting, t)"
| st_forget_token: "client_step W (Starting, s) (Starting, ForgetBootstrapToken s)"
| st_install: "CheckRegistration (config s) status response = Inr fence \<Longrightarrow>
    client_step W (Starting, s) (Unpaired, InstallSession fence s)"
| st_pair: "client_step W (Unpaired, s) (Paired, PrepareConnectionPairLocked fence s)"
| st_link: "link_step W s t \<Longrightarrow> client_step W (Paired, s) (Paired, t)"
| st_background: "background_step W s t \<Longrightarrow> client_step W (ph, s) (ph, t)"
| st_retire: "client_step W (Paired, s) (Retiring, RetireSources_locked s)"
| st_release: "client_step W (Retiring, s) (Retiring, ReleaseAllTokensLocked s)"
| st_clear: "client_step W (Retiring, s) (Unpaired, ClearConnectionStateLocked s)"
| st_judge: "client_step W (Unpaired, s) (Unpaired, snd (JudgePair ready sv s))"
| st_deactivate: "client_step W (Unpaired, s) (Unpaired, Deactivate_locked s)"
| st_lost: "client_step W (Unpaired, s) (Lost, snd (SessionLost_locked reason s))"
| st_report: "client_step W (Lost, s) (Lost, report_session_lost reason s)"
| st_stop: "client_step W (ph, s) (ph, RequestStop_locked s)"
| st_reset: "client_step W (Unpaired, s) (Lost, ResetSessionLocked s)"

definition reachable :: "wire \<Rightarrow> client_config \<Rightarrow> client_callbacks \<Rightarrow> phase \<times> impl \<Rightarrow> bool" where
  "reachable W cfg cbs ps \<longleftrightarrow> (client_step W)\<^sup>*\<^sup>* (Unstarted, initial_impl cfg cbs) ps"

subsection \<open>Every critical section keeps the books\<close>

lemma background_keeps_books: "background_step W s t \<Longrightarrow> books_ok k s \<Longrightarrow> books_ok k t"
  by (induction rule: background_step.induct)
    (auto intro: books_PublishSource books_CloseSource books_TakeJob books_counters books_log
      books_SettleSourceOpen_locked same_books_ok [OF same_books_NotifySourceClosed]
      books_CommitTerminalFrame books_QueueWorkLocked same_books_ok [OF same_books_SignalCurrent]
      same_books_ok [OF same_books_count_rejected] books_EraseWorkToken books_FinishJob
      books_FinishWork)

lemma locked_sections_books:
  assumes "books_ok k s"
  shows "books_ok k (snd (GrantSourceCredit_locked credit s))"
    and "books_ok k (snd (HandleTerminalAcknowledgement_locked ack s))"
    and "books_ok k (snd (WorkAttach_locked fence s))"
  subgoal using assms
    by (auto simp: GrantSourceCredit_locked_def Let_def split: option.split
      intro: books_stream_update books_tombstone_update)
  subgoal using assms
    by (auto simp: HandleTerminalAcknowledgement_locked_def books_release_tombstone(1)
      split: option.split work_identity.split
      intro: books_release_replay(2) books_release_tombstone(2))
  subgoal using assms
    by (auto simp: WorkAttach_locked_def stamp_work_def Let_def
      intro: same_books_ok [OF same_books_sequences(4)])
  done

lemma link_keeps_books: "link_step W s t \<Longrightarrow> books_ok 0 s \<Longrightarrow> books_ok 0 t"
  by (induction rule: link_step.induct)
    (auto intro: same_books_ok [OF same_books_headers(1)] same_books_ok [OF same_books_headers(2)]
      books_EnqueueDispatch_locked books_EnqueueSourceOpen_locked locked_sections_books
      books_HandleCancellation_locked same_books_ok [OF same_books_NotifySourceClosed]
      books_CommitTerminalFrame books_QueueWorkLocked books_QueueControlLocked books_BeginDrain
      same_books_ok [OF same_books_RequestRemoteStop] same_books_ok [OF same_books_SignalSession]
      same_books_ok [OF same_books_SignalCurrent] same_books_ok [OF same_books_SignalTerminal]
      books_BeginApply books_Deactivate_locked books_log books_fail_statuses books_spec
      books_CommitSpec books_SettleReady books_ControlWriterTake
      same_books_ok [OF same_books_gates(1)] same_books_ok [OF same_books_gates(2)]
      books_WorkWriterTake)

subsection \<open>Background threads add no source and no token\<close>

definition smap_keys :: "('k, 'v) smap \<Rightarrow> 'k set" where
  "smap_keys m = fst ` set m"

definition no_new_work :: "impl \<Rightarrow> impl \<Rightarrow> bool" where
  "no_new_work s t \<longleftrightarrow>
     smap_keys (source_streams t) \<subseteq> smap_keys (source_streams s) \<and>
     smap_keys (work_tokens t) \<subseteq> smap_keys (work_tokens s)"

lemma same_books_no_new_work: "same_books s t \<Longrightarrow> no_new_work s t"
  by (simp add: no_new_work_def same_books_def)

lemma no_new_work_trans: "no_new_work s t \<Longrightarrow> no_new_work t u \<Longrightarrow> no_new_work s u"
  by (auto simp: no_new_work_def)

lemma keys_erase: "smap_keys (smap_erase key m) = smap_keys m - {key}"
  by (auto simp: smap_erase_def smap_keys_def)

lemma keys_replace: "smap_find key m = Some u \<Longrightarrow> smap_keys (smap_assign key v m) = smap_keys m"
  unfolding smap_keys_def keys_smap_assign
  by (auto dest: smap_find_mem intro: rev_image_eqI)

lemma keys_Nil [simp]: "smap_keys [] = {}" "smap_keys m = {} \<longleftrightarrow> m = []"
  by (simp_all add: smap_keys_def)

lemma no_new_work_ops:
  "no_new_work s (ReleaseWorkTokenLocked wid s)"
  "no_new_work s (push_work q s)"
  "no_new_work s (pop_job s)"
  "no_new_work s (push_control c s)"
  "no_new_work s (RememberReplayLocked wid entry s)"
  "no_new_work s (RememberClosedSourceLocked sid source frame digest s)"
  "no_new_work s (s\<lparr>source_streams := smap_erase sid (source_streams s)\<rparr>)"
  by (auto simp: no_new_work_def push_work_def pop_job_def push_control_def RememberReplayLocked_def
      RememberClosedSourceLocked_def ReleaseWorkTokenLocked_def keys_erase Let_def
      split: list.split option.split)

lemma no_new_work_dropped:
  "no_new_work s (s\<lparr>dropped_outbound_frames := n\<rparr>)" "no_new_work s s"
  by (simp_all add: no_new_work_def)

lemma no_new_work_QueueWork: "no_new_work s (snd (QueueWorkLocked W frame s))"
  by (auto simp: QueueWorkLocked_iff intro: no_new_work_ops same_books_no_new_work)

lemma no_new_work_QueueControl: "no_new_work s (snd (QueueControlLocked W frame s))"
  by (auto simp: QueueControlLocked_def Let_def intro: no_new_work_ops same_books_no_new_work)

lemma no_new_work_drain: "no_new_work s (MaybeQueueDrainStatusLocked W s)"
  using no_new_work_QueueControl [of s W "DrainStatusFrame True 0"]
  by (auto simp: MaybeQueueDrainStatusLocked_def no_new_work_def CancelAllWorkLocked_def
      split: prod.split bool.split)

lemma no_new_work_commit_source:
  "no_new_work s (snd (CommitSourceTerminalLocked W sid source frame s))"
proof (cases rule: CommitSourceTerminal_cases [of W sid source frame s])
  case (refused t)
  then show ?thesis using same_books_no_new_work by simp
next
  case (committed m d)
  then show ?thesis using no_new_work_trans [OF no_new_work_ops(2) no_new_work_ops(6)] by simp
qed

lemma no_new_work_retain: "no_new_work s (snd (retain_terminal job q entry s))"
proof (cases rule: retain_terminal_cases [of job q entry s])
  case (converted token)
  then show ?thesis
    using no_new_work_trans [OF no_new_work_trans [OF no_new_work_ops(1) no_new_work_ops(5)]
        no_new_work_ops(2)] by simp
next
  case unreserved
  then show ?thesis using no_new_work_trans [OF no_new_work_ops(5) no_new_work_ops(2)] by simp
qed (simp add: no_new_work_def)

lemma no_new_work_CommitTerminal: "no_new_work s (snd (CommitTerminalFrame W job frame s))"
  by (auto simp: CommitTerminalFrame_unfold split: option.split
      intro: no_new_work_retain same_books_no_new_work)

lemma commit_source_keys:
  assumes "CommitSourceTerminalLocked W sid source frame s = (ok, t)"
  shows "smap_keys (source_streams t) \<subseteq> smap_keys (source_streams s) \<and>
    smap_keys (work_tokens t) \<subseteq> smap_keys (work_tokens s)"
  using no_new_work_commit_source [of s W sid source frame] assms by (simp_all add: no_new_work_def)

lemma no_new_work_settle: "no_new_work s (snd (SettleSourceOpen_locked W job d s))"
  by (auto simp: SettleSourceOpen_locked_def Let_def QueueWorkLocked_iff no_new_work_def
      push_work_def keys_replace keys_erase split: option.split prod.split bool.split
      dest!: commit_source_keys)

lemma no_new_work_publish: "no_new_work s (snd (PublishSource W sid items s))"
proof (cases rule: PublishSource_cases [of sid items s W])
  case (accepted stream)
  then show ?thesis using publish_guards_Inr(1) [OF accepted(1)]
    by (simp add: no_new_work_def keys_replace push_work_def)
qed (auto simp: no_new_work_def)

lemma no_new_work_close: "no_new_work s (snd (CloseSource W sid err s))"
  by (auto simp: CloseSource_def Let_def no_new_work_def keys_erase
      split: option.split prod.split bool.split dest!: commit_source_keys)

lemma background_no_new_work: "background_step W s t \<Longrightarrow> no_new_work s t"
proof (induction rule: background_step.induct)
  case (bg_take s job t)
  then show ?case using no_new_work_ops(3) [of s]
    by (auto simp: TakeJob_def no_new_work_def split: list.splits)
next
  case (bg_erase s wid)
  then show ?case unfolding EraseWorkToken_def
    by (rule no_new_work_trans [OF no_new_work_ops(1) no_new_work_drain])
next
  case (bg_finish s counted)
  then show ?case unfolding FinishJob_def
    by (rule no_new_work_trans [OF same_books_no_new_work no_new_work_drain]) simp
next
  case (bg_finish_work s wid)
  then show ?case unfolding FinishWork_def
    by (rule no_new_work_trans [OF same_books_no_new_work
          no_new_work_trans [OF no_new_work_ops(1) no_new_work_drain]]) simp
qed (auto intro: no_new_work_publish no_new_work_close no_new_work_settle no_new_work_CommitTerminal
      no_new_work_QueueWork same_books_no_new_work)

lemma no_new_work_Nil:
  "no_new_work s t \<Longrightarrow> source_streams s = [] \<Longrightarrow> source_streams t = []"
  "no_new_work s t \<Longrightarrow> work_tokens s = [] \<Longrightarrow> work_tokens t = []"
  by (auto simp: no_new_work_def)

subsection \<open>The invariant of the whole client\<close>

text \<open>
  While a pair is up the source counter is exact; between pairs no source is open and the counter
  may still hold what the retired pair had accounted for.
\<close>

fun phase_ok :: "phase \<times> impl \<Rightarrow> bool" where
  "phase_ok (Paired, s) \<longleftrightarrow> books_ok 0 s"
| "phase_ok (Unstarted, s) \<longleftrightarrow> (\<exists>k. books_ok k s) \<and> source_streams s = [] \<and> work_tokens s = []"
| "phase_ok (_, s) \<longleftrightarrow> (\<exists>k. books_ok k s) \<and> source_streams s = []"

lemma initial_phase_ok: "phase_ok (Unstarted, initial_impl cfg cbs)"
proof -
  have "books_ok 0 (initial_impl cfg cbs)"
    by (rule empty_books) (simp_all add: initial_impl_def idle_def)
  then show ?thesis by (auto simp: initial_impl_def)
qed

lemma BeginStart_locked_BeginStart: "BeginStart W threads s = Inr t \<Longrightarrow> BeginStart_locked threads s = Inr t"
  by (auto simp: BeginStart_def split: if_splits sum.splits)

lemma same_books_RequestStop [simp]: "same_books s (RequestStop_locked s)"
  by (simp add: RequestStop_locked_def same_books_def CancelAllWorkLocked_def)

lemma phase_ok_same_books:
  assumes "same_books s t" and "phase_ok (ph, s)"
  shows "phase_ok (ph, t)"
proof -
  have "source_streams t = source_streams s" "work_tokens t = work_tokens s"
    using assms(1) by (simp_all add: same_books_def)
  then show ?thesis using assms same_books_ok by (cases ph) auto
qed

lemma phase_ok_background:
  assumes "background_step W s t" and "phase_ok (ph, s)"
  shows "phase_ok (ph, t)"
  using assms(2) background_keeps_books [OF assms(1)]
    no_new_work_Nil [OF background_no_new_work [OF assms(1)]]
  by (cases ph) auto

lemma client_step_phase_ok: "client_step W ps qs \<Longrightarrow> phase_ok ps \<Longrightarrow> phase_ok qs"
proof (induction rule: client_step.induct)
  case (st_start s t)
  then obtain k where k: "books_ok k s" "source_streams s = []" "work_tokens s = []" by auto
  note start = BeginStart_locked_BeginStart [OF st_start(1)]
  have "books_ok k t" by (rule books_BeginStart [OF k(1,3) start])
  moreover have "source_streams t = []"
    using start k(2) by (auto simp: BeginStart_locked_def split: if_splits)
  ultimately show ?case by auto
next
  case (st_begin_register s t)
  then have "same_books s t" by (auto simp: BeginRegister_locked_def same_books_def split: if_splits)
  from phase_ok_same_books [OF this st_begin_register(2)] show ?case .
next
  case (st_forget_token s)
  then show ?case by (auto simp: books_ForgetBootstrapToken) (simp add: ForgetBootstrapToken_def)
next
  case (st_install s status response fence)
  have "source_streams (InstallSession fence s) = []" by (simp add: InstallSession_def)
  then show ?case using books_InstallSession st_install by auto
next
  case (st_retire s)
  have "source_streams (RetireSources_locked s) = []" by (simp add: RetireSources_locked_def)
  then show ?case using books_RetireSources st_retire by auto
next
  case (st_clear s)
  have "source_streams (ClearConnectionStateLocked s) = []" if "source_streams s = []"
    by (simp add: ClearConnectionStateLocked_def Let_def that)
  then show ?case using books_ClearConnectionState st_clear by auto
next
  case (st_deactivate s)
  have "source_streams (Deactivate_locked s) = []" by (simp add: Deactivate_locked_def)
  then show ?case using books_Deactivate_locked st_deactivate by auto
next
  case (st_lost s reason)
  from phase_ok_same_books [OF same_books_session_lost(1) st_lost]
  have "phase_ok (Unpaired, snd (SessionLost_locked reason s))" .
  then show ?case by simp
next
  case (st_reset s)
  have "source_streams (ResetSessionLocked s) = []" by (simp add: ResetSessionLocked_def Let_def)
  then show ?case using books_ResetSession by auto
next
  case (st_pair s fence)
  then show ?case using books_PrepareConnectionPair by auto
next
  case (st_link s t)
  then show ?case using link_keeps_books by simp
next
  case (st_background s t ph)
  then show ?case using phase_ok_background by blast
next
  case (st_release s)
  then show ?case using books_ReleaseAllTokens by auto
next
  case (st_judge s ready sv)
  from phase_ok_same_books [OF same_books_JudgePair st_judge] show ?case .
next
  case (st_report s reason)
  from phase_ok_same_books [OF same_books_session_lost(2) st_report] show ?case .
next
  case (st_stop ph s)
  from phase_ok_same_books [OF same_books_RequestStop st_stop] show ?case .
qed

definition started :: "client_config \<Rightarrow> client_callbacks \<Rightarrow> phase \<times> impl \<Rightarrow> bool" where
  "started cfg cbs ps \<longleftrightarrow> ps = (Unstarted, initial_impl cfg cbs)"

interpretation ledger: transition_invariant "started cfg cbs" "client_step W" phase_ok
  by unfold_locales (auto simp only: started_def initial_phase_ok client_step_phase_ok)

lemma reachable_phase_ok: "reachable W cfg cbs ps \<Longrightarrow> phase_ok ps"
  using ledger.reachable_inv by (auto simp: reachable_def started_def)

end
