(* ===== verification/Scenario.thy ===== *)
theory Scenario
  imports System
begin

text \<open>
  One concrete client: a protobuf library whose every message has 100 bytes and encodes, a
  configuration with one capability (a unary endpoint, an operation endpoint and a source
  endpoint), a state in which the session is ready, and requests for it.
\<close>

definition demo_wire :: wire where
  "demo_wire =
     \<lparr>work_request_bytes = (\<lambda>_ _. 100), control_request_bytes = (\<lambda>_ _. 100),
      work_response_bytes = (\<lambda>_. 100), control_response_bytes = (\<lambda>_. 100),
      unary_request_bytes = (\<lambda>_. 100), operation_request_bytes = (\<lambda>_. 100),
      source_open_request_bytes = (\<lambda>_. 100),
      payload_bytes = (\<lambda>p. of_nat (length (payload_value p))),
      serialize_terminal = (\<lambda>_. Some [1, 2, 3]), terminal_type_name = (\<lambda>_. [0x61]),
      json_value_ok = (\<lambda>_. True), spec_equals = (\<lambda>a b. a = b), scope_equals = (\<lambda>a b. a = b),
      error_class_number =
        (\<lambda>c. case c of
           ERROR_CLASS_UNSPECIFIED \<Rightarrow> 0 | ERROR_CLASS_PERMANENT \<Rightarrow> 1 | ERROR_CLASS_TRANSIENT \<Rightarrow> 2
         | ERROR_CLASS_REJECTED \<Rightarrow> 3 | ERROR_CLASS_DEADLINE \<Rightarrow> 4 | ERROR_CLASS_CANCELLED \<Rightarrow> 5
         | ERROR_CLASS_UNCERTAIN \<Rightarrow> 6 | ERROR_CLASS_RESOURCE_EXHAUSTED \<Rightarrow> 7
         | ErrorClassOther n \<Rightarrow> n),
      side_effect_read_only = 1, side_effect_non_idempotent = 3, idempotency_not_supported = 1,
      idempotency_required = 3\<rparr>"

definition demo_sha :: string where
  "demo_sha = ''sha256:'' @ replicate 64 (CHR ''a'')"

definition demo_instance :: string where
  "demo_instance = ''ari-'' @ replicate 32 (CHR ''0'')"

definition demo_schema :: schema_reference where
  "demo_schema = \<lparr>message_id = 1, type_name = ''demo.Message'', schema_version = 1,
     schema_fingerprint = 1\<rparr>"

definition demo_payload :: payload where
  "demo_payload = \<lparr>payload_schema = Some demo_schema, encoding = PAYLOAD_ENCODING_BYTES,
     payload_value = ''x''\<rparr>"

definition demo_limits :: "interaction_mode \<Rightarrow> endpoint_limits" where
  "demo_limits mode = default_limits\<lparr>maximum_request_bytes := 1000, maximum_response_bytes := 1000,
     maximum_concurrency := 1,
     maximum_streams := (if mode = INTERACTION_MODE_STREAM_SOURCE then 4 else 0),
     maximum_stream_chunk_bytes := (if mode = INTERACTION_MODE_STREAM_SOURCE then 100 else 0),
     maximum_stream_chunk_messages := (if mode = INTERACTION_MODE_STREAM_SOURCE then 10 else 0)\<rparr>"

definition demo_endpoint :: "string \<Rightarrow> interaction_mode \<Rightarrow> endpoint_contract" where
  "demo_endpoint name mode = \<lparr>ep_endpoint_id = name, interaction = mode,
     input_schema = Some demo_schema, output_schema = Some demo_schema,
     event_schema = Some demo_schema, side_effect_class = 1, idempotency_mode = 1,
     default_timeout_ms = 1000, maximum_timeout_ms = 2000, deadline_required = False,
     ep_limits = Some (demo_limits mode)\<rparr>"

definition demo_contract :: capability_contract where
  "demo_contract = \<lparr>cc_capability_id = ''demo.cap'', cc_contract_version = 1,
     cc_contract_digest = demo_sha,
     cc_endpoints = [demo_endpoint ''ask'' INTERACTION_MODE_UNARY,
       demo_endpoint ''run'' INTERACTION_MODE_OPERATION,
       demo_endpoint ''feed'' INTERACTION_MODE_STREAM_SOURCE]\<rparr>"

definition demo_binding :: capability_binding where
  "demo_binding = \<lparr>contract = demo_contract,
     callbacks = \<lparr>cb_start = True, cb_stop = True, cb_ready = True, cb_unary = True,
       cb_operation = True, cb_source_open = True, cb_source_closed = True\<rparr>\<rparr>"

definition demo_grant :: enabled_capability where
  "demo_grant = \<lparr>ec_capability_id = ''demo.cap'', ec_contract_version = 1,
     ec_contract_digest = demo_sha, ec_configuration = None,
     enabled_endpoint_ids = [''ask'', ''run'', ''feed'']\<rparr>"

definition demo_scope :: scope_reference where
  "demo_scope = \<lparr>scope_kind = ''robot'', scope_key = demo_sha, scope_attributes = [(''site'', ''lab'')]\<rparr>"

definition demo_spec :: instance_spec where
  "demo_spec = \<lparr>spec_instance_id = demo_instance, spec_process_generation = 1, spec_rev = 1,
     spec_dig = demo_sha, spec_scope = Some demo_scope, spec_configuration = Some demo_payload,
     spec_secrets = [], spec_capabilities = [demo_grant]\<rparr>"

definition demo_config :: client_config where
  "demo_config =
     \<lparr>runtime_target = ''unix:///run/xgc2/runtime.sock'',
      registration = \<lparr>reg_instance_id = demo_instance, reg_process_generation = 1,
        reg_definition_id = ''demo'', reg_definition_digest = demo_sha,
        reg_software_version = ''1.0.0'', reg_build_digest = demo_sha,
        reg_manifest_digest = demo_sha, reg_bootstrap_token = ''token'',
        reg_sdk_version = kClientVersion, reg_runtime_link_protocol_version = 2,
        reg_supported_capabilities = [demo_contract]\<rparr>,
      initial_spec = demo_spec, capabilities = [demo_binding], rpc_timeout_ms = 1000,
      initial_connect_timeout_ms = 1000, reconnect_initial_delay_ms = 100,
      reconnect_max_delay_ms = 1000, maximum_pair_reconnect_attempts = 3,
      maximum_control_queue = 4, maximum_work_queue = 8, maximum_dispatch_queue = 4,
      maximum_terminal_replay = 4, maximum_source_streams = 4, maximum_source_tombstones = 4,
      maximum_control_queue_bytes = 10000, maximum_work_queue_bytes = 10000,
      maximum_dispatch_queue_bytes = 10000, maximum_terminal_replay_bytes = 10000,
      maximum_source_state_bytes = 10000, dispatch_workers = 1\<rparr>"

definition demo_callbacks :: client_callbacks where
  "demo_callbacks = \<lparr>cb_apply_instance_spec = True, cb_clear_instance_spec = True,
     cb_stop_requested = True, cb_session_lost = True\<rparr>"

definition demo_ready :: impl where
  "demo_ready = (initial_impl demo_config demo_callbacks)\<lparr>cl_state := kReady,
     accepting_work := True, session_id := ''session'', session_generation := 1,
     runtime_epoch := 1, heartbeat_interval_ms := 1000, maximum_control_frame_bytes := 1000,
     maximum_work_frame_bytes := 1000, connection_epoch_counter := 1, spec_revision := 1,
     spec_digest := demo_sha,
     active_capabilities := [(''demo.cap'', \<lparr>ac_binding_index = 0, ac_grant = demo_grant\<rparr>)]\<rparr>"

definition demo_context :: "string \<Rightarrow> string \<Rightarrow> work_context" where
  "demo_context wid endpoint = \<lparr>wc_work_id = wid, wc_request_digest = demo_sha,
     wc_capability_id = ''demo.cap'', wc_endpoint_id = endpoint, wc_contract_version = 1,
     wc_contract_digest = demo_sha, wc_spec_revision = 1, wc_deadline = None,
     wc_idempotency_key = [], wc_subject = Some demo_scope\<rparr>"

definition demo_request :: work_input where
  "demo_request = \<lparr>wi_context = Some (demo_context ''w1'' ''ask''), wi_input = Some demo_payload\<rparr>"

definition demo_job :: dispatch_job where
  "demo_job = unary_job demo_wire 0 demo_request 1"

definition demo_response :: work_frame where
  "demo_response = UnaryResponseFrame (unary_response_of ''w1'' (UnaryResult_Success demo_payload))"

text \<open>The state after the job was admitted, and the job as the worker takes it.\<close>

definition demo_admitted :: impl where
  "demo_admitted = snd (EnqueueDispatch_locked 0 demo_job demo_ready)"

definition demo_queued :: dispatch_job where
  "demo_queued = demo_job\<lparr>job_cancellation := Some 0, job_terminal_reservation_bytes := 1142\<rparr>"

definition demo_token :: work_token where
  "demo_token = \<lparr>token_cancellation = Some 0, token_reservation_bytes = 1142\<rparr>"

lemmas demo_defs = demo_wire_def demo_config_def demo_callbacks_def demo_ready_def initial_impl_def

lemma demo_books: "books_ok 0 demo_ready"
  by (rule empty_books) (simp_all add: demo_ready_def initial_impl_def idle_def)

lemma demo_job_fields [simp]:
  "job_work_id demo_job = ''w1''" "job_kind demo_job = kUnary"
  "job_fingerprint demo_job = demo_sha" "job_accounted_bytes demo_job = 100"
  by (simp_all add: demo_job_def unary_job_def default_job_def demo_request_def demo_context_def
      demo_wire_def RequestFingerprint_def)

lemma length_demo_sha [simp]: "length demo_sha = 71"
  by (simp add: demo_sha_def)

lemma demo_config_valid: "ValidateConfig demo_wire demo_config = Inr ()"
  by code_simp

lemma demo_canonical [simp]: "IsCanonicalSha256 demo_sha"
  by code_simp

lemma demo_classes: "typed_classes_ok demo_wire"
  by (simp add: typed_classes_ok_def demo_wire_def)

lemma demo_admission:
  "EnqueueDispatch_locked 0 demo_job demo_ready = (Enqueued, demo_admitted)"
  "demo_admitted = push_job demo_queued (demo_ready\<lparr>cancel_flags := [False],
     terminal_replay_bytes := 1142, work_tokens := [(''w1'', demo_token)]\<rparr>)"
proof -
  have "EnqueueDispatch_locked 0 demo_job demo_ready = AdmitWork_locked demo_job demo_ready"
    by (simp add: EnqueueDispatch_locked_def demo_defs stream_uses_work_id_def FitsByteBudget_iff)
  also have "\<dots> = (Enqueued, push_job demo_queued (demo_ready\<lparr>cancel_flags := [False],
     terminal_replay_bytes := 1142, work_tokens := [(''w1'', demo_token)]\<rparr>))"
    by (simp add: AdmitWork_locked_def make_cancellation_def ReserveTerminalReplayLocked_def
        demo_defs FitsByteBudget_iff demo_queued_def demo_token_def smap_emplace_def)
  finally show "EnqueueDispatch_locked 0 demo_job demo_ready = (Enqueued, demo_admitted)"
    "demo_admitted = push_job demo_queued (demo_ready\<lparr>cancel_flags := [False],
     terminal_replay_bytes := 1142, work_tokens := [(''w1'', demo_token)]\<rparr>)"
    by (simp_all add: demo_admitted_def)
qed

lemma demo_admitted_books: "books_ok 0 demo_admitted"
  unfolding demo_admitted_def by (rule books_EnqueueDispatch_locked [OF demo_books])

lemma demo_digest: "\<exists>d. TerminalDigest demo_wire message = Some d"
  by (simp add: TerminalDigest_reference demo_wire_def)

lemma demo_entry:
  obtains entry where "replay_entry_for demo_wire demo_queued demo_response n = Some entry"
  using demo_digest [of "UnaryTerminal (unary_response_of ''w1'' (UnaryResult_Success demo_payload))"]
  by (auto simp: replay_entry_for_def demo_queued_def demo_response_def)

lemma demo_can_queue: "can_queue_work demo_wire demo_admitted frame"
  by (simp add: can_queue_work_def demo_admission(2) push_job_def demo_defs WorkFrameBytesLocked_def
      FitsByteBudget_iff)

lemma demo_holds:
  "smap_find (job_work_id demo_queued) (work_tokens demo_admitted) = Some demo_token"
  "token_cancellation demo_token = job_cancellation demo_queued"
  "full_reservation demo_admitted demo_queued demo_token"
  "smap_find (job_work_id demo_queued) (replay demo_admitted) = None"
  by (simp_all add: demo_admission(2) push_job_def demo_defs demo_queued_def demo_token_def
      full_reservation_def)

end
