(* ===== verification/Terminal_Ledger.thy ===== *)
theory Terminal_Ledger
  imports System
begin

text \<open>
  What the client promises about Work, as an abstract ledger: an identity is unused, in flight, or
  has a retained terminal (\<open>ledger_step\<close>). \<open>ledger_of\<close> reads the ledger off the client's tables
  (\<open>replay_\<close> and \<open>work_tokens_\<close>), and every step of every thread is shown to be a run of the ledger
  (\<open>step_explained\<close>, the interpretation \<open>refined\<close>). The sections that do not touch Work are collected
  first (\<open>same_work\<close>), then those that move the ledger (\<open>moves\<close>).
\<close>

subsection \<open>The abstract ledger\<close>

definition retained_terminal :: "replay_entry \<Rightarrow> terminal_message" where
  "retained_terminal e = (if re_kind e = kUnary then UnaryTerminal (re_unary e)
     else OperationTerminal (re_operation e))"

definition entry_sound :: "wire \<Rightarrow> replay_entry \<Rightarrow> bool" where
  "entry_sound W e \<longleftrightarrow> re_kind e \<in> {kUnary, kOperation} \<and>
     TerminalDigest W (retained_terminal e) = Some (re_terminal_digest e)"

text \<open>The state of one Work identity, and what can happen to the ledger.\<close>

datatype ledger_entry = InFlight | Retained replay_entry

type_synonym ledger = "string \<Rightarrow> ledger_entry option"

datatype ledger_event =
    Admitted string
  | Released string
  | Committed string replay_entry
  | Acknowledged string string
  | SessionEnded

inductive ledger_step :: "wire \<Rightarrow> ledger_event \<Rightarrow> ledger \<Rightarrow> ledger \<Rightarrow> bool" for W :: wire where
  admitted: "l wid = None \<Longrightarrow> ledger_step W (Admitted wid) l (l(wid \<mapsto> InFlight))"
| released: "l wid = Some InFlight \<Longrightarrow> ledger_step W (Released wid) l (l(wid := None))"
| committed: "l wid = None \<or> l wid = Some InFlight \<Longrightarrow> entry_sound W e \<Longrightarrow>
    ledger_step W (Committed wid e) l (l(wid \<mapsto> Retained e))"
| acknowledged: "l wid = Some (Retained e) \<Longrightarrow>
    ledger_step W (Acknowledged wid (re_terminal_digest e)) l (l(wid := None))"
| session_ended: "ledger_step W SessionEnded l Map.empty"

inductive_cases ledger_stepE: "ledger_step W ev l l'"

inductive ledger_run :: "wire \<Rightarrow> ledger_event list \<Rightarrow> ledger \<Rightarrow> ledger \<Rightarrow> bool" for W :: wire where
  run_Nil: "ledger_run W [] l l"
| run_Cons: "ledger_step W ev l m \<Longrightarrow> ledger_run W evs m n \<Longrightarrow> ledger_run W (ev # evs) l n"

lemma ledger_run_append:
  "ledger_run W evs l m \<Longrightarrow> ledger_run W evs' m n \<Longrightarrow> ledger_run W (evs @ evs') l n"
  by (induction rule: ledger_run.induct) (auto intro: ledger_run.intros)

lemma ledger_run_single: "ledger_step W ev l m \<Longrightarrow> ledger_run W [ev] l m"
  by (auto intro: ledger_run.intros)

fun quiet_event :: "ledger_event \<Rightarrow> bool" where
  "quiet_event (Acknowledged _ _) = False"
| "quiet_event SessionEnded = False"
| "quiet_event _ = True"

text \<open>Without an acknowledgement and within a session, a retained terminal stays as it is.\<close>

lemma quiet_step_keeps_terminal:
  "ledger_step W ev l m \<Longrightarrow> quiet_event ev \<Longrightarrow> l wid = Some (Retained e) \<Longrightarrow>
     m wid = Some (Retained e)"
  by (erule ledger_step.cases) auto

lemma quiet_run_keeps_terminal:
  "ledger_run W evs l m \<Longrightarrow> list_all quiet_event evs \<Longrightarrow> l wid = Some (Retained e) \<Longrightarrow>
     m wid = Some (Retained e)"
  by (induction rule: ledger_run.induct) (simp_all add: quiet_step_keeps_terminal)

definition ledger_sound :: "wire \<Rightarrow> ledger \<Rightarrow> bool" where
  "ledger_sound W l \<longleftrightarrow> (\<forall>wid e. l wid = Some (Retained e) \<longrightarrow> entry_sound W e)"

lemma ledger_step_sound: "ledger_step W ev l m \<Longrightarrow> ledger_sound W l \<Longrightarrow> ledger_sound W m"
  by (erule ledger_step.cases) (auto simp: ledger_sound_def)

lemma ledger_run_sound: "ledger_run W evs l m \<Longrightarrow> ledger_sound W l \<Longrightarrow> ledger_sound W m"
  by (induction rule: ledger_run.induct) (simp_all add: ledger_step_sound)

subsection \<open>The ledger of the client\<close>

definition ledger_of :: "impl \<Rightarrow> ledger" where
  "ledger_of s wid =
     (case smap_find wid (replay s) of
        Some e \<Rightarrow> Some (Retained e)
      | None \<Rightarrow> map_option (\<lambda>_. InFlight) (smap_find wid (work_tokens s)))"

definition moves :: "wire \<Rightarrow> impl \<Rightarrow> impl \<Rightarrow> bool" where
  "moves W s t \<longleftrightarrow>
     (\<exists>evs. ledger_run W evs (ledger_of s) (ledger_of t) \<and> list_all quiet_event evs)"

lemma moves_trans: "moves W s t \<Longrightarrow> moves W t u \<Longrightarrow> moves W s u"
  unfolding moves_def by (metis ledger_run_append list_all_append)

lemma ledger_of_cong:
  "replay t = replay s \<Longrightarrow> work_tokens t = work_tokens s \<Longrightarrow> ledger_of t = ledger_of s"
  by (rule ext) (simp add: ledger_of_def split: option.split)

lemma moves_same: "replay t = replay s \<Longrightarrow> work_tokens t = work_tokens s \<Longrightarrow> moves W s t"
  unfolding moves_def using ledger_of_cong [of t s]
  by (intro exI [of _ "[]"]) (simp add: ledger_run.run_Nil)

lemma moves_same_books: "same_books s t \<Longrightarrow> moves W s t"
  by (rule moves_same) (simp_all add: same_books_def)

lemma moves_event:
  "ledger_step W ev (ledger_of s) (ledger_of t) \<Longrightarrow> quiet_event ev \<Longrightarrow> moves W s t"
  unfolding moves_def by (intro exI [of _ "[ev]"]) (simp add: ledger_run_single)

lemma ledger_after_release:
  "ledger_of (ReleaseWorkTokenLocked wid s) =
     (if ledger_of s wid = Some InFlight then (ledger_of s)(wid := None) else ledger_of s)"
  by (rule ext) (simp add: ledger_of_def smap_find_erase split: option.split)

lemma moves_ReleaseWorkToken: "moves W s (ReleaseWorkTokenLocked wid s)"
proof (cases "ledger_of s wid = Some InFlight")
  case True
  then have "ledger_step W (Released wid) (ledger_of s) (ledger_of (ReleaseWorkTokenLocked wid s))"
    by (simp add: ledger_after_release ledger_step.released)
  then show ?thesis by (rule moves_event) simp
next
  case False
  then show ?thesis unfolding moves_def
    by (intro exI [of _ "[]"]) (simp add: ledger_after_release ledger_run.run_Nil)
qed

lemma replay_entry_sound:
  "replay_entry_for W job frame n = Some e \<Longrightarrow> entry_sound W e"
  by (auto simp: replay_entry_for_def entry_sound_def retained_terminal_def Let_def
      split: dispatch_kind.splits work_frame.splits)

lemma moves_RememberReplay:
  assumes "smap_find wid (replay s) = None" and "entry_sound W e"
  shows "moves W s (RememberReplayLocked wid e s)"
proof -
  have "ledger_of (RememberReplayLocked wid e s) = (ledger_of s)(wid \<mapsto> Retained e)"
    by (rule ext) (simp add: ledger_of_def smap_find_assign split: option.split)
  moreover have "ledger_of s wid = None \<or> ledger_of s wid = Some InFlight"
    using assms(1) by (cases "smap_find wid (work_tokens s)") (simp_all add: ledger_of_def)
  ultimately have "ledger_step W (Committed wid e) (ledger_of s)
      (ledger_of (RememberReplayLocked wid e s))"
    using assms(2) by (simp add: ledger_step.committed)
  then show ?thesis by (rule moves_event) simp
qed

lemma moves_push_work: "moves W s (push_work q s)"
  by (rule moves_same) (simp_all add: push_work_def)

lemma moves_retain_terminal:
  assumes "entry_sound W entry"
  shows "moves W s (snd (retain_terminal job q entry s))"
proof (cases rule: retain_terminal_cases [of job q entry s])
  case (converted token)
  have "moves W s (RememberReplayLocked (job_work_id job) entry
      (ReleaseWorkTokenLocked (job_work_id job) s))"
    using converted(1) assms
    by (intro moves_trans [OF moves_ReleaseWorkToken moves_RememberReplay]) simp_all
  then show ?thesis unfolding converted(5) snd_conv by (rule moves_trans [OF _ moves_push_work])
next
  case unreserved
  show ?thesis unfolding unreserved(5) snd_conv
    by (rule moves_trans [OF moves_RememberReplay [OF unreserved(1) assms] moves_push_work])
qed (simp add: moves_same)

lemma moves_CommitTerminalFrame: "moves W s (snd (CommitTerminalFrame W job frame s))"
  by (auto simp: CommitTerminalFrame_unfold split: option.split
      intro: moves_retain_terminal replay_entry_sound moves_same)

lemma moves_AdmitWork:
  assumes "smap_find (job_work_id job) (replay s) = None"
    and "smap_find (job_work_id job) (work_tokens s) = None"
  shows "moves W s (snd (AdmitWork_locked job s))"
  using assms(2)
proof (cases rule: AdmitWork_cases)
  case retired
  then show ?thesis by (simp add: moves_same make_cancellation_def)
next
  case (admitted r)
  let ?t = "snd (AdmitWork_locked job s)"
  have "ledger_of ?t = (ledger_of s)(job_work_id job \<mapsto> InFlight)"
    using assms by (intro ext) (simp add: admitted(6) push_job_def ledger_of_def smap_find_assign
        split: option.split)
  moreover have "ledger_of s (job_work_id job) = None" using assms by (simp add: ledger_of_def)
  ultimately have "ledger_step W (Admitted (job_work_id job)) (ledger_of s) (ledger_of ?t)"
    by (simp add: ledger_step.admitted)
  then show ?thesis by (rule moves_event) simp
qed

lemma moves_EnqueueDispatch: "moves W s (snd (EnqueueDispatch_locked now job s))"
proof -
  have "moves W s (count_rejected s)" by (rule moves_same_books) simp
  then show ?thesis
    by (simp add: EnqueueDispatch_locked_def Let_def moves_AdmitWork)
qed

subsection \<open>Sections that do not touch Work\<close>

definition same_work :: "impl \<Rightarrow> impl \<Rightarrow> bool" where
  "same_work s t \<longleftrightarrow> replay t = replay s \<and> work_tokens t = work_tokens s"

lemma same_work_trans: "same_work s t \<Longrightarrow> same_work t u \<Longrightarrow> same_work s u"
  by (simp add: same_work_def)

lemma same_books_same_work: "same_books s t \<Longrightarrow> same_work s t"
  by (simp add: same_work_def same_books_def)

lemma moves_same_work: "same_work s t \<Longrightarrow> moves W s t"
  by (simp add: same_work_def moves_same)

lemma same_work_ops [simp]:
  "same_work s s" "same_work s (push_work q s)" "same_work s (push_control c s)"
  "same_work s (push_job j s)" "same_work s (pop_job s)" "same_work s (pop_work s)"
  "same_work s (pop_control s)"
  "same_work s (RememberClosedSourceLocked sid source frame digest s)"
  "same_work s (snd (make_cancellation s))" "same_work s (CancelAllWorkLocked s)"
  "same_work s (request_cancellation p s)" "same_work s (count_rejected s)"
  by (simp_all add: same_work_def push_work_def push_control_def push_job_def pop_job_def
      pop_work_def pop_control_def RememberClosedSourceLocked_def make_cancellation_def
      CancelAllWorkLocked_def request_cancellation_def count_rejected_def Let_def
      split: list.split option.split)

lemma same_work_QueueWork [simp]: "same_work s (snd (QueueWorkLocked W frame s))"
  by (simp add: QueueWorkLocked_iff) (simp add: same_work_def)

lemma same_work_QueueControl [simp]: "same_work s (snd (QueueControlLocked W frame s))"
  by (simp add: QueueControlLocked_def Let_def) (simp add: same_work_def)

lemma same_work_CommitSource [simp]:
  "same_work s (snd (CommitSourceTerminalLocked W sid source frame s))"
proof (cases rule: CommitSourceTerminal_cases [of W sid source frame s])
  case (refused t)
  then show ?thesis by (simp add: same_books_same_work)
next
  case (committed m d)
  show ?thesis unfolding committed(4) snd_conv
    by (rule same_work_trans [OF same_work_ops(2) same_work_ops(8)])
qed

lemma CommitSource_result:
  "CommitSourceTerminalLocked W sid source frame s = (ok, t) \<Longrightarrow>
     replay t = replay s \<and> work_tokens t = work_tokens s"
  using same_work_CommitSource [of s W sid source frame] by (simp add: same_work_def)

lemma same_work_drain [simp]: "same_work s (MaybeQueueDrainStatusLocked W s)"
  using same_work_QueueControl [of s W "DrainStatusFrame True 0"]
  by (auto simp: MaybeQueueDrainStatusLocked_def same_work_def CancelAllWorkLocked_def
      split: prod.split bool.split)

lemma same_work_publish [simp]: "same_work s (snd (PublishSource W sid items s))"
  by (cases rule: PublishSource_cases [of sid items s W]) (auto simp: same_work_def push_work_def)

lemma same_work_close [simp]: "same_work s (snd (CloseSource W sid err s))"
  by (auto simp: CloseSource_def Let_def same_work_def split: option.split prod.split bool.split
      dest!: CommitSource_result)

lemma same_work_settle_open [simp]: "same_work s (snd (SettleSourceOpen_locked W job d s))"
  by (auto simp: SettleSourceOpen_locked_def Let_def QueueWorkLocked_iff same_work_def push_work_def
      split: option.split prod.split bool.split dest!: CommitSource_result)

lemma same_work_cancel [simp]: "same_work s (snd (HandleCancellation_locked W c s))"
  by (auto simp: HandleCancellation_locked_def Let_def same_work_def request_cancellation_def
      split: option.split prod.split bool.split work_identity.split dest!: CommitSource_result)

lemma same_work_credit [simp]: "same_work s (snd (GrantSourceCredit_locked credit s))"
  by (auto simp: GrantSourceCredit_locked_def Let_def same_work_def split: option.split)

lemma same_work_take: "TakeJob s = Some (job, t) \<Longrightarrow> same_work s t"
  by (auto simp: TakeJob_def same_work_def pop_job_def split: list.splits)

lemma same_work_EnqueueSourceOpen [simp]:
  "same_work s (snd (EnqueueSourceOpen_locked W now request job s))"
proof -
  have admit: "same_work s (AdmitSource_locked i endpoint job s)" for i endpoint
    by (simp add: AdmitSource_locked_def make_cancellation_def push_job_def same_work_def Let_def)
  have reject: "same_work s (snd (RejectSource_locked W frame job s))" for frame s
    by (auto simp: RejectSource_locked_def make_cancellation_def Let_def same_work_def
        split: prod.split bool.split dest!: CommitSource_result)
  show ?thesis
    by (simp add: EnqueueSourceOpen_locked_def admit same_work_trans [OF same_work_ops(12) reject]
        split: open_verdict.split)
qed

lemma same_work_takes [simp]:
  "same_work s (snd (snd (ControlWriterTake fence u w now hb s)))"
  "same_work s (snd (WorkWriterTake fence s))"
  "same_work s (snd (WorkAttach_locked fence s))"
  by (auto simp: ControlWriterTake_def WorkWriterTake_def WorkAttach_locked_def stamp_control_def
      stamp_work_def pop_control_def pop_work_def same_work_def Let_def split: list.split)

lemma same_work_spec [simp]:
  "same_work s (Deactivate_locked s)" "same_work s (fail_statuses statuses s)"
  "same_work s ((fail_statuses statuses s)\<lparr>accepting_work := False, ready_callbacks_complete := False\<rparr>)"
  "same_work s (SettleReady_locked e grants s)" "same_work s (BeginDrain W s)"
  subgoal by (simp add: Deactivate_locked_def same_work_def CancelAllWorkLocked_def)
  subgoal by (simp add: fail_statuses_def same_work_def)
  subgoal by (simp add: fail_statuses_def same_work_def)
  subgoal by (simp add: SettleReady_locked_def same_work_def Let_def)
  subgoal unfolding BeginDrain_def Let_def
    by (rule same_work_trans [OF _ same_work_drain]) (simp add: same_work_def)
  done

lemma same_work_transitions:
  "BeginApply_locked W e spec s = Inr t \<Longrightarrow> same_work s t"
  "CommitSpec_locked e spec grants s = Some t \<Longrightarrow> same_work s t"
  by (auto simp: BeginApply_locked_def CommitSpec_locked_def same_work_def CancelAllWorkLocked_def
      split: if_splits)

lemma same_work_session [simp]:
  "same_work s (InstallSession fence s)" "same_work s (RetireSources_locked s)"
  "same_work s (ForgetBootstrapToken s)"
  by (simp_all add: InstallSession_def RetireSources_locked_def ForgetBootstrapToken_def same_work_def
      CancelAllWorkLocked_def)

lemma moves_ReleaseAllTokens: "moves W s (ReleaseAllTokensLocked s)"
proof (rule ReleaseAllTokens_keeps [where P = "moves W s"])
  show "moves W s (ReleaseWorkTokenLocked wid t)" if "moves W s t" for t wid
    using that moves_ReleaseWorkToken by (rule moves_trans)
qed (simp add: moves_same)

subsection \<open>Every step is a move of the ledger\<close>

lemma moves_background: "background_step W s t \<Longrightarrow> moves W s t"
proof (induction rule: background_step.induct)
  case (bg_erase s wid)
  then show ?case unfolding EraseWorkToken_def
    by (rule moves_trans [OF moves_ReleaseWorkToken moves_same_work [OF same_work_drain]])
next
  case (bg_finish s counted)
  then show ?case unfolding FinishJob_def
    by (intro moves_same_work same_work_trans [OF same_books_same_work same_work_drain]) simp
next
  case (bg_finish_work s wid)
  then show ?case unfolding FinishWork_def
    by (rule moves_trans [OF moves_same_books moves_trans [OF moves_ReleaseWorkToken
          moves_same_work [OF same_work_drain]]]) simp
qed (simp_all add: moves_same_work moves_same_books moves_CommitTerminalFrame same_work_take)

lemma acknowledged_or_same:
  obtains (same) "same_work s (snd (HandleTerminalAcknowledgement_locked ack s))"
  | (released) wid e where "ta_identity ack = WorkIdentity wid"
      "ta_terminal_digest ack = re_terminal_digest e" "smap_find wid (replay s) = Some e"
      "smap_find wid (work_tokens s) = None"
      "HandleTerminalAcknowledgement_locked ack s = (None, s\<lparr>terminal_replay_bytes :=
         terminal_replay_bytes s - re_accounted_bytes e, replay := smap_erase wid (replay s)\<rparr>)"
proof (cases "\<exists>wid e. ta_identity ack = WorkIdentity wid \<and> wid \<noteq> [] \<and>
    IsCanonicalSha256 (ta_terminal_digest ack) \<and>
    ta_terminal_digest ack = re_terminal_digest e \<and> smap_find wid (replay s) = Some e \<and>
    smap_find wid (work_tokens s) = None \<and> smap_find wid (source_streams s) = None \<and>
    smap_find wid (closed_sources s) = None")
  case True
  then obtain wid e where "ta_identity ack = WorkIdentity wid" "wid \<noteq> []"
    "IsCanonicalSha256 (ta_terminal_digest ack)"
    "ta_terminal_digest ack = re_terminal_digest e" "smap_find wid (replay s) = Some e"
    "smap_find wid (work_tokens s) = None" "smap_find wid (source_streams s) = None"
    "smap_find wid (closed_sources s) = None" by blast
  then show ?thesis
    by (intro released [of wid e]) (simp_all add: HandleTerminalAcknowledgement_locked_def)
next
  case False
  then have "same_work s (snd (HandleTerminalAcknowledgement_locked ack s))"
    by (auto simp: HandleTerminalAcknowledgement_locked_def same_work_def
        split: option.split work_identity.split)
  then show ?thesis by (rule same)
qed

lemma link_moves:
  assumes "link_step W s t"
  obtains (quiet) "moves W s t"
  | (acknowledged) ack wid e where "ta_identity ack = WorkIdentity wid"
      "ta_terminal_digest ack = re_terminal_digest e" "smap_find wid (replay s) = Some e"
      "smap_find wid (work_tokens s) = None" "replay t = smap_erase wid (replay s)"
      "work_tokens t = work_tokens s" "HandleTerminalAcknowledgement_locked ack s = (None, t)"
  using assms
proof (cases rule: link_step.cases)
  case (lk_acknowledge ack)
  show ?thesis
  proof (cases rule: acknowledged_or_same [of s ack])
    case same
    then show ?thesis using lk_acknowledge moves_same_work quiet by blast
  next
    case (released wid e)
    then show ?thesis using acknowledged [of ack wid e] lk_acknowledge by simp
  qed
qed (auto intro!: quiet simp: moves_same_work moves_same_books moves_CommitTerminalFrame
      moves_EnqueueDispatch same_work_transitions)

lemma moves_PrepareConnectionPair: "moves W s (PrepareConnectionPairLocked fence s)"
  unfolding PrepareConnectionPairLocked_def Let_def
  by (rule moves_trans [OF moves_same moves_trans [OF moves_ReleaseAllTokens moves_same]]) simp_all

lemma moves_ClearConnectionState: "moves W s (ClearConnectionStateLocked s)"
  unfolding ClearConnectionStateLocked_def Let_def
  by (rule moves_trans [OF moves_same moves_trans [OF moves_ReleaseAllTokens moves_same]]) simp_all

lemma client_moves:
  assumes "client_step W (ph, s) (ph', t)"
  obtains (quiet) "moves W s t"
  | (acknowledged) ack wid e where "ph = Paired" "ta_identity ack = WorkIdentity wid"
      "ta_terminal_digest ack = re_terminal_digest e" "smap_find wid (replay s) = Some e"
      "smap_find wid (work_tokens s) = None" "replay t = smap_erase wid (replay s)"
      "work_tokens t = work_tokens s" "HandleTerminalAcknowledgement_locked ack s = (None, t)"
  | (started) "ph = Unstarted" "BeginStart W False s = Inr t"
  | (reset) "ph' = Lost" "t = ResetSessionLocked s"
  using assms
proof (cases rule: client_step.cases)
  case st_link
  from st_link(3) show ?thesis
    by (cases rule: link_moves) (use quiet acknowledged st_link(1) in blast)+
next
  case st_begin_register
  then have "same_work s t" by (auto simp: BeginRegister_locked_def same_work_def split: if_splits)
  then show ?thesis by (intro quiet moves_same_work)
next
  case (st_judge ready sv)
  then show ?thesis using moves_same_books [OF same_books_JudgePair] quiet by blast
qed (simp_all add: quiet started reset moves_same_work moves_same_books moves_background
      moves_ReleaseAllTokens moves_PrepareConnectionPair moves_ClearConnectionState)

lemma ledger_acknowledged:
  assumes "smap_find wid (replay s) = Some e" "smap_find wid (work_tokens s) = None"
    and "replay t = smap_erase wid (replay s)" "work_tokens t = work_tokens s"
  shows "ledger_step W (Acknowledged wid (re_terminal_digest e)) (ledger_of s) (ledger_of t)"
proof -
  have "ledger_of t = (ledger_of s)(wid := None)"
    using assms by (intro ext) (simp add: ledger_of_def smap_find_erase split: option.split)
  moreover have "ledger_of s wid = Some (Retained e)" using assms(1) by (simp add: ledger_of_def)
  ultimately show ?thesis by (simp add: ledger_step.acknowledged)
qed

lemma ledger_ended:
  assumes "replay t = []" and "work_tokens t = []"
  shows "ledger_step W SessionEnded l (ledger_of t)"
proof -
  have "ledger_of t = Map.empty" using assms by (intro ext) (simp add: ledger_of_def)
  then show ?thesis by (simp add: ledger_step.session_ended)
qed

text \<open>
  The events that explain a step: moves of workers and streams, or the one acknowledgement that was
  handled, or the end of the session.
\<close>

definition explains :: "wire \<Rightarrow> phase \<times> impl \<Rightarrow> phase \<times> impl \<Rightarrow> ledger_event list \<Rightarrow> bool" where
  "explains W ps qs evs \<longleftrightarrow>
     ledger_run W evs (ledger_of (snd ps)) (ledger_of (snd qs)) \<and>
     (list_all quiet_event evs \<or>
      (\<exists>wid ack. evs = [Acknowledged wid (ta_terminal_digest ack)] \<and> fst ps = Paired \<and>
         ta_identity ack = WorkIdentity wid \<and>
         HandleTerminalAcknowledgement_locked ack (snd ps) = (None, snd qs)) \<or>
      evs = [SessionEnded] \<and> (fst ps = Unstarted \<or> fst qs = Lost))"

lemma step_explained:
  assumes "client_step W (ph, s) (ph', t)" and "phase_ok (ph, s)"
  shows "\<exists>evs. explains W (ph, s) (ph', t) evs"
  using assms(1)
proof (cases rule: client_moves)
  case quiet
  then show ?thesis unfolding moves_def explains_def by auto
next
  case (acknowledged ack wid e)
  have "ledger_run W [Acknowledged wid (re_terminal_digest e)] (ledger_of s) (ledger_of t)"
    by (rule ledger_run_single [OF ledger_acknowledged [OF acknowledged(4-7)]])
  then have "explains W (ph, s) (ph', t) [Acknowledged wid (ta_terminal_digest ack)]"
    using acknowledged(1-3,8) unfolding explains_def fst_conv snd_conv by metis
  then show ?thesis by blast
next
  case started
  have "work_tokens s = []" using assms(2) started(1) by simp
  then have "replay t = []" "work_tokens t = []"
    using BeginStart_locked_BeginStart [OF started(2)]
    by (auto simp: BeginStart_locked_def split: if_splits)
  from ledger_run_single [OF ledger_ended [OF this]] show ?thesis
    using started(1) unfolding explains_def by (intro exI [of _ "[SessionEnded]"]) simp
next
  case reset
  have "replay t = []" "work_tokens t = []" by (simp_all add: reset ResetSessionLocked_def Let_def)
  from ledger_run_single [OF ledger_ended [OF this]] show ?thesis
    using reset(1) unfolding explains_def by (intro exI [of _ "[SessionEnded]"]) simp
qed


text \<open>
  C3: no step of any thread forgets or replaces a retained terminal, except the acknowledgement of
  exactly that identity with exactly that digest while a pair is up; only a new start or the reset of
  the session clears the table.
\<close>

theorem terminal_leaves_only_by_acknowledgement:
  assumes "client_step W (ph, s) (ph', t)" and "smap_find wid (replay s) = Some e"
    and "smap_find wid (replay t) \<noteq> Some e"
    and "ph \<noteq> Unstarted" and "t \<noteq> ResetSessionLocked s"
  shows "\<exists>ack. ph = Paired \<and> ta_identity ack = WorkIdentity wid \<and>
     ta_terminal_digest ack = re_terminal_digest e \<and>
     HandleTerminalAcknowledgement_locked ack s = (None, t)"
  using assms(1)
proof (cases rule: client_moves)
  case quiet
  then obtain evs where "ledger_run W evs (ledger_of s) (ledger_of t)" "list_all quiet_event evs"
    unfolding moves_def by blast
  moreover have "ledger_of s wid = Some (Retained e)" using assms(2) by (simp add: ledger_of_def)
  ultimately have "ledger_of t wid = Some (Retained e)" by (rule quiet_run_keeps_terminal)
  then show ?thesis using assms(3) by (simp add: ledger_of_def split: option.splits)
next
  case (acknowledged ack wid' e')
  then have "wid' = wid" using assms(2,3) by (cases "wid' = wid") (auto simp: smap_find_erase)
  with acknowledged assms(2) show ?thesis by auto
qed (use assms(4,5) in simp_all)

lemma ledger_run_steps: "ledger_run W evs l m \<Longrightarrow> (\<lambda>l m. \<exists>ev. ledger_step W ev l m)\<^sup>*\<^sup>* l m"
  by (induction rule: ledger_run.induct) (auto intro: converse_rtranclp_into_rtranclp)

interpretation refined: simulation "started cfg cbs" "client_step W" phase_ok "\<lambda>ps. ledger_of (snd ps)"
    "\<lambda>l m. \<exists>ev. ledger_step W ev l m" for cfg cbs W
proof unfold_locales
  fix ps qs
  assume "client_step W ps qs" "phase_ok ps"
  then have "\<exists>evs. explains W ps qs evs"
    using step_explained [of W "fst ps" "snd ps" "fst qs" "snd qs"] unfolding prod.collapse by blast
  then show "(\<lambda>l m. \<exists>ev. ledger_step W ev l m)\<^sup>*\<^sup>* (ledger_of (snd ps)) (ledger_of (snd qs))"
    unfolding explains_def by (elim exE conjE) (rule ledger_run_steps)
qed

text \<open>
  C8: in every reachable state the digest retained with a terminal is the canonical digest of the
  message that a redelivery is answered with, so the Host can acknowledge what it received.
\<close>

theorem retained_digest_is_of_the_terminal:
  assumes "reachable W cfg cbs (ph, s)" and "smap_find wid (replay s) = Some e"
  shows "re_kind e \<in> {kUnary, kOperation} \<and> IsCanonicalSha256 (re_terminal_digest e) \<and>
     TerminalDigest W (retained_terminal e) = Some (re_terminal_digest e)"
proof -
  have "ledger_sound W (ledger_of (initial_impl cfg cbs))"
    by (simp add: ledger_sound_def ledger_of_def initial_impl_def)
  then have start: "ledger_sound W (ledger_of (snd ps))" if "started cfg cbs ps" for ps
    using that by (simp add: started_def)
  have step: "ledger_sound W m" if "\<exists>ev. ledger_step W ev l m" "ledger_sound W l" for l m
    using that ledger_step_sound by blast
  have run: "(client_step W)\<^sup>*\<^sup>* (Unstarted, initial_impl cfg cbs) (ph, s)"
    using assms(1) by (simp add: reachable_def)
  have "started cfg cbs (Unstarted, initial_impl cfg cbs)" by (simp add: started_def)
  from refined.abstract_inv [where ainv = "ledger_sound W", OF start step this run]
  have "ledger_sound W (ledger_of s)" by simp
  moreover have "ledger_of s wid = Some (Retained e)" using assms(2) by (simp add: ledger_of_def)
  ultimately have "entry_sound W e" unfolding ledger_sound_def by blast
  then show ?thesis using TerminalDigest_canonical [of W "retained_terminal e"]
    by (simp add: entry_sound_def)
qed

end
