(* ===== verification/Witnesses.thy ===== *)
theory Witnesses
  imports Scenario Terminal_Ledger
begin

text \<open>
  The properties of the components at concrete inputs: their hypotheses hold together, and what they
  conclude is computed on the client of \<open>Scenario\<close>.
\<close>

subsection \<open>Helpers\<close>

theorem NormalizeDeadline_earliest_witness:
  "in_int64 5 \<and> NormalizeDeadline_checked \<lparr>deadline_unix_nanos = 9000000, ttl_ms = 3\<rparr> 5 =
     Some \<lparr>deadline_unix_nanos = 3000005, ttl_ms = 0\<rparr>"
  using NormalizeDeadline_earliest [of 5 "\<lparr>deadline_unix_nanos = 9000000, ttl_ms = 3\<rparr>"]
  by (simp add: in_int64_def int64_max_def effective_deadline_def)


theorem contract_identity_witness:
  "grant_key demo_grant = contract_key demo_contract \<and>
   ec_contract_digest demo_grant = cc_contract_digest demo_contract"
proof -
  have "IsCanonicalIdentifier (ec_capability_id demo_grant)"
    "IsCanonicalIdentifier (cc_capability_id demo_contract)" by code_simp+
  from contract_identity [OF this] show ?thesis by (simp add: demo_grant_def demo_contract_def)
qed

subsection \<open>Work\<close>

theorem reserved_terminal_is_retained_witness:
  "\<exists>t entry. CommitTerminalFrame demo_wire demo_queued demo_response demo_admitted = (kCommitted, t) \<and>
     smap_find ''w1'' (replay t) = Some entry \<and> smap_find ''w1'' (work_tokens t) = None \<and>
     map qw_request (work_queue t) = [demo_response]"
proof -
  obtain entry where "replay_entry_for demo_wire demo_queued demo_response
      (WorkFrameBytesLocked demo_wire demo_admitted demo_response) = Some entry"
    by (rule demo_entry)
  from reserved_terminal_is_retained [OF demo_admitted_books demo_holds demo_can_queue this]
  show ?thesis by (auto simp: demo_queued_def demo_admission(2) push_job_def demo_defs)
qed

lemma demo_committed:
  obtains t where "CommitTerminalFrame demo_wire demo_queued demo_response demo_admitted = (kCommitted, t)"
proof -
  obtain entry where "replay_entry_for demo_wire demo_queued demo_response
      (WorkFrameBytesLocked demo_wire demo_admitted demo_response) = Some entry"
    by (rule demo_entry)
  from commit_with_reservation [OF demo_admitted_books demo_holds demo_can_queue this] that
  show ?thesis by blast
qed

theorem work_admission_witness:
  "EnqueueDispatch_locked 0 demo_job demo_ready = (Enqueued, demo_admitted) \<and>
   (\<exists>token. smap_find ''w1'' (work_tokens demo_admitted) = Some token \<and>
      full_reservation demo_admitted demo_job token \<and>
      \<not> IsCancellationRequested demo_admitted (token_cancellation token))"
  using work_admission [OF demo_admission(1)] demo_admission(1) by auto

theorem redelivery_replays_terminal_witness:
  "\<exists>t. CommitTerminalFrame demo_wire demo_queued demo_response demo_admitted = (kCommitted, t) \<and>
     EnqueueDispatch_locked 0 demo_job t = (ReplayImmediate demo_response, count_rejected t)"
proof -
  obtain t where t: "CommitTerminalFrame demo_wire demo_queued demo_response demo_admitted = (kCommitted, t)"
    by (rule demo_committed)
  from redelivery_replays_terminal [OF t, of demo_job 0] t show ?thesis
    by (auto simp: demo_queued_def)
qed

theorem unary_response_well_formed_witness:
  "typed_classes_ok demo_wire \<and>
   unary_response_ok demo_wire (demo_endpoint ''ask'' INTERACTION_MODE_UNARY)
     (unary_response_of ''w1'' (check_unary_result demo_wire
        (demo_endpoint ''ask'' INTERACTION_MODE_UNARY) False (unary_outcome ThrewUnknown)))"
  using unary_response_well_formed [OF demo_classes] demo_classes by blast

theorem operation_event_well_formed_witness:
  "typed_classes_ok demo_wire \<and>
   operation_event_ok demo_wire (demo_endpoint ''run'' INTERACTION_MODE_OPERATION)
     (operation_event_of 7 ''w1'' (check_operation_result demo_wire
        (demo_endpoint ''run'' INTERACTION_MODE_OPERATION) (operation_outcome ThrewUnknown)))"
  using operation_event_well_formed [OF demo_classes] demo_classes by blast

lemma demo_context_valid:
  "ValidateWorkContextLocked demo_wire 0 (demo_context ''w1'' ''ask'') kUnary demo_ready =
     Inr (0, demo_endpoint ''ask'' INTERACTION_MODE_UNARY)"
  by code_simp

theorem ValidateWorkContext_sound_witness:
  "ValidateWorkContextLocked demo_wire 0 (demo_context ''w1'' ''ask'') kUnary demo_ready =
     Inr (0, demo_endpoint ''ask'' INTERACTION_MODE_UNARY) \<and>
   accepting_work demo_ready \<and>
   interaction (demo_endpoint ''ask'' INTERACTION_MODE_UNARY) = expected_mode kUnary"
  using ValidateWorkContext_sound [OF demo_context_valid] demo_context_valid by simp

subsection \<open>Sources\<close>

definition demo_open_request :: source_open_request where
  "demo_open_request = \<lparr>so_context = Some (demo_context ''s1'' ''feed''),
     so_initial_credit = Some \<lparr>credit_messages = 3, credit_bytes = 50\<rparr>\<rparr>"

definition demo_source :: source_state where
  "demo_source = default_source\<lparr>src_request := demo_open_request, src_cancellation := Some 0,
     src_phase := kOpen, src_connection_epoch := 1, src_message_credit := 3, src_byte_credit := 50,
     src_maximum_chunk_bytes := 100, src_maximum_chunk_messages := 10,
     src_accounted_bytes := 1242\<rparr>"

definition demo_open :: impl where
  "demo_open = demo_ready\<lparr>source_streams := [(''s1'', demo_source)], source_state_bytes := 1242,
     cancel_flags := [False]\<rparr>"

definition demo_credit :: source_credit where
  "demo_credit = \<lparr>sc_stream_id = ''s1'', sc_grant = Some \<lparr>credit_messages = 5, credit_bytes = 20\<rparr>,
     sc_acknowledged_sequence = 0\<rparr>"

lemma demo_publish: "fst (PublishSource demo_wire ''s1'' [''ab'', ''c''] demo_open) = kAccepted"
  by code_simp

theorem PublishSource_consumes_credit_witness:
  "fst (PublishSource demo_wire ''s1'' [''ab'', ''c''] demo_open) = kAccepted \<and>
   (\<exists>b. smap_find ''s1'' (source_streams (snd (PublishSource demo_wire ''s1'' [''ab'', ''c''] demo_open)))
          = Some b \<and> unat (src_message_credit b) = 1 \<and> unat (src_byte_credit b) = 47)"
proof -
  let ?p = "PublishSource demo_wire ''s1'' [''ab'', ''c''] demo_open"
  have "chunk_ok [''ab'', ''c'']" by (simp add: chunk_ok_def)
  from PublishSource_consumes_credit [of demo_wire "''s1''" _ demo_open "fst ?p" "snd ?p", OF _ this]
    demo_publish
  show ?thesis by (auto simp: demo_open_def demo_source_def default_source_def)
qed

theorem source_credit_conserved_witness:
  "source_history demo_wire ''s1'' [OpPublish [''ab'', ''c''], OpCredit demo_credit] demo_open =
     (2, 5, snd (snd (source_history demo_wire ''s1''
        [OpPublish [''ab'', ''c''], OpCredit demo_credit] demo_open))) \<and>
   (\<exists>b. smap_find ''s1'' (source_streams (snd (snd (source_history demo_wire ''s1''
        [OpPublish [''ab'', ''c''], OpCredit demo_credit] demo_open)))) = Some b \<and>
      unat (src_message_credit b) = 6)"
proof -
  let ?ops = "[OpPublish [''ab'', ''c''], OpCredit demo_credit]"
  let ?h = "source_history demo_wire ''s1'' ?ops demo_open"
  have "fst ?h = 2" "fst (snd ?h) = 5" by code_simp+
  then have h: "?h = (2, 5, snd (snd ?h))" by (metis prod.collapse)
  have s: "smap_find ''s1'' (source_streams demo_open) = Some demo_source"
    by (simp add: demo_open_def)
  from source_credit_conserved [OF s _ h] h show ?thesis
    by (simp add: chunk_ok_def demo_source_def default_source_def)
qed


subsection \<open>Acknowledgement and cancellation\<close>

definition demo_retained :: impl where
  "demo_retained = demo_ready\<lparr>replay := [(''w1'', \<lparr>re_kind = kUnary, re_fingerprint = demo_sha,
       re_unary = unary_response_of ''w1'' (UnaryResult_Success demo_payload),
       re_operation = default_operation_event, re_terminal_digest = demo_sha,
       re_accounted_bytes = 242\<rparr>)],
     terminal_replay_bytes := 242\<rparr>"

definition demo_close_frame :: work_frame where
  "demo_close_frame = SourceCloseFrame \<lparr>scl_stream_id = ''s1'', scl_final_sequence = 0, scl_error = None\<rparr>"

definition demo_tombstone :: closed_source where
  "demo_tombstone = tombstone demo_source demo_close_frame demo_sha"

definition demo_closed :: impl where
  "demo_closed = demo_ready\<lparr>closed_sources := [(''s1'', demo_tombstone)], source_state_bytes := 1242\<rparr>"

lemma demo_retained_books: "books_ok 0 demo_retained" "books_ok 0 demo_closed"
  by (simp_all add: books_ok_def queues_ok_def control_queue_ok_def work_queue_ok_def
      dispatch_queue_ok_def replay_ok_def sources_ok_def demo_retained_def demo_closed_def demo_defs
      smap_wf_Cons demo_tombstone_def tombstone_def demo_source_def default_source_def)



lemma demo_room:
  assumes "config s = demo_config" "session_id s = ''session''" "\<not> session_failed s"
    "\<not> stop_requested s" "work_queue s = []" "work_queue_bytes s = 0"
    "maximum_work_frame_bytes s = 1000"
  shows "can_queue_work demo_wire s frame" "WorkFrameFitsLocked demo_wire frame s"
  using assms
  by (simp_all add: can_queue_work_def WorkFrameFitsLocked_def WorkFrameBytesLocked_def
      FitsByteBudget_iff demo_wire_def demo_config_def)

lemma demo_commit_source:
  assumes "can_queue_work demo_wire s (SourceCloseFrame c)"
    "WorkFrameFitsLocked demo_wire (SourceCloseFrame c) s" "scl_stream_id c = sid" "sid \<noteq> []"
  shows "\<exists>t. CommitSourceTerminalLocked demo_wire sid source (SourceCloseFrame c) s = (True, t)"
  using assms demo_digest [of "SourceCloseTerminal c"]
  by (auto simp: CommitSourceTerminalLocked_def source_terminal_def QueueWorkLocked_iff)

lemma demo_cancels:
  "\<exists>t. HandleCancellation_locked demo_wire
     \<lparr>can_reason = ''enough'', can_identity = StreamIdentity ''s1''\<rparr> demo_open = (NotifySource demo_source, t)"
proof -
  let ?c = "\<lparr>can_reason = ''enough'', can_identity = StreamIdentity ''s1''\<rparr>"
  let ?f = "\<lparr>scl_stream_id = ''s1'', scl_final_sequence = src_sequence demo_source,
    scl_error = Some (cancellation_error ?c)\<rparr>"
  let ?s = "request_cancellation (src_cancellation demo_source) demo_open"
  have "can_queue_work demo_wire ?s (SourceCloseFrame ?f)"
    "WorkFrameFitsLocked demo_wire (SourceCloseFrame ?f) ?s"
    by (rule demo_room; simp add: request_cancellation_def demo_open_def demo_defs)+
  from demo_commit_source [OF this, of "''s1''" demo_source] obtain u where u:
    "CommitSourceTerminalLocked demo_wire ''s1'' demo_source (SourceCloseFrame ?f) ?s = (True, u)"
    by auto
  have "smap_find ''s1'' (source_streams demo_open) = Some demo_source"
    "src_connection_epoch demo_source = connection_epoch_counter demo_open"
    "src_phase demo_source = kOpen" "work_queue ?s = []"
    "maximum_work_queue (config ?s) = 8"
    by (simp_all add: demo_open_def demo_source_def default_source_def demo_defs request_cancellation_def)
  then show ?thesis using u by (simp add: HandleCancellation_locked_def Let_def)
qed


theorem source_redelivery_replays_terminal_witness:
  "\<exists>t. CommitSourceTerminalLocked demo_wire ''s1'' demo_source demo_close_frame demo_open = (True, t) \<and>
     EnqueueSourceOpen_locked demo_wire 0 demo_open_request
       (source_open_job demo_wire 0 demo_open_request 1) t = (ReplayImmediate demo_close_frame, t)"
proof -
  let ?j = "source_open_job demo_wire 0 demo_open_request 1"
  obtain t where t:
    "CommitSourceTerminalLocked demo_wire ''s1'' demo_source demo_close_frame demo_open = (True, t)"
  proof -
    let ?f = "\<lparr>scl_stream_id = ''s1'', scl_final_sequence = 0, scl_error = None\<rparr>"
    have "can_queue_work demo_wire demo_open (SourceCloseFrame ?f)"
      "WorkFrameFitsLocked demo_wire (SourceCloseFrame ?f) demo_open"
      by (rule demo_room; simp add: demo_open_def demo_defs)+
    from demo_commit_source [OF this, of "''s1''" demo_source] that show ?thesis
      by (auto simp: demo_close_frame_def)
  qed
  have "job_work_id ?j = ''s1''" "job_fingerprint ?j = demo_sha"
    "wc_request_digest (context_of (so_context (src_request demo_source))) = demo_sha"
    by (simp_all add: source_open_job_def demo_open_request_def demo_context_def demo_source_def
        default_source_def default_job_def RequestFingerprint_def Let_def)
  with source_redelivery_replays_terminal [OF t, of ?j 0 demo_open_request] t show ?thesis by auto
qed

subsection \<open>The worker\<close>

definition demo_handlers :: handlers where
  "demo_handlers = \<lparr>on_unary = (\<lambda>s. (Returned (UnaryResult_Success demo_payload), s)),
     on_operation = (\<lambda>s. (ThrewUnknown, s)), on_source_open = (\<lambda>s. (ThrewUnknown, s))\<rparr>"

definition demo_taken :: impl where
  "demo_taken = (pop_job demo_admitted)\<lparr>active_dispatch_jobs := 1\<rparr>"

lemma demo_taken_eq:
  "demo_taken = demo_ready\<lparr>cancel_flags := [False], terminal_replay_bytes := 1142,
     work_tokens := [(''w1'', demo_token)], active_dispatch_jobs := 1\<rparr>"
  by (simp add: demo_taken_def demo_admission(2) push_job_def pop_job_def demo_defs demo_queued_def)

lemma log_MaybeQueueDrainStatus [simp]:
  "callback_log (MaybeQueueDrainStatusLocked W s) = callback_log s"
  by (simp add: MaybeQueueDrainStatusLocked_def QueueControlLocked_def Let_def push_control_def
      CancelAllWorkLocked_def)

lemma log_FinishWork [simp]: "callback_log (FinishWork W wid s) = callback_log s"
  by (simp add: FinishWork_def ReleaseWorkTokenLocked_def split: option.split)

lemma log_commit_with_fallback [simp]:
  "callback_log (commit_with_fallback W job frame fallback reason s) = callback_log s"
  using same_progress_Commit [of s W job frame]
    same_progress_Commit [of "snd (CommitTerminalFrame W job frame s)" W job fallback]
    same_progress_Signal
  by (auto simp: commit_with_fallback_def same_progress_def split: prod.split terminal_commit_result.split)

lemma demo_runs:
  "callback_log (RunWork demo_wire (\<lambda>_. 0) demo_handlers demo_queued demo_taken) =
     [CalledUnary 0 (job_unary demo_queued)]"
proof -
  let ?s = "demo_taken\<lparr>in_flight_work := in_flight_work demo_taken + 1\<rparr>"
  have "\<not> IsCancellationRequested demo_taken (job_cancellation demo_queued)"
    "job_kind demo_queued = kUnary"
    "ValidateWorkContextLocked demo_wire 0 (context_of (wi_context (job_unary demo_queued))) kUnary
       demo_taken = Inr (0, demo_endpoint ''ask'' INTERACTION_MODE_UNARY)"
    by code_simp+
  then have "RunWork demo_wire (\<lambda>_. 0) demo_handlers demo_queued demo_taken = FinishWork demo_wire
      (job_work_id demo_queued) (HandleUnary demo_wire 0 (on_unary demo_handlers) demo_queued 0 ?s)"
    by (simp add: RunWork_def)
  moreover have "capabilities (config ?s) ! 0 = demo_binding" "cb_unary (callbacks demo_binding)"
    "callback_log ?s = []"
    by (simp_all add: demo_taken_eq demo_defs demo_binding_def)
  moreover have "FindEndpoint (contract demo_binding)
      (wc_endpoint_id (context_of (wi_context (job_unary demo_queued)))) =
        Some (demo_endpoint ''ask'' INTERACTION_MODE_UNARY)"
    "ValidateInput demo_wire (demo_endpoint ''ask'' INTERACTION_MODE_UNARY)
       (message_or default_payload (wi_input (job_unary demo_queued)))"
    by code_simp+
  ultimately show ?thesis
    by (simp add: HandleUnary_def Let_def invoke_def demo_handlers_def)
qed

theorem handler_runs_only_for_current_work_witness:
  "callback_log (RunWork demo_wire (\<lambda>_. 0) demo_handlers demo_queued demo_taken) \<noteq> [] \<and>
   \<not> work_refused demo_wire 0 demo_queued demo_taken"
proof -
  have "active_dispatch_jobs demo_taken \<noteq> 0" "callback_log demo_taken = []"
    by (simp_all add: demo_taken_eq demo_defs)
  from handler_runs_only_for_current_work [OF this(1), of demo_wire "\<lambda>_. 0" demo_handlers demo_queued]
    this(2) demo_runs
  show ?thesis by simp
qed

text \<open>The same job after its cancellation flag was set and a drain was requested.\<close>

definition demo_draining :: impl where
  "demo_draining = demo_taken\<lparr>cancel_flags := [True], drain_requested := True,
     accepting_work := False, cl_state := kDraining\<rparr>"

theorem drain_unreported_after_refused_work_witness:
  "let t = RunWork demo_wire (\<lambda>_. 0) demo_handlers demo_queued demo_draining
   in active_dispatch_jobs t = 0 \<and> dispatch_queue t = [] \<and> in_flight_work t = 0 \<and>
      drain_requested t \<and> \<not> drain_reported t \<and> control_queue t = []"
proof -
  have "drain_requested demo_draining" "\<not> drain_reported demo_draining"
    "dispatch_queue demo_draining = []" "active_dispatch_jobs demo_draining = 1"
    "work_refused demo_wire 0 demo_queued demo_draining"
    by (simp_all add: demo_draining_def demo_taken_eq demo_defs work_refused_def demo_queued_def
        IsCancellationRequested_def)
  from drain_unreported_after_refused_work [where clock = "\<lambda>_. 0" and h = demo_handlers, OF this]
  show ?thesis by (simp add: Let_def demo_draining_def demo_taken_eq demo_defs)
qed


text \<open>A closed source whose identity is the one of the job.\<close>

definition demo_reused :: impl where
  "demo_reused = demo_ready\<lparr>closed_sources := [(''w1'', tombstone default_source
     (SourceCloseFrame \<lparr>scl_stream_id = ''w1'', scl_final_sequence = 0, scl_error = None\<rparr>) demo_sha)]\<rparr>"

theorem work_under_a_closed_source_witness:
  "\<exists>t. EnqueueDispatch_locked 0 demo_job demo_reused = (Enqueued, t) \<and>
     fst (HandleTerminalAcknowledgement_locked
       \<lparr>ta_terminal_digest = demo_sha, ta_identity = StreamIdentity ''w1''\<rparr> demo_reused) = None \<and>
     fst (HandleTerminalAcknowledgement_locked
       \<lparr>ta_terminal_digest = demo_sha, ta_identity = StreamIdentity ''w1''\<rparr> t) \<noteq> None"
proof -
  have "fst (EnqueueDispatch_locked 0 demo_job demo_reused) = Enqueued"
    by (simp add: EnqueueDispatch_locked_def AdmitWork_locked_def make_cancellation_def
        ReserveTerminalReplayLocked_def demo_reused_def demo_defs stream_uses_work_id_def
        FitsByteBudget_iff)
  then obtain t where t: "EnqueueDispatch_locked 0 demo_job demo_reused = (Enqueued, t)"
    by (metis prod.collapse)
  have "smap_find (job_work_id demo_job) (closed_sources demo_reused) = Some (tombstone default_source
     (SourceCloseFrame \<lparr>scl_stream_id = ''w1'', scl_final_sequence = 0, scl_error = None\<rparr>) demo_sha)"
    "smap_find (job_work_id demo_job) (source_streams demo_reused) = None"
    by (simp_all add: demo_reused_def demo_defs)
  from work_under_a_closed_source [OF t this] t show ?thesis
    by (auto simp: tombstone_def Let_def)
qed

subsection \<open>Session\<close>

definition demo_spec_callbacks :: spec_callbacks where
  "demo_spec_callbacks = \<lparr>on_apply = (\<lambda>_ _ s. (Returned (True, []), s)), on_clear = (\<lambda>s. s),
     on_start = (\<lambda>_ _ g _ s. (Returned (ec_capability_id g = ''demo.cap'', []), s)),
     on_stop = (\<lambda>_ s. s), on_ready = (\<lambda>_ s. (Returned (), s)), on_wait = (\<lambda>s. s)\<rparr>"

definition demo_accepts :: "register_request \<Rightarrow> grpc_status \<times> register_response" where
  "demo_accepts r = (\<lparr>error_code = GRPC_OK, status_message = []\<rparr>,
     \<lparr>rr_accepted = True, rr_error_message = [], rr_host_id = ''host'', rr_session_id = ''session'',
      rr_process_generation = reg_process_generation r, rr_session_generation = 1,
      rr_runtime_epoch = 1, rr_runtime_link_protocol_version = 2, rr_heartbeat_interval_ms = 50,
      rr_maximum_control_frame_bytes = 1000, rr_maximum_work_frame_bytes = 1000\<rparr>)"

definition demo_fence :: session_fence where
  "demo_fence = fence_of_response (snd (demo_accepts (registration demo_config)))"

abbreviation demo_initial :: impl where
  "demo_initial \<equiv> initial_impl demo_config demo_callbacks"

theorem SupervisorLoop_terminates_witness:
  "\<exists>t. SupervisorLoop 4 demo_spec_callbacks demo_accepts (\<lambda>_ s. s) demo_initial = Some t"
  by (rule SupervisorLoop_terminates)
    (simp_all add: never_ready_def demo_spec_callbacks_def initial_impl_def demo_config_def)

theorem registration_single_use_witness:
  "\<exists>request result t. Register demo_accepts demo_initial = (Some request, result, t) \<and>
     reg_bootstrap_token request = ''token'' \<and> reg_bootstrap_token (registration (config t)) = [] \<and>
     fst (Register demo_accepts t) = None"
proof -
  obtain request result t where r: "Register demo_accepts demo_initial = (Some request, result, t)"
    by (simp add: Register_def BeginRegister_locked_def initial_impl_def demo_accepts_def Let_def)
  from registration_single_use [OF r, of demo_accepts] r show ?thesis
    by (auto simp: initial_impl_def demo_config_def)
qed

lemma demo_registration:
  "CheckRegistration demo_config (fst (demo_accepts (registration demo_config)))
     (snd (demo_accepts (registration demo_config))) = Inr demo_fence"
  unfolding demo_fence_def by code_simp


theorem NextBackoff_doubles_witness:
  "unat (NextBackoff demo_ready 100) = 200 \<and> unat (NextBackoff demo_ready 800) = 1000"
proof -
  have max: "reconnect_max_delay_ms (config demo_ready) = 1000" by (simp add: demo_defs)
  then have "unat (reconnect_max_delay_ms (config demo_ready)) < 2 ^ 31" by simp
  note double = NextBackoff_doubles [OF this]
  show ?thesis using double [of 100] double [of 800] by (simp add: max)
qed

subsection \<open>Specs\<close>

lemma demo_spec_valid: "ValidateInstanceSpec demo_wire demo_config demo_spec = Inr [0]"
  by code_simp

theorem ValidateInstanceSpec_sound_witness:
  "ValidateInstanceSpec demo_wire demo_config demo_spec = Inr [0] \<and>
   list_all2 (grant_bound demo_config) [0] (spec_capabilities demo_spec)"
  using ValidateInstanceSpec_sound [OF demo_spec_valid] demo_spec_valid by blast

theorem spec_transition_guard_witness:
  "\<exists>t. BeginApply_locked demo_wire ''session'' (demo_spec\<lparr>spec_rev := 2\<rparr>) demo_admitted = Inr t \<and>
     \<not> accepting_work t \<and> flag_set (cancel_flags t) 0"
proof -
  let ?n = "demo_spec\<lparr>spec_rev := 2\<rparr>"
  have "\<not> isl (BeginApply_locked demo_wire ''session'' ?n demo_admitted)"
    by (simp add: BeginApply_locked_def demo_admission(2) push_job_def demo_defs demo_spec_def
        word_le_nat_alt)
  then obtain t where t: "BeginApply_locked demo_wire ''session'' ?n demo_admitted = Inr t"
    by (cases "BeginApply_locked demo_wire ''session'' ?n demo_admitted") auto
  then have "(''w1'', demo_token) \<in> set (work_tokens t)" "length (cancel_flags demo_admitted) = 1"
    by (auto simp: BeginApply_locked_def demo_admission(2) push_job_def CancelAllWorkLocked_def
        split: if_splits)
  with spec_transition_guard [OF t] t show ?thesis by (fastforce simp: demo_token_def)
qed


subsection \<open>Streams\<close>

definition demo_stale :: work_response where
  "demo_stale = \<lparr>wresp_header = StampHeaderLocked demo_ready demo_fence 7 1,
     wresp_frame = HostWorkFrameNotSet\<rparr>"

theorem stale_work_frame_is_fatal_witness:
  "\<exists>t. WorkReadTurn demo_wire (\<lambda>_. 0) demo_fence demo_stale demo_ready = (False, t) \<and>
     terminal_session_failure t \<and> \<not> accepting_work t"
proof -
  have "\<not> (\<exists>n. wresp_header demo_stale = StampHeaderLocked demo_ready demo_fence
      (fence_connection_epoch demo_fence) n \<and> work_in_sequence demo_ready < n)"
    by (simp add: demo_stale_def StampHeaderLocked_def demo_fence_def fence_of_response_def)
  moreover have "session_id demo_ready = fence_session_id demo_fence" "\<not> stop_requested demo_ready"
    by (simp_all add: demo_defs demo_fence_def fence_of_response_def demo_accepts_def)
  ultimately show ?thesis using stale_work_frame_is_fatal by blast
qed

subsection \<open>Configuration\<close>

definition demo_unbound :: client_config where
  "demo_unbound = demo_config\<lparr>capabilities := [\<lparr>contract = demo_contract, callbacks = no_callbacks\<rparr>]\<rparr>"


definition demo_bootstrap :: bootstrap_message where
  "demo_bootstrap = \<lparr>bm_format_version = 2, bm_runtime_target = ''unix:///run/xgc2/runtime.sock'',
     bm_registration = Some ((registration demo_config)\<lparr>reg_sdk_version := []\<rparr>),
     bm_initial_spec = Some demo_spec\<rparr>"

definition demo_open_file :: "string \<Rightarrow> (file_status option \<times> read_result list) option" where
  "demo_open_file path = Some (Some \<lparr>st_is_regular = True, st_owned_by_user = True, st_mode = 0x8180,
     st_size = 3\<rparr>, [ReadBytes [1, 2], ReadInterrupted, ReadBytes [3], ReadBytes []])"

theorem FromBootstrapFile_secure_witness:
  "\<exists>cfg. FromBootstrapFile demo_open_file (\<lambda>bytes. if bytes = [1, 2, 3] then Some demo_bootstrap else None)
       ''/run/bootstrap'' = Inr cfg \<and>
     ValidateRuntimeTarget (runtime_target cfg) = Inr () \<and>
     map contract (capabilities cfg) = reg_supported_capabilities (registration cfg)"
proof -
  let ?r = "FromBootstrapFile demo_open_file (\<lambda>bytes. if bytes = [1, 2, 3] then Some demo_bootstrap else None)
       ''/run/bootstrap''"
  have "\<not> isl ?r" by code_simp
  then obtain cfg where cfg: "?r = Inr cfg" by (cases ?r) auto
  from FromBootstrapFile_secure [OF cfg] cfg show ?thesis by blast
qed

subsection \<open>A connection pair and a retained terminal are reachable\<close>

definition demo_pair :: impl where
  "demo_pair = PrepareConnectionPairLocked demo_fence (InstallSession demo_fence
     (demo_initial\<lparr>cl_state := kConnecting\<rparr>))"

lemma demo_begin: "BeginStart demo_wire False demo_initial = Inr (demo_initial\<lparr>cl_state := kConnecting\<rparr>)"
proof -
  have "\<not> isl (BeginStart demo_wire False demo_initial)" by code_simp
  then obtain s where s: "BeginStart demo_wire False demo_initial = Inr s"
    by (cases "BeginStart demo_wire False demo_initial") auto
  from BeginStart_locked_BeginStart [OF this] have "s = demo_initial\<lparr>cl_state := kConnecting\<rparr>"
    by (simp add: BeginStart_locked_def initial_impl_def split: if_splits)
  with s show ?thesis by simp
qed

lemma demo_pair_reachable: "reachable demo_wire demo_config demo_callbacks (Paired, demo_pair)"
proof -
  let ?s1 = "demo_initial\<lparr>cl_state := kConnecting\<rparr>"
  have c: "config ?s1 = demo_config" by (simp add: initial_impl_def)
  have "client_step demo_wire (Unstarted, demo_initial) (Starting, ?s1)"
    by (rule st_start [OF demo_begin])
  moreover have "client_step demo_wire (Starting, ?s1) (Unpaired, InstallSession demo_fence ?s1)"
    by (rule st_install) (unfold c, rule demo_registration)
  moreover have "client_step demo_wire (Unpaired, InstallSession demo_fence ?s1) (Paired, demo_pair)"
    unfolding demo_pair_def by (rule st_pair)
  ultimately show ?thesis unfolding reachable_def
    by (meson rtranclp.rtrancl_into_rtrancl rtranclp.rtrancl_refl)
qed

lemma demo_pair_fields:
  "replay demo_pair = []" "work_tokens demo_pair = []" "work_queue demo_pair = []"
  "work_queue_bytes demo_pair = 0" "terminal_replay_bytes demo_pair = 0"
  "config demo_pair = demo_config" "maximum_work_frame_bytes demo_pair = 1000"
  "session_id demo_pair = ''session''" "\<not> session_failed demo_pair" "\<not> stop_requested demo_pair"
  by (simp_all add: demo_pair_def PrepareConnectionPairLocked_def InstallSession_def
      ReleaseAllTokens_Nil initial_impl_def demo_fence_def fence_of_response_def demo_accepts_def
      Let_def)

lemma demo_pair_commits:
  obtains t where "CommitTerminalFrame demo_wire demo_queued demo_response demo_pair = (kCommitted, t)"
proof -
  have queue: "can_queue_work demo_wire demo_pair demo_response"
    by (simp add: can_queue_work_def demo_pair_fields WorkFrameBytesLocked_def FitsByteBudget_iff
        demo_config_def demo_wire_def)
  obtain entry where entry: "replay_entry_for demo_wire demo_queued demo_response
      (WorkFrameBytesLocked demo_wire demo_pair demo_response) = Some entry"
    by (rule demo_entry)
  have fp: "length (job_fingerprint demo_queued) = 71" by (simp add: demo_queued_def)
  have n: "WorkFrameBytesLocked demo_wire demo_pair demo_response = 100"
    by (simp add: WorkFrameBytesLocked_def demo_wire_def)
  have "fst (retain_terminal demo_queued (work_entry demo_wire demo_pair demo_response) entry demo_pair)
      = kCommitted"
    using replay_entry_for_bytes(1) [OF entry] fp
    by (simp add: retain_terminal_def job_reservation_def demo_pair_fields FitsByteBudget_iff
        demo_config_def Let_def n)
  then show ?thesis using that queue entry
    by (cases "retain_terminal demo_queued (work_entry demo_wire demo_pair demo_response) entry demo_pair")
      (auto simp: CommitTerminalFrame_unfold)
qed

lemma demo_retained_reachable:
  obtains t where "reachable demo_wire demo_config demo_callbacks (Paired, t)"
    "client_step demo_wire (Paired, demo_pair) (Paired, t)"
    "CommitTerminalFrame demo_wire demo_queued demo_response demo_pair = (kCommitted, t)"
proof -
  obtain t where t: "CommitTerminalFrame demo_wire demo_queued demo_response demo_pair = (kCommitted, t)"
    by (rule demo_pair_commits)
  have "client_step demo_wire (Paired, demo_pair) (Paired, t)"
    using st_background [OF bg_commit, of demo_wire Paired demo_pair demo_queued demo_response]
    by (simp only: t snd_conv)
  moreover from demo_pair_reachable this
  have "reachable demo_wire demo_config demo_callbacks (Paired, t)"
    unfolding reachable_def by (rule rtranclp.rtrancl_into_rtrancl)
  ultimately show ?thesis using that t by blast
qed


theorem terminal_leaves_only_by_acknowledgement_witness:
  "\<exists>t ack. client_step demo_wire (Paired, demo_retained) (Paired, t) \<and> replay t = [] \<and>
     ta_identity ack = WorkIdentity ''w1'' \<and> ta_terminal_digest ack = demo_sha \<and>
     HandleTerminalAcknowledgement_locked ack demo_retained = (None, t)"
proof -
  let ?ack = "\<lparr>ta_terminal_digest = demo_sha, ta_identity = WorkIdentity ''w1''\<rparr>"
  let ?t = "snd (HandleTerminalAcknowledgement_locked ?ack demo_retained)"
  have handled: "?t = demo_retained\<lparr>terminal_replay_bytes := 0, replay := []\<rparr>"
    by (simp add: HandleTerminalAcknowledgement_locked_def demo_retained_def demo_ready_def
        initial_impl_def smap_erase_def)
  have step: "client_step demo_wire (Paired, demo_retained) (Paired, ?t)"
    by (rule st_link [OF lk_acknowledge])
  obtain e where e: "smap_find ''w1'' (replay demo_retained) = Some e" "re_terminal_digest e = demo_sha"
    by (simp add: demo_retained_def)
  have "session_id ?t = ''session''" "session_id (ResetSessionLocked demo_retained) = []"
    unfolding handled by (simp_all add: demo_retained_def demo_ready_def ResetSessionLocked_def Let_def)
  then have "?t \<noteq> ResetSessionLocked demo_retained" by auto
  with terminal_leaves_only_by_acknowledgement [OF step e(1)] step e(2) show ?thesis
    unfolding handled by auto
qed

theorem retained_digest_is_of_the_terminal_witness:
  "\<exists>t e. reachable demo_wire demo_config demo_callbacks (Paired, t) \<and>
     smap_find ''w1'' (replay t) = Some e \<and> IsCanonicalSha256 (re_terminal_digest e) \<and>
     TerminalDigest demo_wire (retained_terminal e) = Some (re_terminal_digest e)"
proof -
  obtain t where t: "reachable demo_wire demo_config demo_callbacks (Paired, t)"
    "CommitTerminalFrame demo_wire demo_queued demo_response demo_pair = (kCommitted, t)"
    by (rule demo_retained_reachable)
  from commit_replay_entry [OF t(2)] obtain e where "smap_find ''w1'' (replay t) = Some e"
    by (auto simp: demo_queued_def)
  with retained_digest_is_of_the_terminal [OF t(1) this] t(1) show ?thesis by blast
qed

end
