(* ===== verification/Spec2Isabelle.thy ===== *)
theory Spec2Isabelle
  imports Witnesses
begin

text \<open>
  Verification of the XGC2 Adapter Runtime client (\<open>xgc2-adapter-runtime-client-cpp\<close>): a C++ library
  that connects one Adapter process to the Runtime Host over a paired Control and Work stream.

  \<^bold>\<open>The program.\<close> An application reads a \<open>ClientConfig\<close> from a bootstrap file, binds callbacks to the
  contracts it advertises and starts the client. The supervisor thread registers once, then keeps a
  pair of streams up: Control carries the instance spec, heartbeats, drain and stop; Work carries
  requests, terminal results, source data, credit, cancellations and acknowledgements. Admitted Work
  is queued for dispatch workers, which call the application and commit the terminal frame. A
  committed terminal is retained until the Host acknowledges its digest, so that a redelivered
  request is answered and never executed twice. Everything is bounded: queues, tokens, retained
  terminals, sources and tombstones, each in number and in bytes.

  \<^bold>\<open>Theories.\<close> Each theory models the files named with it; definitions keep the names of the functions
  they translate, and \<open>f_locked\<close> is the critical section of \<open>f\<close>.

  \<^item> \<open>Prelude\<close>: machine words, the ordered map \<open>smap\<close> (\<open>std::map\<close>, locale \<open>ordered_map\<close>), byte-accounted
    queues (locale \<open>byte_fifo\<close>), invariants of transition systems (locale \<open>transition_invariant\<close>).
  \<^item> \<open>Messages\<close>: the protobuf messages the sources read and write; the record \<open>wire\<close> stands for the
    protobuf library (sizes, deterministic encoding, comparison, enum numbers).
  \<^item> \<open>Internal\<close>: \<open>src/internal.hpp\<close> (canonical text and identifiers, deadlines, heartbeat alignment,
    saturating addition, Runtime targets).
  \<^item> \<open>Digest\<close>: \<open>src/digest.cpp\<close> (SHA-256 as the streaming class computes it, terminal digests).
  \<^item> \<open>Client_State\<close>: the types of \<open>client.hpp\<close> and \<open>client_impl.hpp\<close>; \<open>impl\<close> is the state guarded by
    the client's mutex. A shared cancellation flag is an index into \<open>cancel_flags\<close>, and
    \<open>callback_log\<close> records the application callbacks in order.
  \<^item> \<open>Signals\<close>: cancellation of all Work and the failure signals (\<open>session.cpp\<close>, \<open>session_state.cpp\<close>,
    \<open>spec.cpp\<close>).
  \<^item> \<open>Queue\<close>: \<open>src/queue.cpp\<close> (headers, outbound queues, terminal retention and its reservation), and
    the accounting invariants \<open>queues_ok\<close>, \<open>replay_ok\<close>, \<open>sources_ok\<close>, together \<open>books_ok\<close>.
  \<^item> \<open>Source_Stream\<close>: \<open>src/stream.cpp\<close> (publishing, closing, credit, acknowledgement, cancellation,
    drain, remote stop).
  \<^item> \<open>Results\<close>: result constructors and enumeration names of \<open>client.cpp\<close> and the checks on results and inputs.
  \<^item> \<open>Source_Dispatch\<close>: \<open>src/source_dispatch.cpp\<close>. \<open>Dispatch\<close>: \<open>src/dispatch.cpp\<close>.
  \<^item> \<open>Instance_Spec\<close>: \<open>src/spec.cpp\<close>. \<open>Session\<close>: \<open>src/session.cpp\<close> and \<open>session_state.cpp\<close>.
    \<open>Streams\<close>: \<open>src/control.cpp\<close> and \<open>src/work.cpp\<close>. \<open>Bootstrap\<close>: \<open>src/bootstrap.cpp\<close> and the
    configuration part of \<open>src/client.cpp\<close>.
  \<^item> \<open>System\<close>: the critical sections as the steps of one transition system, with the phases of a
    connection pair. \<open>Terminal_Ledger\<close>: the abstract ledger of Work identities that the system
    refines (locale \<open>simulation\<close>). \<open>Scenario\<close> and \<open>Witnesses\<close>: a concrete client, and the properties at it.

  \<^bold>\<open>Callbacks, threads and the outside.\<close> What gRPC, the clock, the file system or a callback returns is
  an argument. A callback takes the state in which it is invoked to the state in which it returns, so
  its own calls and those of other threads are part of it. A thread is modelled by the sequence of
  its critical sections; \<open>System\<close> interleaves those of all threads in any order.

  \<^bold>\<open>What is shown.\<close> The byte counters and bounds hold in every reachable state, and each critical section
  keeps them. Admitted Work holds a reservation that always suffices for its terminal; a committed
  terminal is replayed on redelivery, survives the replacement of a connection pair, and is released
  by exactly the matching acknowledgement: the client refines the ledger, whose terminals leave in no
  other way, and the digest it keeps is that of the message it replays. Results leave the client well formed whatever the
  application returns. Source credit is conserved. Headers are accepted exactly when they are the
  next ones of the session. Spec transitions only move forward and roll back in reverse order.
  Registration is single-use, and the supervisor's reconnect budget ends the loop.

  \<^bold>\<open>Bounds and fuel.\<close> Machine integers keep their widths; \<open>size_t\<close> has 64 bits. \<open>supervisor_pairs\<close>
  takes fuel for its iterations; one more than the configured reconnect attempts is enough when no
  pair becomes ready, and a pair that does become ready may extend the loop without bound, as in the
  source. All other loops are structural or have a termination proof.

  \<^bold>\<open>Not modelled.\<close> gRPC calls, threads, condition variables and their waits, the log callback
  and the wall clock are outside the model or its arguments; the generated protobuf
  code is the parameter \<open>wire\<close>. Tests, build files and packaging scripts carry no client logic.
\<close>

subsection \<open>The accounting of the whole client\<close>

text \<open>
  C1: in every state the client can reach, under any interleaving of its threads, every queue and
  table is within its configured bounds and every byte counter is exactly the sum of what it accounts
  for; while a connection pair is up this includes the source counter, which between pairs may still
  hold what the retired pair had accounted for.
\<close>

theorem books_always_balanced:
  assumes "reachable W cfg cbs (ph, s)"
  shows "(\<exists>slack. books_ok slack s) \<and> (ph = Paired \<longrightarrow> books_ok 0 s)"
  using reachable_phase_ok [OF assms] by (cases ph) auto

theorem books_always_balanced_witness:
  "reachable demo_wire demo_config demo_callbacks (Paired, demo_pair) \<and> books_ok 0 demo_pair"
  using demo_pair_reachable books_always_balanced [OF demo_pair_reachable] by blast

end
